(* ===== verification/Ld_Prelude.thy ===== *)
theory Ld_Prelude
  imports Main "HOL-Library.Monad_Syntax" "HOL-Library.Word" "HOL-Library.Sublist"
begin

text \<open>
  Shared vocabulary of the development: the C notions that every component of
  rtld_linux.c uses. A value of type \<open>'a option\<close> is the result of running C code:
  \<open>None\<close> stands for undefined behaviour (a store or load outside an array, the use of
  an uninitialised byte, a null dereference, a variadic argument that was not passed) and
  \<open>Some v\<close> for a normal outcome. A C string handed in by a caller is the list of its
  bytes before the terminator; \<open>const char *\<close> is \<open>string option\<close>, with \<open>None\<close> for NULL.
  A local \<open>char x[n]\<close> is a \<open>buffer\<close>: its capacity and the bytes initialised so far.
\<close>

section \<open>Collections\<close>

named_theorems c_simps \<open>equations that run C-level operations which stay in bounds\<close>

section \<open>Characters, strings and limits\<close>

type_synonym i32 = "32 word"
type_synonym u64 = "64 word"
type_synonym cstr = "string option"

abbreviation NUL :: char where "NUL \<equiv> CHR 0x00"
abbreviation SLASH :: char where "SLASH \<equiv> CHR ''/''"
abbreviation DOT :: char where "DOT \<equiv> CHR ''.''"

definition PATH_MAX :: nat where "PATH_MAX = 4096"

definition INT_MAX :: int where "INT_MAX = 2147483647"

lemma PATH_MAX_pos [simp]: "0 < PATH_MAX" "Suc 0 < PATH_MAX" "2 \<le> PATH_MAX"
  by (simp_all add: PATH_MAX_def)

text \<open>A C string has no NUL byte before its terminator.\<close>

definition c_ok :: "string \<Rightarrow> bool" where
  "c_ok s \<longleftrightarrow> NUL \<notin> set s"

lemma c_ok_append [simp]: "c_ok (s @ t) \<longleftrightarrow> c_ok s \<and> c_ok t"
  by (auto simp: c_ok_def)

lemma c_ok_Cons [simp]: "c_ok (c # s) \<longleftrightarrow> c \<noteq> NUL \<and> c_ok s"
  by (auto simp: c_ok_def)

lemma c_ok_Nil [simp]: "c_ok []"
  by (simp add: c_ok_def)

lemma c_ok_subset: "c_ok s \<Longrightarrow> set t \<subseteq> set s \<Longrightarrow> c_ok t"
  by (auto simp: c_ok_def)

lemma c_ok_drop: "c_ok s \<Longrightarrow> c_ok (drop n s)"
  by (erule c_ok_subset) (rule set_drop_subset)

lemma c_ok_take: "c_ok s \<Longrightarrow> c_ok (take n s)"
  by (erule c_ok_subset) (rule set_take_subset)

text \<open>\<open>s[i]\<close> for a C string: its terminator is readable, nothing after it is.\<close>

definition char_at :: "string \<Rightarrow> nat \<Rightarrow> char option" where
  "char_at s i = (if i < length s then Some (s ! i) else if i = length s then Some NUL else None)"

definition starts_with_slash :: "string \<Rightarrow> bool" where
  "starts_with_slash s \<longleftrightarrow> char_at s 0 = Some SLASH"

lemma starts_with_slash_simps [simp]:
  "\<not> starts_with_slash []" "starts_with_slash (c # s) \<longleftrightarrow> c = SLASH"
  by (simp_all add: starts_with_slash_def char_at_def)

lemma starts_with_slash_iff: "starts_with_slash s \<longleftrightarrow> (\<exists>t. s = SLASH # t)"
  by (cases s) auto

section \<open>Buffers\<close>

record buffer =
  cap :: nat
  cells :: "nat \<rightharpoonup> char"

definition new_buffer :: "nat \<Rightarrow> buffer" where
  "new_buffer n = \<lparr>cap = n, cells = Map.empty\<rparr>"

lemma cap_new_buffer [simp]: "cap (new_buffer n) = n"
  by (simp add: new_buffer_def)

definition store :: "buffer \<Rightarrow> nat \<Rightarrow> char \<Rightarrow> buffer option" where
  "store b i c = (if i < cap b then Some (b\<lparr>cells := (cells b)(i \<mapsto> c)\<rparr>) else None)"

definition load :: "buffer \<Rightarrow> nat \<Rightarrow> char option" where
  "load b i = (if i < cap b then cells b i else None)"

text \<open>\<open>memcpy(dst + i, s, strlen(s))\<close>, byte by byte.\<close>

fun copy_in :: "buffer \<Rightarrow> nat \<Rightarrow> string \<Rightarrow> buffer option" where
  "copy_in b i [] = Some b"
| "copy_in b i (c # cs) = do { b \<leftarrow> store b i c; copy_in b (Suc i) cs }"

text \<open>The C string a buffer holds: its bytes up to the first NUL.\<close>

function c_string_from :: "buffer \<Rightarrow> nat \<Rightarrow> string option" where
  "c_string_from b i =
     (if i < cap b then
        (case cells b i of
           None \<Rightarrow> None
         | Some c \<Rightarrow> if c = NUL then Some [] else map_option (Cons c) (c_string_from b (Suc i)))
      else None)"
  by pat_completeness auto
termination
  by (relation "measure (\<lambda>(b, i). cap b - i)") auto

declare c_string_from.simps [simp del]

definition c_string :: "buffer \<Rightarrow> string option" where
  "c_string b = c_string_from b 0"

text \<open>The first bytes of a buffer are exactly \<open>r\<close>.\<close>

definition holds :: "buffer \<Rightarrow> string \<Rightarrow> bool" where
  "holds b r \<longleftrightarrow> length r \<le> cap b \<and> (\<forall>i < length r. cells b i = Some (r ! i))"

lemma holdsI:
  "length r \<le> cap b \<Longrightarrow> (\<And>i. i < length r \<Longrightarrow> cells b i = Some (r ! i)) \<Longrightarrow> holds b r"
  by (simp add: holds_def)

lemma holds_Nil [simp]: "holds b []"
  by (simp add: holds_def)

lemma holds_appendD: "holds b (r @ t) \<Longrightarrow> holds b r"
  by (auto simp: holds_def nth_append)

lemma holds_cell: "holds b r \<Longrightarrow> i < length r \<Longrightarrow> load b i = Some (r ! i)"
  by (simp add: holds_def load_def)

lemma store_ok [c_simps]:
  "i < cap b \<Longrightarrow> store b i c = Some (b\<lparr>cells := (cells b)(i \<mapsto> c)\<rparr>)"
  by (simp add: store_def)

lemma copy_in_ok [c_simps]:
  "i + length cs \<le> cap b \<Longrightarrow>
   copy_in b i cs = Some (b\<lparr>cells := (\<lambda>j. if i \<le> j \<and> j < i + length cs
                                        then Some (cs ! (j - i)) else cells b j)\<rparr>)"
proof (induction cs arbitrary: b i)
  case Nil
  have "(\<lambda>j. if i \<le> j \<and> j < i + length [] then Some ([] ! (j - i)) else cells b j) = cells b"
    by (rule ext) auto
  then show ?case by simp
next
  case (Cons c cs)
  let ?b = "b\<lparr>cells := (cells b)(i \<mapsto> c)\<rparr>"
  have "copy_in ?b (Suc i) cs = Some (?b\<lparr>cells := (\<lambda>j. if Suc i \<le> j \<and> j < Suc i + length cs
           then Some (cs ! (j - Suc i)) else cells ?b j)\<rparr>)"
    using Cons.prems by (intro Cons.IH) simp
  also have "(\<lambda>j. if Suc i \<le> j \<and> j < Suc i + length cs then Some (cs ! (j - Suc i)) else cells ?b j)
      = (\<lambda>j. if i \<le> j \<and> j < i + length (c # cs) then Some ((c # cs) ! (j - i)) else cells b j)"
    by (rule ext) (auto simp: nth_Cons' Suc_le_eq)
  finally show ?case using Cons.prems by (simp add: store_ok fun_upd_def)
qed

lemma copy_in_holds:
  assumes "holds b r" "length r + length cs \<le> cap b"
  shows "\<exists>b'. copy_in b (length r) cs = Some b' \<and> cap b' = cap b \<and> holds b' (r @ cs)"
  using assms by (simp add: c_simps) (auto simp: holds_def nth_append)

lemma store_holds:
  assumes "holds b r" "length r < cap b"
  shows "\<exists>b'. store b (length r) c = Some b' \<and> cap b' = cap b \<and> holds b' (r @ [c])"
  using assms by (simp add: c_simps) (auto simp: holds_def nth_append less_Suc_eq)

lemma c_string_from_holds:
  "holds b (r @ s @ [NUL]) \<Longrightarrow> c_ok s \<Longrightarrow> c_string_from b (length r) = Some s"
proof (induction s arbitrary: r)
  case Nil
  then have "cells b (length r) = Some NUL" "length r < cap b"
    by (auto simp: holds_def nth_append)
  then show ?case by (subst c_string_from.simps) simp
next
  case (Cons c s)
  then have "cells b (length r) = Some c" "length r < cap b"
    by (auto simp: holds_def nth_append)
  moreover have "c_string_from b (length (r @ [c])) = Some s"
    using Cons.prems by (intro Cons.IH) auto
  ultimately show ?case using Cons.prems(2) by (subst c_string_from.simps) simp
qed

lemma c_string_holds: "holds b (s @ [NUL]) \<Longrightarrow> c_ok s \<Longrightarrow> c_string b = Some s"
  unfolding c_string_def using c_string_from_holds [of b "[]" s] by simp

section \<open>The contract of a function that writes a C string into an array\<close>

text \<open>
  Every string-producing helper of rtld_linux.c takes an array and its length, returns 0 with
  a terminated string in the array, or -1. \<open>result n i\<close> is the string it promises for input
  \<open>i\<close> and length \<open>n\<close>, \<open>good\<close> what it expects of the input.
\<close>

definition read_back :: "(buffer \<Rightarrow> nat \<Rightarrow> (int \<times> buffer) option) \<Rightarrow> nat \<Rightarrow> string option option" where
  "read_back f n = do {
     (rc, b) \<leftarrow> f (new_buffer n) n;
     if rc \<noteq> 0 then Some None else do { s \<leftarrow> c_string b; Some (Some s) } }"

locale string_writer =
  fixes write_to :: "'i \<Rightarrow> buffer \<Rightarrow> nat \<Rightarrow> (int \<times> buffer) option"
    and result :: "nat \<Rightarrow> 'i \<Rightarrow> string option"
    and good :: "'i \<Rightarrow> bool"
  assumes refuses: "good i \<Longrightarrow> n \<le> cap b \<Longrightarrow> result n i = None \<Longrightarrow>
      \<exists>b'. write_to i b n = Some (-1, b') \<and> cap b' = cap b"
    and writes: "good i \<Longrightarrow> n \<le> cap b \<Longrightarrow> result n i = Some r \<Longrightarrow>
      \<exists>b'. write_to i b n = Some (0, b') \<and> cap b' = cap b \<and> holds b' (r @ [NUL])"
    and result_ok: "good i \<Longrightarrow> result n i = Some r \<Longrightarrow> c_ok r \<and> length r < n"
begin

lemma write_cases:
  assumes "good i" "n \<le> cap b"
  obtains (refused) b' where "result n i = None" "write_to i b n = Some (-1, b')" "cap b' = cap b"
  | (written) r b' where "result n i = Some r" "write_to i b n = Some (0, b')" "cap b' = cap b"
      "holds b' (r @ [NUL])" "c_string b' = Some r" "length r < n" "c_ok r"
  using assms refuses writes result_ok c_string_holds by (cases "result n i") metis+

lemma stays_in_bounds: "good i \<Longrightarrow> n \<le> cap b \<Longrightarrow> write_to i b n \<noteq> None"
  by (erule (1) write_cases) simp_all

lemma read_back_result: "good i \<Longrightarrow> read_back (write_to i) n = Some (result n i)"
  by (rule write_cases [of i n "new_buffer n"]) (simp_all add: read_back_def)

end

section \<open>snprintf\<close>

text \<open>
  \<open>snprintf(b, n, ...)\<close> whose formatted text is \<open>s\<close>: at most \<open>n - 1\<close> bytes and a terminator
  are stored; the result is the untruncated length, or negative where that is no \<open>int\<close>.
\<close>

definition snprintf :: "buffer \<Rightarrow> nat \<Rightarrow> string \<Rightarrow> (int \<times> buffer) option" where
  "snprintf b n s = do {
     b \<leftarrow> (if n = 0 then Some b else copy_in b 0 (take (n - 1) s @ [NUL]));
     Some (if int (length s) \<le> INT_MAX then int (length s) else -1, b) }"

lemma snprintf_fits:
  assumes "length s < n" "n \<le> cap b" "int (length s) \<le> INT_MAX"
  shows "\<exists>b'. snprintf b n s = Some (int (length s), b') \<and> cap b' = cap b \<and> holds b' (s @ [NUL])"
  using assms copy_in_holds [of b "[]" "s @ [NUL]"] by (auto simp: snprintf_def)

lemma snprintf_total:
  assumes "n \<le> cap b"
  shows "\<exists>b'. snprintf b n s = Some (if int (length s) \<le> INT_MAX then int (length s) else -1, b')
           \<and> cap b' = cap b \<and> (0 < n \<longrightarrow> holds b' (take (n - 1) s @ [NUL]))"
proof (cases "n = 0")
  case False
  with assms have "length [] + length (take (n - 1) s @ [NUL]) \<le> cap b"
    by auto
  then obtain b' where "copy_in b 0 (take (n - 1) s @ [NUL]) = Some b'"
      "cap b' = cap b" "holds b' (take (n - 1) s @ [NUL])"
    using copy_in_holds [of b "[]" "take (n - 1) s @ [NUL]"] by auto
  then show ?thesis using False by (simp add: snprintf_def)
qed (simp add: snprintf_def)

text \<open>The text of \<open>%d\<close>.\<close>

fun nat_digits :: "nat \<Rightarrow> string" where
  "nat_digits n = (if n < 10 then [char_of (48 + n)] else nat_digits (n div 10) @ [char_of (48 + n mod 10)])"

declare nat_digits.simps [simp del]

definition int_digits :: "int \<Rightarrow> string" where
  "int_digits z = (if z < 0 then CHR ''-'' # nat_digits (nat (- z)) else nat_digits (nat z))"

end
