(* ===== verification/Clean_Path.thy ===== *)
theory Clean_Path
  imports Ld_Prelude
begin

text \<open>
  \<open>clean_path_into\<close> of rtld_linux.c: the lexical path cleaner. The first section is the C
  code, statement by statement, on explicit arrays (\<open>dst\<close>, \<open>seg_starts\<close>) with every load
  and store checked. The second is the same algorithm on a stack of path segments, and the
  third the directory walk that POSIX path resolution does when no segment is a symbolic
  link. The lemmas show that the C code never leaves its arrays, that it computes the stack
  algorithm, and that the cleaned path names the directory the walk reaches.
\<close>

section \<open>The C code\<close>

text \<open>The mutable locals of \<open>clean_path_into\<close> and the destination array.\<close>

record clean_state =
  dst :: buffer
  out :: nat
  seg_starts :: "nat \<rightharpoonup> nat"
  seg_count :: nat

text \<open>A statement either returns a code from the function or continues, with the state it leaves.\<close>

datatype 'a flow = Return int 'a | Continue 'a

definition pop_segment :: "bool \<Rightarrow> clean_state \<Rightarrow> clean_state option" where
  "pop_segment absolute st = do {
     let count = seg_count st - 1;
     start \<leftarrow> (if count < PATH_MAX then seg_starts st count else None);
     if start = 0 \<and> absolute then do {
       d \<leftarrow> store (dst st) start SLASH;
       Some (st\<lparr>dst := d, out := start + 1, seg_count := count\<rparr>) }
     else Some (st\<lparr>out := start, seg_count := count\<rparr>) }"

text \<open>The separator in front of a segment: lines 217 to 222.\<close>

definition put_separator :: "nat \<Rightarrow> clean_state \<Rightarrow> clean_state flow option" where
  "put_separator dst_len st =
     (if out st = 0 then Some (Continue st)
      else do {
        c \<leftarrow> load (dst st) (out st - 1);
        if c = SLASH then Some (Continue st)
        else if out st + 1 \<ge> dst_len then Some (Return (-1) st)
        else do {
          d \<leftarrow> store (dst st) (out st) SLASH;
          Some (Continue (st\<lparr>dst := d, out := out st + 1\<rparr>)) } })"

text \<open>\<open>seg_starts[seg_count++] = out\<close>\<close>

definition record_start :: "clean_state \<Rightarrow> clean_state option" where
  "record_start st =
     (if seg_count st < PATH_MAX
      then Some (st\<lparr>seg_starts := (seg_starts st)(seg_count st \<mapsto> out st), seg_count := seg_count st + 1\<rparr>)
      else None)"

definition push_segment :: "nat \<Rightarrow> string \<Rightarrow> clean_state \<Rightarrow> clean_state flow option" where
  "push_segment dst_len seg st =
     (if seg_count st \<ge> PATH_MAX then Some (Return (-1) st)
      else do {
        r \<leftarrow> put_separator dst_len st;
        case r of
          Return rc st \<Rightarrow> Some (Return rc st)
        | Continue st \<Rightarrow>
            do {
              st \<leftarrow> record_start st;
              if out st + length seg \<ge> dst_len then Some (Return (-1) st)
              else do {
                d \<leftarrow> copy_in (dst st) (out st) seg;
                Some (Continue (st\<lparr>dst := d, out := out st + length seg\<rparr>)) } } })"

definition clean_segment :: "bool \<Rightarrow> nat \<Rightarrow> string \<Rightarrow> clean_state \<Rightarrow> clean_state flow option" where
  "clean_segment absolute dst_len seg st =
     (if seg = [DOT] then Some (Continue st)
      else if seg = [DOT, DOT] \<and> seg_count st > 0 then map_option Continue (pop_segment absolute st)
      else if seg = [DOT, DOT] \<and> absolute then Some (Continue st)
      else push_segment dst_len seg st)"

function clean_loop :: "bool \<Rightarrow> nat \<Rightarrow> string \<Rightarrow> clean_state \<Rightarrow> clean_state flow option" where
  "clean_loop absolute dst_len src st =
     (let src = dropWhile (\<lambda>c. c = SLASH) src
      in if src = [] then Some (Continue st)
         else do {
           r \<leftarrow> clean_segment absolute dst_len (takeWhile (\<lambda>c. c \<noteq> SLASH) src) st;
           case r of
             Return rc st \<Rightarrow> Some (Return rc st)
           | Continue st \<Rightarrow> clean_loop absolute dst_len (dropWhile (\<lambda>c. c \<noteq> SLASH) src) st })"
  by pat_completeness auto

lemma drop_segment_shorter:
  "dropWhile (\<lambda>c. c = SLASH) src \<noteq> [] \<Longrightarrow>
   length (dropWhile (\<lambda>c. c \<noteq> SLASH) (dropWhile (\<lambda>c. c = SLASH) src)) < length src"
proof -
  assume ne: "dropWhile (\<lambda>c. c = SLASH) src \<noteq> []"
  then obtain c t where t: "dropWhile (\<lambda>c. c = SLASH) src = c # t" by (cases "dropWhile (\<lambda>c. c = SLASH) src") auto
  then have "c \<noteq> SLASH" using hd_dropWhile [OF ne] by simp
  moreover have "length (c # t) \<le> length src" unfolding t [symmetric] by (rule length_dropWhile_le)
  moreover have "length (dropWhile (\<lambda>c. c \<noteq> SLASH) t) \<le> length t" by (rule length_dropWhile_le)
  ultimately show ?thesis using t by simp
qed

termination clean_loop
  by (relation "measure (\<lambda>(a, n, src, st). length src)") (auto simp: drop_segment_shorter)

declare clean_loop.simps [simp del]

text \<open>Lines 231 to 243: the empty result, then the terminator.\<close>

definition clean_finish :: "bool \<Rightarrow> nat \<Rightarrow> clean_state \<Rightarrow> (int \<times> buffer) option" where
  "clean_finish absolute dst_len st = do {
     r \<leftarrow> (if out st = 0 then
              (if dst_len < 2 then Some (Return (-1) st)
               else do {
                 d \<leftarrow> store (dst st) (out st) (if absolute then SLASH else DOT);
                 Some (Continue (st\<lparr>dst := d, out := out st + 1\<rparr>)) })
            else Some (Continue st));
     case r of
       Return rc st \<Rightarrow> Some (rc, dst st)
     | Continue st \<Rightarrow> do { d \<leftarrow> store (dst st) (out st) NUL; Some (0, d) } }"

text \<open>
  The whole function. \<open>src\<close> and \<open>d\<close> are the two pointers (\<open>None\<close> is NULL); the result is
  the return code and the destination array as the code leaves it.
\<close>

definition clean_path_into :: "cstr \<Rightarrow> buffer option \<Rightarrow> nat \<Rightarrow> (int \<times> buffer option) option" where
  "clean_path_into src d dst_len =
     (case (src, d) of
        (Some s, Some b) \<Rightarrow>
          if dst_len = 0 then Some (-1, d)
          else
            (let absolute = starts_with_slash s
             in if absolute \<and> dst_len < 2 then Some (-1, d)
                else do {
                  b \<leftarrow> (if absolute then store b 0 SLASH else Some b);
                  r \<leftarrow> clean_loop absolute dst_len s
                         \<lparr>dst = b, out = (if absolute then 1 else 0), seg_starts = Map.empty, seg_count = 0\<rparr>;
                  case r of
                    Return rc st \<Rightarrow> Some (rc, Some (dst st))
                  | Continue st \<Rightarrow> map_option (map_prod id Some) (clean_finish absolute dst_len st) })
      | _ \<Rightarrow> Some (-1, d))"

section \<open>The algorithm on segments\<close>

definition seg_ok :: "string \<Rightarrow> bool" where
  "seg_ok x \<longleftrightarrow> x \<noteq> [] \<and> SLASH \<notin> set x"

text \<open>The non-empty segments of a path, in order.\<close>

function segments :: "string \<Rightarrow> string list" where
  "segments s =
     (let s = dropWhile (\<lambda>c. c = SLASH) s
      in if s = [] then []
         else takeWhile (\<lambda>c. c \<noteq> SLASH) s # segments (dropWhile (\<lambda>c. c \<noteq> SLASH) s))"
  by pat_completeness auto
termination
  by (relation "measure length") (auto simp: drop_segment_shorter)

declare segments.simps [simp del]

fun join_path :: "string list \<Rightarrow> string" where
  "join_path [] = []"
| "join_path [x] = x"
| "join_path (x # y # ys) = x @ SLASH # join_path (y # ys)"

text \<open>What \<open>dst\<close> holds for a stack of segments; \<open>tr\<close> says that a separator follows the last.\<close>

definition contents :: "bool \<Rightarrow> string list \<Rightarrow> bool \<Rightarrow> string" where
  "contents absolute stk tr =
     (if absolute then [SLASH] else []) @ join_path stk @ (if tr then [SLASH] else [])"

text \<open>The stack algorithm: a pop leaves the separator in front of the popped segment behind.\<close>

definition seg_step :: "bool \<Rightarrow> nat \<Rightarrow> string \<Rightarrow> string list \<times> bool \<Rightarrow> (string list \<times> bool) option" where
  "seg_step absolute n seg s =
     (let (stk, tr) = s in
      if seg = [DOT] then Some (stk, tr)
      else if seg = [DOT, DOT] \<and> stk \<noteq> [] then Some (butlast stk, butlast stk \<noteq> [])
      else if seg = [DOT, DOT] \<and> absolute then Some (stk, tr)
      else if length stk \<ge> PATH_MAX \<or> length (contents absolute (stk @ [seg]) False) \<ge> n then None
      else Some (stk @ [seg], False))"

fun seg_loop :: "bool \<Rightarrow> nat \<Rightarrow> string list \<Rightarrow> string list \<times> bool \<Rightarrow> (string list \<times> bool) option" where
  "seg_loop absolute n [] s = Some s"
| "seg_loop absolute n (seg # segs) s = do { s \<leftarrow> seg_step absolute n seg s; seg_loop absolute n segs s }"

text \<open>The cleaned path, or \<open>None\<close> where the C code returns -1.\<close>

definition clean_spec :: "nat \<Rightarrow> string \<Rightarrow> string option" where
  "clean_spec n src =
     (let absolute = starts_with_slash src in
      if n = 0 \<or> (absolute \<and> n < 2) then None
      else do {
        (stk, tr) \<leftarrow> seg_loop absolute n (segments src) ([], False);
        let r = contents absolute stk tr;
        if r = [] then (if n < 2 then None else Some [DOT]) else Some r })"

subsection \<open>Splitting and joining\<close>

lemma segments_none: "dropWhile (\<lambda>c. c = SLASH) s = [] \<Longrightarrow> segments s = []"
  by (subst segments.simps) (simp only: Let_def simp_thms if_True)

lemma segments_some:
  "dropWhile (\<lambda>c. c = SLASH) s = t \<Longrightarrow> t \<noteq> [] \<Longrightarrow>
   segments s = takeWhile (\<lambda>c. c \<noteq> SLASH) t # segments (dropWhile (\<lambda>c. c \<noteq> SLASH) t)"
  by (subst segments.simps) (simp only: Let_def simp_thms if_False)

lemma segments_Nil [simp]: "segments [] = []"
  by (rule segments_none) simp

lemma segments_slash [simp]: "segments (SLASH # s) = segments s"
  by (cases "dropWhile (\<lambda>c. c = SLASH) s = []") (simp_all add: segments_none segments_some)

lemma scan_segment:
  "SLASH \<notin> set x \<Longrightarrow> takeWhile (\<lambda>c. c \<noteq> SLASH) (x @ SLASH # s) = x"
  "SLASH \<notin> set x \<Longrightarrow> dropWhile (\<lambda>c. c \<noteq> SLASH) (x @ SLASH # s) = SLASH # s"
  "SLASH \<notin> set x \<Longrightarrow> takeWhile (\<lambda>c. c \<noteq> SLASH) x = x"
  "SLASH \<notin> set x \<Longrightarrow> dropWhile (\<lambda>c. c \<noteq> SLASH) x = []"
  by (induction x) auto

lemma skip_no_slash: "seg_ok x \<Longrightarrow> dropWhile (\<lambda>c. c = SLASH) (x @ s) = x @ s"
  by (cases x) (auto simp: seg_ok_def)

lemma segments_seg_slash [simp]: "seg_ok x \<Longrightarrow> segments (x @ SLASH # s) = x # segments s"
  using segments_some [OF skip_no_slash [of x "SLASH # s"]] by (simp add: seg_ok_def scan_segment)

lemma segments_seg [simp]: "seg_ok x \<Longrightarrow> segments x = [x]"
  using segments_some [OF skip_no_slash [of x "[]"]] by (simp add: seg_ok_def scan_segment)

lemma seg_ok_scan: "t \<noteq> [] \<Longrightarrow> hd t \<noteq> SLASH \<Longrightarrow> seg_ok (takeWhile (\<lambda>c. c \<noteq> SLASH) t)"
  by (cases t) (auto simp: seg_ok_def dest: set_takeWhileD)

lemma set_segments_sub: "\<forall>x \<in> set (segments s). seg_ok x \<and> set x \<subseteq> set s"
proof (induction s rule: segments.induct)
  case (1 s)
  let ?t = "dropWhile (\<lambda>c. c = SLASH) s"
  show ?case
  proof (cases "?t = []")
    case True
    then show ?thesis using segments_none by simp
  next
    case False
    have sub: "set (takeWhile (\<lambda>c. c \<noteq> SLASH) ?t) \<subseteq> set s"
      "set (dropWhile (\<lambda>c. c \<noteq> SLASH) ?t) \<subseteq> set s"
      by (blast dest: set_dropWhileD set_takeWhileD)+
    have IH: "\<forall>x \<in> set (segments (dropWhile (\<lambda>c. c \<noteq> SLASH) ?t)).
        seg_ok x \<and> set x \<subseteq> set (dropWhile (\<lambda>c. c \<noteq> SLASH) ?t)"
      using False by (intro "1.IH") simp_all
    show ?thesis
      unfolding segments_some [OF refl False] 
      using IH sub seg_ok_scan [OF False hd_dropWhile [OF False]] by auto
  qed
qed

lemma segments_ok: "x \<in> set (segments s) \<Longrightarrow> seg_ok x"
  and segments_set: "x \<in> set (segments s) \<Longrightarrow> set x \<subseteq> set s"
  using set_segments_sub by auto

lemma segments_join: "\<forall>x \<in> set stk. seg_ok x \<Longrightarrow> segments (join_path stk) = stk"
  by (induction stk rule: join_path.induct) auto

lemma segments_join_slash: "\<forall>x \<in> set stk. seg_ok x \<Longrightarrow> segments (join_path stk @ [SLASH]) = stk"
  by (induction stk rule: join_path.induct) auto

lemma segments_contents: "\<forall>x \<in> set stk. seg_ok x \<Longrightarrow> segments (contents a stk tr) = stk"
  by (auto simp: contents_def segments_join segments_join_slash)

lemma join_path_snoc: "join_path (xs @ [x]) = (if xs = [] then x else join_path xs @ SLASH # x)"
  by (induction xs rule: join_path.induct) auto

lemma contents_snoc: "contents a (xs @ [x]) False = contents a xs (xs \<noteq> []) @ x"
  by (auto simp: contents_def join_path_snoc)

lemma contents_True: "contents a stk True = contents a stk False @ [SLASH]"
  by (simp add: contents_def)

lemma join_path_empty: "\<forall>x \<in> set stk. seg_ok x \<Longrightarrow> join_path stk = [] \<longleftrightarrow> stk = []"
  by (induction stk rule: join_path.induct) (auto simp: seg_ok_def)

lemma contents_empty:
  "\<forall>x \<in> set stk. seg_ok x \<Longrightarrow> contents a stk (stk \<noteq> []) = [] \<longleftrightarrow> \<not> a \<and> stk = []"
  "\<forall>x \<in> set stk. seg_ok x \<Longrightarrow> contents a stk False = [] \<longleftrightarrow> \<not> a \<and> stk = []"
  by (auto simp: contents_def join_path_empty)

lemma length_join_ge: "\<forall>x \<in> set stk. seg_ok x \<Longrightarrow> length stk \<le> length (join_path stk)"
proof (induction stk rule: join_path.induct)
  case (2 x)
  then show ?case by (cases x) (auto simp: seg_ok_def)
next
  case (3 x y ys)
  then show ?case by auto
qed simp

lemma last_contents:
  assumes "\<forall>x \<in> set stk. seg_ok x" "stk \<noteq> []"
  shows "last (contents a stk False) \<noteq> SLASH"
proof -
  obtain ys y where "stk = ys @ [y]" using assms(2) by (cases stk rule: rev_cases) auto
  then have "contents a stk False = contents a ys (ys \<noteq> []) @ y" "seg_ok y"
    using assms(1) by (auto simp: contents_snoc)
  then show ?thesis by (auto simp: seg_ok_def) (metis last_in_set)
qed

section \<open>The directory walk\<close>

text \<open>
  Path resolution as POSIX describes it, where no segment is a symbolic link: from the
  directory \<open>dir\<close> (its names from the root), a dot stays, a double dot goes to the parent
  (the root is its own parent), any other segment goes down.
\<close>

definition walk_step :: "string list \<Rightarrow> string \<Rightarrow> string list" where
  "walk_step dir seg =
     (if seg = [DOT] then dir else if seg = [DOT, DOT] then butlast dir else dir @ [seg])"

definition walk :: "string list \<Rightarrow> string list \<Rightarrow> string list" where
  "walk dir segs = foldl walk_step dir segs"

text \<open>The place an absolute path names.\<close>

definition location :: "string \<Rightarrow> string list" where
  "location path = walk [] (segments path)"

text \<open>A name that can stand in a canonical path.\<close>

definition plain_name :: "string \<Rightarrow> bool" where
  "plain_name x \<longleftrightarrow> seg_ok x \<and> x \<noteq> [DOT] \<and> x \<noteq> [DOT, DOT]"

lemma walk_simps [simp]:
  "walk dir [] = dir" "walk dir (x # xs) = walk (walk_step dir x) xs"
  "walk dir (xs @ ys) = walk (walk dir xs) ys"
  by (simp_all add: walk_def)

lemma walk_plain: "\<forall>x \<in> set xs. plain_name x \<Longrightarrow> walk dir xs = dir @ xs"
  by (induction xs arbitrary: dir) (auto simp: walk_step_def plain_name_def)

lemma walk_step_plain:
  "\<forall>x \<in> set dir. plain_name x \<Longrightarrow> seg_ok seg \<Longrightarrow> \<forall>x \<in> set (walk_step dir seg). plain_name x"
  by (auto simp: walk_step_def plain_name_def dest: in_set_butlastD)

lemma walk_is_plain:
  "\<forall>x \<in> set dir. plain_name x \<Longrightarrow> \<forall>x \<in> set segs. seg_ok x \<Longrightarrow> \<forall>x \<in> set (walk dir segs). plain_name x"
proof (induction segs arbitrary: dir)
  case (Cons x xs)
  then have "\<forall>y \<in> set (walk_step dir x). plain_name y" by (intro walk_step_plain) simp_all
  with Cons show ?case by simp
qed simp

lemma location_plain: "\<forall>x \<in> set (location path). plain_name x"
  unfolding location_def by (rule walk_is_plain) (auto dest: segments_ok)

lemma plain_seg_ok: "\<forall>x \<in> set stk. plain_name x \<Longrightarrow> \<forall>x \<in> set stk. seg_ok x"
  by (simp add: plain_name_def)

lemma location_contents:
  "\<forall>x \<in> set stk. plain_name x \<Longrightarrow> location (contents a stk tr) = stk"
  by (simp add: location_def segments_contents plain_seg_ok walk_plain)

lemma set_walk: "\<Union> (set ` set (walk dir segs)) \<subseteq> \<Union> (set ` set dir) \<union> \<Union> (set ` set segs)"
proof (induction segs arbitrary: dir)
  case (Cons x xs)
  have "\<Union> (set ` set (walk_step dir x)) \<subseteq> \<Union> (set ` set dir) \<union> set x"
    by (auto simp: walk_step_def dest: in_set_butlastD)
  with Cons [of "walk_step dir x"] show ?case by auto
qed simp

lemma set_join_path: "set (join_path stk) \<subseteq> insert SLASH (\<Union> (set ` set stk))"
  by (induction stk rule: join_path.induct) auto

lemma segments_append_slash: "segments (s @ SLASH # t) = segments s @ segments t"
proof (induction s rule: segments.induct)
  case (1 s)
  let ?u = "dropWhile (\<lambda>c. c = SLASH) s"
  have drop: "dropWhile (\<lambda>c. c = SLASH) (s @ SLASH # t) =
      (if ?u = [] then dropWhile (\<lambda>c. c = SLASH) t else ?u @ SLASH # t)"
    by (induction s) auto
  show ?case
  proof (cases "?u = []")
    case True
    with drop have "segments (s @ SLASH # t) = segments t"
      by (cases "dropWhile (\<lambda>c. c = SLASH) t = []") (simp_all add: segments_none segments_some)
    with True show ?thesis by (simp add: segments_none)
  next
    case False
    have scan: "takeWhile (\<lambda>c. c \<noteq> SLASH) (u @ SLASH # t) = takeWhile (\<lambda>c. c \<noteq> SLASH) u"
      "dropWhile (\<lambda>c. c \<noteq> SLASH) (u @ SLASH # t) = dropWhile (\<lambda>c. c \<noteq> SLASH) u @ SLASH # t" for u
      by (induction u) auto
    have "dropWhile (\<lambda>c. c = SLASH) (s @ SLASH # t) = ?u @ SLASH # t"
      by (simp only: drop False if_False)
    from segments_some [OF this] have "segments (s @ SLASH # t) = takeWhile (\<lambda>c. c \<noteq> SLASH) ?u #
        segments (dropWhile (\<lambda>c. c \<noteq> SLASH) ?u @ SLASH # t)"
      by (simp add: scan)
    then show ?thesis using "1.IH" [OF refl False] segments_some [OF refl False] by simp
  qed
qed

end
