(* ===== verification/Clean_Correct.thy ===== *)
theory Clean_Correct
  imports Clean_Path
begin

text \<open>
  Correctness of the path cleaner: the C code of \<open>Clean_Path\<close> stays inside \<open>dst\<close> and
  \<open>seg_starts\<close>, reads no uninitialised byte, and computes \<open>clean_spec\<close>.
\<close>

section \<open>The invariant of the loop\<close>

text \<open>Where the next segment starts in \<open>dst\<close> when the stack is \<open>xs\<close>.\<close>

definition offset :: "bool \<Rightarrow> string list \<Rightarrow> nat" where
  "offset a xs = length (contents a xs (xs \<noteq> []))"

definition clean_rel ::
  "bool \<Rightarrow> nat \<Rightarrow> nat \<Rightarrow> clean_state \<Rightarrow> string list \<Rightarrow> bool \<Rightarrow> bool" where
  "clean_rel a n C st stk tr \<longleftrightarrow>
     cap (dst st) = C \<and> n \<le> C \<and> holds (dst st) (contents a stk tr) \<and>
     out st = length (contents a stk tr) \<and> out st < n \<and>
     seg_count st = length stk \<and> length stk \<le> PATH_MAX \<and>
     (\<forall>i < length stk. seg_starts st i = Some (offset a (take i stk))) \<and>
     (\<forall>x \<in> set stk. seg_ok x) \<and> (tr \<longrightarrow> stk \<noteq> [])"

lemma clean_relD:
  assumes "clean_rel a n C st stk tr"
  shows "cap (dst st) = C" "n \<le> C" "holds (dst st) (contents a stk tr)"
    "out st = length (contents a stk tr)" "out st < n" "seg_count st = length stk"
    "length stk \<le> PATH_MAX" "\<And>i. i < length stk \<Longrightarrow> seg_starts st i = Some (offset a (take i stk))"
    "\<forall>x \<in> set stk. seg_ok x" "tr \<Longrightarrow> stk \<noteq> []"
  using assms by (simp_all add: clean_rel_def)

lemma offset_pos: "a \<Longrightarrow> 0 < offset a xs"
  by (simp add: offset_def contents_def)

lemma pop_segment_rel:
  assumes r: "clean_rel a n C st stk tr" and ne: "stk \<noteq> []"
  shows "\<exists>st'. pop_segment a st = Some st' \<and> clean_rel a n C st' (butlast stk) (butlast stk \<noteq> [])"
proof -
  note D = clean_relD [OF r]
  obtain ys y where stk: "stk = ys @ [y]" using ne by (cases stk rule: rev_cases) auto
  have count: "seg_count st - 1 = length ys" "length ys < PATH_MAX"
    using D(6,7) stk by simp_all
  have start: "seg_starts st (length ys) = Some (offset a ys)"
    using D(8) [of "length ys"] stk by simp
  let ?st = "st\<lparr>out := offset a ys, seg_count := length ys\<rparr>"
  have pop: "pop_segment a st = Some ?st"
    using count start offset_pos [of a ys] by (auto simp: pop_segment_def Let_def)
  have "contents a stk tr = contents a ys (ys \<noteq> []) @ y @ (if tr then [SLASH] else [])"
    using contents_snoc [of a ys y] contents_True [of a stk] stk by (cases tr) auto
  moreover from this D(4,5) have "offset a ys < n" by (simp add: offset_def)
  ultimately have "clean_rel a n C ?st ys (ys \<noteq> [])"
    using D stk by (auto simp: clean_rel_def offset_def nth_append dest: holds_appendD)
  with pop stk show ?thesis by simp
qed

text \<open>After the separator, \<open>dst\<close> ends where the next segment goes.\<close>

lemma put_separator_rel:
  assumes r: "clean_rel a n C st stk tr"
  shows "(offset a stk < n \<and>
           (\<exists>st'. put_separator n st = Some (Continue st') \<and> cap (dst st') = C \<and>
             holds (dst st') (contents a stk (stk \<noteq> [])) \<and> out st' = offset a stk \<and>
             seg_starts st' = seg_starts st \<and> seg_count st' = seg_count st)) \<or>
         (offset a stk \<ge> n \<and> put_separator n st = Some (Return (-1) st))"
proof (cases "tr \<or> stk = []")
  case True
  note D = clean_relD [OF r]
  then have tr: "tr = (stk \<noteq> [])" using True by auto
  have "put_separator n st = Some (Continue st)"
  proof (cases "out st = 0")
    case False
    then have ne: "contents a stk tr \<noteq> []" using D(4) by auto
    have "last (contents a stk tr) = SLASH" using ne tr by (auto simp: contents_def split: if_splits)
    moreover have "load (dst st) (out st - 1) = Some (last (contents a stk tr))"
      using ne D(3,4) by (simp add: holds_cell last_conv_nth)
    ultimately show ?thesis using False by (simp add: put_separator_def)
  qed (simp add: put_separator_def)
  with D tr show ?thesis by (auto simp: offset_def)
next
  case False
  note D = clean_relD [OF r]
  from False have tr: "\<not> tr" and ne: "stk \<noteq> []" by auto
  have c: "contents a stk False \<noteq> []" using D(9) ne by (simp add: contents_empty)
  have ld: "load (dst st) (out st - 1) = Some (last (contents a stk False))"
    using c D(3,4) tr by (simp add: holds_cell last_conv_nth)
  have off: "offset a stk = out st + 1" using D(4) tr ne by (simp add: offset_def contents_True)
  obtain d where d: "store (dst st) (out st) SLASH = Some d" "cap d = C"
      "holds d (contents a stk False @ [SLASH])"
    using store_holds [of "dst st" "contents a stk False" SLASH] D tr by auto
  have "put_separator n st = (if out st + 1 \<ge> n then Some (Return (-1) st)
      else Some (Continue (st\<lparr>dst := d, out := out st + 1\<rparr>)))"
    using c ld last_contents [OF D(9) ne] D(4) tr d by (simp add: put_separator_def)
  with off d ne show ?thesis by (auto simp: contents_True)
qed

lemma push_segment_rel:
  assumes r: "clean_rel a n C st stk tr" and ok: "seg_ok seg"
  shows "if length stk \<ge> PATH_MAX \<or> length (contents a (stk @ [seg]) False) \<ge> n
         then \<exists>st'. push_segment n seg st = Some (Return (-1) st') \<and> cap (dst st') = C
         else \<exists>st'. push_segment n seg st = Some (Continue st') \<and> clean_rel a n C st' (stk @ [seg]) False"
proof (cases "length stk \<ge> PATH_MAX")
  case True
  then show ?thesis using clean_relD(1,6) [OF r] by (auto simp: push_segment_def)
next
  case False
  note D = clean_relD [OF r]
  have len: "length (contents a (stk @ [seg]) False) = offset a stk + length seg"
    by (simp add: contents_snoc offset_def)
  from put_separator_rel [OF r] consider
    (fits) st' where "offset a stk < n" "put_separator n st = Some (Continue st')" "cap (dst st') = C"
      "holds (dst st') (contents a stk (stk \<noteq> []))" "out st' = offset a stk"
      "seg_starts st' = seg_starts st" "seg_count st' = seg_count st"
    | (full) "offset a stk \<ge> n" "put_separator n st = Some (Return (-1) st)" by blast
  then show ?thesis
  proof cases
    case full
    then show ?thesis using D False len by (auto simp: push_segment_def)
  next
    case fits
    let ?st = "st'\<lparr>seg_starts := (seg_starts st')(seg_count st' \<mapsto> out st'), seg_count := seg_count st' + 1\<rparr>"
    have start: "record_start st' = Some ?st" using fits(7) D(6) False by (simp add: record_start_def)
    show ?thesis
    proof (cases "offset a stk + length seg \<ge> n")
      case True
      then show ?thesis using fits D False len by (auto simp: push_segment_def start)
    next
      case small: False
      obtain d where d: "copy_in (dst st') (out st') seg = Some d" "cap d = C"
          "holds d (contents a stk (stk \<noteq> []) @ seg)"
        using copy_in_holds [OF fits(4), of seg] fits(3,5) small D(2) by (auto simp: offset_def)
      have "push_segment n seg st = Some (Continue (?st\<lparr>dst := d, out := out st' + length seg\<rparr>))"
        using fits d False D(6) small by (simp add: push_segment_def start)
      moreover have "clean_rel a n C (?st\<lparr>dst := d, out := out st' + length seg\<rparr>) (stk @ [seg]) False"
        using fits d D small False ok
        by (auto simp: clean_rel_def contents_snoc offset_def less_Suc_eq)
      ultimately show ?thesis using False small len by auto
    qed
  qed
qed

lemma clean_segment_rel:
  assumes r: "clean_rel a n C st stk tr" and ok: "seg_ok seg"
  shows "case seg_step a n seg (stk, tr) of
           None \<Rightarrow> \<exists>st'. clean_segment a n seg st = Some (Return (-1) st') \<and> cap (dst st') = C
         | Some (stk', tr') \<Rightarrow> \<exists>st'. clean_segment a n seg st = Some (Continue st') \<and> clean_rel a n C st' stk' tr'"
proof -
  have cnt: "seg_count st = length stk" by (rule clean_relD(6) [OF r])
  consider "seg = [DOT]" | "seg = [DOT, DOT]" "stk \<noteq> []" | "seg = [DOT, DOT]" "stk = []" a
    | "seg \<noteq> [DOT]" "\<not> (seg = [DOT, DOT] \<and> (stk \<noteq> [] \<or> a))" by blast
  then show ?thesis
  proof cases
    case 2
    then show ?thesis using pop_segment_rel [OF r 2(2)] cnt
      by (auto simp: seg_step_def clean_segment_def)
  next
    case 4
    then have "clean_segment a n seg st = push_segment n seg st" using cnt
      by (auto simp: clean_segment_def)
    then show ?thesis using push_segment_rel [OF r ok] 4
      by (auto simp: seg_step_def split: if_splits)
  qed (use r cnt in \<open>auto simp: seg_step_def clean_segment_def\<close>)
qed

lemma clean_loop_none: "dropWhile (\<lambda>c. c = SLASH) src = [] \<Longrightarrow> clean_loop a n src st = Some (Continue st)"
  by (subst clean_loop.simps) simp

lemma clean_loop_some:
  "dropWhile (\<lambda>c. c = SLASH) src = t \<Longrightarrow> t \<noteq> [] \<Longrightarrow>
   clean_loop a n src st = do {
     r \<leftarrow> clean_segment a n (takeWhile (\<lambda>c. c \<noteq> SLASH) t) st;
     case r of
       Return rc st \<Rightarrow> Some (Return rc st)
     | Continue st \<Rightarrow> clean_loop a n (dropWhile (\<lambda>c. c \<noteq> SLASH) t) st }"
  by (subst clean_loop.simps) (simp only: Let_def simp_thms if_False)

lemma clean_loop_rel:
  "clean_rel a n C st stk tr \<Longrightarrow>
   case seg_loop a n (segments src) (stk, tr) of
     None \<Rightarrow> \<exists>st'. clean_loop a n src st = Some (Return (-1) st') \<and> cap (dst st') = C
   | Some (stk', tr') \<Rightarrow> \<exists>st'. clean_loop a n src st = Some (Continue st') \<and> clean_rel a n C st' stk' tr'"
proof (induction src arbitrary: st stk tr rule: segments.induct)
  case (1 src)
  let ?t = "dropWhile (\<lambda>c. c = SLASH) src"
  show ?case
  proof (cases "?t = []")
    case True
    then show ?thesis using 1 clean_loop_none segments_none by auto
  next
    case False
    let ?seg = "takeWhile (\<lambda>c. c \<noteq> SLASH) ?t" and ?rest = "dropWhile (\<lambda>c. c \<noteq> SLASH) ?t"
    note loop = clean_loop_some [OF refl False] and segs = segments_some [OF refl False]
    have ok: "seg_ok ?seg" by (rule seg_ok_scan [OF False hd_dropWhile [OF False]])
    show ?thesis
    proof (cases "seg_step a n ?seg (stk, tr)")
      case None
      then show ?thesis using clean_segment_rel [OF "1.prems" ok] by (auto simp: loop segs)
    next
      case (Some s)
      obtain stk' tr' where s: "s = (stk', tr')" by (cases s)
      with Some obtain st' where st': "clean_segment a n ?seg st = Some (Continue st')"
          "clean_rel a n C st' stk' tr'"
        using clean_segment_rel [OF "1.prems" ok] by auto
      have "clean_loop a n src st = clean_loop a n ?rest st'"
        by (simp add: loop st')
      moreover have "seg_loop a n (segments src) (stk, tr) = seg_loop a n (segments ?rest) (stk', tr')"
        by (simp add: segs Some s)
      ultimately show ?thesis using "1.IH" [OF refl False st'(2)] by presburger
    qed
  qed
qed

section \<open>The whole function\<close>

lemma clean_finish_rel:
  assumes r: "clean_rel a n C st stk tr"
  shows "\<exists>b'. cap b' = C \<and>
    (let r = contents a stk tr in
     if r = [] then (if n < 2 then clean_finish a n st = Some (-1, b')
                     else clean_finish a n st = Some (0, b') \<and> holds b' [DOT, NUL])
     else clean_finish a n st = Some (0, b') \<and> holds b' (r @ [NUL]))"
proof (cases "contents a stk tr = []")
  case False
  note D = clean_relD [OF r]
  obtain d where "store (dst st) (out st) NUL = Some d" "cap d = C" "holds d (contents a stk tr @ [NUL])"
    using store_holds [OF D(3), of NUL] D(1,2,4,5) by auto
  with False D(4) show ?thesis by (auto simp: clean_finish_def)
next
  case True
  note D = clean_relD [OF r]
  have a: "\<not> a" and out: "out st = 0" using True D(4) by (auto simp: contents_def)
  show ?thesis
  proof (cases "n < 2")
    case True
    with a out D(1) \<open>contents a stk tr = []\<close> show ?thesis by (auto simp: clean_finish_def)
  next
    case False
    obtain d where d: "store (dst st) 0 DOT = Some d" "cap d = C" "holds d [DOT]"
      using store_holds [of "dst st" "[]" DOT] False D(1,2) by auto
    obtain e where "store d 1 NUL = Some e" "cap e = C" "holds e [DOT, NUL]"
      using store_holds [OF d(3), of NUL] False d(2) D(2) by auto
    with d a out False \<open>contents a stk tr = []\<close> show ?thesis by (auto simp: clean_finish_def)
  qed
qed

lemma seg_loop_ok:
  "seg_loop a n segs (stk, tr) = Some (stk', tr') \<Longrightarrow> \<forall>x \<in> set stk. seg_ok x \<Longrightarrow> \<forall>x \<in> set segs. seg_ok x \<Longrightarrow>
   \<forall>x \<in> set stk'. seg_ok x \<and> (x \<in> set stk \<or> x \<in> set segs)"
proof (induction segs arbitrary: stk tr)
  case (Cons x xs)
  from Cons.prems(1) obtain s t where st: "seg_step a n x (stk, tr) = Some (s, t)"
      "seg_loop a n xs (s, t) = Some (stk', tr')"
    by (auto simp: bind_eq_Some_conv)
  from st(1) have "\<forall>y \<in> set s. y \<in> set stk \<or> y = x"
    by (auto simp: seg_step_def split: if_splits dest: in_set_butlastD)
  with Cons.IH [OF st(2)] Cons.prems(2,3) show ?case by fastforce
qed simp

lemma clean_path_into_correct:
  assumes "n \<le> cap b"
  shows "\<exists>b'. cap b' = cap b \<and>
    (case clean_spec n src of
       None \<Rightarrow> clean_path_into (Some src) (Some b) n = Some (-1, Some b')
     | Some r \<Rightarrow> clean_path_into (Some src) (Some b) n = Some (0, Some b') \<and> holds b' (r @ [NUL]))"
proof (cases "n = 0 \<or> (starts_with_slash src \<and> n < 2)")
  case True
  then show ?thesis by (auto simp: clean_spec_def clean_path_into_def)
next
  case False
  let ?a = "starts_with_slash src"
  obtain d where d: "(if ?a then store b 0 SLASH else Some b) = Some d" "cap d = cap b"
      "holds d (if ?a then [SLASH] else [])"
    using store_holds [of b "[]" SLASH] False assms by (cases ?a) auto
  let ?st = "\<lparr>dst = d, out = (if ?a then 1 else 0), seg_starts = Map.empty, seg_count = 0\<rparr>"
  have "clean_rel ?a n (cap b) ?st [] False"
    using d False assms by (auto simp: clean_rel_def contents_def)
  note loop = clean_loop_rel [OF this, of src]
  have into: "clean_path_into (Some src) (Some b) n = do {
       r \<leftarrow> clean_loop ?a n src ?st;
       case r of
         Return rc st \<Rightarrow> Some (rc, Some (dst st))
       | Continue st \<Rightarrow> map_option (map_prod id Some) (clean_finish ?a n st) }"
    using False d(1) by (auto simp: clean_path_into_def Let_def)
  show ?thesis
  proof (cases "seg_loop ?a n (segments src) ([], False)")
    case None
    with loop obtain st' where "clean_loop ?a n src ?st = Some (Return (-1) st')" "cap (dst st') = cap b"
      by auto
    with None False show ?thesis by (auto simp: into clean_spec_def Let_def)
  next
    case (Some s)
    obtain stk tr where s: "s = (stk, tr)" by (cases s)
    from loop Some s obtain st' where st': "clean_loop ?a n src ?st = Some (Continue st')"
        "clean_rel ?a n (cap b) st' stk tr"
      by auto
    from clean_finish_rel [OF st'(2)] show ?thesis
      using False Some s by (auto simp: into st'(1) clean_spec_def Let_def)
  qed
qed

text \<open>Every intermediate content fits, so the result does.\<close>

lemma contents_butlast:
  "stk \<noteq> [] \<Longrightarrow> length (contents a (butlast stk) (butlast stk \<noteq> [])) \<le> length (contents a stk tr)"
  by (cases stk rule: rev_cases) (cases tr; simp add: contents_True contents_snoc)+

lemma seg_loop_length:
  "seg_loop a n segs (stk, tr) = Some (stk', tr') \<Longrightarrow> length (contents a stk tr) < n \<Longrightarrow>
   length (contents a stk' tr') < n"
proof (induction segs arbitrary: stk tr)
  case (Cons x xs)
  from Cons.prems(1) obtain s t where st: "seg_step a n x (stk, tr) = Some (s, t)"
      "seg_loop a n xs (s, t) = Some (stk', tr')"
    by (auto simp: bind_eq_Some_conv)
  from st(1) Cons.prems(2) contents_butlast [of stk a tr] have "length (contents a s t) < n"
    by (auto simp: seg_step_def split: if_splits)
  then show ?case by (rule Cons.IH [OF st(2)])
qed simp

lemma seg_loop_tr:
  "seg_loop a n segs (stk, tr) = Some (stk', tr') \<Longrightarrow> (tr \<Longrightarrow> stk \<noteq> []) \<Longrightarrow> tr' \<Longrightarrow> stk' \<noteq> []"
proof (induction segs arbitrary: stk tr)
  case (Cons x xs)
  from Cons.prems(1) obtain s t where st: "seg_step a n x (stk, tr) = Some (s, t)"
      "seg_loop a n xs (s, t) = Some (stk', tr')"
    by (auto simp: bind_eq_Some_conv)
  from st(1) Cons.prems(2) have "t \<Longrightarrow> s \<noteq> []" by (auto simp: seg_step_def split: if_splits)
  with Cons.IH [OF st(2)] Cons.prems(3) show ?case by blast
qed simp

lemma seg_loop_walk:
  "seg_loop True n segs (stk, tr) = Some (stk', tr') \<Longrightarrow> stk' = walk stk segs"
proof (induction segs arbitrary: stk tr)
  case (Cons x xs)
  from Cons.prems obtain s t where st: "seg_step True n x (stk, tr) = Some (s, t)"
      "seg_loop True n xs (s, t) = Some (stk', tr')"
    by (auto simp: bind_eq_Some_conv)
  from st(1) have "s = walk_step stk x" by (auto simp: seg_step_def walk_step_def split: if_splits)
  with Cons.IH [OF st(2)] show ?case by simp
qed simp

lemma clean_spec_length: "clean_spec n src = Some r \<Longrightarrow> length r < n"
proof -
  assume r: "clean_spec n src = Some r"
  let ?a = "starts_with_slash src"
  from r obtain stk tr where l: "seg_loop ?a n (segments src) ([], False) = Some (stk, tr)"
      and n: "n \<noteq> 0" "?a \<Longrightarrow> 2 \<le> n"
      and rr: "r = contents ?a stk tr \<or> (r = [DOT] \<and> 2 \<le> n)"
    by (auto simp: clean_spec_def Let_def bind_eq_Some_conv split: if_splits)
  have "length (contents ?a [] False) < n" using n by (cases ?a) (auto simp: contents_def)
  from seg_loop_length [OF l this] rr show ?thesis by auto
qed

lemma clean_spec_chars: "clean_spec n src = Some r \<Longrightarrow> set r \<subseteq> insert SLASH (insert DOT (set src))"
proof -
  assume r: "clean_spec n src = Some r"
  let ?a = "starts_with_slash src"
  from r obtain stk tr where l: "seg_loop ?a n (segments src) ([], False) = Some (stk, tr)"
      and rr: "r = contents ?a stk tr \<or> r = [DOT]"
    by (auto simp: clean_spec_def Let_def bind_eq_Some_conv split: if_splits)
  have "\<forall>x \<in> set stk. set x \<subseteq> set src"
    using seg_loop_ok [OF l] segments_ok segments_set by fastforce
  then have "set (join_path stk) \<subseteq> insert SLASH (set src)" using set_join_path [of stk] by fastforce
  with rr show ?thesis by (auto simp: contents_def)
qed

lemma clean_spec_c_ok: "clean_spec n src = Some r \<Longrightarrow> c_ok src \<Longrightarrow> c_ok r"
  using clean_spec_chars [of n src r] by (auto simp: c_ok_def)

lemma clean_spec_absolute:
  assumes "clean_spec n src = Some r" "starts_with_slash src"
  obtains tr where "r = contents True (location src) tr" "tr \<longrightarrow> location src \<noteq> []"
    "seg_loop True n (segments src) ([], False) = Some (location src, tr)"
proof -
  from assms obtain stk tr where l: "seg_loop True n (segments src) ([], False) = Some (stk, tr)"
      and r: "r = contents True stk tr"
    by (auto simp: clean_spec_def Let_def bind_eq_Some_conv contents_def split: if_splits)
  have "stk = location src" unfolding location_def by (rule seg_loop_walk [OF l])
  with that l r seg_loop_tr [OF l] show thesis by auto
qed

lemma clean_spec_location:
  assumes "clean_spec n src = Some r" "starts_with_slash src"
  shows "location r = location src" "segments r = location src" "starts_with_slash r"
proof -
  obtain tr where r: "r = contents True (location src) tr"
    using assms by (rule clean_spec_absolute)
  show "location r = location src" unfolding r by (rule location_contents [OF location_plain])
  show "segments r = location src" unfolding r by (rule segments_contents [OF plain_seg_ok [OF location_plain]])
  show "starts_with_slash r" unfolding r by (simp add: contents_def)
qed

section \<open>The cleaner as a string writer\<close>

text \<open>The callers pass the address of a local array, which is not NULL.\<close>

definition into_array :: "(buffer option \<Rightarrow> nat \<Rightarrow> (int \<times> buffer option) option) \<Rightarrow>
    buffer \<Rightarrow> nat \<Rightarrow> (int \<times> buffer) option" where
  "into_array f b n = do { (rc, d) \<leftarrow> f (Some b) n; d \<leftarrow> d; Some (rc, d) }"

interpretation cleaner: string_writer "\<lambda>src. into_array (clean_path_into (Some src))" clean_spec c_ok
proof unfold_locales
  fix src b n and r
  show "\<exists>b'. into_array (clean_path_into (Some src)) b n = Some (-1, b') \<and> cap b' = cap b"
    if "n \<le> cap b" "clean_spec n src = None"
    using clean_path_into_correct [OF that(1), of src] that(2) by (auto simp: into_array_def)
  show "\<exists>b'. into_array (clean_path_into (Some src)) b n = Some (0, b') \<and> cap b' = cap b \<and> holds b' (r @ [NUL])"
    if "n \<le> cap b" "clean_spec n src = Some r"
    using clean_path_into_correct [OF that(1), of src] that(2) by (auto simp: into_array_def)
  show "c_ok r \<and> length r < n" if "c_ok src" "clean_spec n src = Some r"
    using that clean_spec_c_ok clean_spec_length by blast
qed

section \<open>When cleaning succeeds, and what it yields\<close>

lemma seg_loop_fits:
  "length (contents a stk tr) + length s < n \<Longrightarrow> n \<le> PATH_MAX \<Longrightarrow> \<forall>x \<in> set stk. seg_ok x \<Longrightarrow>
   (tr \<Longrightarrow> stk \<noteq> []) \<Longrightarrow> tr \<or> stk = [] \<or> s = [] \<or> hd s = SLASH \<Longrightarrow>
   seg_loop a n (segments s) (stk, tr) \<noteq> None"
proof (induction s arbitrary: stk tr rule: segments.induct)
  case (1 s)
  let ?t = "dropWhile (\<lambda>c. c = SLASH) s"
  show ?case
  proof (cases "?t = []")
    case True
    then show ?thesis by (simp add: segments_none)
  next
    case False
    let ?seg = "takeWhile (\<lambda>c. c \<noteq> SLASH) ?t" and ?rest = "dropWhile (\<lambda>c. c \<noteq> SLASH) ?t"
    have ok: "seg_ok ?seg" by (rule seg_ok_scan [OF False hd_dropWhile [OF False]])
    have split: "length ?t = length ?seg + length ?rest"
      by (metis length_append takeWhile_dropWhile_id)
    have skip: "length ?t + (if s \<noteq> [] \<and> hd s = SLASH then 1 else 0) \<le> length s"
      by (cases s) (auto simp: length_dropWhile_le le_SucI)
    have rest: "?rest = [] \<or> hd ?rest = SLASH"
      using hd_dropWhile [of "\<lambda>c. c \<noteq> SLASH" ?t] by auto
    have count: "length stk \<le> length (contents a stk tr)"
      using length_join_ge [OF "1.prems"(3)] by (simp add: contents_def)
    have grow: "length (contents a (stk @ [?seg]) False) + length ?rest < n"
    proof -
      have "length (contents a (stk @ [?seg]) False) = length (contents a stk (stk \<noteq> [])) + length ?seg"
        by (simp add: contents_snoc)
      moreover have "length (contents a stk (stk \<noteq> [])) \<le>
          length (contents a stk tr) + (if s \<noteq> [] \<and> hd s = SLASH then 1 else 0)"
        using "1.prems"(4,5) False by (cases tr; cases "stk = []") (auto simp: contents_True)
      ultimately show ?thesis using "1.prems"(1) split skip by linarith
    qed
    have "\<exists>stk' tr'. seg_step a n ?seg (stk, tr) = Some (stk', tr') \<and>
        length (contents a stk' tr') + length ?rest < n \<and> (\<forall>x \<in> set stk'. seg_ok x) \<and> (tr' \<longrightarrow> stk' \<noteq> [])"
      using "1.prems" grow count ok split skip contents_butlast [of stk a tr]
      by (auto simp: seg_step_def dest: in_set_butlastD)
    then obtain stk' tr' where step: "seg_step a n ?seg (stk, tr) = Some (stk', tr')"
        "length (contents a stk' tr') + length ?rest < n" "\<forall>x \<in> set stk'. seg_ok x" "tr' \<Longrightarrow> stk' \<noteq> []"
      by blast
    have "seg_loop a n (segments ?rest) (stk', tr') \<noteq> None"
      using step rest "1.prems"(2) by (intro "1.IH" [OF refl False]) auto
    then show ?thesis by (simp add: segments_some [OF refl False] step(1))
  qed
qed

lemma clean_spec_fits:
  assumes "length src < n" "2 \<le> n" "n \<le> PATH_MAX"
  shows "clean_spec n src \<noteq> None"
proof -
  let ?a = "starts_with_slash src"
  have "seg_loop ?a n (segments src) ([], False) \<noteq> None"
  proof (cases ?a)
    case True
    then obtain t where t: "src = SLASH # t" by (auto simp: starts_with_slash_iff)
    have "seg_loop True n (segments t) ([], False) \<noteq> None"
      using assms t by (intro seg_loop_fits) (auto simp: contents_def)
    with True t show ?thesis by simp
  next
    case False
    with assms show ?thesis by (intro seg_loop_fits) (auto simp: contents_def)
  qed
  with assms show ?thesis by (auto simp: clean_spec_def Let_def)
qed

lemma clean_spec_canonical:
  assumes "clean_spec n src = Some r" "starts_with_slash src"
  shows "r = SLASH # join_path (location src) \<or>
    location src \<noteq> [] \<and> r = SLASH # join_path (location src) @ [SLASH]"
proof -
  obtain tr where "r = contents True (location src) tr" "tr \<longrightarrow> location src \<noteq> []"
    using assms by (rule clean_spec_absolute)
  then show ?thesis by (cases tr) (simp_all add: contents_def)
qed

text \<open>A path of plain names is cleaned to itself, but for a trailing separator.\<close>

lemma seg_loop_plain:
  "\<forall>x \<in> set segs. plain_name x \<Longrightarrow> seg_loop a n segs (stk, tr) = Some (stk', tr') \<Longrightarrow>
   tr' \<longleftrightarrow> (segs = [] \<and> tr)"
proof (induction segs arbitrary: stk tr)
  case (Cons x xs)
  from Cons.prems obtain s t where st: "seg_step a n x (stk, tr) = Some (s, t)"
      "seg_loop a n xs (s, t) = Some (stk', tr')"
    by (auto simp: bind_eq_Some_conv)
  have "plain_name x" using Cons.prems(1) by simp
  with st(1) have "\<not> t" by (simp add: seg_step_def plain_name_def split: if_splits)
  with Cons.IH [OF _ st(2)] Cons.prems(1) show ?case by simp
qed auto

lemma seg_loop_mono:
  "seg_loop a n segs (stk, tr) = Some s \<Longrightarrow> seg_loop a n segs (stk, tr') \<noteq> None"
proof (induction segs arbitrary: stk tr tr')
  case (Cons x xs)
  from Cons.prems obtain u v where "seg_step a n x (stk, tr) = Some (u, v)"
      "seg_loop a n xs (u, v) = Some s"
    by (auto simp: bind_eq_Some_conv)
  moreover from this(1) have "\<exists>v'. seg_step a n x (stk, tr') = Some (u, v')"
    by (auto simp: seg_step_def split: if_splits)
  ultimately show ?case using Cons.IH by auto
qed simp

lemma clean_spec_again:
  assumes r: "clean_spec n src = Some r" and abs: "starts_with_slash src" and n: "n \<le> PATH_MAX"
  shows "clean_spec n r = Some (SLASH # join_path (location src))"
proof -
  have "2 \<le> n" using r abs by (auto simp: clean_spec_def Let_def split: if_splits)
  then obtain r' where r': "clean_spec n r = Some r'"
    using clean_spec_fits [of r n] clean_spec_length [OF r] n by auto
  note loc = clean_spec_location [OF r abs]
  obtain tr where "r' = contents True (location src) tr"
      "seg_loop True n (segments r) ([], False) = Some (location src, tr)"
    using clean_spec_absolute [OF r' loc(3)] loc(1) by metis
  moreover from this(2) have "\<not> tr"
    using seg_loop_plain [of "segments r" True n "[]" False] location_plain [of src] loc(2) by auto
  ultimately show ?thesis using r' by (simp add: contents_def)
qed

lemma seg_loop_snoc:
  "seg_loop a n (segs @ [x]) s = do { s \<leftarrow> seg_loop a n segs s; seg_step a n x s }"
  by (induction segs arbitrary: s) (auto simp: Option.bind_assoc split: Option.bind_splits)

lemma clean_spec_parent:
  assumes r: "clean_spec n (src @ [SLASH, DOT, DOT]) = Some r" and abs: "starts_with_slash src"
    and deep: "2 \<le> length (location src)"
  shows "r = SLASH # join_path (butlast (location src)) @ [SLASH]"
proof -
  have segs: "segments (src @ [SLASH, DOT, DOT]) = segments src @ [[DOT, DOT]]"
    using segments_append_slash [of src "[DOT, DOT]"] segments_seg [of "[DOT, DOT]"]
    by (simp add: seg_ok_def)
  have loc: "location (src @ [SLASH, DOT, DOT]) = butlast (location src)"
    by (simp add: location_def segs walk_step_def)
  have "starts_with_slash (src @ [SLASH, DOT, DOT])" using abs by (auto simp: starts_with_slash_iff)
  from clean_spec_absolute [OF r this] loc obtain tr where
    tr: "r = contents True (butlast (location src)) tr"
      "seg_loop True n (segments src @ [[DOT, DOT]]) ([], False) = Some (butlast (location src), tr)"
    unfolding segs loc by auto
  from tr(2) obtain stk t where l: "seg_loop True n (segments src) ([], False) = Some (stk, t)"
      "seg_step True n [DOT, DOT] (stk, t) = Some (butlast (location src), tr)"
    by (auto simp: seg_loop_snoc bind_eq_Some_conv)
  have "stk = location src" unfolding location_def by (rule seg_loop_walk [OF l(1)])
  moreover have "butlast (location src) \<noteq> []" "location src \<noteq> []"
    using deep by (auto simp flip: length_0_conv)
  ultimately have "tr" using l(2) by (simp add: seg_step_def)
  with tr(1) show ?thesis by (simp add: contents_def)
qed

section \<open>Properties\<close>

text \<open>C4: for every argument, whatever the bytes of \<open>dst\<close> and however long the source, the
  cleaner stays inside \<open>dst\<close> and \<open>seg_starts\<close>, reads only what it has initialised, and
  returns 0 or -1, provided \<open>dst_len\<close> does not exceed the size of the array.\<close>
theorem clean_path_into_in_bounds:
  assumes "dst_len \<le> cap b"
  shows "\<exists>rc b'. clean_path_into src (Some b) dst_len = Some (rc, Some b') \<and>
           (rc = 0 \<or> rc = -1) \<and> cap b' = cap b"
proof (cases src)
  case None
  then show ?thesis by (simp add: clean_path_into_def)
next
  case (Some s)
  then show ?thesis using clean_path_into_correct [OF assms, of s]
    by (cases "clean_spec dst_len s") auto
qed

theorem clean_path_into_in_bounds_witness:
  "\<exists>rc b'. clean_path_into (Some ''/a//b/../..'') (Some (new_buffer 6)) 6 = Some (rc, Some b') \<and>
     (rc = 0 \<or> rc = -1) \<and> cap b' = cap (new_buffer 6)"
  by (rule clean_path_into_in_bounds) simp

text \<open>C5: the array code is the stack algorithm: cleaning into a local array and reading the
  string back gives exactly what \<open>clean_spec\<close> computes, -1 where it has no result.\<close>
theorem clean_path_into_refines:
  assumes "c_ok src"
  shows "read_back (into_array (clean_path_into (Some src))) n = Some (clean_spec n src)"
  using assms by (rule cleaner.read_back_result)

theorem clean_path_into_refines_witness:
  "read_back (into_array (clean_path_into (Some ''/srv/./x/../data''))) PATH_MAX = Some (Some ''/srv/data'')"
  using clean_path_into_refines [of "''/srv/./x/../data''" PATH_MAX]
  by (simp add: c_ok_def clean_spec_def segments.simps seg_step_def contents_def PATH_MAX_def)

text \<open>C16: a cleaned absolute path names the directory that the walk of the original path
  reaches; it is absolute, its segments are non-empty and neither dot nor double dot, joined
  by single separators, with at most one separator after the last.\<close>
theorem clean_path_into_canonical:
  assumes "c_ok src" and "starts_with_slash src"
    and "read_back (into_array (clean_path_into (Some src))) n = Some (Some r)"
  shows "location r = location src \<and> segments r = location src \<and>
         (\<forall>x \<in> set (segments r). plain_name x) \<and> length r < n \<and>
         (r = SLASH # join_path (location src) \<or>
          location src \<noteq> [] \<and> r = SLASH # join_path (location src) @ [SLASH])"
proof -
  have r: "clean_spec n src = Some r" using assms(3) cleaner.read_back_result [OF assms(1)] by simp
  show ?thesis
    using clean_spec_location [OF r assms(2)] clean_spec_canonical [OF r assms(2)]
      clean_spec_length [OF r] location_plain [of src] by simp
qed

theorem clean_path_into_canonical_witness:
  "location ''/srv/data'' = location ''/srv//tmp/.././data'' \<and> segments ''/srv/data'' = location ''/srv//tmp/.././data''"
proof -
  have "c_ok ''/srv//tmp/.././data''" "starts_with_slash ''/srv//tmp/.././data''"
    by (simp_all add: c_ok_def)
  moreover have "read_back (into_array (clean_path_into (Some ''/srv//tmp/.././data''))) 64 = Some (Some ''/srv/data'')"
    by code_simp
  ultimately show ?thesis using clean_path_into_canonical by blast
qed

text \<open>C24: cleaning never gives up on a path shorter than the array: whatever its dots and
  separators, a source of fewer than \<open>n\<close> bytes is cleaned into \<open>n\<close> bytes; the bound of
  \<open>seg_starts\<close> is never the reason for a failure.\<close>
theorem clean_path_into_succeeds:
  assumes "c_ok src" and "length src < n" and "2 \<le> n" and "n \<le> PATH_MAX"
  shows "\<exists>r. read_back (into_array (clean_path_into (Some src))) n = Some (Some r)"
  using cleaner.read_back_result [OF assms(1), of n] clean_spec_fits [OF assms(2-4)] by auto

theorem clean_path_into_succeeds_witness:
  "\<exists>r. read_back (into_array (clean_path_into (Some ''/a/..//b/./c''))) 16 = Some (Some r)"
  by (rule clean_path_into_succeeds) (simp_all add: c_ok_def PATH_MAX_def)

text \<open>Cleaning what was cleaned succeeds and gives the canonical path, with no separator
  at the end: cleaning twice is always enough.\<close>
theorem clean_path_into_twice:
  assumes "c_ok src" and "starts_with_slash src" and "n \<le> PATH_MAX"
    and "read_back (into_array (clean_path_into (Some src))) n = Some (Some r)"
  shows "read_back (into_array (clean_path_into (Some r))) n = Some (Some (SLASH # join_path (location src)))"
proof -
  have r: "clean_spec n src = Some r" using assms(4) cleaner.read_back_result [OF assms(1)] by simp
  show ?thesis
    using cleaner.read_back_result [OF clean_spec_c_ok [OF r assms(1)], of n]
      clean_spec_again [OF r assms(2,3)] by simp
qed

theorem clean_path_into_twice_witness:
  "read_back (into_array (clean_path_into (Some ''/a/''))) 32 = Some (Some (SLASH # join_path (location ''/a/b/..'')))"
proof (rule clean_path_into_twice)
  show "read_back (into_array (clean_path_into (Some ''/a/b/..''))) 32 = Some (Some ''/a/'')" by code_simp
qed (simp_all add: c_ok_def PATH_MAX_def)

text \<open>C40: a double dot at the end leaves a separator behind: cleaning \<open>p/..\<close> gives the parent
  of \<open>p\<close> followed by a slash wherever that parent is not the root. One pass is not canonical.\<close>
theorem clean_path_into_parent_keeps_slash:
  assumes "c_ok src" and "starts_with_slash src" and "2 \<le> length (location src)"
    and "read_back (into_array (clean_path_into (Some (src @ [SLASH, DOT, DOT])))) n = Some (Some r)"
  shows "r = SLASH # join_path (butlast (location src)) @ [SLASH]"
proof -
  have ok: "c_ok (src @ [SLASH, DOT, DOT])" using assms(1) by simp
  have "clean_spec n (src @ [SLASH, DOT, DOT]) = Some r"
    using assms(4) cleaner.read_back_result [OF ok] by simp
  then show ?thesis by (rule clean_spec_parent [OF _ assms(2,3)])
qed

theorem clean_path_into_parent_keeps_slash_witness:
  "''/a/'' = SLASH # join_path (butlast (location ''/a/b'')) @ [SLASH]"
proof (rule clean_path_into_parent_keeps_slash)
  show "read_back (into_array (clean_path_into (Some (''/a/b'' @ [SLASH, DOT, DOT])))) 32 = Some (Some ''/a/'')"
    by code_simp
  show "2 \<le> length (location ''/a/b'')" by code_simp
qed (simp_all add: c_ok_def)

text \<open>On a relative path with two leading double dots the cleaner drops one level too many:
  the second pops the first, so the result names the directory itself and not its grandparent.\<close>
theorem clean_path_into_relative_parents:
  "read_back (into_array (clean_path_into (Some ''../..''))) PATH_MAX = Some (Some ''.'') \<and>
   walk [''a'', ''b''] (segments ''../..'') = [] \<and> walk [''a'', ''b''] (segments ''.'') = [''a'', ''b'']"
proof -
  have "read_back (into_array (clean_path_into (Some ''../..''))) PATH_MAX = Some (Some ''.'')"
    by (simp add: cleaner.read_back_result c_ok_def clean_spec_def segments.simps seg_step_def
        contents_def PATH_MAX_def)
  moreover have "walk [''a'', ''b''] (segments ''../..'') = []" by code_simp
  moreover have "walk [''a'', ''b''] (segments ''.'') = [''a'', ''b'']" by code_simp
  ultimately show ?thesis by blast
qed

end
