(* ===== verification/Rewrite_Policy.thy ===== *)
theory Rewrite_Policy
  imports Clean_Correct
begin

text \<open>
  The rewrite policy of rtld_linux.c: the one prefix mapping, its initialisation from the
  environment, prefix matching, substitution in both directions, and the join of a relative
  path to its base. The abstract view is a redirection of places: a place under the source
  prefix is moved under the target prefix.
\<close>

section \<open>The C code\<close>

text \<open>
  \<open>struct rewrite_policy\<close>. The two arrays are kept as the strings they hold; \<open>from\<close> and \<open>to\<close>
  are \<open>from_path\<close> and \<open>to_path\<close>, the \<open>int\<close> flag is a \<open>bool\<close>.
\<close>

record rewrite_policy =
  enabled :: bool
  from_len :: nat
  to_len :: nat
  from_path :: string
  to_path :: string

text \<open>The static object before anything ran, and after the reset at the start of the initialiser.\<close>

definition no_policy :: rewrite_policy where
  "no_policy = \<lparr>enabled = False, from_len = 0, to_len = 0, from_path = [], to_path = []\<rparr>"

text \<open>\<open>snprintf(joined, sizeof(joined), "%s/%s", base, path)\<close>, then the cleaner.\<close>

definition join_and_clean_path :: "cstr \<Rightarrow> cstr \<Rightarrow> buffer option \<Rightarrow> nat \<Rightarrow> (int \<times> buffer option) option" where
  "join_and_clean_path base path d dst_len =
     (case (base, path, d) of
        (Some s, Some p, Some b) \<Rightarrow> do {
          (r, joined) \<leftarrow> snprintf (new_buffer PATH_MAX) PATH_MAX (s @ SLASH # p);
          if r \<ge> int PATH_MAX then Some (-1, d)
          else do {
            j \<leftarrow> c_string joined;
            clean_path_into (Some j) (Some b) dst_len } }
      | _ \<Rightarrow> Some (-1, d))"

text \<open>\<open>strncmp(s, t, n) == 0\<close> on terminated strings.\<close>

definition strncmp_eq :: "string \<Rightarrow> string \<Rightarrow> nat \<Rightarrow> bool" where
  "strncmp_eq s t n \<longleftrightarrow> take n s = take n t"

definition path_matches_prefix :: "string \<Rightarrow> string \<Rightarrow> nat \<Rightarrow> bool option" where
  "path_matches_prefix path pfx prefix_len =
     (if \<not> strncmp_eq path pfx prefix_len then Some False
      else do { c \<leftarrow> char_at path prefix_len; Some (c = NUL \<or> c = SLASH) })"

text \<open>The first \<open>n\<close> bytes of a string, as the source operand of a \<open>memcpy\<close>.\<close>

definition bytes_of :: "string \<Rightarrow> nat \<Rightarrow> string option" where
  "bytes_of s n = (if n \<le> length s then Some (take n s) else None)"

definition substitute_prefix :: "rewrite_policy \<Rightarrow> string \<Rightarrow> buffer \<Rightarrow> nat \<Rightarrow> (int \<times> buffer) option" where
  "substitute_prefix pol path d dst_len = do {
     m \<leftarrow> (if \<not> enabled pol then Some False
           else path_matches_prefix path (from_path pol) (from_len pol));
     if \<not> m then Some (-1, d)
     else
       (let suffix = drop (from_len pol) path; suffix_len = length suffix
        in if to_len pol + suffix_len + 1 > dst_len then Some (-1, d)
           else do {
             t \<leftarrow> bytes_of (to_path pol) (to_len pol);
             d \<leftarrow> copy_in d 0 t;
             d \<leftarrow> copy_in d (to_len pol) (suffix @ [NUL]);
             Some (0, d) }) }"

definition substitute_prefix_reverse :: "rewrite_policy \<Rightarrow> string \<Rightarrow> buffer \<Rightarrow> nat \<Rightarrow> (int \<times> buffer) option" where
  "substitute_prefix_reverse pol path d dst_len = do {
     m \<leftarrow> (if \<not> enabled pol then Some False
           else path_matches_prefix path (to_path pol) (to_len pol));
     if \<not> m then Some (-1, d)
     else
       (let suffix = drop (to_len pol) path; suffix_len = length suffix
        in if from_len pol + suffix_len + 1 > dst_len then Some (-1, d)
           else do {
             f \<leftarrow> bytes_of (from_path pol) (from_len pol);
             d \<leftarrow> copy_in d 0 f;
             d \<leftarrow> copy_in d (from_len pol) (suffix @ [NUL]);
             Some (0, d) }) }"

text \<open>The initialiser; \<open>getenv\<close> is the environment it reads.\<close>

definition init_rewrite_policy :: "(string \<Rightarrow> cstr) \<Rightarrow> rewrite_policy option" where
  "init_rewrite_policy getenv =
     (case (getenv ''LD_PRELOAD_REWRITE_FROM'', getenv ''LD_PRELOAD_REWRITE_TO'') of
        (Some from_env, Some to_env) \<Rightarrow>
          if char_at from_env 0 = Some NUL \<or> char_at to_env 0 = Some NUL then Some no_policy
          else if \<not> starts_with_slash from_env \<or> \<not> starts_with_slash to_env then Some no_policy
          else do {
            (rc, cleaned_from) \<leftarrow> into_array (clean_path_into (Some from_env)) (new_buffer PATH_MAX) PATH_MAX;
            if rc \<noteq> 0 then Some no_policy
            else do {
              (rc, cleaned_to) \<leftarrow> into_array (clean_path_into (Some to_env)) (new_buffer PATH_MAX) PATH_MAX;
              if rc \<noteq> 0 then Some no_policy
              else do {
                f \<leftarrow> c_string cleaned_from;
                t \<leftarrow> c_string cleaned_to;
                if \<not> starts_with_slash f \<or> \<not> starts_with_slash t then Some no_policy
                else Some \<lparr>enabled = True, from_len = length f, to_len = length t,
                           from_path = f, to_path = t\<rparr> } } }
      | _ \<Rightarrow> Some no_policy)"

section \<open>The join\<close>

definition join_spec :: "nat \<Rightarrow> string \<times> string \<Rightarrow> string option" where
  "join_spec n i =
     (let (base, path) = i; full = base @ SLASH # path
      in if int (length full) > INT_MAX then clean_spec n (take (PATH_MAX - 1) full)
         else if length full \<ge> PATH_MAX then None
         else clean_spec n full)"

lemma INT_MAX_ge: "int PATH_MAX \<le> INT_MAX"
  by (simp add: INT_MAX_def PATH_MAX_def)

lemma join_and_clean_path_eq:
  assumes "c_ok base" "c_ok path"
  shows "join_and_clean_path (Some base) (Some path) (Some b) n =
     (let full = base @ SLASH # path
      in if int (length full) > INT_MAX then clean_path_into (Some (take (PATH_MAX - 1) full)) (Some b) n
         else if length full \<ge> PATH_MAX then Some (-1, Some b)
         else clean_path_into (Some full) (Some b) n)"
proof -
  let ?full = "base @ SLASH # path"
  obtain j where j: "snprintf (new_buffer PATH_MAX) PATH_MAX ?full =
        Some (if int (length ?full) \<le> INT_MAX then int (length ?full) else -1, j)"
      "holds j (take (PATH_MAX - 1) ?full @ [NUL])"
    using snprintf_total [of PATH_MAX "new_buffer PATH_MAX" ?full] by auto
  have "c_ok ?full" using assms by simp
  then have "c_string j = Some (take (PATH_MAX - 1) ?full)"
    using c_string_holds [OF j(2)] c_ok_take by blast
  then show ?thesis using INT_MAX_ge
    unfolding join_and_clean_path_def j(1) option.case prod.case by (simp add: j(1) Let_def)
qed

lemma c_ok_join: "c_ok base \<Longrightarrow> c_ok path \<Longrightarrow> c_ok (take n (base @ SLASH # path))"
  by (rule c_ok_take) simp

interpretation joiner: string_writer
  "\<lambda>(base, path). into_array (join_and_clean_path (Some base) (Some path))"
  join_spec "\<lambda>(base, path). c_ok base \<and> c_ok path"
proof unfold_locales
  fix i b n r
  assume good: "case i of (base, path) \<Rightarrow> c_ok base \<and> c_ok path"
  obtain base path where i: "i = (base, path)" by (cases i)
  from good have ok: "c_ok base" "c_ok path" by (simp_all add: i)
  note eq = join_and_clean_path_eq [OF ok] and okf = c_ok_join [OF ok, of "PATH_MAX - 1"]
  have okg: "c_ok (base @ SLASH # path)" using ok by simp
  show "\<exists>b'. (case i of (base, path) \<Rightarrow> into_array (join_and_clean_path (Some base) (Some path))) b n
        = Some (-1, b') \<and> cap b' = cap b"
    if "n \<le> cap b" "join_spec n i = None"
    using that cleaner.refuses [OF okf, of n b] cleaner.refuses [OF okg, of n b]
    by (auto simp: i join_spec_def into_array_def eq Let_def split: if_splits)
  show "\<exists>b'. (case i of (base, path) \<Rightarrow> into_array (join_and_clean_path (Some base) (Some path))) b n
        = Some (0, b') \<and> cap b' = cap b \<and> holds b' (r @ [NUL])"
    if "n \<le> cap b" "join_spec n i = Some r"
    using that cleaner.writes [OF okf, of n b r] cleaner.writes [OF okg, of n b r]
    by (auto simp: i join_spec_def into_array_def eq Let_def split: if_splits)
  show "c_ok r \<and> length r < n" if "join_spec n i = Some r"
    using that cleaner.result_ok [OF okf, of n r] cleaner.result_ok [OF okg, of n r]
    by (auto simp: i join_spec_def Let_def split: if_splits)
qed

text \<open>The joined path names the place the walk from the base reaches.\<close>

lemma join_spec_location:
  assumes "join_spec n (base, path) = Some r" "starts_with_slash base"
    and "int (length base + length path + 1) \<le> INT_MAX"
  shows "location r = walk (location base) (segments path)" "starts_with_slash r"
    "r = SLASH # join_path (location r) \<or> location r \<noteq> [] \<and> r = SLASH # join_path (location r) @ [SLASH]"
proof -
  let ?full = "base @ SLASH # path"
  have r: "clean_spec n ?full = Some r"
    using assms by (auto simp: join_spec_def Let_def split: if_splits)
  have abs: "starts_with_slash ?full" using assms(2) by (auto simp: starts_with_slash_iff)
  have "location ?full = walk (location base) (segments path)"
    by (simp add: location_def segments_append_slash)
  then show "location r = walk (location base) (segments path)" "starts_with_slash r"
      "r = SLASH # join_path (location r) \<or> location r \<noteq> [] \<and> r = SLASH # join_path (location r) @ [SLASH]"
    using clean_spec_location [OF r abs] clean_spec_canonical [OF r abs] by simp_all
qed

end
