(* ===== verification/Policy_Correct.thy ===== *)
theory Policy_Correct
  imports Rewrite_Policy
begin

text \<open>
  Correctness of the rewrite policy: the invariant the initialiser establishes, substitution
  as a redirection of places, its inverse, and the policies for which matching degenerates.
\<close>

section \<open>The invariant of the policy\<close>

text \<open>A prefix as the cleaner leaves it.\<close>

definition cleaned :: "string \<Rightarrow> bool" where
  "cleaned p \<longleftrightarrow> c_ok p \<and> length p < PATH_MAX \<and>
     (p = SLASH # join_path (location p) \<or>
      location p \<noteq> [] \<and> p = SLASH # join_path (location p) @ [SLASH])"

definition policy_ok :: "rewrite_policy \<Rightarrow> bool" where
  "policy_ok pol \<longleftrightarrow> (enabled pol \<longrightarrow>
     from_len pol = length (from_path pol) \<and> to_len pol = length (to_path pol) \<and>
     cleaned (from_path pol) \<and> cleaned (to_path pol))"

lemma policy_ok_no_policy [simp]: "policy_ok no_policy"
  by (simp add: policy_ok_def no_policy_def)

lemma cleanedD:
  assumes "cleaned p"
  shows "c_ok p" "length p < PATH_MAX" "starts_with_slash p" "segments p = location p"
proof -
  have "p = contents True (location p) False \<or> p = contents True (location p) True"
    using assms by (auto simp: cleaned_def contents_def)
  then show "segments p = location p"
    using segments_contents [OF plain_seg_ok [OF location_plain]] by metis
  show "starts_with_slash p" using assms by (cases p) (auto simp: cleaned_def)
qed (use assms in \<open>simp_all add: cleaned_def\<close>)

lemma clean_spec_cleaned:
  assumes "clean_spec PATH_MAX src = Some r" "c_ok src" "starts_with_slash src"
  shows "cleaned r" "location r = location src"
  using clean_spec_location [OF assms(1,3)] clean_spec_canonical [OF assms(1,3)]
    clean_spec_length [OF assms(1)] clean_spec_c_ok [OF assms(1,2)]
  by (simp_all add: cleaned_def)

text \<open>A source prefix that ends in no separator; the root is not one.\<close>

definition proper_prefix :: "string \<Rightarrow> bool" where
  "proper_prefix p \<longleftrightarrow> last p \<noteq> SLASH"

lemma proper_prefix_form:
  assumes "cleaned p" "proper_prefix p"
  shows "p = SLASH # join_path (location p)" "location p \<noteq> []"
proof -
  show *: "p = SLASH # join_path (location p)"
    using assms by (auto simp: cleaned_def proper_prefix_def) (metis last_ConsR last_snoc append_is_Nil_conv not_Cons_self2)
  show "location p \<noteq> []" using * assms(2) by (auto simp: proper_prefix_def)
qed

section \<open>Matching and substitution on strings\<close>

text \<open>\<open>path\<close> is \<open>old\<close> or continues it with a separator.\<close>

definition under :: "string \<Rightarrow> string \<Rightarrow> bool" where
  "under old path \<longleftrightarrow> take (length old) path = old \<and>
     (drop (length old) path = [] \<or> starts_with_slash (drop (length old) path))"

definition subst_spec :: "string \<Rightarrow> string \<Rightarrow> nat \<Rightarrow> string \<Rightarrow> string option" where
  "subst_spec old new n path =
     (if under old path \<and> length new + length (drop (length old) path) < n
      then Some (new @ drop (length old) path) else None)"

definition forward_spec :: "nat \<Rightarrow> rewrite_policy \<times> string \<Rightarrow> string option" where
  "forward_spec n i = (if enabled (fst i) then subst_spec (from_path (fst i)) (to_path (fst i)) n (snd i) else None)"

definition backward_spec :: "nat \<Rightarrow> rewrite_policy \<times> string \<Rightarrow> string option" where
  "backward_spec n i = (if enabled (fst i) then subst_spec (to_path (fst i)) (from_path (fst i)) n (snd i) else None)"

lemma underE:
  assumes "under old path"
  obtains rest where "path = old @ rest" "drop (length old) path = rest"
    "rest = [] \<or> starts_with_slash rest"
  using assms by (metis under_def append_take_drop_id)

lemma under_append: "under old (old @ rest) \<longleftrightarrow> rest = [] \<or> starts_with_slash rest"
  by (simp add: under_def)

lemma under_refl [simp]: "under old old"
  by (simp add: under_def)

lemma path_matches_prefix_under:
  assumes "c_ok path"
  shows "path_matches_prefix path old (length old) = Some (under old path)"
proof (cases "take (length old) path = old")
  case True
  then have len: "length old \<le> length path" by (metis length_take min.cobounded1 min.absorb_iff2 nat_le_linear)
  show ?thesis
  proof (cases "length old = length path")
    case True
    then show ?thesis using \<open>take (length old) path = old\<close>
      by (simp add: path_matches_prefix_def strncmp_eq_def char_at_def under_def)
  next
    case False
    then have lt: "length old < length path" using len by simp
    then have "path ! length old \<noteq> NUL" using assms by (metis c_ok_def nth_mem)
    moreover have "drop (length old) path = path ! length old # drop (Suc (length old)) path"
      using lt by (simp add: Cons_nth_drop_Suc)
    ultimately show ?thesis using \<open>take (length old) path = old\<close> lt
      by (simp add: path_matches_prefix_def strncmp_eq_def char_at_def under_def)
  qed
qed (simp add: path_matches_prefix_def strncmp_eq_def under_def)

text \<open>The reverse substitution is the forward one of the swapped policy.\<close>

definition swap_policy :: "rewrite_policy \<Rightarrow> rewrite_policy" where
  "swap_policy pol = \<lparr>enabled = enabled pol, from_len = to_len pol, to_len = from_len pol,
     from_path = to_path pol, to_path = from_path pol\<rparr>"

lemma swap_policy_simps [simp]:
  "enabled (swap_policy pol) = enabled pol" "from_len (swap_policy pol) = to_len pol"
  "to_len (swap_policy pol) = from_len pol" "from_path (swap_policy pol) = to_path pol"
  "to_path (swap_policy pol) = from_path pol"
  by (simp_all add: swap_policy_def)

lemma substitute_prefix_reverse_swap:
  "substitute_prefix_reverse pol path d n = substitute_prefix (swap_policy pol) path d n"
  unfolding substitute_prefix_reverse_def substitute_prefix_def swap_policy_simps ..

lemma swap_policy_ok [simp]: "policy_ok (swap_policy pol) = policy_ok pol"
  by (auto simp: policy_ok_def swap_policy_def)

lemma backward_spec_swap: "backward_spec n (pol, path) = forward_spec n (swap_policy pol, path)"
  by (simp add: backward_spec_def forward_spec_def swap_policy_def)

lemma substitute_prefix_refused:
  assumes "policy_ok pol" "c_ok path" "forward_spec n (pol, path) = None"
  shows "substitute_prefix pol path b n = Some (-1, b)"
  using assms path_matches_prefix_under [OF assms(2), of "from_path pol"]
  by (auto simp: substitute_prefix_def forward_spec_def subst_spec_def policy_ok_def Let_def split: if_splits)

lemma substitute_prefix_written:
  assumes "policy_ok pol" "c_ok path" "n \<le> cap b" "forward_spec n (pol, path) = Some r"
  shows "\<exists>b'. substitute_prefix pol path b n = Some (0, b') \<and> cap b' = cap b \<and> holds b' (r @ [NUL])"
proof -
  let ?old = "from_path pol" and ?new = "to_path pol"
  let ?rest = "drop (length ?old) path"
  from assms(4) have en: "enabled pol" and un: "under ?old path"
      and len: "length ?new + length ?rest < n" and r: "r = ?new @ ?rest"
    by (auto simp: forward_spec_def subst_spec_def split: if_splits)
  from assms(1) en have pl: "from_len pol = length ?old" "to_len pol = length ?new"
    by (simp_all add: policy_ok_def)
  obtain d where d: "copy_in b 0 ?new = Some d" "cap d = cap b" "holds d ?new"
    using copy_in_holds [of b "[]" ?new] len assms(3) by auto
  have fits: "length ?new + length (?rest @ [NUL]) \<le> cap d"
    using len assms(3) d(2) by simp
  obtain e where e: "copy_in d (length ?new) (?rest @ [NUL]) = Some e" "cap e = cap d"
      "holds e (?new @ ?rest @ [NUL])"
    using copy_in_holds [OF d(3) fits] by auto
  have m: "path_matches_prefix path ?old (length ?old) = Some True"
    using path_matches_prefix_under [OF assms(2)] un by simp
  have b: "bytes_of ?new (length ?new) = Some ?new" by (simp add: bytes_of_def)
  have "substitute_prefix pol path b n = Some (0, e)"
    using len by (simp add: substitute_prefix_def en pl m b d e(1) Let_def del: length_drop)
  then show ?thesis using e d(2) r by simp
qed

lemma forward_spec_ok:
  "policy_ok pol \<Longrightarrow> c_ok path \<Longrightarrow> forward_spec n (pol, path) = Some r \<Longrightarrow> c_ok r \<and> length r < n"
  by (auto simp: forward_spec_def subst_spec_def policy_ok_def c_ok_drop dest: cleanedD split: if_splits)

lemma backward_spec_ok:
  "policy_ok pol \<Longrightarrow> c_ok path \<Longrightarrow> backward_spec n (pol, path) = Some r \<Longrightarrow> c_ok r \<and> length r < n"
  using forward_spec_ok [of "swap_policy pol" path n r] by (simp add: backward_spec_swap)

interpretation forward: string_writer
  "\<lambda>(pol, path). substitute_prefix pol path" forward_spec
  "\<lambda>(pol, path). policy_ok pol \<and> c_ok path"
  by unfold_locales
    (auto simp: substitute_prefix_refused substitute_prefix_written dest: forward_spec_ok)

interpretation backward: string_writer
  "\<lambda>(pol, path). substitute_prefix_reverse pol path" backward_spec
  "\<lambda>(pol, path). policy_ok pol \<and> c_ok path"
  by unfold_locales
    (auto simp: substitute_prefix_reverse_swap backward_spec_swap substitute_prefix_refused
      substitute_prefix_written dest: backward_spec_ok [unfolded backward_spec_swap])

section \<open>Substitution there and back\<close>

text \<open>
  Two string writers, the second of which undoes the first: \<open>ret i s\<close> is the input of the
  way back from the output \<open>s\<close> for \<open>i\<close>, \<open>orig i\<close> the string to come back.
\<close>

locale inverse_writers =
  way_there: string_writer w r g + way_back: string_writer w' r' g'
  for w :: "'i \<Rightarrow> buffer \<Rightarrow> nat \<Rightarrow> (int \<times> buffer) option" and r g
    and w' :: "'i \<Rightarrow> buffer \<Rightarrow> nat \<Rightarrow> (int \<times> buffer) option" and r' g' +
  fixes orig :: "'i \<Rightarrow> string" and ret :: "'i \<Rightarrow> string \<Rightarrow> 'i"
  assumes good_back: "g i \<Longrightarrow> r n i = Some s \<Longrightarrow> g' (ret i s)"
    and undoes: "g i \<Longrightarrow> r n i = Some s \<Longrightarrow> length (orig i) < m \<Longrightarrow> r' m (ret i s) = Some (orig i)"
begin

lemma round_trip:
  assumes "g i" "read_back (w i) n = Some (Some s)" "length (orig i) < m"
  shows "read_back (w' (ret i s)) m = Some (Some (orig i))"
proof -
  have "r n i = Some s" using assms(2) way_there.read_back_result [OF assms(1)] by simp
  with assms(1,3) show ?thesis
    using good_back undoes way_back.read_back_result by metis
qed

end

lemma subst_spec_back:
  "subst_spec old new n path = Some s \<Longrightarrow> length path < m \<Longrightarrow> subst_spec new old m s = Some path"
  by (auto simp: subst_spec_def under_append elim!: underE split: if_splits)

interpretation forward_then_back: inverse_writers
  "\<lambda>(pol, path). substitute_prefix pol path" forward_spec "\<lambda>(pol, path). policy_ok pol \<and> c_ok path"
  "\<lambda>(pol, path). substitute_prefix_reverse pol path" backward_spec "\<lambda>(pol, path). policy_ok pol \<and> c_ok path"
  snd "\<lambda>i s. (fst i, s)"
  by unfold_locales
    (auto simp: forward_spec_def backward_spec_def dest: forward_spec_ok intro: subst_spec_back split: if_splits)

interpretation back_then_forward: inverse_writers
  "\<lambda>(pol, path). substitute_prefix_reverse pol path" backward_spec "\<lambda>(pol, path). policy_ok pol \<and> c_ok path"
  "\<lambda>(pol, path). substitute_prefix pol path" forward_spec "\<lambda>(pol, path). policy_ok pol \<and> c_ok path"
  snd "\<lambda>i s. (fst i, s)"
  by unfold_locales
    (auto simp: forward_spec_def backward_spec_def dest: backward_spec_ok intro: subst_spec_back split: if_splits)

section \<open>Substitution as a redirection of places\<close>

text \<open>Everything at or below \<open>A\<close> is moved to the same place below \<open>B\<close>.\<close>

definition redirect :: "string list \<Rightarrow> string list \<Rightarrow> string list \<Rightarrow> string list option" where
  "redirect A B place = (if prefix A place then Some (B @ drop (length A) place) else None)"

lemma under_segments:
  assumes "under old path"
  shows "segments path = segments old @ segments (drop (length old) path)"
  using assms by (rule underE) (auto simp: starts_with_slash_iff segments_append_slash)

lemma join_path_append:
  "xs \<noteq> [] \<Longrightarrow> ys \<noteq> [] \<Longrightarrow> join_path (xs @ ys) = join_path xs @ SLASH # join_path ys"
proof (induction xs rule: join_path.induct)
  case (2 x)
  then show ?case by (cases ys) auto
qed auto

lemma under_iff_prefix:
  assumes "old = SLASH # join_path A" "A \<noteq> []" "\<forall>x \<in> set A. seg_ok x"
    and "path = contents True L tr" "\<forall>x \<in> set L. seg_ok x"
  shows "under old path \<longleftrightarrow> prefix A L"
proof
  assume u: "under old path"
  have "segments old = A" "segments path = L"
    using assms by (simp_all add: segments_join segments_contents)
  with under_segments [OF u] show "prefix A L" by (auto simp: prefix_def)
next
  assume "prefix A L"
  then obtain M where L: "L = A @ M" by (auto simp: prefix_def)
  have "path = old @ (if M = [] then [] else SLASH # join_path M) @ (if tr then [SLASH] else [])"
    using assms(1,2,4) L by (auto simp: contents_def join_path_append)
  then show "under old path" by (auto simp: under_append)
qed

text \<open>What the forward substitution does to places, for a source prefix without final separator.\<close>

lemma forward_spec_redirect:
  assumes ok: "policy_ok pol" and en: "enabled pol" and pp: "proper_prefix (from_path pol)"
    and path: "path = contents True (location path) tr"
  shows "case redirect (location (from_path pol)) (location (to_path pol)) (location path) of
           None \<Rightarrow> forward_spec n (pol, path) = None
         | Some place \<Rightarrow>
             (if to_len pol + length path - from_len pol < n
              then \<exists>r. forward_spec n (pol, path) = Some r \<and> location r = place \<and> segments r = place \<and> starts_with_slash r
              else forward_spec n (pol, path) = None)"
proof -
  let ?f = "from_path pol" and ?t = "to_path pol"
  from ok en have f: "cleaned ?f" and t: "cleaned ?t" and fl: "from_len pol = length ?f"
    and tl: "to_len pol = length ?t"
    by (simp_all add: policy_ok_def)
  note pf = proper_prefix_form [OF f pp]
  have segp: "segments path = location path"
    using segments_contents [OF plain_seg_ok [OF location_plain]] path by metis
  have un: "under ?f path \<longleftrightarrow> prefix (location ?f) (location path)"
    using under_iff_prefix [OF pf plain_seg_ok [OF location_plain] path plain_seg_ok [OF location_plain]] .
  show ?thesis
  proof (cases "under ?f path")
    case False
    then show ?thesis using un by (simp add: redirect_def forward_spec_def subst_spec_def)
  next
    case True
    let ?rest = "drop (length ?f) path" and ?r = "?t @ drop (length ?f) path"
    from True obtain rest where split: "path = ?f @ rest" "?rest = rest" "rest = [] \<or> starts_with_slash rest"
      by (rule underE)
    have segr: "segments path = location ?f @ segments rest"
      using under_segments [OF True] split(2) cleanedD(4) [OF f] by simp
    have place: "location ?t @ drop (length (location ?f)) (location path) = location ?t @ segments rest"
      using segr segp by simp
    have "under ?t (?t @ rest)" using split(3) by (simp add: under_append)
    from under_segments [OF this] have segs: "segments (?t @ rest) = location ?t @ segments rest"
      using cleanedD(4) [OF t] by simp
    have "\<forall>x \<in> set (location ?t @ segments rest). plain_name x"
      using location_plain [of ?t] location_plain [of path] segr segp by auto
    then have "location (?t @ rest) = location ?t @ segments rest"
      by (simp add: location_def segs walk_plain del: walk_simps(3))
    moreover have "starts_with_slash (?t @ rest)" using cleanedD(3) [OF t] by (cases ?t) auto
    moreover have "to_len pol + length path - from_len pol = length ?t + length rest"
      using split(1) fl tl by simp
    ultimately show ?thesis
      using True un place en segs split(2) by (simp add: redirect_def forward_spec_def subst_spec_def)
  qed
qed

section \<open>Prefixes that end in a separator\<close>

fun single_slashes :: "string \<Rightarrow> bool" where
  "single_slashes [] = True"
| "single_slashes [a] = True"
| "single_slashes (a # b # s) = (\<not> (a = SLASH \<and> b = SLASH) \<and> single_slashes (b # s))"

lemma single_slashes_append:
  "single_slashes (xs @ ys) \<longleftrightarrow>
     single_slashes xs \<and> single_slashes ys \<and> \<not> (xs \<noteq> [] \<and> ys \<noteq> [] \<and> last xs = SLASH \<and> hd ys = SLASH)"
proof (induction xs rule: single_slashes.induct)
  case (2 a)
  then show ?case by (cases ys) auto
qed auto

lemma single_slashes_seg: "SLASH \<notin> set x \<Longrightarrow> single_slashes x"
  by (induction x rule: single_slashes.induct) auto

lemma join_path_ends:
  "\<forall>x \<in> set stk. seg_ok x \<Longrightarrow> stk \<noteq> [] \<Longrightarrow>
   join_path stk \<noteq> [] \<and> hd (join_path stk) \<noteq> SLASH \<and> last (join_path stk) \<noteq> SLASH"
proof (induction stk rule: join_path.induct)
  case (2 x)
  then show ?case by (auto simp: seg_ok_def dest: hd_in_set last_in_set)
next
  case (3 x y ys)
  then show ?case by (cases x) (auto simp: seg_ok_def)
qed simp

lemma single_slashes_join: "\<forall>x \<in> set stk. seg_ok x \<Longrightarrow> single_slashes (join_path stk)"
proof (induction stk rule: join_path.induct)
  case (2 x)
  then show ?case by (simp add: seg_ok_def single_slashes_seg)
next
  case (3 x y ys)
  let ?j = "join_path (y # ys)"
  have ends: "?j \<noteq> []" "hd ?j \<noteq> SLASH" using join_path_ends [of "y # ys"] 3(2) by auto
  have "single_slashes (SLASH # ?j)" using ends 3 by (cases ?j) auto
  moreover have "single_slashes x" "last x \<noteq> SLASH"
    using 3(2) by (auto simp: seg_ok_def single_slashes_seg dest: last_in_set)
  ultimately show ?case by (simp add: single_slashes_append)
qed simp

lemma cleaned_single_slashes:
  assumes "cleaned p"
  shows "single_slashes p"
proof -
  let ?j = "join_path (location p)"
  have ok: "\<forall>x \<in> set (location p). seg_ok x" by (rule plain_seg_ok [OF location_plain])
  have "single_slashes (SLASH # ?j)"
    using single_slashes_join [OF ok] join_path_ends [OF ok] by (cases ?j; cases "location p") auto
  moreover have "single_slashes (SLASH # ?j @ [SLASH])" if "location p \<noteq> []"
    using single_slashes_append [of "SLASH # ?j" "[SLASH]"] calculation join_path_ends [OF ok that] by simp
  ultimately show ?thesis using assms by (auto simp: cleaned_def)
qed

lemma cleaned_contents:
  assumes "cleaned p"
  obtains tr where "p = contents True (location p) tr"
  using assms that [of False] that [of True] by (auto simp: cleaned_def contents_def)

lemma under_slash_ended:
  assumes "cleaned path" "\<not> proper_prefix old" "old \<noteq> []" "under old path"
  shows "path = old"
proof -
  obtain rest where r: "path = old @ rest" "rest = [] \<or> starts_with_slash rest"
    using assms(4) by (rule underE) blast
  have "single_slashes (old @ rest)" using cleaned_single_slashes [OF assms(1)] r(1) by simp
  then have "\<not> (rest \<noteq> [] \<and> hd rest = SLASH)"
    using assms(2,3) by (simp add: single_slashes_append proper_prefix_def)
  with r show ?thesis by (auto simp: starts_with_slash_iff)
qed

section \<open>The initialiser\<close>

text \<open>A value of the environment that the initialiser accepts.\<close>

definition usable :: "cstr \<Rightarrow> bool" where
  "usable v = (case v of None \<Rightarrow> False
     | Some s \<Rightarrow> starts_with_slash s \<and> clean_spec PATH_MAX s \<noteq> None)"

text \<open>The values of the environment are C strings.\<close>

definition env_ok :: "(string \<Rightarrow> cstr) \<Rightarrow> bool" where
  "env_ok getenv \<longleftrightarrow> (\<forall>k v. getenv k = Some v \<longrightarrow> c_ok v)"

lemma env_okD: "env_ok getenv \<Longrightarrow> getenv k = Some v \<Longrightarrow> c_ok v"
  by (simp add: env_ok_def)

lemma into_array_fresh:
  assumes "c_ok s"
  obtains (refused) b where "clean_spec PATH_MAX s = None"
      "into_array (clean_path_into (Some s)) (new_buffer PATH_MAX) PATH_MAX = Some (-1, b)"
  | (cleaned) r b where "clean_spec PATH_MAX s = Some r"
      "into_array (clean_path_into (Some s)) (new_buffer PATH_MAX) PATH_MAX = Some (0, b)" "c_string b = Some r"
  using cleaner.write_cases [OF assms, of PATH_MAX "new_buffer PATH_MAX"] by (metis cap_new_buffer order_refl)

lemma init_rewrite_policy_unusable:
  assumes ok: "env_ok getenv"
    and no: "\<not> (usable (getenv ''LD_PRELOAD_REWRITE_FROM'') \<and> usable (getenv ''LD_PRELOAD_REWRITE_TO''))"
  shows "init_rewrite_policy getenv = Some no_policy"
proof (cases "getenv ''LD_PRELOAD_REWRITE_FROM''"; cases "getenv ''LD_PRELOAD_REWRITE_TO''")
  fix f t
  assume e: "getenv ''LD_PRELOAD_REWRITE_FROM'' = Some f" "getenv ''LD_PRELOAD_REWRITE_TO'' = Some t"
  note okf = env_okD [OF ok e(1)] and okt = env_okD [OF ok e(2)]
  show ?thesis
  proof (cases "starts_with_slash f \<and> starts_with_slash t")
    case False
    then show ?thesis using e by (auto simp: init_rewrite_policy_def)
  next
    case True
    then have "clean_spec PATH_MAX f = None \<or> clean_spec PATH_MAX t = None"
      using no e by (simp add: usable_def)
    then show ?thesis using True e
      by (cases rule: into_array_fresh [OF okf]; cases rule: into_array_fresh [OF okt])
        (auto simp: init_rewrite_policy_def)
  qed
qed (simp_all add: init_rewrite_policy_def)

lemma init_rewrite_policy_usable:
  assumes ok: "c_ok f" "c_ok t" and abs: "starts_with_slash f" "starts_with_slash t"
    and env: "getenv ''LD_PRELOAD_REWRITE_FROM'' = Some f" "getenv ''LD_PRELOAD_REWRITE_TO'' = Some t"
    and clean: "clean_spec PATH_MAX f = Some cf" "clean_spec PATH_MAX t = Some ct"
  shows "init_rewrite_policy getenv = Some \<lparr>enabled = True, from_len = length cf, to_len = length ct,
           from_path = cf, to_path = ct\<rparr>"
proof -
  have nz: "char_at f 0 \<noteq> Some NUL" "char_at t 0 \<noteq> Some NUL"
    using abs by (auto simp: starts_with_slash_def)
  note a = clean_spec_location(3) [OF clean(1) abs(1)] clean_spec_location(3) [OF clean(2) abs(2)]
  show ?thesis using env abs nz clean a
    by (cases rule: into_array_fresh [OF ok(1)]; cases rule: into_array_fresh [OF ok(2)])
      (simp_all add: init_rewrite_policy_def)
qed

lemma init_rewrite_policy_ok:
  assumes ok: "env_ok getenv"
  obtains pol where "init_rewrite_policy getenv = Some pol" "policy_ok pol"
    "enabled pol \<longleftrightarrow> usable (getenv ''LD_PRELOAD_REWRITE_FROM'') \<and> usable (getenv ''LD_PRELOAD_REWRITE_TO'')"
    "enabled pol \<Longrightarrow> location (from_path pol) = location (the (getenv ''LD_PRELOAD_REWRITE_FROM''))"
    "enabled pol \<Longrightarrow> location (to_path pol) = location (the (getenv ''LD_PRELOAD_REWRITE_TO''))"
    "\<not> enabled pol \<Longrightarrow> pol = no_policy"
proof (cases "usable (getenv ''LD_PRELOAD_REWRITE_FROM'') \<and> usable (getenv ''LD_PRELOAD_REWRITE_TO'')")
  case False
  show ?thesis
    by (rule that [OF init_rewrite_policy_unusable [OF ok False]]) (use False in \<open>auto simp: no_policy_def policy_ok_def\<close>)
next
  case True
  then obtain f t cf ct where e: "getenv ''LD_PRELOAD_REWRITE_FROM'' = Some f" "getenv ''LD_PRELOAD_REWRITE_TO'' = Some t"
      "starts_with_slash f" "starts_with_slash t" "clean_spec PATH_MAX f = Some cf" "clean_spec PATH_MAX t = Some ct"
    by (auto simp: usable_def split: option.splits)
  note okf = env_okD [OF ok e(1)] and okt = env_okD [OF ok e(2)]
  note cf = clean_spec_cleaned [OF e(5) okf e(3)] and ct = clean_spec_cleaned [OF e(6) okt e(4)]
  show ?thesis
    by (rule that [OF init_rewrite_policy_usable [OF okf okt e(3,4,1,2,5,6)]])
      (use True e cf ct in \<open>simp_all add: policy_ok_def\<close>)
qed

section \<open>Properties\<close>

text \<open>C18: the initialiser never goes out of bounds; it enables rewriting exactly when both
  variables are set to absolute paths that can be cleaned into PATH_MAX bytes, and otherwise
  leaves the empty policy. The lengths it stores are those of the strings, the stored prefixes
  are clean and name the places the two variables name.\<close>
theorem init_rewrite_policy_establishes:
  assumes "env_ok getenv"
  shows "\<exists>pol. init_rewrite_policy getenv = Some pol \<and> policy_ok pol \<and>
     (enabled pol \<longleftrightarrow> usable (getenv ''LD_PRELOAD_REWRITE_FROM'') \<and> usable (getenv ''LD_PRELOAD_REWRITE_TO'')) \<and>
     (if enabled pol
      then location (from_path pol) = location (the (getenv ''LD_PRELOAD_REWRITE_FROM'')) \<and>
           location (to_path pol) = location (the (getenv ''LD_PRELOAD_REWRITE_TO''))
      else pol = no_policy)"
proof -
  obtain pol where "init_rewrite_policy getenv = Some pol" "policy_ok pol"
    "enabled pol \<longleftrightarrow> usable (getenv ''LD_PRELOAD_REWRITE_FROM'') \<and> usable (getenv ''LD_PRELOAD_REWRITE_TO'')"
    "enabled pol \<Longrightarrow> location (from_path pol) = location (the (getenv ''LD_PRELOAD_REWRITE_FROM''))"
    "enabled pol \<Longrightarrow> location (to_path pol) = location (the (getenv ''LD_PRELOAD_REWRITE_TO''))"
    "\<not> enabled pol \<Longrightarrow> pol = no_policy"
    by (rule init_rewrite_policy_ok [OF assms]) blast
  then show ?thesis by auto
qed

definition example_env :: "string \<Rightarrow> cstr" where
  "example_env = [''LD_PRELOAD_REWRITE_FROM'' \<mapsto> ''/srv//data/.'', ''LD_PRELOAD_REWRITE_TO'' \<mapsto> ''/mnt/copy'']"

definition example_policy :: rewrite_policy where
  "example_policy = \<lparr>enabled = True, from_len = 9, to_len = 9, from_path = ''/srv/data'', to_path = ''/mnt/copy''\<rparr>"

lemma example_cleaned: "cleaned ''/srv/data''" "cleaned ''/mnt/copy''" "cleaned ''/srv/data/x''" "cleaned ''/''"
proof -
  have "location ''/srv/data'' = [''srv'', ''data'']" "location ''/mnt/copy'' = [''mnt'', ''copy'']"
    "location ''/srv/data/x'' = [''srv'', ''data'', ''x'']" "location ''/'' = []"
    by code_simp+
  then show "cleaned ''/srv/data''" "cleaned ''/mnt/copy''" "cleaned ''/srv/data/x''" "cleaned ''/''"
    by (simp_all add: cleaned_def c_ok_def PATH_MAX_def)
qed

lemma example_policy_ok: "policy_ok example_policy"
  by (simp add: policy_ok_def example_policy_def example_cleaned)

theorem init_rewrite_policy_establishes_witness:
  "\<exists>pol. init_rewrite_policy example_env = Some pol \<and> policy_ok pol \<and> enabled pol"
proof -
  have ok: "env_ok example_env"
    by (auto simp: env_ok_def example_env_def c_ok_def split: if_splits)
  have "usable (example_env ''LD_PRELOAD_REWRITE_FROM'')" "usable (example_env ''LD_PRELOAD_REWRITE_TO'')"
    using clean_spec_fits [of "''/srv//data/.''" PATH_MAX] clean_spec_fits [of "''/mnt/copy''" PATH_MAX]
    by (simp_all add: usable_def example_env_def PATH_MAX_def)
  then show ?thesis using init_rewrite_policy_establishes [OF ok] by blast
qed

text \<open>C12: on a clean path the substitution is the redirection of places: it answers exactly for
  the places at or below the source prefix (so \<open>/a/b\<close> does not capture \<open>/a/b2\<close>), and its
  answer names the same place below the target prefix, provided the result fits the array.\<close>
theorem substitute_prefix_redirects:
  assumes "policy_ok pol" and "enabled pol" and "proper_prefix (from_path pol)"
    and "cleaned path" and "to_len pol + length path - from_len pol < n"
  shows "\<exists>r. read_back (substitute_prefix pol path) n = Some r \<and>
           map_option location r = redirect (location (from_path pol)) (location (to_path pol)) (location path)"
proof -
  obtain tr where tr: "path = contents True (location path) tr" using assms(4) by (rule cleaned_contents)
  have "read_back (substitute_prefix pol path) n = Some (forward_spec n (pol, path))"
    using forward.read_back_result [of "(pol, path)" n] assms(1) cleanedD(1) [OF assms(4)] by simp
  then show ?thesis using forward_spec_redirect [OF assms(1-3) tr, of n] assms(5)
    by (auto split: option.splits)
qed

theorem substitute_prefix_redirects_witness:
  "\<exists>r. read_back (substitute_prefix example_policy ''/srv/data/x'') 64 = Some r \<and>
     map_option location r = Some [''mnt'', ''copy'', ''x'']"
proof -
  have "redirect (location ''/srv/data'') (location ''/mnt/copy'') (location ''/srv/data/x'')
      = Some [''mnt'', ''copy'', ''x'']"
    by code_simp
  with substitute_prefix_redirects [of example_policy "''/srv/data/x''" 64] show ?thesis
    using example_policy_ok by (simp add: example_policy_def proper_prefix_def example_cleaned)
qed

text \<open>C23: the two substitutions are inverse: what the forward one produced, the reverse one takes
  back to the path it came from, for every valid policy and every path.\<close>
theorem substitute_prefix_reverse_undoes:
  assumes "policy_ok pol" and "c_ok path" and "read_back (substitute_prefix pol path) n = Some (Some r)"
    and "length path < m"
  shows "read_back (substitute_prefix_reverse pol r) m = Some (Some path)"
  using forward_then_back.round_trip [of "(pol, path)" n r m] assms by simp

theorem substitute_prefix_reverse_undoes_witness:
  "read_back (substitute_prefix_reverse example_policy ''/mnt/copy/x'') 64 = Some (Some ''/srv/data/x'')"
proof (rule substitute_prefix_reverse_undoes [OF example_policy_ok])
  show "read_back (substitute_prefix example_policy ''/srv/data/x'') 64 = Some (Some ''/mnt/copy/x'')"
    by code_simp
qed (simp_all add: c_ok_def)

text \<open>And the other way round: a path taken back by the reverse substitution is restored by
  the forward one.\<close>
theorem substitute_prefix_undoes_reverse:
  assumes "policy_ok pol" and "c_ok path" and "read_back (substitute_prefix_reverse pol path) n = Some (Some r)"
    and "length path < m"
  shows "read_back (substitute_prefix pol r) m = Some (Some path)"
  using back_then_forward.round_trip [of "(pol, path)" n r m] assms by simp

theorem substitute_prefix_undoes_reverse_witness:
  "read_back (substitute_prefix example_policy ''/srv/data'') 64 = Some (Some ''/mnt/copy'')"
proof (rule substitute_prefix_undoes_reverse [OF example_policy_ok])
  show "read_back (substitute_prefix_reverse example_policy ''/mnt/copy'') 64 = Some (Some ''/srv/data'')"
    by code_simp
qed (simp_all add: c_ok_def)

text \<open>C39: a source prefix that ends in a separator, such as the root, captures nothing below
  itself: the only clean path it matches is the prefix string itself, because the byte after a
  match must again be a separator.\<close>
theorem substitute_prefix_slash_ended:
  assumes "policy_ok pol" and "enabled pol" and "\<not> proper_prefix (from_path pol)"
    and "cleaned path" and "read_back (substitute_prefix pol path) n = Some (Some r)"
  shows "path = from_path pol"
proof -
  have "read_back (substitute_prefix pol path) n = Some (forward_spec n (pol, path))"
    using forward.read_back_result [of "(pol, path)" n] assms(1) cleanedD(1) [OF assms(4)] by simp
  then have "under (from_path pol) path" using assms(2,5)
    by (auto simp: forward_spec_def subst_spec_def split: if_splits)
  moreover have "from_path pol \<noteq> []" using assms(1,2) by (auto simp: policy_ok_def dest: cleanedD(3))
  ultimately show ?thesis using under_slash_ended assms(3,4) by blast
qed

theorem substitute_prefix_slash_ended_witness:
  "''/'' = from_path \<lparr>enabled = True, from_len = 1, to_len = 9, from_path = ''/'', to_path = ''/mnt/copy''\<rparr> \<and>
   read_back (substitute_prefix \<lparr>enabled = True, from_len = 1, to_len = 9, from_path = ''/'', to_path = ''/mnt/copy''\<rparr>
     ''/srv/data'') 64 = Some None"
proof
  let ?p = "\<lparr>enabled = True, from_len = 1, to_len = 9, from_path = ''/'', to_path = ''/mnt/copy''\<rparr>"
  have "read_back (substitute_prefix ?p ''/'') 64 = Some (Some ''/mnt/copy'')" by code_simp
  then show "''/'' = from_path ?p"
    by (rule substitute_prefix_slash_ended [rotated -1])
      (simp_all add: policy_ok_def example_cleaned proper_prefix_def)
  show "read_back (substitute_prefix ?p ''/srv/data'') 64 = Some None" by code_simp
qed

text \<open>Joining a relative path to an absolute base and cleaning gives the place that the walk
  along the path reaches from the base, whenever the joined text is short enough to be counted
  by an \<open>int\<close>; the result is clean.\<close>
theorem join_and_clean_path_walks:
  assumes "c_ok base" and "c_ok path" and "starts_with_slash base"
    and "int (length base + length path + 1) \<le> INT_MAX"
    and "read_back (into_array (join_and_clean_path (Some base) (Some path))) PATH_MAX = Some (Some r)"
  shows "location r = walk (location base) (segments path) \<and> cleaned r"
proof -
  have r: "join_spec PATH_MAX (base, path) = Some r"
    using joiner.read_back_result [of "(base, path)" PATH_MAX] assms(1,2,5) by simp
  have "c_ok r \<and> length r < PATH_MAX" using joiner.result_ok [of "(base, path)" PATH_MAX r] r assms(1,2) by simp
  then show ?thesis using join_spec_location [OF r assms(3,4)] by (simp add: cleaned_def)
qed

theorem join_and_clean_path_walks_witness:
  "location ''/srv/data'' = walk (location ''/srv/tmp'') (segments ''.././data'') \<and> cleaned ''/srv/data''"
proof (rule join_and_clean_path_walks)
  have "read_back (into_array (join_and_clean_path (Some ''/srv/tmp'') (Some ''.././data''))) PATH_MAX
      = Some (join_spec PATH_MAX (''/srv/tmp'', ''.././data''))"
    using joiner.read_back_result [of "(''/srv/tmp'', ''.././data'')" PATH_MAX] by (simp add: c_ok_def)
  also have "join_spec PATH_MAX (''/srv/tmp'', ''.././data'') = Some ''/srv/data''"
    by (simp add: join_spec_def clean_spec_def segments.simps seg_step_def contents_def PATH_MAX_def INT_MAX_def)
  finally show "read_back (into_array (join_and_clean_path (Some ''/srv/tmp'') (Some ''.././data''))) PATH_MAX
      = Some (Some ''/srv/data'')" .
qed (simp_all add: c_ok_def INT_MAX_def)

end
