(* ===== verification/Libc_Process.thy ===== *)
theory Libc_Process
  imports Policy_Correct
begin

text \<open>
  The process state of the interposer (the static variables of rtld_linux.c) and the libc
  behind it. The libc is a parameter: what \<open>dlsym(RTLD_NEXT, ...)\<close> answers, what a call
  through a function pointer does to the world, what \<open>getenv\<close> reads. Its assumed laws are
  collected in \<open>libc_ok\<close>.
\<close>

section \<open>The real functions\<close>

text \<open>One constructor per static function pointer \<open>real_*\<close>.\<close>

datatype (plugins only: code size) slot =
  Real_fxstat | Real_fxstatat | Real_newfstatat | Real_lxstat | Real_xstat | Real_access |
  Real_chdir | Real_execve | Real_close | Real_creat | Real_fstat | Real_faccessat |
  Real_fchmodat | Real_link | Real_linkat | Real_lseek | Real_mkdir | Real_mkdirat | Real_open
  | Real_openat | Real_openat2 | Real_pread | Real_pwrite | Real_getcwd | Real_read |
  Real_readlink | Real_readlinkat | Real_rename | Real_renameat | Real_renameat2 | Real_rmdir |
  Real_lstat | Real_stat | Real_statx | Real_statfs | Real_symlink | Real_symlinkat |
  Real_truncate | Real_unlink | Real_unlinkat | Real_utimensat | Real_euidaccess | Real_write

type_synonym addr = u64

text \<open>
  An argument or result of a call through a pointer: an \<open>int\<close> (also \<open>mode_t\<close> and \<open>unsigned\<close>),
  a 64-bit integer (\<open>size_t\<close>, \<open>off_t\<close>, \<open>ssize_t\<close>), a path, or a pointer passed on unread.
\<close>

datatype cval = I32 i32 | I64 u64 | Path cstr | Ptr u64

text \<open>
  The libc. \<open>invoke\<close> is a call through a pointer that only forwards; \<open>call_getcwd\<close> and
  \<open>call_readlink\<close> are the calls whose output bytes the interposer itself reads: the string
  \<open>getcwd\<close> stored, or NULL, and the result and bytes of \<open>readlink\<close>; \<open>alloc_getcwd\<close> is
  \<open>getcwd(NULL, n)\<close>, which allocates the array it returns. The world holds
  everything else: kernel, errno, environment, the caller's memory.
\<close>

record 'w libc =
  dlsym :: "string \<Rightarrow> addr"
  invoke :: "addr \<Rightarrow> cval list \<Rightarrow> 'w \<Rightarrow> cval \<times> 'w"
  call_getcwd :: "addr \<Rightarrow> nat \<Rightarrow> 'w \<Rightarrow> cstr \<times> 'w"
  alloc_getcwd :: "addr \<Rightarrow> nat \<Rightarrow> 'w \<Rightarrow> cstr \<times> 'w"
  call_readlink :: "addr \<Rightarrow> string \<Rightarrow> nat \<Rightarrow> 'w \<Rightarrow> (int \<times> string) \<times> 'w"
  getenv :: "'w \<Rightarrow> string \<Rightarrow> cstr"
  set_errno :: "i32 \<Rightarrow> 'w \<Rightarrow> 'w"

text \<open>Documented behaviour of the libc: environment values are C strings, \<open>getcwd\<close> stores a
  string that fits with its terminator, \<open>readlink\<close> answers -1 and
  stores nothing, or the number of bytes stored.\<close>

definition libc_ok :: "'w libc \<Rightarrow> bool" where
  "libc_ok L \<longleftrightarrow>
     (\<forall>w. env_ok (getenv L w)) \<and>
     (\<forall>a n w. case call_getcwd L a n w of (None, _) \<Rightarrow> True | (Some s, _) \<Rightarrow> c_ok s \<and> length s < n) \<and>
     (\<forall>a p n w. case call_readlink L a p n w of
        ((k, bytes), _) \<Rightarrow> (k = -1 \<and> bytes = []) \<or> (0 \<le> k \<and> k \<le> int n \<and> int (length bytes) = k \<and> c_ok bytes))"

section \<open>The process\<close>

record 'w process =
  resolved :: bool          \<comment> \<open>\<open>resolve_once\<close> has run\<close>
  policy_ready :: bool      \<comment> \<open>\<open>rewrite_once\<close> has run\<close>
  real_fn :: "slot \<Rightarrow> addr"
  policy :: rewrite_policy
  world :: 'w

text \<open>The statics when the library is loaded.\<close>

definition fresh_process :: "'w \<Rightarrow> 'w process" where
  "fresh_process w = \<lparr>resolved = False, policy_ready = False, real_fn = (\<lambda>_. 0), policy = no_policy, world = w\<rparr>"

text \<open>\<open>pthread_once\<close>: run the initialiser unless it ran before.\<close>

definition run_once :: "('s \<Rightarrow> bool) \<Rightarrow> ('s \<Rightarrow> 's option) \<Rightarrow> 's \<Rightarrow> 's option" where
  "run_once has_run init s = (if has_run s then Some s else init s)"

locale once_control =
  fixes has_run :: "'s \<Rightarrow> bool" and init :: "'s \<Rightarrow> 's option"
  assumes init_sets: "init s = Some s' \<Longrightarrow> has_run s'"
begin

lemma once_ran: "run_once has_run init s = Some s' \<Longrightarrow> has_run s'"
  by (auto simp: run_once_def init_sets split: if_splits)

lemma once_frozen: "has_run s \<Longrightarrow> run_once has_run init s = Some s"
  by (simp add: run_once_def)

lemma once_twice: "run_once has_run init s = Some s' \<Longrightarrow> run_once has_run init s' = Some s'"
  by (rule once_frozen) (rule once_ran)

end

section \<open>Resolving the real functions\<close>

text \<open>The assignments of \<open>resolve_symbols\<close>, in the order of the code.\<close>

definition symbol_table :: "(slot \<times> string) list" where
  "symbol_table =
    [(Real_fxstat, ''__fxstat''),
     (Real_fxstatat, ''__fxstatat''),
     (Real_newfstatat, ''newfstatat''),
     (Real_lxstat, ''__lxstat''),
     (Real_xstat, ''__xstat''),
     (Real_access, ''access''),
     (Real_chdir, ''chdir''),
     (Real_execve, ''execve''),
     (Real_close, ''close''),
     (Real_creat, ''creat''),
     (Real_fstat, ''fstat''),
     (Real_faccessat, ''faccessat''),
     (Real_fchmodat, ''fchmodat''),
     (Real_link, ''link''),
     (Real_linkat, ''linkat''),
     (Real_lseek, ''lseek''),
     (Real_mkdir, ''mkdir''),
     (Real_mkdirat, ''mkdirat''),
     (Real_open, ''open''),
     (Real_openat, ''openat''),
     (Real_openat2, ''openat2''),
     (Real_pread, ''pread''),
     (Real_pwrite, ''pwrite''),
     (Real_getcwd, ''getcwd''),
     (Real_read, ''read''),
     (Real_readlink, ''readlink''),
     (Real_readlinkat, ''readlinkat''),
     (Real_rename, ''rename''),
     (Real_renameat, ''renameat''),
     (Real_renameat2, ''renameat2''),
     (Real_rmdir, ''rmdir''),
     (Real_lstat, ''lstat''),
     (Real_stat, ''stat''),
     (Real_statx, ''statx''),
     (Real_statfs, ''statfs''),
     (Real_symlink, ''symlink''),
     (Real_symlinkat, ''symlinkat''),
     (Real_truncate, ''truncate''),
     (Real_unlink, ''unlink''),
     (Real_unlinkat, ''unlinkat''),
     (Real_utimensat, ''utimensat''),
     (Real_euidaccess, ''euidaccess''),
     (Real_write, ''write'')]"

definition resolve_symbols :: "'w libc \<Rightarrow> 'w process \<Rightarrow> 'w process" where
  "resolve_symbols L s =
     fold (\<lambda>(sl, name) s. s\<lparr>real_fn := (real_fn s)(sl := dlsym L name)\<rparr>) symbol_table s"

definition ensure_symbols :: "'w libc \<Rightarrow> 'w process \<Rightarrow> 'w process option" where
  "ensure_symbols L = run_once resolved (\<lambda>s. Some ((resolve_symbols L s)\<lparr>resolved := True\<rparr>))"

text \<open>
  The table lists every pointer once. As an enumeration of the type it makes statements about all
  pointers, such as the invariant below, computable.
\<close>

lemma symbol_table_slots: "set (map fst symbol_table) = UNIV" "distinct (map fst symbol_table)"
proof -
  have "sl \<in> set (map fst symbol_table)" for sl by (cases sl) (simp_all add: symbol_table_def)
  then show "set (map fst symbol_table) = UNIV" by blast
  show "distinct (map fst symbol_table)" by (simp add: symbol_table_def)
qed

instantiation slot :: enum
begin

definition enum_slot :: "slot list" where
  "enum_slot = map fst symbol_table"

definition enum_all_slot :: "(slot \<Rightarrow> bool) \<Rightarrow> bool" where
  "enum_all_slot P \<longleftrightarrow> list_all P (map fst symbol_table)"

definition enum_ex_slot :: "(slot \<Rightarrow> bool) \<Rightarrow> bool" where
  "enum_ex_slot P \<longleftrightarrow> list_ex P (map fst symbol_table)"

instance
proof
  show "UNIV = set (enum_class.enum :: slot list)" "distinct (enum_class.enum :: slot list)"
    using symbol_table_slots by (simp_all add: enum_slot_def)
  show "enum_class.enum_all P \<longleftrightarrow> Ball UNIV P" "enum_class.enum_ex P \<longleftrightarrow> Bex UNIV P" for P :: "slot \<Rightarrow> bool"
    unfolding symbol_table_slots(1) [symmetric] by (simp_all add: enum_all_slot_def enum_ex_slot_def list_all_iff list_ex_iff)
qed

end

text \<open>The libc name of the function each pointer stands for.\<close>

primrec libc_name :: "slot \<Rightarrow> string" where
  "libc_name Real_fxstat = ''__fxstat''"
| "libc_name Real_fxstatat = ''__fxstatat''"
| "libc_name Real_newfstatat = ''newfstatat''"
| "libc_name Real_lxstat = ''__lxstat''"
| "libc_name Real_xstat = ''__xstat''"
| "libc_name Real_access = ''access''"
| "libc_name Real_chdir = ''chdir''"
| "libc_name Real_execve = ''execve''"
| "libc_name Real_close = ''close''"
| "libc_name Real_creat = ''creat''"
| "libc_name Real_fstat = ''fstat''"
| "libc_name Real_faccessat = ''faccessat''"
| "libc_name Real_fchmodat = ''fchmodat''"
| "libc_name Real_link = ''link''"
| "libc_name Real_linkat = ''linkat''"
| "libc_name Real_lseek = ''lseek''"
| "libc_name Real_mkdir = ''mkdir''"
| "libc_name Real_mkdirat = ''mkdirat''"
| "libc_name Real_open = ''open''"
| "libc_name Real_openat = ''openat''"
| "libc_name Real_openat2 = ''openat2''"
| "libc_name Real_pread = ''pread''"
| "libc_name Real_pwrite = ''pwrite''"
| "libc_name Real_getcwd = ''getcwd''"
| "libc_name Real_read = ''read''"
| "libc_name Real_readlink = ''readlink''"
| "libc_name Real_readlinkat = ''readlinkat''"
| "libc_name Real_rename = ''rename''"
| "libc_name Real_renameat = ''renameat''"
| "libc_name Real_renameat2 = ''renameat2''"
| "libc_name Real_rmdir = ''rmdir''"
| "libc_name Real_lstat = ''lstat''"
| "libc_name Real_stat = ''stat''"
| "libc_name Real_statx = ''statx''"
| "libc_name Real_statfs = ''statfs''"
| "libc_name Real_symlink = ''symlink''"
| "libc_name Real_symlinkat = ''symlinkat''"
| "libc_name Real_truncate = ''truncate''"
| "libc_name Real_unlink = ''unlink''"
| "libc_name Real_unlinkat = ''unlinkat''"
| "libc_name Real_utimensat = ''utimensat''"
| "libc_name Real_euidaccess = ''euidaccess''"
| "libc_name Real_write = ''write''"

lemma resolve_symbols_eq:
  "resolve_symbols L s = s\<lparr>real_fn := (\<lambda>sl. dlsym L (libc_name sl))\<rparr>"
proof -
  have "fold (\<lambda>(sl, name) s. s\<lparr>real_fn := (real_fn s)(sl := dlsym L name)\<rparr>) xs s =
      s\<lparr>real_fn := (\<lambda>sl. case map_of (rev xs) sl of None \<Rightarrow> real_fn s sl | Some name \<Rightarrow> dlsym L name)\<rparr>" for xs
    by (induction xs arbitrary: s) (auto simp: fun_eq_iff map_add_def split: option.splits)
  moreover have "map_of (rev symbol_table) sl = Some (libc_name sl)" for sl
    by (cases sl) (simp_all add: symbol_table_def)
  ultimately show ?thesis by (simp add: resolve_symbols_def)
qed

section \<open>The policy snapshot\<close>

definition get_rewrite_policy :: "'w libc \<Rightarrow> 'w process \<Rightarrow> 'w process option" where
  "get_rewrite_policy L = run_once policy_ready
     (\<lambda>s. do { pol \<leftarrow> init_rewrite_policy (getenv L (world s));
               Some (s\<lparr>policy := pol, policy_ready := True\<rparr>) })"

section \<open>What the two initialisers leave\<close>

interpretation symbols_once: once_control resolved "\<lambda>s. Some ((resolve_symbols L s)\<lparr>resolved := True\<rparr>)" for L
  by unfold_locales auto

interpretation policy_once: once_control policy_ready
  "\<lambda>s. do { pol \<leftarrow> init_rewrite_policy (getenv L (world s)); Some (s\<lparr>policy := pol, policy_ready := True\<rparr>) }" for L
  by unfold_locales (auto simp: bind_eq_Some_conv)

text \<open>The invariant of the statics.\<close>

definition process_ok :: "'w libc \<Rightarrow> 'w process \<Rightarrow> bool" where
  "process_ok L s \<longleftrightarrow>
     (if resolved s then \<forall>sl. real_fn s sl = dlsym L (libc_name sl) else real_fn s = (\<lambda>_. 0)) \<and>
     (if policy_ready s then policy_ok (policy s) else policy s = no_policy)"

text \<open>The table binds each pointer to its own name; checked over all of them by evaluation.\<close>

lemma symbol_table_bound: "\<forall>sl. map_of symbol_table sl = Some (libc_name sl)"
  by code_simp

lemma process_ok_fresh: "process_ok L (fresh_process w)"
  by (simp add: process_ok_def fresh_process_def)

definition with_symbols :: "'w libc \<Rightarrow> 'w process \<Rightarrow> 'w process" where
  "with_symbols L s = s\<lparr>resolved := True, real_fn := (\<lambda>sl. dlsym L (libc_name sl))\<rparr>"

text \<open>The policy in force: the snapshot, or what the initialiser makes of the environment now.\<close>

definition policy_of :: "'w libc \<Rightarrow> 'w process \<Rightarrow> rewrite_policy" where
  "policy_of L s = (if policy_ready s then policy s else the (init_rewrite_policy (getenv L (world s))))"

definition with_policy :: "'w libc \<Rightarrow> 'w process \<Rightarrow> 'w process" where
  "with_policy L s = s\<lparr>policy := policy_of L s, policy_ready := True\<rparr>"

lemma with_simps [simp]:
  "resolved (with_symbols L s)" "world (with_symbols L s) = world s"
  "real_fn (with_symbols L s) sl = dlsym L (libc_name sl)"
  "policy_ready (with_symbols L s) = policy_ready s" "policy (with_symbols L s) = policy s"
  "resolved (with_policy L s) = resolved s" "world (with_policy L s) = world s"
  "real_fn (with_policy L s) = real_fn s"
  "policy_ready (with_policy L s)" "policy (with_policy L s) = policy_of L s"
  by (simp_all add: with_symbols_def with_policy_def)

lemma policy_of_simps [simp]:
  "policy_of L (with_symbols L s) = policy_of L s" "policy_of L (with_policy L s) = policy_of L s"
  "policy_ready s \<Longrightarrow> policy_of L (s\<lparr>world := w\<rparr>) = policy s"
  "policy_ready s \<Longrightarrow> policy_of L s = policy s"
  by (simp_all add: policy_of_def with_policy_def with_symbols_def)

lemma with_idem:
  "with_policy L (with_policy L s) = with_policy L s"
  "with_symbols L (with_symbols L s) = with_symbols L s"
  "with_policy L (with_symbols L s) = with_symbols L (with_policy L s)"
  by (simp_all add: with_policy_def with_symbols_def policy_of_def)

lemma ensure_symbols_eq: "process_ok L s \<Longrightarrow> ensure_symbols L s = Some (with_symbols L s)"
  by (auto simp: ensure_symbols_def run_once_def resolve_symbols_eq with_symbols_def process_ok_def
      simp flip: fun_eq_iff intro!: process.equality)

lemma libc_okD:
  assumes "libc_ok L"
  shows "env_ok (getenv L w)"
    "call_getcwd L a n w = (Some str, w') \<Longrightarrow> c_ok str \<and> length str < n"
    "call_readlink L a p n w = ((k, bytes), w') \<Longrightarrow>
       (k = -1 \<and> bytes = []) \<or> (0 \<le> k \<and> k \<le> int n \<and> int (length bytes) = k \<and> c_ok bytes)"
  using assms by (fastforce simp: libc_ok_def split: prod.splits option.splits)+

lemma policy_of_ok:
  assumes "libc_ok L" "process_ok L s"
  shows "policy_ok (policy_of L s)"
proof (cases "policy_ready s")
  case False
  obtain pol where "init_rewrite_policy (getenv L (world s)) = Some pol" "policy_ok pol"
    using libc_okD(1) [OF assms(1)] by (rule init_rewrite_policy_ok) blast
  then show ?thesis using False by (simp add: policy_of_def)
qed (use assms(2) in \<open>simp add: process_ok_def\<close>)

lemma get_rewrite_policy_eq:
  assumes "libc_ok L" "process_ok L s"
  shows "get_rewrite_policy L s = Some (with_policy L s)"
proof (cases "policy_ready s")
  case False
  obtain pol where "init_rewrite_policy (getenv L (world s)) = Some pol"
    using libc_okD(1) [OF assms(1)] by (rule init_rewrite_policy_ok) blast
  then show ?thesis using False
    by (simp add: get_rewrite_policy_def run_once_def with_policy_def policy_of_def)
qed (simp add: get_rewrite_policy_def run_once_def with_policy_def policy_of_def)

lemma process_ok_with [simp]:
  "process_ok L s \<Longrightarrow> process_ok L (with_symbols L s)"
  "libc_ok L \<Longrightarrow> process_ok L s \<Longrightarrow> process_ok L (with_policy L s)"
  "process_ok L (s\<lparr>world := w\<rparr>) = process_ok L s"
  using policy_of_ok [of L s] by (auto simp: process_ok_def)

section \<open>Properties\<close>

lemma symbol_table_entry: "(sl, libc_name sl) \<in> set symbol_table"
  by (cases sl) (simp_all add: symbol_table_def)

lemma symbol_table_names: "distinct (map snd symbol_table)"
  by code_simp

text \<open>C32: resolving binds every function pointer to what the dynamic linker answers for the
  pointer's own libc name and changes nothing else; no two pointers share a name, so none of
  the 43 assignments resolves another function's symbol.\<close>
theorem resolve_symbols_binds_own_names:
  "resolve_symbols L s = s\<lparr>real_fn := (\<lambda>sl. dlsym L (libc_name sl))\<rparr> \<and> inj libc_name"
proof
  show "inj libc_name"
  proof (rule injI)
    fix a b assume "libc_name a = libc_name b"
    moreover have "inj_on snd (set symbol_table)" using symbol_table_names by (simp add: distinct_map)
    ultimately show "a = b"
      using inj_onD [of snd "set symbol_table" "(a, libc_name a)" "(b, libc_name b)"]
        symbol_table_entry [of a] symbol_table_entry [of b] by simp
  qed
qed (rule resolve_symbols_eq)

end
