(* ===== verification/Rewriting.thy ===== *)
theory Rewriting
  imports Libc_Process
begin

text \<open>
  The argument rewriters of rtld_linux.c: an absolute path, a path relative to a directory
  descriptor or to the working directory, and the three wrappers the exported functions
  call. Each threads the process (the two initialisers may run, \<open>getcwd\<close> and \<open>readlink\<close>
  are called) and the caller's array.
\<close>

section \<open>The C code\<close>

text \<open>\<open>AT_FDCWD\<close> of fcntl.h.\<close>

definition AT_FDCWD :: i32 where "AT_FDCWD = - 100"

definition rewrite_absolute_path ::
  "'w libc \<Rightarrow> cstr \<Rightarrow> buffer \<Rightarrow> nat \<Rightarrow> 'w process \<Rightarrow> (bool \<times> buffer \<times> 'w process) option" where
  "rewrite_absolute_path L pathname d dst_len s =
     (case pathname of
        None \<Rightarrow> Some (False, d, s)
      | Some p \<Rightarrow>
          if \<not> starts_with_slash p then Some (False, d, s)
          else do {
            s \<leftarrow> get_rewrite_policy L s;
            if \<not> enabled (policy s) then Some (False, d, s)
            else do {
              (rc, c) \<leftarrow> into_array (clean_path_into pathname) (new_buffer PATH_MAX) PATH_MAX;
              if rc \<noteq> 0 then Some (False, d, s)
              else do {
                c \<leftarrow> c_string c;
                (rc, d) \<leftarrow> substitute_prefix (policy s) c d dst_len;
                if rc \<noteq> 0 then Some (False, d, s) else Some (True, d, s) } } })"

text \<open>The base directory of a relative path: lines 370 to 376.\<close>

definition base_from_cwd :: "'w libc \<Rightarrow> 'w process \<Rightarrow> (buffer option \<times> 'w process) option" where
  "base_from_cwd L s =
     (if real_fn s Real_getcwd = 0 then Some (None, s)
      else
        (let (r, w) = call_getcwd L (real_fn s Real_getcwd) PATH_MAX (world s);
             s = s\<lparr>world := w\<rparr>
         in case r of
              None \<Rightarrow> Some (None, s)
            | Some cwd \<Rightarrow> do {
                base \<leftarrow> copy_in (new_buffer PATH_MAX) 0 (cwd @ [NUL]);
                Some (Some base, s) }))"

text \<open>Lines 389 to 399: what \<open>readlink\<close> stored becomes a clean base, or nothing.\<close>

definition base_from_link :: "int \<Rightarrow> buffer \<Rightarrow> buffer option option" where
  "base_from_link n base =
     (if n < 0 \<or> n \<ge> int PATH_MAX - 1 then Some None
      else do {
        base \<leftarrow> store base (nat n) NUL;
        c \<leftarrow> load base 0;
        if c \<noteq> SLASH then Some None
        else do {
          b \<leftarrow> c_string base;
          (rc, res) \<leftarrow> into_array (clean_path_into (Some b)) (new_buffer PATH_MAX) PATH_MAX;
          if rc \<noteq> 0 then Some None else Some (Some res) } })"

text \<open>Lines 377 to 400: the directory behind a descriptor, through \<open>/proc/self/fd\<close>.\<close>

definition base_from_fd :: "'w libc \<Rightarrow> i32 \<Rightarrow> 'w process \<Rightarrow> (buffer option \<times> 'w process) option" where
  "base_from_fd L dirfd s = do {
     (len, fd_path) \<leftarrow> snprintf (new_buffer 64) 64 (''/proc/self/fd/'' @ int_digits (sint dirfd));
     if len \<ge> 64 then Some (None, s)
     else do {
       s \<leftarrow> ensure_symbols L s;
       if real_fn s Real_readlink = 0 then Some (None, s)
       else do {
         fd_path \<leftarrow> c_string fd_path;
         let ((n, bytes), w) = call_readlink L (real_fn s Real_readlink) fd_path (PATH_MAX - 1) (world s);
         base \<leftarrow> copy_in (new_buffer PATH_MAX) 0 bytes;
         base \<leftarrow> base_from_link n base;
         Some (base, s\<lparr>world := w\<rparr>) } } }"

definition rewrite_relative_path_from_dirfd ::
  "'w libc \<Rightarrow> i32 \<Rightarrow> cstr \<Rightarrow> buffer \<Rightarrow> nat \<Rightarrow> 'w process \<Rightarrow> (bool \<times> buffer \<times> 'w process) option" where
  "rewrite_relative_path_from_dirfd L dirfd pathname d dst_len s =
     (case pathname of
        None \<Rightarrow> Some (False, d, s)
      | Some p \<Rightarrow>
          if starts_with_slash p then Some (False, d, s)
          else do {
            s \<leftarrow> get_rewrite_policy L s;
            if \<not> enabled (policy s) then Some (False, d, s)
            else do {
              s \<leftarrow> ensure_symbols L s;
              (base, s) \<leftarrow> (if dirfd = AT_FDCWD then base_from_cwd L s else base_from_fd L dirfd s);
              case base of
                None \<Rightarrow> Some (False, d, s)
              | Some base \<Rightarrow> do {
                  b \<leftarrow> c_string base;
                  (rc, res) \<leftarrow> into_array (join_and_clean_path (Some b) pathname) (new_buffer PATH_MAX) PATH_MAX;
                  if rc \<noteq> 0 then Some (False, d, s)
                  else do {
                    r \<leftarrow> c_string res;
                    (rc, d) \<leftarrow> substitute_prefix (policy s) r d dst_len;
                    if rc \<noteq> 0 then Some (False, d, s) else Some (True, d, s) } } } })"

text \<open>
  The three wrappers return a pointer: the caller's path or the array. The model returns the
  string it points to.
\<close>

definition rewrite_path_argument ::
  "'w libc \<Rightarrow> cstr \<Rightarrow> buffer \<Rightarrow> nat \<Rightarrow> 'w process \<Rightarrow> (cstr \<times> buffer \<times> 'w process) option" where
  "rewrite_path_argument L pathname buf buf_len s =
     (if pathname = None then Some (pathname, buf, s)
      else do {
        (done, buf, s) \<leftarrow> rewrite_absolute_path L pathname buf buf_len s;
        if done then do { r \<leftarrow> c_string buf; Some (Some r, buf, s) }
        else Some (pathname, buf, s) })"

definition rewrite_cwd_relative_argument ::
  "'w libc \<Rightarrow> cstr \<Rightarrow> buffer \<Rightarrow> nat \<Rightarrow> 'w process \<Rightarrow> (cstr \<times> buffer \<times> 'w process) option" where
  "rewrite_cwd_relative_argument L pathname buf buf_len s =
     (case pathname of
        None \<Rightarrow> Some (pathname, buf, s)
      | Some p \<Rightarrow>
          if starts_with_slash p then rewrite_path_argument L pathname buf buf_len s
          else do {
            (done, buf, s) \<leftarrow> rewrite_relative_path_from_dirfd L AT_FDCWD pathname buf buf_len s;
            if done then do { r \<leftarrow> c_string buf; Some (Some r, buf, s) }
            else Some (pathname, buf, s) })"

text \<open>The descriptor is passed by reference: the result carries its new value.\<close>

definition rewrite_at_argument ::
  "'w libc \<Rightarrow> i32 \<Rightarrow> cstr \<Rightarrow> buffer \<Rightarrow> nat \<Rightarrow> 'w process \<Rightarrow> (cstr \<times> i32 \<times> buffer \<times> 'w process) option" where
  "rewrite_at_argument L dirfd pathname buf buf_len s =
     (case pathname of
        None \<Rightarrow> Some (pathname, dirfd, buf, s)
      | Some p \<Rightarrow>
          if starts_with_slash p then do {
            (r, buf, s) \<leftarrow> rewrite_path_argument L pathname buf buf_len s;
            Some (r, dirfd, buf, s) }
          else do {
            (done, buf, s) \<leftarrow> rewrite_relative_path_from_dirfd L dirfd pathname buf buf_len s;
            if done then do { r \<leftarrow> c_string buf; Some (Some r, AT_FDCWD, buf, s) }
            else Some (pathname, dirfd, buf, s) })"

text \<open>
  Eleven exported functions spell the same block out (\<open>__fxstatat\<close>, \<open>newfstatat\<close>,
  \<open>faccessat\<close>, \<open>fchmodat\<close>, \<open>mkdirat\<close>, \<open>openat\<close>, \<open>openat2\<close>, \<open>readlinkat\<close>, \<open>statx\<close>,
  \<open>unlinkat\<close>, \<open>utimensat\<close>): a local array, \<open>target\<close> and \<open>call_dirfd\<close>.
\<close>

definition rewrite_at_inline :: "'w libc \<Rightarrow> i32 \<Rightarrow> cstr \<Rightarrow> 'w process \<Rightarrow> (cstr \<times> i32 \<times> 'w process) option" where
  "rewrite_at_inline L dirfd pathname s =
     (let rewritten = new_buffer PATH_MAX; target = pathname; call_dirfd = dirfd in
      if (case pathname of None \<Rightarrow> False | Some p \<Rightarrow> starts_with_slash p) then do {
        (target, rewritten, s) \<leftarrow> rewrite_path_argument L pathname rewritten PATH_MAX s;
        Some (target, call_dirfd, s) }
      else do {
        (done, rewritten, s) \<leftarrow> rewrite_relative_path_from_dirfd L dirfd pathname rewritten PATH_MAX s;
        if done then do {
          target \<leftarrow> map_option Some (c_string rewritten);
          Some (target, AT_FDCWD, s) }
        else Some (target, call_dirfd, s) })"

text \<open>
  The exported functions call the wrappers on a local \<open>char rewritten[PATH_MAX]\<close>; the array
  is dead once the real function has returned.
\<close>

definition path_arg :: "'w libc \<Rightarrow> cstr \<Rightarrow> 'w process \<Rightarrow> (cstr \<times> 'w process) option" where
  "path_arg L pathname s = do {
     (r, buf, s) \<leftarrow> rewrite_path_argument L pathname (new_buffer PATH_MAX) PATH_MAX s;
     Some (r, s) }"

definition cwd_arg :: "'w libc \<Rightarrow> cstr \<Rightarrow> 'w process \<Rightarrow> (cstr \<times> 'w process) option" where
  "cwd_arg L pathname s = do {
     (r, buf, s) \<leftarrow> rewrite_cwd_relative_argument L pathname (new_buffer PATH_MAX) PATH_MAX s;
     Some (r, s) }"

definition at_arg :: "'w libc \<Rightarrow> i32 \<Rightarrow> cstr \<Rightarrow> 'w process \<Rightarrow> (cstr \<times> i32 \<times> 'w process) option" where
  "at_arg L dirfd pathname s = do {
     (r, dirfd, buf, s) \<leftarrow> rewrite_at_argument L dirfd pathname (new_buffer PATH_MAX) PATH_MAX s;
     Some (r, dirfd, s) }"

end
