(* ===== verification/Rewriting_Correct.thy ===== *)
theory Rewriting_Correct
  imports Rewriting
begin

text \<open>
  What the argument rewriters compute, as functions of the policy in force, the base
  directory the libc reports and the path; and that they never leave their arrays.
\<close>

section \<open>The reference functions\<close>

definition abs_target :: "rewrite_policy \<Rightarrow> nat \<Rightarrow> string \<Rightarrow> string option" where
  "abs_target pol n p =
     (if enabled pol \<and> starts_with_slash p
      then do { c \<leftarrow> clean_spec PATH_MAX p; forward_spec n (pol, c) } else None)"

definition rel_target :: "rewrite_policy \<Rightarrow> nat \<Rightarrow> string \<Rightarrow> string \<Rightarrow> string option" where
  "rel_target pol n base p =
     do { j \<leftarrow> join_spec PATH_MAX (base, p); forward_spec n (pol, j) }"

text \<open>The base directory as the libc reports it, and the process after asking.\<close>

definition cwd_base :: "'w libc \<Rightarrow> 'w process \<Rightarrow> string option \<times> 'w process" where
  "cwd_base L s =
     (if dlsym L ''getcwd'' = 0 then (None, s)
      else (let (r, w) = call_getcwd L (dlsym L ''getcwd'') PATH_MAX (world s) in (r, s\<lparr>world := w\<rparr>)))"

definition fd_base :: "'w libc \<Rightarrow> i32 \<Rightarrow> 'w process \<Rightarrow> string option \<times> 'w process" where
  "fd_base L dirfd s =
     (if dlsym L ''readlink'' = 0 then (None, s)
      else (let ((n, bytes), w) = call_readlink L (dlsym L ''readlink'')
                   (''/proc/self/fd/'' @ int_digits (sint dirfd)) (PATH_MAX - 1) (world s)
            in (if n < 0 \<or> n \<ge> int PATH_MAX - 1 \<or> \<not> starts_with_slash bytes then None
                else clean_spec PATH_MAX bytes, s\<lparr>world := w\<rparr>)))"

definition dir_base :: "'w libc \<Rightarrow> i32 \<Rightarrow> 'w process \<Rightarrow> string option \<times> 'w process" where
  "dir_base L dirfd s = (if dirfd = AT_FDCWD then cwd_base L s else fd_base L dirfd s)"

section \<open>Decimal digits\<close>

lemma char_digit: "(n :: nat) < 10 \<Longrightarrow> (char_of (48 + n) :: char) \<noteq> NUL"
proof
  assume n: "n < 10" and "(char_of (48 + n) :: char) = NUL"
  then have "of_char (char_of (48 + n) :: char) = (0 :: nat)" by simp
  with n show False by simp
qed

lemma nat_digits_ok: "c_ok (nat_digits n)"
  by (induction n rule: nat_digits.induct) (subst nat_digits.simps, simp add: char_digit)

lemma nat_digits_length: "n < 10 ^ Suc k \<Longrightarrow> length (nat_digits n) \<le> Suc k"
proof (induction k arbitrary: n)
  case 0
  then show ?case by (subst nat_digits.simps) simp
next
  case (Suc k)
  have "length (nat_digits (n div 10)) \<le> Suc k"
    using Suc.prems by (intro Suc.IH) (simp add: less_mult_imp_div_less mult.commute)
  then show ?case by (subst nat_digits.simps) simp
qed

lemma int_digits_ok:
  "c_ok (int_digits (sint (fd :: i32)))" "length (int_digits (sint (fd :: i32))) \<le> 11"
proof -
  have b: "- (2 ^ 31) \<le> sint fd" "sint fd < 2 ^ 31"
    using sint_ge [of fd] sint_lt [of fd] by simp_all
  have "length (nat_digits m) \<le> 10" if "m \<le> 2 ^ 31" for m
    using nat_digits_length [of m 9] that by simp
  then have "length (nat_digits (nat (sint fd))) \<le> 10" if "0 \<le> sint fd" using b(2) that by simp
  moreover have "length (nat_digits (nat (- sint fd))) \<le> 10"
    using b(1) nat_digits_length [of "nat (- sint fd)" 9] by simp
  ultimately show "length (int_digits (sint fd)) \<le> 11"
    by (cases "sint fd < 0") (simp_all add: int_digits_def)
qed (simp add: int_digits_def nat_digits_ok)

lemma fd_path_ok:
  "c_ok (''/proc/self/fd/'' @ int_digits (sint (fd :: i32)))"
  "length (''/proc/self/fd/'' @ int_digits (sint (fd :: i32))) < 64"
  using int_digits_ok [of fd] by simp_all

section \<open>The C code computes the reference functions\<close>

lemma base_from_cwd_eq:
  assumes "libc_ok L" "process_ok L s" "resolved s"
  shows "\<exists>b. base_from_cwd L s = Some (b, snd (cwd_base L s)) \<and>
    (case fst (cwd_base L s) of None \<Rightarrow> b = None
     | Some base \<Rightarrow> c_ok base \<and> (\<exists>a. b = Some a \<and> c_string a = Some base))"
proof -
  have fn: "real_fn s Real_getcwd = dlsym L ''getcwd''"
    using assms(2,3) by (simp add: process_ok_def)
  obtain r w where c: "call_getcwd L (dlsym L ''getcwd'') PATH_MAX (world s) = (r, w)"
    by (cases "call_getcwd L (dlsym L ''getcwd'') PATH_MAX (world s)")
  show ?thesis
  proof (cases r)
    case None
    then show ?thesis using c fn by (simp add: base_from_cwd_def cwd_base_def)
  next
    case (Some cwd)
    then have ok: "c_ok cwd" "length cwd < PATH_MAX" using libc_okD(2) [OF assms(1)] c by auto
    then obtain a where "copy_in (new_buffer PATH_MAX) 0 (cwd @ [NUL]) = Some a" "holds a (cwd @ [NUL])"
      using copy_in_holds [of "new_buffer PATH_MAX" "[]" "cwd @ [NUL]"] by auto
    then show ?thesis using c fn Some ok c_string_holds
      by (auto simp: base_from_cwd_def cwd_base_def)
  qed
qed

lemma base_from_link_eq:
  assumes "cap a = PATH_MAX" "holds a bytes"
    and "(n = -1 \<and> bytes = []) \<or> (0 \<le> n \<and> n \<le> int (PATH_MAX - 1) \<and> int (length bytes) = n \<and> c_ok bytes)"
  shows "\<exists>b. base_from_link n a = Some b \<and>
    (case (if n < 0 \<or> n \<ge> int PATH_MAX - 1 \<or> \<not> starts_with_slash bytes then None else clean_spec PATH_MAX bytes)
     of None \<Rightarrow> b = None | Some base \<Rightarrow> c_ok base \<and> (\<exists>a. b = Some a \<and> c_string a = Some base))"
proof (cases "n < 0 \<or> n \<ge> int PATH_MAX - 1")
  case True
  then have "base_from_link n a = Some None" by (simp add: base_from_link_def)
  with True show ?thesis by auto
next
  case False
  with assms have n: "n = int (length bytes)" "c_ok bytes" "length bytes < cap a" by auto
  obtain d where d: "store a (length bytes) NUL = Some d" "cap d = PATH_MAX" "holds d (bytes @ [NUL])"
    using store_holds [OF assms(2) n(3), of NUL] assms(1) by auto
  have ds: "c_string d = Some bytes" by (rule c_string_holds [OF d(3) n(2)])
  have ld: "load d 0 = Some ((bytes @ [NUL]) ! 0)" using holds_cell [OF d(3), of 0] by simp
  have sl: "(bytes @ [NUL]) ! 0 = SLASH \<longleftrightarrow> starts_with_slash bytes" by (cases bytes) simp_all
  show ?thesis
  proof (cases "starts_with_slash bytes")
    case no: False
    then show ?thesis using False d(1) ld sl by (simp add: base_from_link_def n(1))
  next
    case yes: True
    then show ?thesis using False d(1) ld sl ds clean_spec_c_ok [OF _ n(2), of PATH_MAX]
      by (cases rule: into_array_fresh [OF n(2)]) (simp_all add: base_from_link_def n(1))
  qed
qed

lemma base_from_fd_eq:
  assumes "libc_ok L" "process_ok L s" "resolved s"
  shows "\<exists>b. base_from_fd L dirfd s = Some (b, snd (fd_base L dirfd s)) \<and>
    (case fst (fd_base L dirfd s) of None \<Rightarrow> b = None
     | Some base \<Rightarrow> c_ok base \<and> (\<exists>a. b = Some a \<and> c_string a = Some base))"
proof -
  define p where "p = ''/proc/self/fd/'' @ int_digits (sint dirfd)"
  note p_ok = fd_path_ok [of dirfd, folded p_def]
  have fn: "real_fn s Real_readlink = dlsym L ''readlink''"
    using assms(2,3) by (simp add: process_ok_def)
  have ens: "ensure_symbols L s = Some s"
    using assms(3) by (simp add: ensure_symbols_def run_once_def)
  obtain fb where fb: "snprintf (new_buffer 64) 64 p = Some (int (length p), fb)" "holds fb (p @ [NUL])"
    using snprintf_fits [of p 64 "new_buffer 64"] p_ok(2) by (auto simp: INT_MAX_def)
  have fbs: "c_string fb = Some p" by (rule c_string_holds [OF fb(2) p_ok(1)])
  obtain n bytes w where c: "call_readlink L (dlsym L ''readlink'') p (PATH_MAX - 1) (world s) = ((n, bytes), w)"
    by (metis prod.collapse)
  note r = libc_okD(3) [OF assms(1) c]
  then have "length bytes \<le> PATH_MAX" by (auto simp: PATH_MAX_def)
  then obtain a where a: "copy_in (new_buffer PATH_MAX) 0 bytes = Some a" "cap a = PATH_MAX" "holds a bytes"
    using copy_in_holds [of "new_buffer PATH_MAX" "[]" bytes] by auto
  obtain b where b: "base_from_link n a = Some b"
    "case (if n < 0 \<or> n \<ge> int PATH_MAX - 1 \<or> \<not> starts_with_slash bytes then None else clean_spec PATH_MAX bytes)
     of None \<Rightarrow> b = None | Some base \<Rightarrow> c_ok base \<and> (\<exists>a. b = Some a \<and> c_string a = Some base)"
    using base_from_link_eq [OF a(2,3) r] by blast
  have "int (length p) < 64" using p_ok(2) by linarith
  then have "base_from_fd L dirfd s =
     (if dlsym L ''readlink'' = 0 then Some (None, s) else Some (b, s\<lparr>world := w\<rparr>))"
    unfolding base_from_fd_def p_def [symmetric] fb(1) using c a(1) b(1) by (simp add: ens fn fbs)
  with b(2) c show ?thesis unfolding fd_base_def p_def [symmetric] by auto
qed

lemma base_ok:
  "process_ok L s \<Longrightarrow> process_ok L (snd (dir_base L dirfd s))"
  "policy_ready s \<Longrightarrow> policy_ready (snd (dir_base L dirfd s)) \<and> policy (snd (dir_base L dirfd s)) = policy s"
  "resolved (snd (dir_base L dirfd s)) = resolved s" "real_fn (snd (dir_base L dirfd s)) = real_fn s"
  by (auto simp: dir_base_def cwd_base_def fd_base_def split: prod.splits)

text \<open>The two rewriters as functions to an optional new path and the process after them.\<close>

definition abs_ref :: "'w libc \<Rightarrow> nat \<Rightarrow> string \<Rightarrow> 'w process \<Rightarrow> string option \<times> 'w process" where
  "abs_ref L n p s =
     (abs_target (policy_of L s) n p, if starts_with_slash p then with_policy L s else s)"

definition rel_ref :: "'w libc \<Rightarrow> nat \<Rightarrow> i32 \<Rightarrow> string \<Rightarrow> 'w process \<Rightarrow> string option \<times> 'w process" where
  "rel_ref L n dirfd p s =
     (if starts_with_slash p then (None, s)
      else if \<not> enabled (policy_of L s) then (None, with_policy L s)
      else (let (base, s') = dir_base L dirfd (with_symbols L (with_policy L s))
            in (case base of None \<Rightarrow> None | Some b \<Rightarrow> rel_target (policy_of L s) n b p, s')))"

lemma c_string_written: "holds d (r @ [NUL]) \<Longrightarrow> c_ok r \<Longrightarrow> c_string d = Some r"
  by (rule c_string_holds)

lemma substitute_into:
  assumes "policy_ok pol" "c_ok c" "n \<le> cap d"
  obtains (refused) d' where "forward_spec n (pol, c) = None" "substitute_prefix pol c d n = Some (-1, d')" "cap d' = cap d"
  | (written) r d' where "forward_spec n (pol, c) = Some r" "substitute_prefix pol c d n = Some (0, d')"
      "cap d' = cap d" "c_string d' = Some r" "length r < n" "c_ok r"
proof -
  have good: "case (pol, c) of (pol, path) \<Rightarrow> policy_ok pol \<and> c_ok path" using assms by simp
  show thesis by (rule forward.write_cases [OF good assms(3)]) (use that in auto)
qed

lemma rewrite_absolute_path_eq:
  assumes L: "libc_ok L" "process_ok L s" and p: "c_ok p" and n: "n \<le> cap d"
  shows "\<exists>d'. rewrite_absolute_path L (Some p) d n s = Some (fst (abs_ref L n p s) \<noteq> None, d', snd (abs_ref L n p s)) \<and>
    cap d' = cap d \<and> (\<forall>r. fst (abs_ref L n p s) = Some r \<longrightarrow> c_ok r \<and> length r < n \<and> c_string d' = Some r)"
proof (cases "starts_with_slash p \<and> enabled (policy_of L s)")
  case False
  then show ?thesis using get_rewrite_policy_eq [OF L]
    by (auto simp: rewrite_absolute_path_def abs_ref_def abs_target_def)
next
  case True
  have pol: "policy_ok (policy_of L s)" by (rule policy_of_ok [OF L])
  show ?thesis
  proof (cases rule: into_array_fresh [OF p])
    case (1 b)
    then show ?thesis using True get_rewrite_policy_eq [OF L]
      by (simp add: rewrite_absolute_path_def abs_ref_def abs_target_def)
  next
    case (2 c b)
    have "c_ok c" by (rule clean_spec_c_ok [OF 2(1) p])
    then show ?thesis using True get_rewrite_policy_eq [OF L] 2
      by (cases rule: substitute_into [OF pol _ n, of c])
        (simp_all add: rewrite_absolute_path_def abs_ref_def abs_target_def)
  qed
qed

lemma join_fresh:
  assumes "c_ok b" "c_ok p"
  obtains (refused) a where "join_spec PATH_MAX (b, p) = None"
      "into_array (join_and_clean_path (Some b) (Some p)) (new_buffer PATH_MAX) PATH_MAX = Some (-1, a)"
  | (joined) r a where "join_spec PATH_MAX (b, p) = Some r"
      "into_array (join_and_clean_path (Some b) (Some p)) (new_buffer PATH_MAX) PATH_MAX = Some (0, a)"
      "c_string a = Some r" "c_ok r"
  using joiner.write_cases [of "(b, p)" PATH_MAX "new_buffer PATH_MAX"] assms
  by (simp add: case_prod_beta) (metis order_refl)

lemma dir_base_eq:
  assumes "libc_ok L" "process_ok L s" "resolved s"
  shows "\<exists>b. (if dirfd = AT_FDCWD then base_from_cwd L s else base_from_fd L dirfd s)
      = Some (b, snd (dir_base L dirfd s)) \<and>
    (case fst (dir_base L dirfd s) of None \<Rightarrow> b = None
     | Some base \<Rightarrow> c_ok base \<and> (\<exists>a. b = Some a \<and> c_string a = Some base))"
  using base_from_cwd_eq [OF assms] base_from_fd_eq [OF assms, of dirfd] by (simp add: dir_base_def)

lemma rewrite_relative_eq:
  assumes L: "libc_ok L" "process_ok L s" and p: "c_ok p" and n: "n \<le> cap d"
  shows "\<exists>d'. rewrite_relative_path_from_dirfd L dirfd (Some p) d n s
      = Some (fst (rel_ref L n dirfd p s) \<noteq> None, d', snd (rel_ref L n dirfd p s)) \<and>
    cap d' = cap d \<and> (\<forall>r. fst (rel_ref L n dirfd p s) = Some r \<longrightarrow> c_ok r \<and> length r < n \<and> c_string d' = Some r)"
proof (cases "\<not> starts_with_slash p \<and> enabled (policy_of L s)")
  case False
  then show ?thesis using get_rewrite_policy_eq [OF L]
    by (auto simp: rewrite_relative_path_from_dirfd_def rel_ref_def)
next
  case True
  let ?s = "with_symbols L (with_policy L s)"
  have ok: "process_ok L ?s" using L by simp
  have pol: "policy_ok (policy_of L s)" by (rule policy_of_ok [OF L])
  obtain base s' where db: "dir_base L dirfd ?s = (base, s')" by (cases "dir_base L dirfd ?s")
  have s': "policy s' = policy_of L s" using base_ok(2) [of ?s L dirfd] db by simp
  obtain b where b: "(if dirfd = AT_FDCWD then base_from_cwd L ?s else base_from_fd L dirfd ?s) = Some (b, s')"
    "case base of None \<Rightarrow> b = None | Some base \<Rightarrow> c_ok base \<and> (\<exists>a. b = Some a \<and> c_string a = Some base)"
    using dir_base_eq [OF L(1) ok, of dirfd] db by auto
  have ens: "ensure_symbols L (with_policy L s) = Some ?s"
    using L by (intro ensure_symbols_eq) simp
  have run: "rewrite_relative_path_from_dirfd L dirfd (Some p) d n s =
      (case b of
         None \<Rightarrow> Some (False, d, s')
       | Some base \<Rightarrow> do {
           b \<leftarrow> c_string base;
           (rc, res) \<leftarrow> into_array (join_and_clean_path (Some b) (Some p)) (new_buffer PATH_MAX) PATH_MAX;
           if rc \<noteq> 0 then Some (False, d, s')
           else do {
             r \<leftarrow> c_string res;
             (rc, d) \<leftarrow> substitute_prefix (policy s') r d n;
             if rc \<noteq> 0 then Some (False, d, s') else Some (True, d, s') } })"
    using True by (simp add: rewrite_relative_path_from_dirfd_def get_rewrite_policy_eq [OF L] ens b(1))
  show ?thesis
  proof (cases base)
    case None
    then show ?thesis using b(2) True db by (simp add: run rel_ref_def)
  next
    case (Some base')
    with b(2) obtain a where a: "b = Some a" "c_string a = Some base'" "c_ok base'" by auto
    show ?thesis
    proof (cases rule: join_fresh [OF a(3) p])
      case (1 x)
      then show ?thesis using a Some True db by (simp add: run rel_ref_def rel_target_def)
    next
      case (2 r x)
      then show ?thesis using a Some True db s'
        by (cases rule: substitute_into [OF pol 2(4) n]) (simp_all add: run rel_ref_def rel_target_def)
    qed
  qed
qed

end
