(* ===== verification/Arguments.thy ===== *)
theory Arguments
  imports Rewriting_Correct
begin

text \<open>
  The contract of a path argument: the three wrappers of \<open>Rewriting\<close> and the block that
  eleven exported functions spell out are argument rewriters, each a total function of the
  process that keeps its invariant, freezes the policy and fails open.
\<close>

section \<open>The contract\<close>

definition cstr_ok :: "cstr \<Rightarrow> bool" where
  "cstr_ok p = (case p of None \<Rightarrow> True | Some s \<Rightarrow> c_ok s)"

lemma cstr_ok_simps [simp]: "cstr_ok None" "cstr_ok (Some s) = c_ok s"
  by (simp_all add: cstr_ok_def)

text \<open>
  \<open>rewrite\<close> is the code, \<open>ref\<close> the function it computes, \<open>same\<close> the argument as the caller
  passed it.
\<close>

locale argument_rewriter =
  fixes L :: "'w libc"
    and rewrite :: "'i \<Rightarrow> 'w process \<Rightarrow> ('o \<times> 'w process) option"
    and ref :: "'i \<Rightarrow> 'w process \<Rightarrow> 'o \<times> 'w process"
    and same :: "'i \<Rightarrow> 'o"
    and good_in :: "'i \<Rightarrow> bool" and good_out :: "'o \<Rightarrow> bool"
  assumes computes: "libc_ok L \<Longrightarrow> process_ok L s \<Longrightarrow> good_in i \<Longrightarrow> rewrite i s = Some (ref i s)"
    and keeps: "libc_ok L \<Longrightarrow> process_ok L s \<Longrightarrow> good_in i \<Longrightarrow>
      process_ok L (snd (ref i s)) \<and> good_out (fst (ref i s))"
    and frozen: "policy_ready s \<Longrightarrow> policy_ready (snd (ref i s)) \<and> policy (snd (ref i s)) = policy s"
    and disabled: "policy_ready s \<Longrightarrow> \<not> enabled (policy s) \<Longrightarrow> ref i s = (same i, s)"
begin

lemma rewrite_cases:
  assumes "libc_ok L" "process_ok L s" "good_in i"
  obtains r s' where "rewrite i s = Some (r, s')" "ref i s = (r, s')" "process_ok L s'" "good_out r"
  using computes [OF assms] keeps [OF assms] by (cases "ref i s") simp

lemma fails_open:
  assumes "libc_ok L" "process_ok L s" "good_in i" "policy_ready s" "\<not> enabled (policy s)"
  shows "rewrite i s = Some (same i, s)"
  using computes [OF assms(1-3)] disabled [OF assms(4,5)] by simp

lemma policy_kept:
  assumes "libc_ok L" "process_ok L s" "good_in i" "policy_ready s" "rewrite i s = Some (r, s')"
  shows "policy_ready s'" "policy s' = policy s"
  using computes [OF assms(1-3)] frozen [OF assms(4), of i] assms(5) by (metis option.inject snd_conv)+

end

text \<open>Several arguments in a row.\<close>

primrec eval_list :: "('i \<Rightarrow> 's \<Rightarrow> ('o \<times> 's) option) \<Rightarrow> 'i list \<Rightarrow> 's \<Rightarrow> ('o list \<times> 's) option" where
  "eval_list f [] s = Some ([], s)"
| "eval_list f (i # is) s = do { (r, s) \<leftarrow> f i s; (rs, s) \<leftarrow> eval_list f is s; Some (r # rs, s) }"

primrec ref_list :: "('i \<Rightarrow> 's \<Rightarrow> 'o \<times> 's) \<Rightarrow> 'i list \<Rightarrow> 's \<Rightarrow> 'o list \<times> 's" where
  "ref_list f [] s = ([], s)"
| "ref_list f (i # is) s = (let (r, s) = f i s; (rs, s) = ref_list f is s in (r # rs, s))"

context argument_rewriter
begin

lemma list_computes:
  assumes "libc_ok L"
  shows "process_ok L s \<Longrightarrow> list_all good_in is \<Longrightarrow>
    eval_list rewrite is s = Some (ref_list ref is s) \<and>
    process_ok L (snd (ref_list ref is s)) \<and> list_all good_out (fst (ref_list ref is s))"
proof (induction "is" arbitrary: s)
  case (Cons i "is")
  have ok: "process_ok L s" "good_in i" using Cons.prems by simp_all
  obtain r s' where r: "ref i s = (r, s')" by (cases "ref i s")
  have "rewrite i s = Some (r, s')" "process_ok L s'" "good_out r"
    using computes [OF assms ok] keeps [OF assms ok] r by simp_all
  then show ?case using Cons.IH [of s'] Cons.prems(2) r by (simp add: case_prod_beta Let_def)
qed simp

lemma list_frozen:
  "policy_ready s \<Longrightarrow>
    policy_ready (snd (ref_list ref is s)) \<and> policy (snd (ref_list ref is s)) = policy s"
proof (induction "is" arbitrary: s)
  case (Cons i "is")
  then show ?case using frozen [of s i] Cons.IH [of "snd (ref i s)"]
    by (simp add: case_prod_beta Let_def)
qed simp

lemma list_disabled:
  "policy_ready s \<Longrightarrow> \<not> enabled (policy s) \<Longrightarrow> ref_list ref is s = (map same is, s)"
  by (induction "is") (simp_all add: disabled)

lemma list_rewriter:
  "argument_rewriter L (eval_list rewrite) (ref_list ref) (map same) (list_all good_in) (list_all good_out)"
  by unfold_locales (simp_all add: list_computes list_frozen list_disabled)

end

section \<open>The functions the wrappers compute\<close>

definition path_ref :: "'w libc \<Rightarrow> cstr \<Rightarrow> 'w process \<Rightarrow> cstr \<times> 'w process" where
  "path_ref L pathname s =
     (case pathname of None \<Rightarrow> (None, s)
      | Some p \<Rightarrow> (let (t, s) = abs_ref L PATH_MAX p s in (Some (case t of None \<Rightarrow> p | Some r \<Rightarrow> r), s)))"

definition at_ref :: "'w libc \<Rightarrow> i32 \<times> cstr \<Rightarrow> 'w process \<Rightarrow> (cstr \<times> i32) \<times> 'w process" where
  "at_ref L a s =
     (let (dirfd, pathname) = a in
      case pathname of None \<Rightarrow> ((None, dirfd), s)
      | Some p \<Rightarrow>
          if starts_with_slash p then (let (r, s) = path_ref L pathname s in ((r, dirfd), s))
          else (let (t, s) = rel_ref L PATH_MAX dirfd p s
                in (case t of None \<Rightarrow> (pathname, dirfd) | Some r \<Rightarrow> (Some r, AT_FDCWD), s)))"

definition cwd_ref :: "'w libc \<Rightarrow> cstr \<Rightarrow> 'w process \<Rightarrow> cstr \<times> 'w process" where
  "cwd_ref L pathname s = (let ((r, _), s) = at_ref L (AT_FDCWD, pathname) s in (r, s))"

lemma path_ref_simps [simp]:
  "path_ref L None s = (None, s)"
  "path_ref L (Some p) s = (Some (case fst (abs_ref L PATH_MAX p s) of None \<Rightarrow> p | Some r \<Rightarrow> r),
     snd (abs_ref L PATH_MAX p s))"
  by (simp_all add: path_ref_def case_prod_beta Let_def)

lemma at_ref_simps:
  "at_ref L (fd, None) s = ((None, fd), s)"
  "starts_with_slash p \<Longrightarrow>
     at_ref L (fd, Some p) s = ((fst (path_ref L (Some p) s), fd), snd (path_ref L (Some p) s))"
  "\<not> starts_with_slash p \<Longrightarrow>
     at_ref L (fd, Some p) s =
       (case fst (rel_ref L PATH_MAX fd p s) of None \<Rightarrow> (Some p, fd) | Some r \<Rightarrow> (Some r, AT_FDCWD),
        snd (rel_ref L PATH_MAX fd p s))"
  unfolding at_ref_def Let_def case_prod_beta fst_conv snd_conv by simp_all

lemma cwd_ref_eq: "cwd_ref L p s = (fst (fst (at_ref L (AT_FDCWD, p) s)), snd (at_ref L (AT_FDCWD, p) s))"
  by (simp add: cwd_ref_def case_prod_beta Let_def)

text \<open>The three ways an at-argument goes: no path, an absolute one, a relative one.\<close>

lemma at_ref_cases:
  obtains (null) "p = None" "at_ref L (fd, p) s = ((None, fd), s)"
  | (absolute) q where "p = Some q" "starts_with_slash q"
      "at_ref L (fd, p) s = ((fst (path_ref L p s), fd), snd (path_ref L p s))"
  | (relative) q where "p = Some q" "\<not> starts_with_slash q"
      "at_ref L (fd, p) s =
         (case fst (rel_ref L PATH_MAX fd q s) of None \<Rightarrow> (Some q, fd) | Some r \<Rightarrow> (Some r, AT_FDCWD),
          snd (rel_ref L PATH_MAX fd q s))"
  by (cases p) (auto simp: at_ref_simps)

section \<open>The wrappers meet the contract\<close>

lemma abs_ref_ok:
  assumes "libc_ok L" "process_ok L s" "c_ok p"
  shows "process_ok L (snd (abs_ref L n p s))" "fst (abs_ref L n p s) = Some r \<Longrightarrow> c_ok r"
  using assms rewrite_absolute_path_eq [OF assms, of n "new_buffer n"] by (auto simp: abs_ref_def)

lemma rel_ref_ok:
  assumes "libc_ok L" "process_ok L s" "c_ok p"
  shows "process_ok L (snd (rel_ref L n fd p s))" "fst (rel_ref L n fd p s) = Some r \<Longrightarrow> c_ok r"
proof -
  show "process_ok L (snd (rel_ref L n fd p s))"
    using base_ok(1) [of L "with_symbols L (with_policy L s)" fd] assms
    by (auto simp: rel_ref_def split: prod.splits)
  show "fst (rel_ref L n fd p s) = Some r \<Longrightarrow> c_ok r"
    using rewrite_relative_eq [OF assms, of n "new_buffer n" fd] by auto
qed

lemma abs_ref_frozen:
  "policy_ready s \<Longrightarrow> policy_ready (snd (abs_ref L n p s)) \<and> policy (snd (abs_ref L n p s)) = policy s"
  "policy_ready s \<Longrightarrow> \<not> enabled (policy s) \<Longrightarrow> abs_ref L n p s = (None, s)"
  by (auto simp: abs_ref_def abs_target_def with_policy_def)

lemma rel_ref_frozen:
  "policy_ready s \<Longrightarrow> policy_ready (snd (rel_ref L n fd p s)) \<and> policy (snd (rel_ref L n fd p s)) = policy s"
  "policy_ready s \<Longrightarrow> \<not> enabled (policy s) \<Longrightarrow> rel_ref L n fd p s = (None, s)"
  using base_ok(2) [of "with_symbols L (with_policy L s)" L fd]
  by (auto simp: rel_ref_def with_policy_def split: prod.splits)

lemma rewrite_path_argument_eq:
  assumes "libc_ok L" "process_ok L s" "cstr_ok p"
  shows "\<exists>b. rewrite_path_argument L p (new_buffer PATH_MAX) PATH_MAX s
           = Some (fst (path_ref L p s), b, snd (path_ref L p s))"
proof (cases p)
  case (Some q)
  then have "c_ok q" using assms(3) by simp
  from rewrite_absolute_path_eq [OF assms(1,2) this, of PATH_MAX "new_buffer PATH_MAX"] Some show ?thesis
    by (cases "fst (abs_ref L PATH_MAX q s)") (auto simp: rewrite_path_argument_def)
qed (simp add: rewrite_path_argument_def)

lemma rewrite_at_argument_eq:
  assumes "libc_ok L" "process_ok L s" "cstr_ok p"
  shows "\<exists>b. rewrite_at_argument L fd p (new_buffer PATH_MAX) PATH_MAX s
           = Some (fst (fst (at_ref L (fd, p) s)), snd (fst (at_ref L (fd, p) s)), b, snd (at_ref L (fd, p) s))"
proof (cases rule: at_ref_cases [of p L fd s])
  case null
  then show ?thesis by (simp add: rewrite_at_argument_def)
next
  case (absolute q)
  then show ?thesis using rewrite_path_argument_eq [OF assms]
    by (auto simp: rewrite_at_argument_def simp del: path_ref_simps)
next
  case (relative q)
  then have q: "c_ok q" using assms(3) by simp
  from rewrite_relative_eq [OF assms(1,2) q, of PATH_MAX "new_buffer PATH_MAX" fd] relative show ?thesis
    by (cases "fst (rel_ref L PATH_MAX fd q s)") (auto simp: rewrite_at_argument_def)
qed

lemma rewrite_cwd_relative_argument_eq:
  assumes "libc_ok L" "process_ok L s" "cstr_ok p"
  shows "\<exists>b. rewrite_cwd_relative_argument L p (new_buffer PATH_MAX) PATH_MAX s
           = Some (fst (cwd_ref L p s), b, snd (cwd_ref L p s))"
proof (cases rule: at_ref_cases [of p L AT_FDCWD s])
  case null
  then show ?thesis by (simp add: rewrite_cwd_relative_argument_def cwd_ref_eq)
next
  case (absolute q)
  then show ?thesis using rewrite_path_argument_eq [OF assms]
    by (auto simp: rewrite_cwd_relative_argument_def cwd_ref_eq simp del: path_ref_simps)
next
  case (relative q)
  then have q: "c_ok q" using assms(3) by simp
  from rewrite_relative_eq [OF assms(1,2) q, of PATH_MAX "new_buffer PATH_MAX" AT_FDCWD] relative show ?thesis
    by (cases "fst (rel_ref L PATH_MAX AT_FDCWD q s)") (auto simp: rewrite_cwd_relative_argument_def cwd_ref_eq)
qed

lemma path_ref_ok:
  assumes "libc_ok L" "process_ok L s" "cstr_ok p"
  shows "process_ok L (snd (path_ref L p s)) \<and> cstr_ok (fst (path_ref L p s))"
proof (cases p)
  case (Some q)
  then have q: "c_ok q" using assms(3) by simp
  show ?thesis using Some q abs_ref_ok [OF assms(1,2) q, of PATH_MAX]
    by (cases "fst (abs_ref L PATH_MAX q s)") simp_all
qed (use assms in simp)

lemma at_ref_ok:
  assumes "libc_ok L" "process_ok L s" "cstr_ok p"
  shows "process_ok L (snd (at_ref L (fd, p) s)) \<and> cstr_ok (fst (fst (at_ref L (fd, p) s)))"
proof (cases rule: at_ref_cases [of p L fd s])
  case (relative q)
  then have q: "c_ok q" using assms(3) by simp
  show ?thesis using relative q rel_ref_ok [OF assms(1,2) q, of PATH_MAX fd]
    by (cases "fst (rel_ref L PATH_MAX fd q s)") simp_all
qed (use assms path_ref_ok [OF assms] in \<open>simp_all del: path_ref_simps\<close>)

lemma path_ref_frozen:
  assumes "policy_ready s"
  shows "policy_ready (snd (path_ref L p s)) \<and> policy (snd (path_ref L p s)) = policy s"
    "\<not> enabled (policy s) \<Longrightarrow> path_ref L p s = (p, s)"
  using abs_ref_frozen [OF assms] assms by (cases p; simp)+

lemma at_ref_frozen:
  assumes "policy_ready s"
  shows "policy_ready (snd (at_ref L a s)) \<and> policy (snd (at_ref L a s)) = policy s"
    "\<not> enabled (policy s) \<Longrightarrow> at_ref L a s = ((snd a, fst a), s)"
proof -
  obtain fd p where a: "a = (fd, p)" by (cases a)
  show "policy_ready (snd (at_ref L a s)) \<and> policy (snd (at_ref L a s)) = policy s" unfolding a
    by (cases rule: at_ref_cases [of p L fd s])
      (use assms rel_ref_frozen(1) [OF assms] path_ref_frozen(1) [OF assms] in \<open>simp_all del: path_ref_simps\<close>)
  show "at_ref L a s = ((snd a, fst a), s)" if "\<not> enabled (policy s)" unfolding a
    by (cases rule: at_ref_cases [of p L fd s])
      (use that rel_ref_frozen(2) [OF assms] path_ref_frozen(2) [OF assms] in \<open>simp_all del: path_ref_simps\<close>)
qed

interpretation path_argument: argument_rewriter L "path_arg L" "path_ref L" "\<lambda>p. p" cstr_ok cstr_ok for L
proof unfold_locales
  fix s p
  show "path_arg L p s = Some (path_ref L p s)" if "libc_ok L" "process_ok L s" "cstr_ok p"
    using rewrite_path_argument_eq [OF that] by (auto simp: path_arg_def)
qed (simp_all add: path_ref_ok path_ref_frozen)

interpretation at_argument: argument_rewriter L
  "\<lambda>(fd, p) s. map_option (\<lambda>(r, fd, s). ((r, fd), s)) (at_arg L fd p s)" "at_ref L"
  "\<lambda>(fd, p). (p, fd)" "\<lambda>(fd, p). cstr_ok p" "\<lambda>(p, fd). cstr_ok p" for L
proof unfold_locales
  fix s :: "'a process" and i :: "i32 \<times> cstr"
  obtain fd p where i: "i = (fd, p)" by (cases i)
  show "(case i of (fd, p) \<Rightarrow> \<lambda>s. map_option (\<lambda>(r, fd, s). ((r, fd), s)) (at_arg L fd p s)) s
      = Some (at_ref L i s)"
    if "libc_ok L" "process_ok L s" "case i of (fd, p) \<Rightarrow> cstr_ok p"
    using rewrite_at_argument_eq [OF that(1,2), of p fd] that(3) by (auto simp: at_arg_def i)
  show "process_ok L (snd (at_ref L i s)) \<and> (case fst (at_ref L i s) of (p, fd) \<Rightarrow> cstr_ok p)"
    if "libc_ok L" "process_ok L s" "case i of (fd, p) \<Rightarrow> cstr_ok p"
    using at_ref_ok [OF that(1,2), of p fd] that(3) by (simp add: i case_prod_beta)
qed (auto simp: at_ref_frozen)

interpretation cwd_argument: argument_rewriter L "cwd_arg L" "cwd_ref L" "\<lambda>p. p" cstr_ok cstr_ok for L
proof unfold_locales
  fix s p
  show "cwd_arg L p s = Some (cwd_ref L p s)" if "libc_ok L" "process_ok L s" "cstr_ok p"
    using rewrite_cwd_relative_argument_eq [OF that] by (auto simp: cwd_arg_def)
  show "process_ok L (snd (cwd_ref L p s)) \<and> cstr_ok (fst (cwd_ref L p s))"
    if "libc_ok L" "process_ok L s" "cstr_ok p"
    using at_ref_ok [OF that, of AT_FDCWD] by (simp add: cwd_ref_eq)
  show "policy_ready (snd (cwd_ref L p s)) \<and> policy (snd (cwd_ref L p s)) = policy s" if "policy_ready s"
    using at_ref_frozen(1) [OF that, of L "(AT_FDCWD, p)"] by (simp add: cwd_ref_eq)
  show "cwd_ref L p s = (p, s)" if "policy_ready s" "\<not> enabled (policy s)"
    using at_ref_frozen(2) [OF that(1), of L "(AT_FDCWD, p)"] that(2) by (simp add: cwd_ref_eq)
qed


section \<open>The block spelt out eleven times\<close>

text \<open>The block is the helper: absent path, absolute path and relative path go the same way.\<close>

lemma rewrite_at_inline_helper: "rewrite_at_inline L fd p s = at_arg L fd p s"
proof (cases p)
  case None
  then show ?thesis
    by (simp add: rewrite_at_inline_def at_arg_def rewrite_at_argument_def rewrite_relative_path_from_dirfd_def)
next
  case (Some q)
  show ?thesis
  proof (cases "starts_with_slash q")
    case True
    then show ?thesis using Some
      by (cases "rewrite_path_argument L (Some q) (new_buffer PATH_MAX) PATH_MAX s")
        (auto simp: rewrite_at_inline_def at_arg_def rewrite_at_argument_def)
  next
    case False
    then show ?thesis using Some
      by (cases "rewrite_relative_path_from_dirfd L fd (Some q) (new_buffer PATH_MAX) PATH_MAX s")
        (auto simp: rewrite_at_inline_def at_arg_def rewrite_at_argument_def map_option_case
          split: if_splits option.splits)
  qed
qed

lemma at_arg_eq:
  assumes "libc_ok L" "process_ok L s" "cstr_ok p"
  shows "at_arg L fd p s = Some (fst (fst (at_ref L (fd, p) s)), snd (fst (at_ref L (fd, p) s)), snd (at_ref L (fd, p) s))"
  using rewrite_at_argument_eq [OF assms, of fd] by (auto simp: at_arg_def)

end
