(* ===== verification/Places.thy ===== *)
theory Places
  imports Arguments
begin

text \<open>
  What a rewritten argument means: the place it names is the redirection of the place the
  caller named, absolute paths from the root, relative ones from the directory they start at.
\<close>

section \<open>Cleaning does not lengthen a path\<close>

lemma seg_loop_room: "seg_loop a m segs s = Some x \<Longrightarrow> m \<le> n \<Longrightarrow> seg_loop a n segs s = Some x"
proof (induction segs arbitrary: s)
  case (Cons y ys)
  from Cons.prems(1) obtain t where t: "seg_step a m y s = Some t" "seg_loop a m ys t = Some x"
    by (auto simp: bind_eq_Some_conv)
  from t(1) Cons.prems(2) have "seg_step a n y s = Some t"
    by (auto simp: seg_step_def Let_def split: prod.splits if_splits)
  then show ?case using Cons.IH [OF t(2) Cons.prems(2)] by simp
qed simp

lemma clean_spec_mono: "clean_spec m src = Some r \<Longrightarrow> m \<le> n \<Longrightarrow> clean_spec n src = Some r"
  by (auto simp: clean_spec_def Let_def bind_eq_Some_conv split: if_splits dest: seg_loop_room)

lemma clean_spec_shrinks:
  assumes "length src < PATH_MAX" "src \<noteq> []"
  obtains r where "clean_spec PATH_MAX src = Some r" "length r \<le> length src"
proof -
  have "1 \<le> length src" using assms(2) by (cases src) simp_all
  then obtain r where r: "clean_spec (Suc (length src)) src = Some r"
    using clean_spec_fits [of src "Suc (length src)"] assms(1) by auto
  show thesis
    by (rule that [of r]) (use clean_spec_mono [OF r] clean_spec_length [OF r] assms(1) in simp_all)
qed

section \<open>Redirection of absolute and relative paths\<close>

text \<open>A policy that can capture: enabled, and its source prefix ends in no separator.\<close>

definition capturing :: "rewrite_policy \<Rightarrow> bool" where
  "capturing pol \<longleftrightarrow> policy_ok pol \<and> enabled pol \<and> proper_prefix (from_path pol)"

definition moved :: "rewrite_policy \<Rightarrow> string list \<Rightarrow> string list option" where
  "moved pol place = redirect (location (from_path pol)) (location (to_path pol)) place"

text \<open>Room for the redirected path in an array of PATH_MAX bytes.\<close>

definition roomy :: "rewrite_policy \<Rightarrow> nat \<Rightarrow> bool" where
  "roomy pol n \<longleftrightarrow> n < PATH_MAX \<and> to_len pol + n < PATH_MAX + from_len pol"

lemma forward_spec_moved:
  assumes "capturing pol" "cleaned c" "roomy pol (length c)"
  shows "case moved pol (location c) of
           None \<Rightarrow> forward_spec PATH_MAX (pol, c) = None
         | Some place \<Rightarrow> \<exists>r. forward_spec PATH_MAX (pol, c) = Some r \<and> location r = place \<and> starts_with_slash r"
proof -
  obtain tr where "c = contents True (location c) tr" using assms(2) by (rule cleaned_contents)
  moreover have "to_len pol + length c - from_len pol < PATH_MAX"
    using assms(3) by (simp add: roomy_def) (metis PATH_MAX_pos(1) add.commute less_diff_conv2 diff_is_0_eq nat_le_linear)
  ultimately show ?thesis
    using forward_spec_redirect [of pol c _ PATH_MAX] assms(1)
    unfolding capturing_def moved_def by (fastforce split: option.splits)
qed

lemma abs_target_moved:
  assumes "capturing pol" "c_ok p" "starts_with_slash p" "roomy pol (length p)"
  shows "case moved pol (location p) of
           None \<Rightarrow> abs_target pol PATH_MAX p = None
         | Some place \<Rightarrow> \<exists>r. abs_target pol PATH_MAX p = Some r \<and> location r = place \<and> starts_with_slash r"
proof -
  have "length p < PATH_MAX" "p \<noteq> []" using assms(3,4) by (auto simp: roomy_def)
  then obtain c where c: "clean_spec PATH_MAX p = Some c" "length c \<le> length p"
    by (rule clean_spec_shrinks)
  note k = clean_spec_cleaned [OF c(1) assms(2,3)]
  have "roomy pol (length c)" using assms(4) c(2) by (auto simp: roomy_def)
  moreover have "abs_target pol PATH_MAX p = forward_spec PATH_MAX (pol, c)"
    using assms(1,3) by (simp add: abs_target_def capturing_def c(1))
  ultimately show ?thesis
    using forward_spec_moved [OF assms(1) k(1)] unfolding k(2) by (auto split: option.splits)
qed

text \<open>A relative path stands for the absolute path the join spells.\<close>

lemma rel_target_abs:
  assumes "starts_with_slash base" "enabled pol" "length base + length p + 1 < PATH_MAX"
  shows "rel_target pol n base p = abs_target pol n (base @ SLASH # p)"
proof -
  have "starts_with_slash (base @ SLASH # p)" using assms(1) by (cases base) auto
  moreover have "join_spec PATH_MAX (base, p) = clean_spec PATH_MAX (base @ SLASH # p)"
    using assms(3) INT_MAX_ge by (simp add: join_spec_def)
  ultimately show ?thesis using assms(2) by (simp add: rel_target_def abs_target_def)
qed

lemma location_join: "location (base @ SLASH # p) = walk (location base) (segments p)"
  by (simp add: location_def segments_append_slash)

lemma rel_target_moved:
  assumes "capturing pol" "c_ok base" "c_ok p" "starts_with_slash base" "roomy pol (length base + length p + 1)"
  shows "case moved pol (walk (location base) (segments p)) of
           None \<Rightarrow> rel_target pol PATH_MAX base p = None
         | Some place \<Rightarrow> \<exists>r. rel_target pol PATH_MAX base p = Some r \<and> location r = place \<and> starts_with_slash r"
proof -
  have "starts_with_slash (base @ SLASH # p)" using assms(4) by (cases base) auto
  moreover have "roomy pol (length (base @ SLASH # p))" using assms(5) by simp
  moreover have eq: "rel_target pol PATH_MAX base p = abs_target pol PATH_MAX (base @ SLASH # p)"
    using assms by (intro rel_target_abs) (simp_all add: capturing_def roomy_def)
  ultimately show ?thesis unfolding eq location_join [symmetric]
    using assms(2,3) by (intro abs_target_moved [OF assms(1)]) simp_all
qed

section \<open>The wrappers\<close>

lemma path_arg_eq: "libc_ok L \<Longrightarrow> process_ok L s \<Longrightarrow> cstr_ok p \<Longrightarrow> path_arg L p s = Some (path_ref L p s)"
  by (rule path_argument.computes)

lemma cwd_arg_eq: "libc_ok L \<Longrightarrow> process_ok L s \<Longrightarrow> cstr_ok p \<Longrightarrow> cwd_arg L p s = Some (cwd_ref L p s)"
  by (rule cwd_argument.computes)

lemma absolute_args:
  assumes "libc_ok L" "process_ok L s" "c_ok p" "starts_with_slash p"
  defines "r \<equiv> (case abs_target (policy_of L s) PATH_MAX p of None \<Rightarrow> p | Some r \<Rightarrow> r)"
  shows "path_arg L (Some p) s = Some (Some r, with_policy L s)"
    "cwd_arg L (Some p) s = Some (Some r, with_policy L s)"
    "at_arg L fd (Some p) s = Some (Some r, fd, with_policy L s)"
  using assms path_arg_eq [OF assms(1,2), of "Some p"] cwd_arg_eq [OF assms(1,2), of "Some p"]
    at_arg_eq [OF assms(1,2), of "Some p" fd]
  by (simp_all add: cwd_ref_eq at_ref_simps(2) abs_ref_def)

lemma base_c_ok:
  assumes "libc_ok L" "process_ok L s" "dir_base L fd (with_symbols L (with_policy L s)) = (Some base, s')"
  shows "c_ok base"
proof -
  let ?s = "with_symbols L (with_policy L s)"
  have "process_ok L ?s" "resolved ?s" using assms(1,2) by (simp_all only: process_ok_with) (simp add: with_symbols_def)
  from dir_base_eq [OF assms(1) this, of fd] assms(3) show ?thesis by auto
qed

lemma relative_at_arg:
  assumes "libc_ok L" "process_ok L s" "c_ok p" "\<not> starts_with_slash p" "enabled (policy_of L s)"
    and "dir_base L fd (with_symbols L (with_policy L s)) = (Some base, s')"
  shows "at_arg L fd (Some p) s =
     Some (case rel_target (policy_of L s) PATH_MAX base p of
             None \<Rightarrow> (Some p, fd, s') | Some r \<Rightarrow> (Some r, AT_FDCWD, s'))"
  using at_arg_eq [OF assms(1,2), of "Some p" fd] assms(3-6)
  by (simp add: at_ref_simps(3) rel_ref_def split: option.split)

text \<open>Where the rewriter answers at all, its answer names the moved place, whatever the room.\<close>

lemma abs_target_someD:
  assumes "capturing pol" "c_ok p" "abs_target pol n p = Some r"
  shows "moved pol (location p) = Some (location r)" "starts_with_slash r" "c_ok r"
proof -
  from assms(3) obtain c where sl: "starts_with_slash p" and c: "clean_spec PATH_MAX p = Some c"
      and f: "forward_spec n (pol, c) = Some r"
    by (auto simp: abs_target_def bind_eq_Some_conv split: if_splits)
  note k = clean_spec_cleaned [OF c assms(2) sl]
  obtain tr where tr: "c = contents True (location c) tr" using k(1) by (rule cleaned_contents)
  have "policy_ok pol" "enabled pol" "proper_prefix (from_path pol)"
    using assms(1) by (simp_all add: capturing_def)
  from forward_spec_redirect [OF this tr, of n] f k(2)
  show "moved pol (location p) = Some (location r)" "starts_with_slash r"
    by (auto simp: moved_def split: option.splits if_splits)
  show "c_ok r" using forward_spec_ok [OF _ _ f] assms(1) k(1) by (auto simp: capturing_def dest: cleanedD)
qed

lemma moved_prefix: "moved pol place = Some q \<Longrightarrow> prefix (location (from_path pol)) place \<and> prefix (location (to_path pol)) q"
  by (auto simp: moved_def redirect_def split: if_splits)

section \<open>A libc to run on\<close>

text \<open>
  A libc over a log of the calls it received: every forwarded call succeeds, the working
  directory and the directory behind descriptor 3 are \<open>/srv/data\<close>, the environment is
  \<open>example_env\<close>. The symbols it offers are a parameter.
\<close>

type_synonym call_log = "(addr \<times> cval list) list"

definition example_libc :: "(string \<Rightarrow> addr) \<Rightarrow> call_log libc" where
  "example_libc syms =
     \<lparr>dlsym = syms,
      invoke = (\<lambda>a args w. (I32 0, w @ [(a, args)])),
      call_getcwd = (\<lambda>a n w. (if 9 < n then Some ''/srv/data'' else None, w)),
      alloc_getcwd = (\<lambda>a n w. (Some ''/srv/data'', w)),
      call_readlink = (\<lambda>a p n w. (if p = ''/proc/self/fd/3'' \<and> 9 \<le> n then (9, ''/srv/data'') else (-1, []), w)),
      getenv = (\<lambda>_. example_env),
      set_errno = (\<lambda>e w. w)\<rparr>"

lemma example_env_ok: "env_ok example_env"
  by (auto simp: env_ok_def example_env_def c_ok_def split: if_splits)

lemma example_libc_ok: "libc_ok (example_libc syms)"
  by (simp add: libc_ok_def example_libc_def example_env_ok c_ok_def)

lemma example_init: "init_rewrite_policy example_env = Some example_policy"
  by code_simp

lemma example_policy_of: "policy_of (example_libc syms) (fresh_process w) = example_policy"
  by (simp add: policy_of_def fresh_process_def example_libc_def example_init)

lemma example_capturing: "capturing example_policy"
  by (simp add: capturing_def example_policy_ok) (simp add: example_policy_def proper_prefix_def)

lemma example_digits: "int_digits 3 = ''3''" "int_digits 4 = ''4''"
  by code_simp+

lemma example_base:
  "fst (dir_base (example_libc (\<lambda>_. 1)) 3 s) = Some ''/srv/data''"
proof -
  have "clean_spec PATH_MAX ''/srv/data'' = Some ''/srv/data''"
    by (simp add: clean_spec_def segments.simps seg_step_def contents_def PATH_MAX_def)
  then show ?thesis
    by (simp add: dir_base_def fd_base_def AT_FDCWD_def example_libc_def example_digits PATH_MAX_def)
qed

text \<open>A process whose policy is already in place.\<close>

definition running :: "rewrite_policy \<Rightarrow> call_log process" where
  "running pol = (fresh_process [])\<lparr>policy := pol, policy_ready := True\<rparr>"

lemma running_ok: "policy_ok pol \<Longrightarrow> process_ok L (running pol)"
  by (simp add: running_def fresh_process_def process_ok_def)

lemma running_policy [simp]: "policy_of L (running pol) = pol"
  by (simp add: running_def policy_of_def)

definition nested_policy :: rewrite_policy where
  "nested_policy = \<lparr>enabled = True, from_len = 4, to_len = 9, from_path = ''/srv'', to_path = ''/srv/data''\<rparr>"

lemma nested_capturing: "capturing nested_policy"
proof -
  have "location ''/srv'' = [''srv'']" by code_simp
  then have "cleaned ''/srv''" by (simp add: cleaned_def c_ok_def PATH_MAX_def)
  then show ?thesis
    by (simp add: capturing_def policy_ok_def nested_policy_def proper_prefix_def example_cleaned)
qed

lemma example_rewrites:
  "abs_target example_policy PATH_MAX ''/srv/data/x'' = Some ''/mnt/copy/x''"
  "abs_target example_policy PATH_MAX ''/srv/data/./x'' = Some ''/mnt/copy/x''"
  "abs_target nested_policy PATH_MAX ''/srv/x'' = Some ''/srv/data/x''"
  by code_simp+

section \<open>Properties\<close>

text \<open>C14: an absolute argument is redirected by place, however it is spelt: all three wrappers
  agree, the descriptor of an at-argument is kept, the rewritten path names the place that the
  caller's path named moved from under the source prefix to under the target, and a path that
  names no place under the source prefix reaches the libc as the very string passed in.\<close>
theorem absolute_argument_redirected:
  assumes "libc_ok L" and "process_ok L s" and "c_ok p" and "starts_with_slash p"
    and "capturing (policy_of L s)" and "roomy (policy_of L s) (length p)"
  shows "\<exists>r. path_arg L (Some p) s = Some (Some r, with_policy L s) \<and>
     cwd_arg L (Some p) s = Some (Some r, with_policy L s) \<and>
     at_arg L fd (Some p) s = Some (Some r, fd, with_policy L s) \<and>
     (case moved (policy_of L s) (location p) of
        None \<Rightarrow> r = p | Some place \<Rightarrow> location r = place \<and> starts_with_slash r)"
  unfolding absolute_args [OF assms(1-4)]
  using abs_target_moved [OF assms(5,3,4,6)] by (auto split: option.splits)

theorem absolute_argument_redirected_witness:
  "\<exists>r s. path_arg (example_libc (\<lambda>_. 1)) (Some ''//srv/./data//x'') (fresh_process []) = Some (Some r, s) \<and>
     location r = [''mnt'', ''copy'', ''x'']"
proof -
  let ?p = "''//srv/./data//x''"
  have "moved example_policy (location ?p) = Some [''mnt'', ''copy'', ''x'']"
    by code_simp
  moreover have "c_ok ?p" "starts_with_slash ?p" "roomy example_policy (length ?p)"
    by (simp_all add: c_ok_def roomy_def PATH_MAX_def example_policy_def)
  ultimately obtain r where
    "path_arg (example_libc (\<lambda>_. 1)) (Some ?p) (fresh_process []) = Some (Some r, with_policy (example_libc (\<lambda>_. 1)) (fresh_process []))"
    "location r = [''mnt'', ''copy'', ''x'']"
    using absolute_argument_redirected
      [OF example_libc_ok process_ok_fresh, of ?p "\<lambda>_. 1" "[]" 0, unfolded example_policy_of, OF _ _ example_capturing]
    by fastforce
  then show ?thesis by blast
qed

text \<open>C13: a relative at-argument is resolved against the directory its descriptor stands for (the
  working directory for AT_FDCWD, otherwise the link under /proc/self/fd) and the place
  reached from there is redirected; the descriptor becomes AT_FDCWD exactly when the path was
  replaced, and otherwise path and descriptor go on unchanged.\<close>
theorem relative_argument_redirected:
  assumes "libc_ok L" and "process_ok L s" and "c_ok p" and "\<not> starts_with_slash p"
    and "capturing (policy_of L s)"
    and "dir_base L fd (with_symbols L (with_policy L s)) = (Some base, s')"
    and "starts_with_slash base" and "roomy (policy_of L s) (length base + length p + 1)"
  shows "\<exists>r fd'. at_arg L fd (Some p) s = Some (Some r, fd', s') \<and>
     (case moved (policy_of L s) (walk (location base) (segments p)) of
        None \<Rightarrow> r = p \<and> fd' = fd
      | Some place \<Rightarrow> location r = place \<and> starts_with_slash r \<and> fd' = AT_FDCWD)"
proof -
  have "c_ok base" by (rule base_c_ok [OF assms(1,2,6)])
  then show ?thesis
    using relative_at_arg [OF assms(1-4) _ assms(6)] assms(5)
      rel_target_moved [OF assms(5) _ assms(3,7,8)]
    by (auto simp: capturing_def split: option.splits)
qed

theorem relative_argument_redirected_witness:
  "\<exists>r t. at_arg (example_libc (\<lambda>_. 1)) 3 (Some ''../data/x'') (fresh_process []) = Some (Some r, AT_FDCWD, t) \<and>
     location r = [''mnt'', ''copy'', ''x'']"
proof -
  let ?L = "example_libc (\<lambda>_. 1)" and ?p = "''../data/x''"
  have m: "moved example_policy (walk (location ''/srv/data'') (segments ?p)) = Some [''mnt'', ''copy'', ''x'']"
    by code_simp
  have ok: "c_ok ?p" "\<not> starts_with_slash ?p" "starts_with_slash ''/srv/data''"
      "roomy (policy_of ?L (fresh_process [])) (length ''/srv/data'' + length ?p + 1)"
      "capturing (policy_of ?L (fresh_process []))"
    by (simp_all add: example_policy_of example_capturing)
      (simp_all add: c_ok_def roomy_def PATH_MAX_def example_policy_def)
  obtain t where db: "dir_base ?L 3 (with_symbols ?L (with_policy ?L (fresh_process []))) = (Some ''/srv/data'', t)"
    using example_base by (metis prod.collapse)
  from relative_argument_redirected [OF example_libc_ok process_ok_fresh ok(1,2,5) db ok(3,4)]
  show ?thesis unfolding example_policy_of m by auto
qed

text \<open>The replacement of a relative path is the replacement of the absolute path it stands
  for: resolving against the directory first and rewriting the absolute spelling agree.\<close>
theorem relative_argument_as_absolute:
  assumes "libc_ok L" and "process_ok L s" and "c_ok p" and "\<not> starts_with_slash p"
    and "dir_base L fd (with_symbols L (with_policy L s)) = (Some base, s')"
    and "starts_with_slash base" and "length base + length p + 1 < PATH_MAX"
    and "path_arg L (Some (base @ SLASH # p)) s = Some (Some r, t)" and "r \<noteq> base @ SLASH # p"
  shows "at_arg L fd (Some p) s = Some (Some r, AT_FDCWD, s')"
proof -
  have ok: "c_ok base" by (rule base_c_ok [OF assms(1,2,5)])
  let ?f = "base @ SLASH # p"
  have abs: "starts_with_slash ?f" using assms(6) by (cases base) auto
  have "abs_target (policy_of L s) PATH_MAX ?f = Some r"
    using absolute_args(1) [OF assms(1,2) _ abs] ok assms(3,8,9) by (auto split: option.splits)
  moreover from this have en: "enabled (policy_of L s)" by (auto simp: abs_target_def split: if_splits)
  ultimately have "rel_target (policy_of L s) PATH_MAX base p = Some r"
    using rel_target_abs [OF assms(6) en assms(7)] by simp
  then show ?thesis using relative_at_arg [OF assms(1-4) en assms(5)] by simp
qed

theorem relative_argument_as_absolute_witness:
  "\<exists>t. at_arg (example_libc (\<lambda>_. 1)) 3 (Some ''./x'') (fresh_process []) = Some (Some ''/mnt/copy/x'', AT_FDCWD, t)"
proof -
  let ?L = "example_libc (\<lambda>_. 1)" and ?p = "''./x''"
  have ok: "c_ok ?p" "\<not> starts_with_slash ?p" "starts_with_slash ''/srv/data''"
      "length ''/srv/data'' + length ?p + 1 < PATH_MAX" "''/mnt/copy/x'' \<noteq> ''/srv/data'' @ SLASH # ?p"
    by (simp_all add: c_ok_def PATH_MAX_def)
  obtain t where db: "dir_base ?L 3 (with_symbols ?L (with_policy ?L (fresh_process []))) = (Some ''/srv/data'', t)"
    using example_base by (metis prod.collapse)
  have "path_arg ?L (Some (''/srv/data'' @ SLASH # ?p)) (fresh_process [])
      = Some (Some ''/mnt/copy/x'', with_policy ?L (fresh_process []))"
    using absolute_args(1) [OF example_libc_ok process_ok_fresh, of "''/srv/data'' @ SLASH # ?p" "\<lambda>_. 1" "[]"]
    by (simp add: example_policy_of example_rewrites c_ok_def)
  from relative_argument_as_absolute [OF example_libc_ok process_ok_fresh ok(1,2) db ok(3,4) this ok(5)]
  show ?thesis by blast
qed

text \<open>C25: when the directory of a relative path cannot be told (\<open>getcwd\<close> failed, the descriptor's
  link could not be read, was too long or does not start at the root, or the libc lacks the
  function to ask), the rewriting fails open: the path and the descriptor go on unchanged.\<close>
theorem relative_argument_fails_open:
  assumes "libc_ok L" and "process_ok L s" and "c_ok p" and "\<not> starts_with_slash p"
    and "dir_base L fd (with_symbols L (with_policy L s)) = (None, s')"
  shows "\<exists>t. at_arg L fd (Some p) s = Some (Some p, fd, t) \<and> t \<in> {s', with_policy L s}"
  using at_arg_eq [OF assms(1,2), of "Some p" fd] assms(3-5)
  by (auto simp: at_ref_simps(3) rel_ref_def)

theorem relative_argument_fails_open_witness:
  "\<exists>t. at_arg (example_libc (\<lambda>_. 1)) 4 (Some ''x'') (fresh_process []) = Some (Some ''x'', 4, t)"
proof -
  let ?L = "example_libc (\<lambda>_. 1)"
  have "fst (dir_base ?L 4 s) = None" for s
    by (simp add: dir_base_def fd_base_def AT_FDCWD_def example_libc_def example_digits)
  then obtain t where db: "dir_base ?L 4 (with_symbols ?L (with_policy ?L (fresh_process []))) = (None, t)"
    by (metis prod.collapse)
  have ok: "c_ok ''x''" "\<not> starts_with_slash ''x''" by simp_all
  from relative_argument_fails_open [OF example_libc_ok process_ok_fresh ok db] show ?thesis by blast
qed

text \<open>C26: rewriting is idempotent when neither prefix lies below the other: what a rewriting
  produced is left alone by a second one, so a path the program passes on to another
  interposed call is not redirected twice.\<close>
theorem absolute_argument_stable:
  assumes "libc_ok L" and "process_ok L s" and "c_ok p" and "starts_with_slash p"
    and "capturing (policy_of L s)"
    and "location (from_path (policy_of L s)) \<parallel> location (to_path (policy_of L s))"
    and "path_arg L (Some p) s = Some (Some r, t)"
  shows "path_arg L (Some r) t = Some (Some r, t)"
proof -
  have t: "t = with_policy L s" "process_ok L t" "policy_of L t = policy_of L s" "with_policy L t = t"
    using absolute_args(1) [OF assms(1-4)] assms(1,2,7) by (auto simp: with_idem)
  have "c_ok r \<and> starts_with_slash r \<and> abs_target (policy_of L s) PATH_MAX r = None"
  proof (cases "abs_target (policy_of L s) PATH_MAX p")
    case None
    then show ?thesis using absolute_args(1) [OF assms(1-4)] assms(3,4,7) by simp
  next
    case (Some q)
    then have q: "q = r" using absolute_args(1) [OF assms(1-4)] assms(7) by simp
    note r = abs_target_someD [OF assms(5,3) Some, unfolded q]
    have "moved (policy_of L s) (location r) = None"
      using moved_prefix [OF r(1)] assms(6) by (auto simp: moved_def redirect_def prefix_def)
        (metis parallelE prefix_def prefix_same_cases)
    then show ?thesis using r abs_target_someD(1) [OF assms(5) r(3)]
      by (cases "abs_target (policy_of L s) PATH_MAX r") auto
  qed
  then show ?thesis using absolute_args(1) [OF assms(1) t(2), of r] t(3,4) by simp
qed

theorem absolute_argument_stable_witness:
  "path_arg (example_libc (\<lambda>_. 1)) (Some ''/mnt/copy/x'') (running example_policy)
     = Some (Some ''/mnt/copy/x'', running example_policy)"
proof (rule absolute_argument_stable [OF example_libc_ok running_ok [OF example_policy_ok]])
  show "c_ok ''/srv/data/x''" "starts_with_slash ''/srv/data/x''" by (simp_all add: c_ok_def)
  then show "path_arg (example_libc (\<lambda>_. 1)) (Some ''/srv/data/x'') (running example_policy)
      = Some (Some ''/mnt/copy/x'', running example_policy)"
    using absolute_args(1) [OF example_libc_ok running_ok [OF example_policy_ok], of "''/srv/data/x''" "\<lambda>_. 1"]
    by (simp add: example_rewrites) (simp add: with_policy_def policy_of_def running_def)
  have "location ''/srv/data'' = [''srv'', ''data'']" "location ''/mnt/copy'' = [''mnt'', ''copy'']"
    by code_simp+
  then show "location (from_path (policy_of (example_libc (\<lambda>_. 1)) (running example_policy))) \<parallel>
      location (to_path (policy_of (example_libc (\<lambda>_. 1)) (running example_policy)))"
    by (simp add: example_policy_def parallel_def)
qed (simp add: example_capturing)

text \<open>C27: when the target prefix lies properly below the source prefix, rewriting is not
  idempotent: a rewritten path that is passed to an interposed call again (as happens to the
  directory behind a descriptor that was opened through the interposer) is moved once more, to
  another place.\<close>
theorem nested_target_moves_again:
  assumes "libc_ok L" and "process_ok L s" and "c_ok p" and "starts_with_slash p"
    and "capturing (policy_of L s)"
    and "strict_prefix (location (from_path (policy_of L s))) (location (to_path (policy_of L s)))"
    and "path_arg L (Some p) s = Some (Some r, t)" and "r \<noteq> p" and "roomy (policy_of L s) (length r)"
  shows "\<exists>r'. path_arg L (Some r) t = Some (Some r', t) \<and> location r' \<noteq> location r"
proof -
  have t: "t = with_policy L s" "process_ok L t" "policy_of L t = policy_of L s" "with_policy L t = t"
    using absolute_args(1) [OF assms(1-4)] assms(1,2,7) by (auto simp: with_idem)
  have "abs_target (policy_of L s) PATH_MAX p = Some r"
    using absolute_args(1) [OF assms(1-4)] assms(7,8) by (auto split: option.splits)
  note r = abs_target_someD [OF assms(5,3) this]
  let ?A = "location (from_path (policy_of L s))" and ?B = "location (to_path (policy_of L s))"
  obtain m where m: "location r = ?B @ m" using moved_prefix [OF r(1)] by (auto simp: prefix_def)
  obtain x where x: "?B = ?A @ x" "x \<noteq> []" using assms(6) by (auto simp: strict_prefix_def prefix_def)
  have "moved (policy_of L s) (location r) = Some (?B @ x @ m)"
    by (simp add: moved_def redirect_def m x)
  then obtain r' where r': "abs_target (policy_of L s) PATH_MAX r = Some r'" "location r' = ?B @ x @ m"
    using abs_target_moved [OF assms(5) r(3,2) assms(9)] by auto
  have "location r' \<noteq> location r" using r'(2) m x(2) by simp
  then show ?thesis using absolute_args(1) [OF assms(1) t(2) r(3,2)] t(3,4) r'(1) by simp
qed

theorem nested_target_moves_again_witness:
  "\<exists>r. path_arg (example_libc (\<lambda>_. 1)) (Some ''/srv/data/x'') (running nested_policy)
         = Some (Some r, running nested_policy) \<and> location r \<noteq> location ''/srv/data/x''"
proof -
  let ?L = "example_libc (\<lambda>_. 1)" and ?s = "running nested_policy"
  have nok: "policy_ok nested_policy" using nested_capturing by (simp add: capturing_def)
  have ok: "c_ok ''/srv/x''" "starts_with_slash ''/srv/x''" "''/srv/data/x'' \<noteq> ''/srv/x''"
      "roomy (policy_of ?L ?s) (length ''/srv/data/x'')"
    by (simp_all add: c_ok_def roomy_def nested_policy_def PATH_MAX_def)
  have st: "with_policy ?L ?s = ?s" by (simp add: with_policy_def policy_of_def running_def)
  have run: "path_arg ?L (Some ''/srv/x'') ?s = Some (Some ''/srv/data/x'', ?s)"
    using absolute_args(1) [OF example_libc_ok running_ok [OF nok] ok(1,2), of "\<lambda>_. 1"]
    by (simp add: example_rewrites st)
  have "location ''/srv'' = [''srv'']" "location ''/srv/data'' = [''srv'', ''data'']" by code_simp+
  then have sp: "strict_prefix (location (from_path (policy_of ?L ?s))) (location (to_path (policy_of ?L ?s)))"
    by (simp add: nested_policy_def)
  have cap: "capturing (policy_of ?L ?s)" by (simp add: nested_capturing)
  from nested_target_moves_again [OF example_libc_ok running_ok [OF nok] ok(1,2) cap sp run ok(3,4)]
  show ?thesis .
qed

text \<open>C28: the block that eleven exported functions spell out is \<open>rewrite_at_argument\<close> on a fresh
  array: same path, same descriptor, same effects, for absent, absolute and relative paths.\<close>
theorem rewrite_at_inline_is_helper:
  "rewrite_at_inline L dirfd pathname s =
     do { (target, call_dirfd, buf, s) \<leftarrow> rewrite_at_argument L dirfd pathname (new_buffer PATH_MAX) PATH_MAX s;
          Some (target, call_dirfd, s) }"
  using rewrite_at_inline_helper [of L dirfd pathname s] by (simp add: at_arg_def)

end
