(* ===== verification/Forwarders.thy ===== *)
theory Forwarders
  imports Places
begin

text \<open>
  The functions \<open>orig_*\<close> of rtld_linux.c: each resolves the real functions if that has not
  happened, refuses with ENOSYS where the libc lacks its function, and otherwise calls it
  with the arguments unchanged. A request is a call of one of the interposed functions; the
  two functions with a variadic mode carry the argument the caller passed, if any.
\<close>

unbundle bit_operations_syntax

section \<open>The C code\<close>

definition ENOSYS :: i32 where "ENOSYS = 38"

text \<open>The macro REQUIRE_SYMBOL: what follows it in the function is the body.\<close>

definition REQUIRE_SYMBOL ::
  "'w libc \<Rightarrow> slot \<Rightarrow> 'r \<Rightarrow> ('w process \<Rightarrow> ('r \<times> 'w process) option) \<Rightarrow> 'w process \<Rightarrow> ('r \<times> 'w process) option" where
  "REQUIRE_SYMBOL L sl bad body s = do {
     s \<leftarrow> ensure_symbols L s;
     if real_fn s sl = 0 then Some (bad, s\<lparr>world := set_errno L ENOSYS (world s)\<rparr>)
     else body s }"

text \<open>\<open>return real_x(...)\<close>.\<close>

definition call_real :: "'w libc \<Rightarrow> slot \<Rightarrow> cval list \<Rightarrow> 'w process \<Rightarrow> (cval \<times> 'w process) option" where
  "call_real L sl args s =
     (let (r, w) = invoke L (real_fn s sl) args (world s) in Some (r, s\<lparr>world := w\<rparr>))"

definition orig___fxstat :: "'w libc \<Rightarrow> i32 \<Rightarrow> i32 \<Rightarrow> addr \<Rightarrow> 'w process \<Rightarrow> (cval \<times> 'w process) option" where
  "orig___fxstat L ver fd cstat =
     REQUIRE_SYMBOL L Real_fxstat (I32 (- 1)) (call_real L Real_fxstat [I32 ver, I32 fd, Ptr cstat])"

definition orig___fxstatat :: "'w libc \<Rightarrow> i32 \<Rightarrow> i32 \<Rightarrow> cstr \<Rightarrow> addr \<Rightarrow> i32 \<Rightarrow> 'w process \<Rightarrow> (cval \<times> 'w process) option" where
  "orig___fxstatat L ver dirfd pathname cstat flags =
     REQUIRE_SYMBOL L Real_fxstatat (I32 (- 1)) (call_real L Real_fxstatat [I32 ver, I32 dirfd, Path pathname, Ptr cstat, I32 flags])"

definition orig___lxstat :: "'w libc \<Rightarrow> i32 \<Rightarrow> cstr \<Rightarrow> addr \<Rightarrow> 'w process \<Rightarrow> (cval \<times> 'w process) option" where
  "orig___lxstat L ver pathname cstat =
     REQUIRE_SYMBOL L Real_lxstat (I32 (- 1)) (call_real L Real_lxstat [I32 ver, Path pathname, Ptr cstat])"

definition orig___xstat :: "'w libc \<Rightarrow> i32 \<Rightarrow> cstr \<Rightarrow> addr \<Rightarrow> 'w process \<Rightarrow> (cval \<times> 'w process) option" where
  "orig___xstat L ver pathname cstat =
     REQUIRE_SYMBOL L Real_xstat (I32 (- 1)) (call_real L Real_xstat [I32 ver, Path pathname, Ptr cstat])"

definition orig_access :: "'w libc \<Rightarrow> cstr \<Rightarrow> i32 \<Rightarrow> 'w process \<Rightarrow> (cval \<times> 'w process) option" where
  "orig_access L pathname mode =
     REQUIRE_SYMBOL L Real_access (I32 (- 1)) (call_real L Real_access [Path pathname, I32 mode])"

definition orig_chdir :: "'w libc \<Rightarrow> cstr \<Rightarrow> 'w process \<Rightarrow> (cval \<times> 'w process) option" where
  "orig_chdir L path =
     REQUIRE_SYMBOL L Real_chdir (I32 (- 1)) (call_real L Real_chdir [Path path])"

definition orig_execve :: "'w libc \<Rightarrow> cstr \<Rightarrow> addr \<Rightarrow> addr \<Rightarrow> 'w process \<Rightarrow> (cval \<times> 'w process) option" where
  "orig_execve L pathname argv envp =
     REQUIRE_SYMBOL L Real_execve (I32 (- 1)) (call_real L Real_execve [Path pathname, Ptr argv, Ptr envp])"

definition orig_close :: "'w libc \<Rightarrow> i32 \<Rightarrow> 'w process \<Rightarrow> (cval \<times> 'w process) option" where
  "orig_close L fd =
     REQUIRE_SYMBOL L Real_close (I32 (- 1)) (call_real L Real_close [I32 fd])"

definition orig_creat :: "'w libc \<Rightarrow> cstr \<Rightarrow> i32 \<Rightarrow> 'w process \<Rightarrow> (cval \<times> 'w process) option" where
  "orig_creat L pathname mode =
     REQUIRE_SYMBOL L Real_creat (I32 (- 1)) (call_real L Real_creat [Path pathname, I32 mode])"

definition orig_fstat :: "'w libc \<Rightarrow> i32 \<Rightarrow> addr \<Rightarrow> 'w process \<Rightarrow> (cval \<times> 'w process) option" where
  "orig_fstat L fd cstat =
     REQUIRE_SYMBOL L Real_fstat (I32 (- 1)) (call_real L Real_fstat [I32 fd, Ptr cstat])"

definition orig_newfstatat :: "'w libc \<Rightarrow> i32 \<Rightarrow> cstr \<Rightarrow> addr \<Rightarrow> i32 \<Rightarrow> 'w process \<Rightarrow> (cval \<times> 'w process) option" where
  "orig_newfstatat L dirfd pathname statbuf flags =
     REQUIRE_SYMBOL L Real_newfstatat (I32 (- 1)) (call_real L Real_newfstatat [I32 dirfd, Path pathname, Ptr statbuf, I32 flags])"

definition orig_faccessat :: "'w libc \<Rightarrow> i32 \<Rightarrow> cstr \<Rightarrow> i32 \<Rightarrow> i32 \<Rightarrow> 'w process \<Rightarrow> (cval \<times> 'w process) option" where
  "orig_faccessat L dirfd pathname mode flags =
     REQUIRE_SYMBOL L Real_faccessat (I32 (- 1)) (call_real L Real_faccessat [I32 dirfd, Path pathname, I32 mode, I32 flags])"

definition orig_fchmodat :: "'w libc \<Rightarrow> i32 \<Rightarrow> cstr \<Rightarrow> i32 \<Rightarrow> i32 \<Rightarrow> 'w process \<Rightarrow> (cval \<times> 'w process) option" where
  "orig_fchmodat L dirfd pathname mode flags =
     REQUIRE_SYMBOL L Real_fchmodat (I32 (- 1)) (call_real L Real_fchmodat [I32 dirfd, Path pathname, I32 mode, I32 flags])"

definition orig_link :: "'w libc \<Rightarrow> cstr \<Rightarrow> cstr \<Rightarrow> 'w process \<Rightarrow> (cval \<times> 'w process) option" where
  "orig_link L oldpath newpath =
     REQUIRE_SYMBOL L Real_link (I32 (- 1)) (call_real L Real_link [Path oldpath, Path newpath])"

definition orig_linkat :: "'w libc \<Rightarrow> i32 \<Rightarrow> cstr \<Rightarrow> i32 \<Rightarrow> cstr \<Rightarrow> i32 \<Rightarrow> 'w process \<Rightarrow> (cval \<times> 'w process) option" where
  "orig_linkat L olddirfd oldpath newdirfd newpath flags =
     REQUIRE_SYMBOL L Real_linkat (I32 (- 1)) (call_real L Real_linkat [I32 olddirfd, Path oldpath, I32 newdirfd, Path newpath, I32 flags])"

definition orig_lseek :: "'w libc \<Rightarrow> i32 \<Rightarrow> u64 \<Rightarrow> i32 \<Rightarrow> 'w process \<Rightarrow> (cval \<times> 'w process) option" where
  "orig_lseek L fd off whence =
     REQUIRE_SYMBOL L Real_lseek (I64 (- 1)) (call_real L Real_lseek [I32 fd, I64 off, I32 whence])"

definition orig_mkdir :: "'w libc \<Rightarrow> cstr \<Rightarrow> i32 \<Rightarrow> 'w process \<Rightarrow> (cval \<times> 'w process) option" where
  "orig_mkdir L pathname mode =
     REQUIRE_SYMBOL L Real_mkdir (I32 (- 1)) (call_real L Real_mkdir [Path pathname, I32 mode])"

definition orig_mkdirat :: "'w libc \<Rightarrow> i32 \<Rightarrow> cstr \<Rightarrow> i32 \<Rightarrow> 'w process \<Rightarrow> (cval \<times> 'w process) option" where
  "orig_mkdirat L dirfd pathname mode =
     REQUIRE_SYMBOL L Real_mkdirat (I32 (- 1)) (call_real L Real_mkdirat [I32 dirfd, Path pathname, I32 mode])"

definition orig_open :: "'w libc \<Rightarrow> cstr \<Rightarrow> i32 \<Rightarrow> i32 \<Rightarrow> 'w process \<Rightarrow> (cval \<times> 'w process) option" where
  "orig_open L pathname flags mode =
     REQUIRE_SYMBOL L Real_open (I32 (- 1)) (call_real L Real_open [Path pathname, I32 flags, I32 mode])"

definition orig_openat :: "'w libc \<Rightarrow> i32 \<Rightarrow> cstr \<Rightarrow> i32 \<Rightarrow> i32 \<Rightarrow> 'w process \<Rightarrow> (cval \<times> 'w process) option" where
  "orig_openat L dirfd pathname flags mode =
     REQUIRE_SYMBOL L Real_openat (I32 (- 1)) (call_real L Real_openat [I32 dirfd, Path pathname, I32 flags, I32 mode])"

definition orig_openat2 :: "'w libc \<Rightarrow> i32 \<Rightarrow> cstr \<Rightarrow> addr \<Rightarrow> u64 \<Rightarrow> 'w process \<Rightarrow> (cval \<times> 'w process) option" where
  "orig_openat2 L dirfd pathname how sz =
     REQUIRE_SYMBOL L Real_openat2 (I32 (- 1)) (call_real L Real_openat2 [I32 dirfd, Path pathname, Ptr how, I64 sz])"

definition orig_euidaccess :: "'w libc \<Rightarrow> cstr \<Rightarrow> i32 \<Rightarrow> 'w process \<Rightarrow> (cval \<times> 'w process) option" where
  "orig_euidaccess L pathname mode =
     REQUIRE_SYMBOL L Real_euidaccess (I32 (- 1)) (call_real L Real_euidaccess [Path pathname, I32 mode])"

definition orig_pread :: "'w libc \<Rightarrow> i32 \<Rightarrow> addr \<Rightarrow> u64 \<Rightarrow> u64 \<Rightarrow> 'w process \<Rightarrow> (cval \<times> 'w process) option" where
  "orig_pread L fd buf cnt off =
     REQUIRE_SYMBOL L Real_pread (I64 (- 1)) (call_real L Real_pread [I32 fd, Ptr buf, I64 cnt, I64 off])"

definition orig_pwrite :: "'w libc \<Rightarrow> i32 \<Rightarrow> addr \<Rightarrow> u64 \<Rightarrow> u64 \<Rightarrow> 'w process \<Rightarrow> (cval \<times> 'w process) option" where
  "orig_pwrite L fd buf cnt off =
     REQUIRE_SYMBOL L Real_pwrite (I64 (- 1)) (call_real L Real_pwrite [I32 fd, Ptr buf, I64 cnt, I64 off])"

definition orig_read :: "'w libc \<Rightarrow> i32 \<Rightarrow> addr \<Rightarrow> u64 \<Rightarrow> 'w process \<Rightarrow> (cval \<times> 'w process) option" where
  "orig_read L fd buf cnt =
     REQUIRE_SYMBOL L Real_read (I64 (- 1)) (call_real L Real_read [I32 fd, Ptr buf, I64 cnt])"

definition orig_readlink :: "'w libc \<Rightarrow> cstr \<Rightarrow> addr \<Rightarrow> u64 \<Rightarrow> 'w process \<Rightarrow> (cval \<times> 'w process) option" where
  "orig_readlink L pathname buf bufsiz =
     REQUIRE_SYMBOL L Real_readlink (I64 (- 1)) (call_real L Real_readlink [Path pathname, Ptr buf, I64 bufsiz])"

definition orig_readlinkat :: "'w libc \<Rightarrow> i32 \<Rightarrow> cstr \<Rightarrow> addr \<Rightarrow> u64 \<Rightarrow> 'w process \<Rightarrow> (cval \<times> 'w process) option" where
  "orig_readlinkat L dirfd pathname buf bufsiz =
     REQUIRE_SYMBOL L Real_readlinkat (I64 (- 1)) (call_real L Real_readlinkat [I32 dirfd, Path pathname, Ptr buf, I64 bufsiz])"

definition orig_rename :: "'w libc \<Rightarrow> cstr \<Rightarrow> cstr \<Rightarrow> 'w process \<Rightarrow> (cval \<times> 'w process) option" where
  "orig_rename L oldpath newpath =
     REQUIRE_SYMBOL L Real_rename (I32 (- 1)) (call_real L Real_rename [Path oldpath, Path newpath])"

definition orig_renameat :: "'w libc \<Rightarrow> i32 \<Rightarrow> cstr \<Rightarrow> i32 \<Rightarrow> cstr \<Rightarrow> 'w process \<Rightarrow> (cval \<times> 'w process) option" where
  "orig_renameat L olddirfd oldpath newdirfd newpath =
     REQUIRE_SYMBOL L Real_renameat (I32 (- 1)) (call_real L Real_renameat [I32 olddirfd, Path oldpath, I32 newdirfd, Path newpath])"

definition orig_renameat2 :: "'w libc \<Rightarrow> i32 \<Rightarrow> cstr \<Rightarrow> i32 \<Rightarrow> cstr \<Rightarrow> i32 \<Rightarrow> 'w process \<Rightarrow> (cval \<times> 'w process) option" where
  "orig_renameat2 L olddirfd oldpath newdirfd newpath flags =
     REQUIRE_SYMBOL L Real_renameat2 (I32 (- 1)) (call_real L Real_renameat2 [I32 olddirfd, Path oldpath, I32 newdirfd, Path newpath, I32 flags])"

definition orig_rmdir :: "'w libc \<Rightarrow> cstr \<Rightarrow> 'w process \<Rightarrow> (cval \<times> 'w process) option" where
  "orig_rmdir L pathname =
     REQUIRE_SYMBOL L Real_rmdir (I32 (- 1)) (call_real L Real_rmdir [Path pathname])"

definition orig_lstat :: "'w libc \<Rightarrow> cstr \<Rightarrow> addr \<Rightarrow> 'w process \<Rightarrow> (cval \<times> 'w process) option" where
  "orig_lstat L pathname cstat =
     REQUIRE_SYMBOL L Real_lstat (I32 (- 1)) (call_real L Real_lstat [Path pathname, Ptr cstat])"

definition orig_statx :: "'w libc \<Rightarrow> i32 \<Rightarrow> cstr \<Rightarrow> i32 \<Rightarrow> i32 \<Rightarrow> addr \<Rightarrow> 'w process \<Rightarrow> (cval \<times> 'w process) option" where
  "orig_statx L dirfd pathname flags msk statxbuf =
     REQUIRE_SYMBOL L Real_statx (I32 (- 1)) (call_real L Real_statx [I32 dirfd, Path pathname, I32 flags, I32 msk, Ptr statxbuf])"

definition orig_stat :: "'w libc \<Rightarrow> cstr \<Rightarrow> addr \<Rightarrow> 'w process \<Rightarrow> (cval \<times> 'w process) option" where
  "orig_stat L pathname cstat =
     REQUIRE_SYMBOL L Real_stat (I32 (- 1)) (call_real L Real_stat [Path pathname, Ptr cstat])"

definition orig_statfs :: "'w libc \<Rightarrow> cstr \<Rightarrow> addr \<Rightarrow> 'w process \<Rightarrow> (cval \<times> 'w process) option" where
  "orig_statfs L path buf =
     REQUIRE_SYMBOL L Real_statfs (I32 (- 1)) (call_real L Real_statfs [Path path, Ptr buf])"

definition orig_symlink :: "'w libc \<Rightarrow> cstr \<Rightarrow> cstr \<Rightarrow> 'w process \<Rightarrow> (cval \<times> 'w process) option" where
  "orig_symlink L target linkpath =
     REQUIRE_SYMBOL L Real_symlink (I32 (- 1)) (call_real L Real_symlink [Path target, Path linkpath])"

definition orig_symlinkat :: "'w libc \<Rightarrow> cstr \<Rightarrow> i32 \<Rightarrow> cstr \<Rightarrow> 'w process \<Rightarrow> (cval \<times> 'w process) option" where
  "orig_symlinkat L target newdirfd linkpath =
     REQUIRE_SYMBOL L Real_symlinkat (I32 (- 1)) (call_real L Real_symlinkat [Path target, I32 newdirfd, Path linkpath])"

definition orig_truncate :: "'w libc \<Rightarrow> cstr \<Rightarrow> u64 \<Rightarrow> 'w process \<Rightarrow> (cval \<times> 'w process) option" where
  "orig_truncate L pathname len =
     REQUIRE_SYMBOL L Real_truncate (I32 (- 1)) (call_real L Real_truncate [Path pathname, I64 len])"

definition orig_unlink :: "'w libc \<Rightarrow> cstr \<Rightarrow> 'w process \<Rightarrow> (cval \<times> 'w process) option" where
  "orig_unlink L pathname =
     REQUIRE_SYMBOL L Real_unlink (I32 (- 1)) (call_real L Real_unlink [Path pathname])"

definition orig_unlinkat :: "'w libc \<Rightarrow> i32 \<Rightarrow> cstr \<Rightarrow> i32 \<Rightarrow> 'w process \<Rightarrow> (cval \<times> 'w process) option" where
  "orig_unlinkat L dirfd pathname flags =
     REQUIRE_SYMBOL L Real_unlinkat (I32 (- 1)) (call_real L Real_unlinkat [I32 dirfd, Path pathname, I32 flags])"

definition orig_utimensat :: "'w libc \<Rightarrow> i32 \<Rightarrow> cstr \<Rightarrow> addr \<Rightarrow> i32 \<Rightarrow> 'w process \<Rightarrow> (cval \<times> 'w process) option" where
  "orig_utimensat L dirfd pathname tms flags =
     REQUIRE_SYMBOL L Real_utimensat (I32 (- 1)) (call_real L Real_utimensat [I32 dirfd, Path pathname, Ptr tms, I32 flags])"

definition orig_write :: "'w libc \<Rightarrow> i32 \<Rightarrow> addr \<Rightarrow> u64 \<Rightarrow> 'w process \<Rightarrow> (cval \<times> 'w process) option" where
  "orig_write L fd buf cnt =
     REQUIRE_SYMBOL L Real_write (I64 (- 1)) (call_real L Real_write [I32 fd, Ptr buf, I64 cnt])"

text \<open>
  \<open>getcwd\<close> writes into the caller's array, or allocates one where it gets NULL (the extension
  of the Linux libcs). The result is the string returned, NULL on failure, and the caller's
  array afterwards.
\<close>

definition orig_getcwd ::
  "'w libc \<Rightarrow> buffer option \<Rightarrow> nat \<Rightarrow> 'w process \<Rightarrow> ((cstr \<times> buffer option) \<times> 'w process) option" where
  "orig_getcwd L buf sz = REQUIRE_SYMBOL L Real_getcwd (None, buf)
     (\<lambda>s. case buf of
        None \<Rightarrow> (let (r, w) = alloc_getcwd L (real_fn s Real_getcwd) sz (world s)
                 in Some ((r, None), s\<lparr>world := w\<rparr>))
      | Some b \<Rightarrow>
          (let (r, w) = call_getcwd L (real_fn s Real_getcwd) sz (world s)
           in case r of
                None \<Rightarrow> Some ((None, Some b), s\<lparr>world := w\<rparr>)
              | Some cwd \<Rightarrow> do {
                  b \<leftarrow> copy_in b 0 (cwd @ [NUL]);
                  Some ((Some cwd, Some b), s\<lparr>world := w\<rparr>) }))"

section \<open>Requests\<close>

datatype (plugins only: code size) request =
    C_fxstat i32 i32 addr
  | C_fxstatat i32 i32 cstr addr i32
  | C_newfstatat i32 cstr addr i32
  | C_lxstat i32 cstr addr
  | C_xstat i32 cstr addr
  | C_access cstr i32
  | C_chdir cstr
  | C_close i32
  | C_creat cstr i32
  | C_execve cstr addr addr
  | C_euidaccess cstr i32
  | C_fstat i32 addr
  | C_faccessat i32 cstr i32 i32
  | C_fchmodat i32 cstr i32 i32
  | C_link cstr cstr
  | C_linkat i32 cstr i32 cstr i32
  | C_lseek i32 u64 i32
  | C_mkdir cstr i32
  | C_mkdirat i32 cstr i32
  | C_open cstr i32 "i32 option"
  | C_openat i32 cstr i32 "i32 option"
  | C_openat2 i32 cstr addr u64
  | C_pread i32 addr u64 u64
  | C_pwrite i32 addr u64 u64
  | C_read i32 addr u64
  | C_readlink cstr addr u64
  | C_readlinkat i32 cstr addr u64
  | C_rename cstr cstr
  | C_renameat i32 cstr i32 cstr
  | C_renameat2 i32 cstr i32 cstr i32
  | C_lstat cstr addr
  | C_rmdir cstr
  | C_stat cstr addr
  | C_statx i32 cstr i32 i32 addr
  | C_statfs cstr addr
  | C_symlink cstr cstr
  | C_symlinkat cstr i32 cstr
  | C_truncate cstr u64
  | C_unlink cstr
  | C_unlinkat i32 cstr i32
  | C_utimensat i32 cstr addr i32
  | C_write i32 addr u64

text \<open>Flags of fcntl.h on x86-64 Linux; O_TMPFILE contains O_DIRECTORY.\<close>

definition O_CREAT :: i32 where "O_CREAT = 0x40"
definition O_DIRECTORY :: i32 where "O_DIRECTORY = 0x10000"
definition O_TMPFILE :: i32 where "O_TMPFILE = 0x410000"

text \<open>
  The variadic mode of \<open>open\<close> and \<open>openat\<close>: read only under the flags the code tests, and
  undefined behaviour where it is read but was not passed.
\<close>

definition va_mode_arg :: "i32 \<Rightarrow> i32 option \<Rightarrow> i32 option" where
  "va_mode_arg flags va_mode = (if flags AND (O_CREAT OR O_TMPFILE) \<noteq> 0 then va_mode else Some 0)"

definition mode_passed :: "i32 \<Rightarrow> i32 option \<Rightarrow> i32" where
  "mode_passed flags va_mode = (case va_mode_arg flags va_mode of None \<Rightarrow> 0 | Some m \<Rightarrow> m)"

text \<open>The real function a request is for, and the arguments as the caller passed them.\<close>

primrec slot_of :: "request \<Rightarrow> slot" where
  "slot_of (C_fxstat ver fd cstat) = Real_fxstat"
| "slot_of (C_fxstatat ver dirfd pathname cstat flags) = Real_fxstatat"
| "slot_of (C_newfstatat dirfd pathname statbuf flags) = Real_newfstatat"
| "slot_of (C_lxstat ver pathname cstat) = Real_lxstat"
| "slot_of (C_xstat ver pathname cstat) = Real_xstat"
| "slot_of (C_access pathname mode) = Real_access"
| "slot_of (C_chdir path) = Real_chdir"
| "slot_of (C_close fd) = Real_close"
| "slot_of (C_creat pathname mode) = Real_creat"
| "slot_of (C_execve pathname argv envp) = Real_execve"
| "slot_of (C_euidaccess pathname mode) = Real_euidaccess"
| "slot_of (C_fstat fd cstat) = Real_fstat"
| "slot_of (C_faccessat dirfd pathname mode flags) = Real_faccessat"
| "slot_of (C_fchmodat dirfd pathname mode flags) = Real_fchmodat"
| "slot_of (C_link oldpath newpath) = Real_link"
| "slot_of (C_linkat olddirfd oldpath newdirfd newpath flags) = Real_linkat"
| "slot_of (C_lseek fd off whence) = Real_lseek"
| "slot_of (C_mkdir pathname mode) = Real_mkdir"
| "slot_of (C_mkdirat dirfd pathname mode) = Real_mkdirat"
| "slot_of (C_open pathname flags va_mode) = Real_open"
| "slot_of (C_openat dirfd pathname flags va_mode) = Real_openat"
| "slot_of (C_openat2 dirfd pathname how sz) = Real_openat2"
| "slot_of (C_pread fd buf cnt off) = Real_pread"
| "slot_of (C_pwrite fd buf cnt off) = Real_pwrite"
| "slot_of (C_read fd buf cnt) = Real_read"
| "slot_of (C_readlink pathname buf bufsiz) = Real_readlink"
| "slot_of (C_readlinkat dirfd pathname buf bufsiz) = Real_readlinkat"
| "slot_of (C_rename oldpath newpath) = Real_rename"
| "slot_of (C_renameat olddirfd oldpath newdirfd newpath) = Real_renameat"
| "slot_of (C_renameat2 olddirfd oldpath newdirfd newpath flags) = Real_renameat2"
| "slot_of (C_lstat pathname cstat) = Real_lstat"
| "slot_of (C_rmdir pathname) = Real_rmdir"
| "slot_of (C_stat pathname cstat) = Real_stat"
| "slot_of (C_statx dirfd pathname flags msk statxbuf) = Real_statx"
| "slot_of (C_statfs path buf) = Real_statfs"
| "slot_of (C_symlink target linkpath) = Real_symlink"
| "slot_of (C_symlinkat target newdirfd linkpath) = Real_symlinkat"
| "slot_of (C_truncate pathname len) = Real_truncate"
| "slot_of (C_unlink pathname) = Real_unlink"
| "slot_of (C_unlinkat dirfd pathname flags) = Real_unlinkat"
| "slot_of (C_utimensat dirfd pathname tms flags) = Real_utimensat"
| "slot_of (C_write fd buf cnt) = Real_write"

primrec args_of :: "request \<Rightarrow> cval list" where
  "args_of (C_fxstat ver fd cstat) = [I32 ver, I32 fd, Ptr cstat]"
| "args_of (C_fxstatat ver dirfd pathname cstat flags) = [I32 ver, I32 dirfd, Path pathname, Ptr cstat, I32 flags]"
| "args_of (C_newfstatat dirfd pathname statbuf flags) = [I32 dirfd, Path pathname, Ptr statbuf, I32 flags]"
| "args_of (C_lxstat ver pathname cstat) = [I32 ver, Path pathname, Ptr cstat]"
| "args_of (C_xstat ver pathname cstat) = [I32 ver, Path pathname, Ptr cstat]"
| "args_of (C_access pathname mode) = [Path pathname, I32 mode]"
| "args_of (C_chdir path) = [Path path]"
| "args_of (C_close fd) = [I32 fd]"
| "args_of (C_creat pathname mode) = [Path pathname, I32 mode]"
| "args_of (C_execve pathname argv envp) = [Path pathname, Ptr argv, Ptr envp]"
| "args_of (C_euidaccess pathname mode) = [Path pathname, I32 mode]"
| "args_of (C_fstat fd cstat) = [I32 fd, Ptr cstat]"
| "args_of (C_faccessat dirfd pathname mode flags) = [I32 dirfd, Path pathname, I32 mode, I32 flags]"
| "args_of (C_fchmodat dirfd pathname mode flags) = [I32 dirfd, Path pathname, I32 mode, I32 flags]"
| "args_of (C_link oldpath newpath) = [Path oldpath, Path newpath]"
| "args_of (C_linkat olddirfd oldpath newdirfd newpath flags) = [I32 olddirfd, Path oldpath, I32 newdirfd, Path newpath, I32 flags]"
| "args_of (C_lseek fd off whence) = [I32 fd, I64 off, I32 whence]"
| "args_of (C_mkdir pathname mode) = [Path pathname, I32 mode]"
| "args_of (C_mkdirat dirfd pathname mode) = [I32 dirfd, Path pathname, I32 mode]"
| "args_of (C_open pathname flags va_mode) = [Path pathname, I32 flags, I32 (mode_passed flags va_mode)]"
| "args_of (C_openat dirfd pathname flags va_mode) = [I32 dirfd, Path pathname, I32 flags, I32 (mode_passed flags va_mode)]"
| "args_of (C_openat2 dirfd pathname how sz) = [I32 dirfd, Path pathname, Ptr how, I64 sz]"
| "args_of (C_pread fd buf cnt off) = [I32 fd, Ptr buf, I64 cnt, I64 off]"
| "args_of (C_pwrite fd buf cnt off) = [I32 fd, Ptr buf, I64 cnt, I64 off]"
| "args_of (C_read fd buf cnt) = [I32 fd, Ptr buf, I64 cnt]"
| "args_of (C_readlink pathname buf bufsiz) = [Path pathname, Ptr buf, I64 bufsiz]"
| "args_of (C_readlinkat dirfd pathname buf bufsiz) = [I32 dirfd, Path pathname, Ptr buf, I64 bufsiz]"
| "args_of (C_rename oldpath newpath) = [Path oldpath, Path newpath]"
| "args_of (C_renameat olddirfd oldpath newdirfd newpath) = [I32 olddirfd, Path oldpath, I32 newdirfd, Path newpath]"
| "args_of (C_renameat2 olddirfd oldpath newdirfd newpath flags) = [I32 olddirfd, Path oldpath, I32 newdirfd, Path newpath, I32 flags]"
| "args_of (C_lstat pathname cstat) = [Path pathname, Ptr cstat]"
| "args_of (C_rmdir pathname) = [Path pathname]"
| "args_of (C_stat pathname cstat) = [Path pathname, Ptr cstat]"
| "args_of (C_statx dirfd pathname flags msk statxbuf) = [I32 dirfd, Path pathname, I32 flags, I32 msk, Ptr statxbuf]"
| "args_of (C_statfs path buf) = [Path path, Ptr buf]"
| "args_of (C_symlink target linkpath) = [Path target, Path linkpath]"
| "args_of (C_symlinkat target newdirfd linkpath) = [Path target, I32 newdirfd, Path linkpath]"
| "args_of (C_truncate pathname len) = [Path pathname, I64 len]"
| "args_of (C_unlink pathname) = [Path pathname]"
| "args_of (C_unlinkat dirfd pathname flags) = [I32 dirfd, Path pathname, I32 flags]"
| "args_of (C_utimensat dirfd pathname tms flags) = [I32 dirfd, Path pathname, Ptr tms, I32 flags]"
| "args_of (C_write fd buf cnt) = [I32 fd, Ptr buf, I64 cnt]"

text \<open>What a request answers where its function is missing: -1 of the return type.\<close>

definition failure_of :: "slot \<Rightarrow> cval" where
  "failure_of sl =
     (if sl \<in> {Real_lseek, Real_pread, Real_pwrite, Real_read, Real_readlink, Real_readlinkat, Real_write}
      then I64 (- 1) else I32 (- 1))"

text \<open>The forwarder of a request.\<close>

primrec forward_call :: "'w libc \<Rightarrow> request \<Rightarrow> 'w process \<Rightarrow> (cval \<times> 'w process) option" where
  "forward_call L (C_fxstat ver fd cstat) = orig___fxstat L ver fd cstat"
| "forward_call L (C_fxstatat ver dirfd pathname cstat flags) = orig___fxstatat L ver dirfd pathname cstat flags"
| "forward_call L (C_newfstatat dirfd pathname statbuf flags) = orig_newfstatat L dirfd pathname statbuf flags"
| "forward_call L (C_lxstat ver pathname cstat) = orig___lxstat L ver pathname cstat"
| "forward_call L (C_xstat ver pathname cstat) = orig___xstat L ver pathname cstat"
| "forward_call L (C_access pathname mode) = orig_access L pathname mode"
| "forward_call L (C_chdir path) = orig_chdir L path"
| "forward_call L (C_close fd) = orig_close L fd"
| "forward_call L (C_creat pathname mode) = orig_creat L pathname mode"
| "forward_call L (C_execve pathname argv envp) = orig_execve L pathname argv envp"
| "forward_call L (C_euidaccess pathname mode) = orig_euidaccess L pathname mode"
| "forward_call L (C_fstat fd cstat) = orig_fstat L fd cstat"
| "forward_call L (C_faccessat dirfd pathname mode flags) = orig_faccessat L dirfd pathname mode flags"
| "forward_call L (C_fchmodat dirfd pathname mode flags) = orig_fchmodat L dirfd pathname mode flags"
| "forward_call L (C_link oldpath newpath) = orig_link L oldpath newpath"
| "forward_call L (C_linkat olddirfd oldpath newdirfd newpath flags) = orig_linkat L olddirfd oldpath newdirfd newpath flags"
| "forward_call L (C_lseek fd off whence) = orig_lseek L fd off whence"
| "forward_call L (C_mkdir pathname mode) = orig_mkdir L pathname mode"
| "forward_call L (C_mkdirat dirfd pathname mode) = orig_mkdirat L dirfd pathname mode"
| "forward_call L (C_open pathname flags va_mode) = orig_open L pathname flags (mode_passed flags va_mode)"
| "forward_call L (C_openat dirfd pathname flags va_mode) = orig_openat L dirfd pathname flags (mode_passed flags va_mode)"
| "forward_call L (C_openat2 dirfd pathname how sz) = orig_openat2 L dirfd pathname how sz"
| "forward_call L (C_pread fd buf cnt off) = orig_pread L fd buf cnt off"
| "forward_call L (C_pwrite fd buf cnt off) = orig_pwrite L fd buf cnt off"
| "forward_call L (C_read fd buf cnt) = orig_read L fd buf cnt"
| "forward_call L (C_readlink pathname buf bufsiz) = orig_readlink L pathname buf bufsiz"
| "forward_call L (C_readlinkat dirfd pathname buf bufsiz) = orig_readlinkat L dirfd pathname buf bufsiz"
| "forward_call L (C_rename oldpath newpath) = orig_rename L oldpath newpath"
| "forward_call L (C_renameat olddirfd oldpath newdirfd newpath) = orig_renameat L olddirfd oldpath newdirfd newpath"
| "forward_call L (C_renameat2 olddirfd oldpath newdirfd newpath flags) = orig_renameat2 L olddirfd oldpath newdirfd newpath flags"
| "forward_call L (C_lstat pathname cstat) = orig_lstat L pathname cstat"
| "forward_call L (C_rmdir pathname) = orig_rmdir L pathname"
| "forward_call L (C_stat pathname cstat) = orig_stat L pathname cstat"
| "forward_call L (C_statx dirfd pathname flags msk statxbuf) = orig_statx L dirfd pathname flags msk statxbuf"
| "forward_call L (C_statfs path buf) = orig_statfs L path buf"
| "forward_call L (C_symlink target linkpath) = orig_symlink L target linkpath"
| "forward_call L (C_symlinkat target newdirfd linkpath) = orig_symlinkat L target newdirfd linkpath"
| "forward_call L (C_truncate pathname len) = orig_truncate L pathname len"
| "forward_call L (C_unlink pathname) = orig_unlink L pathname"
| "forward_call L (C_unlinkat dirfd pathname flags) = orig_unlinkat L dirfd pathname flags"
| "forward_call L (C_utimensat dirfd pathname tms flags) = orig_utimensat L dirfd pathname tms flags"
| "forward_call L (C_write fd buf cnt) = orig_write L fd buf cnt"

section \<open>Every forwarder calls the libc function of its own name\<close>

text \<open>The call a process makes of the libc, with the symbols as the libc resolves them.\<close>

definition libc_call :: "'w libc \<Rightarrow> slot \<Rightarrow> cval list \<Rightarrow> 'w \<Rightarrow> cval \<times> 'w" where
  "libc_call L sl args w =
     (if dlsym L (libc_name sl) = 0 then (failure_of sl, set_errno L ENOSYS w)
      else invoke L (dlsym L (libc_name sl)) args w)"

definition with_call :: "'w libc \<Rightarrow> slot \<Rightarrow> cval list \<Rightarrow> 'w process \<Rightarrow> cval \<times> 'w process" where
  "with_call L sl args s =
     (let (r, w) = libc_call L sl args (world s) in (r, (with_symbols L s)\<lparr>world := w\<rparr>))"

lemma forwarder_eq:
  assumes "process_ok L s" "bad = failure_of sl"
  shows "REQUIRE_SYMBOL L sl bad (call_real L sl args) s = Some (with_call L sl args s)"
  using assms(2)
  by (auto simp: REQUIRE_SYMBOL_def call_real_def ensure_symbols_eq [OF assms(1)] with_call_def libc_call_def
      with_symbols_def split: prod.splits)

lemmas orig_defs =
  orig___fxstat_def
  orig___fxstatat_def
  orig___lxstat_def
  orig___xstat_def
  orig_access_def
  orig_chdir_def
  orig_execve_def
  orig_close_def
  orig_creat_def
  orig_fstat_def
  orig_newfstatat_def
  orig_faccessat_def
  orig_fchmodat_def
  orig_link_def
  orig_linkat_def
  orig_lseek_def
  orig_mkdir_def
  orig_mkdirat_def
  orig_open_def
  orig_openat_def
  orig_openat2_def
  orig_euidaccess_def
  orig_pread_def
  orig_pwrite_def
  orig_read_def
  orig_readlink_def
  orig_readlinkat_def
  orig_rename_def
  orig_renameat_def
  orig_renameat2_def
  orig_rmdir_def
  orig_lstat_def
  orig_statx_def
  orig_stat_def
  orig_statfs_def
  orig_symlink_def
  orig_symlinkat_def
  orig_truncate_def
  orig_unlink_def
  orig_unlinkat_def
  orig_utimensat_def
  orig_write_def

lemma forward_call_eq:
  assumes "process_ok L s"
  shows "forward_call L req s = Some (with_call L (slot_of req) (args_of req) s)"
  by (cases req) (simp_all add: orig_defs forwarder_eq [OF assms] failure_of_def)

section \<open>Properties\<close>

text \<open>C21: every \<open>orig_*\<close> function but \<open>orig_getcwd\<close>, whose result is a pointer, calls the libc
  function of its own name, with its arguments unchanged and in order, and returns what that returned; where the libc lacks the function it
  makes no call, sets errno to ENOSYS and answers -1 of its return type. Either way all real
  functions are resolved afterwards, each from its own name.\<close>
theorem forwarders_call_their_function:
  assumes "process_ok L s"
  shows "forward_call L req s = Some (
     if dlsym L (libc_name (slot_of req)) = 0
     then (failure_of (slot_of req), (with_symbols L s)\<lparr>world := set_errno L ENOSYS (world s)\<rparr>)
     else (let (r, w) = invoke L (dlsym L (libc_name (slot_of req))) (args_of req) (world s)
           in (r, (with_symbols L s)\<lparr>world := w\<rparr>)))"
  using forward_call_eq [OF assms] by (auto simp: with_call_def libc_call_def)

theorem forwarders_call_their_function_witness:
  "\<exists>s. forward_call (example_libc (\<lambda>name. if name = ''lstat'' then 7 else 0))
         (C_lstat (Some ''/srv'') 16) (fresh_process []) = Some (I32 0, s) \<and>
       world s = [(7, [Path (Some ''/srv''), Ptr 16])]"
  using forwarders_call_their_function
    [OF process_ok_fresh, of "example_libc (\<lambda>name. if name = ''lstat'' then 7 else 0)" "C_lstat (Some ''/srv'') 16" "[]"]
  by (simp add: example_libc_def fresh_process_def)

end
