(* ===== verification/Interposers.thy ===== *)
theory Interposers
  imports Forwarders
begin

text \<open>
  The exported functions of rtld_linux.c that take the place of the libc's (all but
  \<open>getcwd\<close>), and the table of what each does to its arguments. Names that start with
  underscores lose them: \<open>fxstat\<close>, \<open>fxstatat\<close>, \<open>lxstat\<close> and \<open>xstat\<close> are
  \<open>__fxstat\<close> and so on; \<open>open\<close> and \<open>write\<close> are \<open>open_call\<close> and \<open>write_call\<close>.
\<close>

section \<open>The C code\<close>

text \<open>The target of a symbolic link is rewritten only where it is absolute.\<close>

definition link_target :: "'w libc \<Rightarrow> cstr \<Rightarrow> 'w process \<Rightarrow> (cstr \<times> 'w process) option" where
  "link_target L target s =
     (if (case target of None \<Rightarrow> False | Some t \<Rightarrow> starts_with_slash t) then path_arg L target s
      else Some (target, s))"

text \<open>
  One definition per exported function. C leaves the order of evaluation of the arguments of
  \<open>link\<close> and \<open>rename\<close> open; the model takes them from left to right.
\<close>

definition fxstat :: "'w libc \<Rightarrow> i32 \<Rightarrow> i32 \<Rightarrow> addr \<Rightarrow> 'w process \<Rightarrow> (cval \<times> 'w process) option" where
  "fxstat L ver fd cstat s = orig___fxstat L ver fd cstat s"

definition fxstatat :: "'w libc \<Rightarrow> i32 \<Rightarrow> i32 \<Rightarrow> cstr \<Rightarrow> addr \<Rightarrow> i32 \<Rightarrow> 'w process \<Rightarrow> (cval \<times> 'w process) option" where
  "fxstatat L ver dirfd pathname cstat flags s = do {
     (target, call_dirfd, s) \<leftarrow> rewrite_at_inline L dirfd pathname s;
     orig___fxstatat L ver call_dirfd target cstat flags s }"

definition newfstatat :: "'w libc \<Rightarrow> i32 \<Rightarrow> cstr \<Rightarrow> addr \<Rightarrow> i32 \<Rightarrow> 'w process \<Rightarrow> (cval \<times> 'w process) option" where
  "newfstatat L dirfd pathname statbuf flags s = do {
     (target, call_dirfd, s) \<leftarrow> rewrite_at_inline L dirfd pathname s;
     orig_newfstatat L call_dirfd target statbuf flags s }"

definition lxstat :: "'w libc \<Rightarrow> i32 \<Rightarrow> cstr \<Rightarrow> addr \<Rightarrow> 'w process \<Rightarrow> (cval \<times> 'w process) option" where
  "lxstat L ver pathname cstat s = do {
     (rewritten, s) \<leftarrow> path_arg L pathname s;
     orig___lxstat L ver rewritten cstat s }"

definition xstat :: "'w libc \<Rightarrow> i32 \<Rightarrow> cstr \<Rightarrow> addr \<Rightarrow> 'w process \<Rightarrow> (cval \<times> 'w process) option" where
  "xstat L ver pathname cstat s = do {
     (rewritten, s) \<leftarrow> path_arg L pathname s;
     orig___xstat L ver rewritten cstat s }"

definition access :: "'w libc \<Rightarrow> cstr \<Rightarrow> i32 \<Rightarrow> 'w process \<Rightarrow> (cval \<times> 'w process) option" where
  "access L pathname mode s = do {
     (rewritten, s) \<leftarrow> cwd_arg L pathname s;
     orig_access L rewritten mode s }"

definition chdir :: "'w libc \<Rightarrow> cstr \<Rightarrow> 'w process \<Rightarrow> (cval \<times> 'w process) option" where
  "chdir L path s = do {
     (rewritten, s) \<leftarrow> cwd_arg L path s;
     orig_chdir L rewritten s }"

definition close :: "'w libc \<Rightarrow> i32 \<Rightarrow> 'w process \<Rightarrow> (cval \<times> 'w process) option" where
  "close L fd s = orig_close L fd s"

definition creat :: "'w libc \<Rightarrow> cstr \<Rightarrow> i32 \<Rightarrow> 'w process \<Rightarrow> (cval \<times> 'w process) option" where
  "creat L pathname mode s = do {
     (rewritten, s) \<leftarrow> path_arg L pathname s;
     orig_creat L rewritten mode s }"

definition execve :: "'w libc \<Rightarrow> cstr \<Rightarrow> addr \<Rightarrow> addr \<Rightarrow> 'w process \<Rightarrow> (cval \<times> 'w process) option" where
  "execve L pathname argv envp s = do {
     (rewritten, s) \<leftarrow> cwd_arg L pathname s;
     orig_execve L rewritten argv envp s }"

definition euidaccess :: "'w libc \<Rightarrow> cstr \<Rightarrow> i32 \<Rightarrow> 'w process \<Rightarrow> (cval \<times> 'w process) option" where
  "euidaccess L pathname mode s = do {
     (rewritten, s) \<leftarrow> cwd_arg L pathname s;
     orig_euidaccess L rewritten mode s }"

definition fstat :: "'w libc \<Rightarrow> i32 \<Rightarrow> addr \<Rightarrow> 'w process \<Rightarrow> (cval \<times> 'w process) option" where
  "fstat L fd cstat s = orig_fstat L fd cstat s"

definition faccessat :: "'w libc \<Rightarrow> i32 \<Rightarrow> cstr \<Rightarrow> i32 \<Rightarrow> i32 \<Rightarrow> 'w process \<Rightarrow> (cval \<times> 'w process) option" where
  "faccessat L dirfd pathname mode flags s = do {
     (target, call_dirfd, s) \<leftarrow> rewrite_at_inline L dirfd pathname s;
     orig_faccessat L call_dirfd target mode flags s }"

definition fchmodat :: "'w libc \<Rightarrow> i32 \<Rightarrow> cstr \<Rightarrow> i32 \<Rightarrow> i32 \<Rightarrow> 'w process \<Rightarrow> (cval \<times> 'w process) option" where
  "fchmodat L dirfd pathname mode flags s = do {
     (target, call_dirfd, s) \<leftarrow> rewrite_at_inline L dirfd pathname s;
     orig_fchmodat L call_dirfd target mode flags s }"

definition link :: "'w libc \<Rightarrow> cstr \<Rightarrow> cstr \<Rightarrow> 'w process \<Rightarrow> (cval \<times> 'w process) option" where
  "link L oldpath newpath s = do {
     (old_rewritten, s) \<leftarrow> cwd_arg L oldpath s;
     (new_rewritten, s) \<leftarrow> cwd_arg L newpath s;
     orig_link L old_rewritten new_rewritten s }"

definition linkat :: "'w libc \<Rightarrow> i32 \<Rightarrow> cstr \<Rightarrow> i32 \<Rightarrow> cstr \<Rightarrow> i32 \<Rightarrow> 'w process \<Rightarrow> (cval \<times> 'w process) option" where
  "linkat L olddirfd oldpath newdirfd newpath flags s = do {
     (effective_oldpath, olddirfd, s) \<leftarrow> at_arg L olddirfd oldpath s;
     (effective_newpath, newdirfd, s) \<leftarrow> at_arg L newdirfd newpath s;
     orig_linkat L olddirfd effective_oldpath newdirfd effective_newpath flags s }"

definition lseek :: "'w libc \<Rightarrow> i32 \<Rightarrow> u64 \<Rightarrow> i32 \<Rightarrow> 'w process \<Rightarrow> (cval \<times> 'w process) option" where
  "lseek L fd off whence s = orig_lseek L fd off whence s"

definition mkdir :: "'w libc \<Rightarrow> cstr \<Rightarrow> i32 \<Rightarrow> 'w process \<Rightarrow> (cval \<times> 'w process) option" where
  "mkdir L pathname mode s = do {
     (rewritten, s) \<leftarrow> path_arg L pathname s;
     orig_mkdir L rewritten mode s }"

definition mkdirat :: "'w libc \<Rightarrow> i32 \<Rightarrow> cstr \<Rightarrow> i32 \<Rightarrow> 'w process \<Rightarrow> (cval \<times> 'w process) option" where
  "mkdirat L dirfd pathname mode s = do {
     (target, call_dirfd, s) \<leftarrow> rewrite_at_inline L dirfd pathname s;
     orig_mkdirat L call_dirfd target mode s }"

definition open_call :: "'w libc \<Rightarrow> cstr \<Rightarrow> i32 \<Rightarrow> i32 option \<Rightarrow> 'w process \<Rightarrow> (cval \<times> 'w process) option" where
  "open_call L pathname flags va_mode s = do {
     mode \<leftarrow> va_mode_arg flags va_mode;
     (rewritten, s) \<leftarrow> path_arg L pathname s;
     orig_open L rewritten flags mode s }"

definition openat :: "'w libc \<Rightarrow> i32 \<Rightarrow> cstr \<Rightarrow> i32 \<Rightarrow> i32 option \<Rightarrow> 'w process \<Rightarrow> (cval \<times> 'w process) option" where
  "openat L dirfd pathname flags va_mode s = do {
     mode \<leftarrow> va_mode_arg flags va_mode;
     (target, call_dirfd, s) \<leftarrow> rewrite_at_inline L dirfd pathname s;
     orig_openat L call_dirfd target flags mode s }"

definition openat2 :: "'w libc \<Rightarrow> i32 \<Rightarrow> cstr \<Rightarrow> addr \<Rightarrow> u64 \<Rightarrow> 'w process \<Rightarrow> (cval \<times> 'w process) option" where
  "openat2 L dirfd pathname how sz s = do {
     (target, call_dirfd, s) \<leftarrow> rewrite_at_inline L dirfd pathname s;
     orig_openat2 L call_dirfd target how sz s }"

definition pread :: "'w libc \<Rightarrow> i32 \<Rightarrow> addr \<Rightarrow> u64 \<Rightarrow> u64 \<Rightarrow> 'w process \<Rightarrow> (cval \<times> 'w process) option" where
  "pread L fd buf cnt off s = orig_pread L fd buf cnt off s"

definition pwrite :: "'w libc \<Rightarrow> i32 \<Rightarrow> addr \<Rightarrow> u64 \<Rightarrow> u64 \<Rightarrow> 'w process \<Rightarrow> (cval \<times> 'w process) option" where
  "pwrite L fd buf cnt off s = orig_pwrite L fd buf cnt off s"

definition read :: "'w libc \<Rightarrow> i32 \<Rightarrow> addr \<Rightarrow> u64 \<Rightarrow> 'w process \<Rightarrow> (cval \<times> 'w process) option" where
  "read L fd buf cnt s = orig_read L fd buf cnt s"

definition readlink :: "'w libc \<Rightarrow> cstr \<Rightarrow> addr \<Rightarrow> u64 \<Rightarrow> 'w process \<Rightarrow> (cval \<times> 'w process) option" where
  "readlink L pathname buf bufsiz s = do {
     (rewritten, s) \<leftarrow> path_arg L pathname s;
     orig_readlink L rewritten buf bufsiz s }"

definition readlinkat :: "'w libc \<Rightarrow> i32 \<Rightarrow> cstr \<Rightarrow> addr \<Rightarrow> u64 \<Rightarrow> 'w process \<Rightarrow> (cval \<times> 'w process) option" where
  "readlinkat L dirfd pathname buf bufsiz s = do {
     (target, call_dirfd, s) \<leftarrow> rewrite_at_inline L dirfd pathname s;
     orig_readlinkat L call_dirfd target buf bufsiz s }"

definition rename :: "'w libc \<Rightarrow> cstr \<Rightarrow> cstr \<Rightarrow> 'w process \<Rightarrow> (cval \<times> 'w process) option" where
  "rename L oldpath newpath s = do {
     (old_rewritten, s) \<leftarrow> cwd_arg L oldpath s;
     (new_rewritten, s) \<leftarrow> cwd_arg L newpath s;
     orig_rename L old_rewritten new_rewritten s }"

definition renameat :: "'w libc \<Rightarrow> i32 \<Rightarrow> cstr \<Rightarrow> i32 \<Rightarrow> cstr \<Rightarrow> 'w process \<Rightarrow> (cval \<times> 'w process) option" where
  "renameat L olddirfd oldpath newdirfd newpath s = do {
     (effective_oldpath, olddirfd, s) \<leftarrow> at_arg L olddirfd oldpath s;
     (effective_newpath, newdirfd, s) \<leftarrow> at_arg L newdirfd newpath s;
     orig_renameat L olddirfd effective_oldpath newdirfd effective_newpath s }"

definition renameat2 :: "'w libc \<Rightarrow> i32 \<Rightarrow> cstr \<Rightarrow> i32 \<Rightarrow> cstr \<Rightarrow> i32 \<Rightarrow> 'w process \<Rightarrow> (cval \<times> 'w process) option" where
  "renameat2 L olddirfd oldpath newdirfd newpath flags s = do {
     (effective_oldpath, olddirfd, s) \<leftarrow> at_arg L olddirfd oldpath s;
     (effective_newpath, newdirfd, s) \<leftarrow> at_arg L newdirfd newpath s;
     orig_renameat2 L olddirfd effective_oldpath newdirfd effective_newpath flags s }"

definition lstat :: "'w libc \<Rightarrow> cstr \<Rightarrow> addr \<Rightarrow> 'w process \<Rightarrow> (cval \<times> 'w process) option" where
  "lstat L pathname cstat s = do {
     (rewritten, s) \<leftarrow> path_arg L pathname s;
     orig_lstat L rewritten cstat s }"

definition rmdir :: "'w libc \<Rightarrow> cstr \<Rightarrow> 'w process \<Rightarrow> (cval \<times> 'w process) option" where
  "rmdir L pathname s = do {
     (rewritten, s) \<leftarrow> path_arg L pathname s;
     orig_rmdir L rewritten s }"

definition stat :: "'w libc \<Rightarrow> cstr \<Rightarrow> addr \<Rightarrow> 'w process \<Rightarrow> (cval \<times> 'w process) option" where
  "stat L pathname cstat s = do {
     (rewritten, s) \<leftarrow> path_arg L pathname s;
     orig_stat L rewritten cstat s }"

definition statx :: "'w libc \<Rightarrow> i32 \<Rightarrow> cstr \<Rightarrow> i32 \<Rightarrow> i32 \<Rightarrow> addr \<Rightarrow> 'w process \<Rightarrow> (cval \<times> 'w process) option" where
  "statx L dirfd pathname flags msk statxbuf s = do {
     (target, call_dirfd, s) \<leftarrow> rewrite_at_inline L dirfd pathname s;
     orig_statx L call_dirfd target flags msk statxbuf s }"

definition statfs :: "'w libc \<Rightarrow> cstr \<Rightarrow> addr \<Rightarrow> 'w process \<Rightarrow> (cval \<times> 'w process) option" where
  "statfs L path buf s = do {
     (rewritten, s) \<leftarrow> cwd_arg L path s;
     orig_statfs L rewritten buf s }"

definition symlink :: "'w libc \<Rightarrow> cstr \<Rightarrow> cstr \<Rightarrow> 'w process \<Rightarrow> (cval \<times> 'w process) option" where
  "symlink L target linkpath s = do {
     (effective_target, s) \<leftarrow> link_target L target s;
     (effective_linkpath, s) \<leftarrow> cwd_arg L linkpath s;
     orig_symlink L effective_target effective_linkpath s }"

definition symlinkat :: "'w libc \<Rightarrow> cstr \<Rightarrow> i32 \<Rightarrow> cstr \<Rightarrow> 'w process \<Rightarrow> (cval \<times> 'w process) option" where
  "symlinkat L target newdirfd linkpath s = do {
     (effective_linkpath, newdirfd, s) \<leftarrow> at_arg L newdirfd linkpath s;
     (effective_target, s) \<leftarrow> link_target L target s;
     orig_symlinkat L effective_target newdirfd effective_linkpath s }"

definition truncate :: "'w libc \<Rightarrow> cstr \<Rightarrow> u64 \<Rightarrow> 'w process \<Rightarrow> (cval \<times> 'w process) option" where
  "truncate L pathname len s = do {
     (rewritten, s) \<leftarrow> path_arg L pathname s;
     orig_truncate L rewritten len s }"

definition unlink :: "'w libc \<Rightarrow> cstr \<Rightarrow> 'w process \<Rightarrow> (cval \<times> 'w process) option" where
  "unlink L pathname s = do {
     (rewritten, s) \<leftarrow> path_arg L pathname s;
     orig_unlink L rewritten s }"

definition unlinkat :: "'w libc \<Rightarrow> i32 \<Rightarrow> cstr \<Rightarrow> i32 \<Rightarrow> 'w process \<Rightarrow> (cval \<times> 'w process) option" where
  "unlinkat L dirfd pathname flags s = do {
     (target, call_dirfd, s) \<leftarrow> rewrite_at_inline L dirfd pathname s;
     orig_unlinkat L call_dirfd target flags s }"

definition utimensat :: "'w libc \<Rightarrow> i32 \<Rightarrow> cstr \<Rightarrow> addr \<Rightarrow> i32 \<Rightarrow> 'w process \<Rightarrow> (cval \<times> 'w process) option" where
  "utimensat L dirfd pathname tms flags s = do {
     (target, call_dirfd, s) \<leftarrow> rewrite_at_inline L dirfd pathname s;
     orig_utimensat L call_dirfd target tms flags s }"

definition write_call :: "'w libc \<Rightarrow> i32 \<Rightarrow> addr \<Rightarrow> u64 \<Rightarrow> 'w process \<Rightarrow> (cval \<times> 'w process) option" where
  "write_call L fd buf cnt s = orig_write L fd buf cnt s"

text \<open>A request served by the interposer.\<close>

primrec serve :: "'w libc \<Rightarrow> request \<Rightarrow> 'w process \<Rightarrow> (cval \<times> 'w process) option" where
  "serve L (C_fxstat ver fd cstat) = fxstat L ver fd cstat"
| "serve L (C_fxstatat ver dirfd pathname cstat flags) = fxstatat L ver dirfd pathname cstat flags"
| "serve L (C_newfstatat dirfd pathname statbuf flags) = newfstatat L dirfd pathname statbuf flags"
| "serve L (C_lxstat ver pathname cstat) = lxstat L ver pathname cstat"
| "serve L (C_xstat ver pathname cstat) = xstat L ver pathname cstat"
| "serve L (C_access pathname mode) = access L pathname mode"
| "serve L (C_chdir path) = chdir L path"
| "serve L (C_close fd) = close L fd"
| "serve L (C_creat pathname mode) = creat L pathname mode"
| "serve L (C_execve pathname argv envp) = execve L pathname argv envp"
| "serve L (C_euidaccess pathname mode) = euidaccess L pathname mode"
| "serve L (C_fstat fd cstat) = fstat L fd cstat"
| "serve L (C_faccessat dirfd pathname mode flags) = faccessat L dirfd pathname mode flags"
| "serve L (C_fchmodat dirfd pathname mode flags) = fchmodat L dirfd pathname mode flags"
| "serve L (C_link oldpath newpath) = link L oldpath newpath"
| "serve L (C_linkat olddirfd oldpath newdirfd newpath flags) = linkat L olddirfd oldpath newdirfd newpath flags"
| "serve L (C_lseek fd off whence) = lseek L fd off whence"
| "serve L (C_mkdir pathname mode) = mkdir L pathname mode"
| "serve L (C_mkdirat dirfd pathname mode) = mkdirat L dirfd pathname mode"
| "serve L (C_open pathname flags va_mode) = open_call L pathname flags va_mode"
| "serve L (C_openat dirfd pathname flags va_mode) = openat L dirfd pathname flags va_mode"
| "serve L (C_openat2 dirfd pathname how sz) = openat2 L dirfd pathname how sz"
| "serve L (C_pread fd buf cnt off) = pread L fd buf cnt off"
| "serve L (C_pwrite fd buf cnt off) = pwrite L fd buf cnt off"
| "serve L (C_read fd buf cnt) = read L fd buf cnt"
| "serve L (C_readlink pathname buf bufsiz) = readlink L pathname buf bufsiz"
| "serve L (C_readlinkat dirfd pathname buf bufsiz) = readlinkat L dirfd pathname buf bufsiz"
| "serve L (C_rename oldpath newpath) = rename L oldpath newpath"
| "serve L (C_renameat olddirfd oldpath newdirfd newpath) = renameat L olddirfd oldpath newdirfd newpath"
| "serve L (C_renameat2 olddirfd oldpath newdirfd newpath flags) = renameat2 L olddirfd oldpath newdirfd newpath flags"
| "serve L (C_lstat pathname cstat) = lstat L pathname cstat"
| "serve L (C_rmdir pathname) = rmdir L pathname"
| "serve L (C_stat pathname cstat) = stat L pathname cstat"
| "serve L (C_statx dirfd pathname flags msk statxbuf) = statx L dirfd pathname flags msk statxbuf"
| "serve L (C_statfs path buf) = statfs L path buf"
| "serve L (C_symlink target linkpath) = symlink L target linkpath"
| "serve L (C_symlinkat target newdirfd linkpath) = symlinkat L target newdirfd linkpath"
| "serve L (C_truncate pathname len) = truncate L pathname len"
| "serve L (C_unlink pathname) = unlink L pathname"
| "serve L (C_unlinkat dirfd pathname flags) = unlinkat L dirfd pathname flags"
| "serve L (C_utimensat dirfd pathname tms flags) = utimensat L dirfd pathname tms flags"
| "serve L (C_write fd buf cnt) = write_call L fd buf cnt"

section \<open>The table of argument kinds\<close>

text \<open>
  How an argument is treated: passed on, rewritten where it is absolute (\<open>Whole_path\<close>), rewritten
  also relative to the working directory (\<open>Cwd_path\<close>), or rewritten relative to the descriptor
  before it (\<open>At_path\<close>).
\<close>

datatype piece = Plain cval | Whole_path cstr | Cwd_path cstr | At_path i32 cstr

primrec plan_of :: "request \<Rightarrow> piece list" where
  "plan_of (C_fxstat ver fd cstat) = [Plain (I32 ver), Plain (I32 fd), Plain (Ptr cstat)]"
| "plan_of (C_fxstatat ver dirfd pathname cstat flags) = [Plain (I32 ver), At_path dirfd pathname, Plain (Ptr cstat), Plain (I32 flags)]"
| "plan_of (C_newfstatat dirfd pathname statbuf flags) = [At_path dirfd pathname, Plain (Ptr statbuf), Plain (I32 flags)]"
| "plan_of (C_lxstat ver pathname cstat) = [Plain (I32 ver), Whole_path pathname, Plain (Ptr cstat)]"
| "plan_of (C_xstat ver pathname cstat) = [Plain (I32 ver), Whole_path pathname, Plain (Ptr cstat)]"
| "plan_of (C_access pathname mode) = [Cwd_path pathname, Plain (I32 mode)]"
| "plan_of (C_chdir path) = [Cwd_path path]"
| "plan_of (C_close fd) = [Plain (I32 fd)]"
| "plan_of (C_creat pathname mode) = [Whole_path pathname, Plain (I32 mode)]"
| "plan_of (C_execve pathname argv envp) = [Cwd_path pathname, Plain (Ptr argv), Plain (Ptr envp)]"
| "plan_of (C_euidaccess pathname mode) = [Cwd_path pathname, Plain (I32 mode)]"
| "plan_of (C_fstat fd cstat) = [Plain (I32 fd), Plain (Ptr cstat)]"
| "plan_of (C_faccessat dirfd pathname mode flags) = [At_path dirfd pathname, Plain (I32 mode), Plain (I32 flags)]"
| "plan_of (C_fchmodat dirfd pathname mode flags) = [At_path dirfd pathname, Plain (I32 mode), Plain (I32 flags)]"
| "plan_of (C_link oldpath newpath) = [Cwd_path oldpath, Cwd_path newpath]"
| "plan_of (C_linkat olddirfd oldpath newdirfd newpath flags) = [At_path olddirfd oldpath, At_path newdirfd newpath, Plain (I32 flags)]"
| "plan_of (C_lseek fd off whence) = [Plain (I32 fd), Plain (I64 off), Plain (I32 whence)]"
| "plan_of (C_mkdir pathname mode) = [Whole_path pathname, Plain (I32 mode)]"
| "plan_of (C_mkdirat dirfd pathname mode) = [At_path dirfd pathname, Plain (I32 mode)]"
| "plan_of (C_open pathname flags va_mode) = [Whole_path pathname, Plain (I32 flags), Plain (I32 (mode_passed flags va_mode))]"
| "plan_of (C_openat dirfd pathname flags va_mode) = [At_path dirfd pathname, Plain (I32 flags), Plain (I32 (mode_passed flags va_mode))]"
| "plan_of (C_openat2 dirfd pathname how sz) = [At_path dirfd pathname, Plain (Ptr how), Plain (I64 sz)]"
| "plan_of (C_pread fd buf cnt off) = [Plain (I32 fd), Plain (Ptr buf), Plain (I64 cnt), Plain (I64 off)]"
| "plan_of (C_pwrite fd buf cnt off) = [Plain (I32 fd), Plain (Ptr buf), Plain (I64 cnt), Plain (I64 off)]"
| "plan_of (C_read fd buf cnt) = [Plain (I32 fd), Plain (Ptr buf), Plain (I64 cnt)]"
| "plan_of (C_readlink pathname buf bufsiz) = [Whole_path pathname, Plain (Ptr buf), Plain (I64 bufsiz)]"
| "plan_of (C_readlinkat dirfd pathname buf bufsiz) = [At_path dirfd pathname, Plain (Ptr buf), Plain (I64 bufsiz)]"
| "plan_of (C_rename oldpath newpath) = [Cwd_path oldpath, Cwd_path newpath]"
| "plan_of (C_renameat olddirfd oldpath newdirfd newpath) = [At_path olddirfd oldpath, At_path newdirfd newpath]"
| "plan_of (C_renameat2 olddirfd oldpath newdirfd newpath flags) = [At_path olddirfd oldpath, At_path newdirfd newpath, Plain (I32 flags)]"
| "plan_of (C_lstat pathname cstat) = [Whole_path pathname, Plain (Ptr cstat)]"
| "plan_of (C_rmdir pathname) = [Whole_path pathname]"
| "plan_of (C_stat pathname cstat) = [Whole_path pathname, Plain (Ptr cstat)]"
| "plan_of (C_statx dirfd pathname flags msk statxbuf) = [At_path dirfd pathname, Plain (I32 flags), Plain (I32 msk), Plain (Ptr statxbuf)]"
| "plan_of (C_statfs path buf) = [Cwd_path path, Plain (Ptr buf)]"
| "plan_of (C_symlink target linkpath) = [Whole_path target, Cwd_path linkpath]"
| "plan_of (C_symlinkat target newdirfd linkpath) = [Whole_path target, At_path newdirfd linkpath]"
| "plan_of (C_truncate pathname len) = [Whole_path pathname, Plain (I64 len)]"
| "plan_of (C_unlink pathname) = [Whole_path pathname]"
| "plan_of (C_unlinkat dirfd pathname flags) = [At_path dirfd pathname, Plain (I32 flags)]"
| "plan_of (C_utimensat dirfd pathname tms flags) = [At_path dirfd pathname, Plain (Ptr tms), Plain (I32 flags)]"
| "plan_of (C_write fd buf cnt) = [Plain (I32 fd), Plain (Ptr buf), Plain (I64 cnt)]"

text \<open>\<open>symlinkat\<close> rewrites its last path first.\<close>

definition right_to_left :: "request \<Rightarrow> bool" where
  "right_to_left req \<longleftrightarrow> slot_of req = Real_symlinkat"

primrec eval_piece :: "'w libc \<Rightarrow> piece \<Rightarrow> 'w process \<Rightarrow> (cval list \<times> 'w process) option" where
  "eval_piece L (Plain v) s = Some ([v], s)"
| "eval_piece L (Whole_path p) s = do { (r, s) \<leftarrow> path_arg L p s; Some ([Path r], s) }"
| "eval_piece L (Cwd_path p) s = do { (r, s) \<leftarrow> cwd_arg L p s; Some ([Path r], s) }"
| "eval_piece L (At_path fd p) s = do { (r, fd, s) \<leftarrow> at_arg L fd p s; Some ([I32 fd, Path r], s) }"

definition follow_plan :: "'w libc \<Rightarrow> request \<Rightarrow> 'w process \<Rightarrow> (cval \<times> 'w process) option" where
  "follow_plan L req s = do {
     (vs, s) \<leftarrow> (if right_to_left req
                then map_option (apfst rev) (eval_list (eval_piece L) (rev (plan_of req)) s)
                else eval_list (eval_piece L) (plan_of req) s);
     REQUIRE_SYMBOL L (slot_of req) (failure_of (slot_of req)) (call_real L (slot_of req) (concat vs)) s }"

text \<open>The caller passed the variadic mode where the flags make the code read it.\<close>

definition mode_given :: "request \<Rightarrow> bool" where
  "mode_given req = (case req of
     C_open p flags va_mode \<Rightarrow> va_mode_arg flags va_mode \<noteq> None
   | C_openat fd p flags va_mode \<Rightarrow> va_mode_arg flags va_mode \<noteq> None
   | _ \<Rightarrow> True)"

lemma link_target_path_arg: "link_target L t s = path_arg L t s"
  by (cases t) (simp_all add: link_target_def path_arg_def rewrite_path_argument_def rewrite_absolute_path_def)

lemmas export_defs =
  fxstat_def
  fxstatat_def
  newfstatat_def
  lxstat_def
  xstat_def
  access_def
  chdir_def
  close_def
  creat_def
  execve_def
  euidaccess_def
  fstat_def
  faccessat_def
  fchmodat_def
  link_def
  linkat_def
  lseek_def
  mkdir_def
  mkdirat_def
  open_call_def
  openat_def
  openat2_def
  pread_def
  pwrite_def
  read_def
  readlink_def
  readlinkat_def
  rename_def
  renameat_def
  renameat2_def
  lstat_def
  rmdir_def
  stat_def
  statx_def
  statfs_def
  symlink_def
  symlinkat_def
  truncate_def
  unlink_def
  unlinkat_def
  utimensat_def
  write_call_def

lemma bind_pair: "Option.bind (map_option (apfst f) m) g = Option.bind m (\<lambda>(a, b). g (f a, b))"
  by (cases m) auto

lemma mode_passed_read: "va_mode_arg flags m \<noteq> None \<Longrightarrow> va_mode_arg flags m = Some (mode_passed flags m)"
  by (auto simp: mode_passed_def)

lemma serve_plan:
  assumes "mode_given req"
  shows "serve L req s = follow_plan L req s"
  using assms
  by (cases req)
    (simp_all add: export_defs orig_defs follow_plan_def right_to_left_def failure_of_def mode_given_def
      mode_passed_read rewrite_at_inline_helper link_target_path_arg bind_pair case_prod_beta'
      split: option.split)

section \<open>The contract of a call\<close>

primrec cval_ok :: "cval \<Rightarrow> bool" where
  "cval_ok (I32 i) = True"
| "cval_ok (I64 i) = True"
| "cval_ok (Path p) = cstr_ok p"
| "cval_ok (Ptr a) = True"

primrec passed :: "piece \<Rightarrow> cval list" where
  "passed (Plain v) = [v]"
| "passed (Whole_path p) = [Path p]"
| "passed (Cwd_path p) = [Path p]"
| "passed (At_path fd p) = [I32 fd, Path p]"

definition piece_ok :: "piece \<Rightarrow> bool" where
  "piece_ok pc = list_all cval_ok (passed pc)"

primrec ref_piece :: "'w libc \<Rightarrow> piece \<Rightarrow> 'w process \<Rightarrow> cval list \<times> 'w process" where
  "ref_piece L (Plain v) s = ([v], s)"
| "ref_piece L (Whole_path p) s = apfst (\<lambda>r. [Path r]) (path_ref L p s)"
| "ref_piece L (Cwd_path p) s = apfst (\<lambda>r. [Path r]) (cwd_ref L p s)"
| "ref_piece L (At_path fd p) s = apfst (\<lambda>(r, fd). [I32 fd, Path r]) (at_ref L (fd, p) s)"

interpretation piece_argument: argument_rewriter L "eval_piece L" "ref_piece L" passed piece_ok "list_all cval_ok" for L
proof unfold_locales
  fix s :: "'a process" and pc
  assume "policy_ready s"
  note fr = path_argument.frozen [OF this] cwd_argument.frozen [OF this] at_argument.frozen [OF this]
    and dis = path_argument.disabled [OF this] cwd_argument.disabled [OF this] at_argument.disabled [OF this]
  show "policy_ready (snd (ref_piece L pc s)) \<and> policy (snd (ref_piece L pc s)) = policy s"
    using fr by (cases pc) (simp_all add: \<open>policy_ready s\<close>)
  show "ref_piece L pc s = (passed pc, s)" if "\<not> enabled (policy s)"
    using dis [OF that] by (cases pc) simp_all
next
  fix s :: "'a process" and pc
  assume ok: "libc_ok L" "process_ok L s" "piece_ok pc"
  show "eval_piece L pc s = Some (ref_piece L pc s)"
    using ok(3) path_argument.computes [OF ok(1,2)] cwd_argument.computes [OF ok(1,2)] at_arg_eq [OF ok(1,2)]
    by (cases pc) (simp_all add: piece_ok_def apfst_def map_prod_def case_prod_beta)
  show "process_ok L (snd (ref_piece L pc s)) \<and> list_all cval_ok (fst (ref_piece L pc s))"
    using ok path_argument.keeps [OF ok(1,2)] cwd_argument.keeps [OF ok(1,2)] at_argument.keeps [OF ok(1,2)]
    by (cases pc) (simp_all add: piece_ok_def case_prod_beta)
qed

interpretation pieces: argument_rewriter L "eval_list (eval_piece L)" "ref_list (ref_piece L)"
  "map passed" "list_all piece_ok" "list_all (list_all cval_ok)" for L
  by (rule piece_argument.list_rewriter)

definition request_ok :: "request \<Rightarrow> bool" where
  "request_ok req \<longleftrightarrow> mode_given req \<and> list_all cval_ok (args_of req)"

lemma passed_plan: "concat (map passed (plan_of req)) = args_of req"
  by (cases req) simp_all

lemma request_pieces_ok: "request_ok req \<Longrightarrow> list_all piece_ok (plan_of req)"
  unfolding request_ok_def passed_plan [symmetric]
  by (induction "plan_of req") (auto simp: piece_ok_def list_all_iff)

text \<open>What a call does, as a function: its arguments rewritten by their kinds, then the libc call.\<close>

definition rewritten_args :: "'w libc \<Rightarrow> request \<Rightarrow> 'w process \<Rightarrow> cval list \<times> 'w process" where
  "rewritten_args L req s =
     (if right_to_left req then apfst (\<lambda>vs. concat (rev vs)) (ref_list (ref_piece L) (rev (plan_of req)) s)
      else apfst concat (ref_list (ref_piece L) (plan_of req) s))"

definition serve_ref :: "'w libc \<Rightarrow> request \<Rightarrow> 'w process \<Rightarrow> cval \<times> 'w process" where
  "serve_ref L req s = (let (vs, s) = rewritten_args L req s in with_call L (slot_of req) vs s)"

lemma rewritten_args_ok:
  assumes "libc_ok L" "process_ok L s" "request_ok req"
  shows "process_ok L (snd (rewritten_args L req s))"
  using pieces.keeps [OF assms(1,2)] request_pieces_ok [OF assms(3)]
  by (auto simp: rewritten_args_def list_all_iff)

lemma rewritten_args_frozen:
  "policy_ready s \<Longrightarrow>
     policy_ready (snd (rewritten_args L req s)) \<and> policy (snd (rewritten_args L req s)) = policy s"
  using pieces.frozen [of s L] by (auto simp: rewritten_args_def)

lemma rewritten_args_disabled:
  "policy_ready s \<Longrightarrow> \<not> enabled (policy s) \<Longrightarrow> rewritten_args L req s = (args_of req, s)"
  using pieces.disabled [of s L] by (auto simp: rewritten_args_def rev_map [symmetric] passed_plan)

lemma serve_eq:
  assumes "libc_ok L" "process_ok L s" "request_ok req"
  shows "serve L req s = Some (serve_ref L req s)"
proof -
  have m: "mode_given req" using assms(3) by (simp add: request_ok_def)
  have "list_all piece_ok (rev (plan_of req))" "list_all piece_ok (plan_of req)"
    using request_pieces_ok [OF assms(3)] by (simp_all add: list_all_iff)
  note run = this [THEN pieces.computes [OF assms(1,2)]]
  have "process_ok L (snd (rewritten_args L req s))" by (rule rewritten_args_ok [OF assms])
  then have "REQUIRE_SYMBOL L (slot_of req) (failure_of (slot_of req))
      (call_real L (slot_of req) (fst (rewritten_args L req s))) (snd (rewritten_args L req s))
      = Some (serve_ref L req s)"
    by (simp add: forwarder_eq serve_ref_def case_prod_beta)
  then show ?thesis
    by (simp add: serve_plan [OF m] follow_plan_def run rewritten_args_def case_prod_beta split: if_splits)
qed

lemma serve_ref_ok:
  assumes "libc_ok L" "process_ok L s" "request_ok req"
  shows "process_ok L (snd (serve_ref L req s))"
    "policy_ready s \<Longrightarrow> policy_ready (snd (serve_ref L req s)) \<and> policy (snd (serve_ref L req s)) = policy s"
  using rewritten_args_ok [OF assms] rewritten_args_frozen [of s L req]
  by (simp_all add: serve_ref_def with_call_def case_prod_beta)

end
