(* ===== verification/Calls.thy ===== *)
theory Calls
  imports Interposers
begin

text \<open>
  What the exported functions promise their callers: the table of argument kinds describes
  them, they stay in bounds and keep the invariant of the process, fail open without a
  policy, redirect absolute paths by place, and the cases where they treat a path otherwise.
\<close>

section \<open>Absolute arguments\<close>

text \<open>The argument the libc receives in place of an absolute one.\<close>

definition moved_arg :: "rewrite_policy \<Rightarrow> cval \<Rightarrow> cval" where
  "moved_arg pol v = (case v of
     Path (Some p) \<Rightarrow> Path (Some (case abs_target pol PATH_MAX p of None \<Rightarrow> p | Some r \<Rightarrow> r))
   | _ \<Rightarrow> v)"

definition absolute_path :: "cval \<Rightarrow> bool" where
  "absolute_path v = (case v of Path (Some p) \<Rightarrow> starts_with_slash p | _ \<Rightarrow> True)"

definition roomy_path :: "rewrite_policy \<Rightarrow> cval \<Rightarrow> bool" where
  "roomy_path pol v = (case v of Path (Some p) \<Rightarrow> roomy pol (length p) | _ \<Rightarrow> True)"

text \<open>\<open>v'\<close> is \<open>v\<close>, or the path of the place that \<open>v\<close> names moved under the target prefix.\<close>

definition moved_value :: "rewrite_policy \<Rightarrow> cval \<Rightarrow> cval \<Rightarrow> bool" where
  "moved_value pol v v' = (case v of
     Path (Some p) \<Rightarrow>
       (case moved pol (location p) of
          None \<Rightarrow> v' = v
        | Some place \<Rightarrow> (case v' of Path (Some r) \<Rightarrow> location r = place \<and> starts_with_slash r | _ \<Rightarrow> False))
   | _ \<Rightarrow> v' = v)"

lemma moved_value_moved:
  "moved pol (location p) = Some place \<Longrightarrow>
   moved_value pol (Path (Some p)) v \<longleftrightarrow> (\<exists>r. v = Path (Some r) \<and> location r = place \<and> starts_with_slash r)"
  by (cases v) (auto simp: moved_value_def split: option.splits)

lemma moved_value_same:
  "moved pol (location p) = None \<Longrightarrow> moved_value pol (Path (Some p)) v \<longleftrightarrow> v = Path (Some p)"
  by (simp add: moved_value_def)

lemma moved_value_arg:
  assumes "capturing pol" "cval_ok v" "absolute_path v" "roomy_path pol v"
  shows "moved_value pol v (moved_arg pol v)"
proof (cases v)
  case (Path q)
  show ?thesis
  proof (cases q)
    case (Some p)
    then have "c_ok p" "starts_with_slash p" "roomy pol (length p)"
      using assms(2-4) Path by (simp_all add: absolute_path_def roomy_path_def)
    from abs_target_moved [OF assms(1) this] show ?thesis
      by (auto simp: moved_value_def moved_arg_def Path Some split: option.splits)
  qed (simp add: moved_value_def moved_arg_def Path)
qed (simp_all add: moved_value_def moved_arg_def)

lemma moved_arg_simps [simp]:
  "moved_arg pol (I32 i) = I32 i" "moved_arg pol (I64 k) = I64 k" "moved_arg pol (Ptr a) = Ptr a"
  by (simp_all add: moved_arg_def)

lemma path_ref_moved: "Path (fst (path_ref L p s)) = moved_arg (policy_of L s) (Path p)"
  by (cases p) (simp_all add: moved_arg_def abs_ref_def)

lemma path_ref_state: "snd (path_ref L p s) \<in> {s, with_policy L s}"
  by (cases p) (simp_all add: abs_ref_def)

lemma at_ref_absolute:
  "absolute_path (Path p) \<Longrightarrow> at_ref L (fd, p) s = ((fst (path_ref L p s), fd), snd (path_ref L p s))"
  by (cases p) (simp_all add: at_ref_simps absolute_path_def)

text \<open>No table entry passes a path on as a plain value.\<close>

definition proper_piece :: "piece \<Rightarrow> bool" where
  "proper_piece pc = (case pc of Plain (Path p) \<Rightarrow> False | _ \<Rightarrow> True)"

text \<open>
  What becomes of an argument does not depend on the working directory or a descriptor: the
  function only rewrites absolute paths here, or the path is absolute.
\<close>

definition settled :: "piece \<Rightarrow> bool" where
  "settled pc \<longleftrightarrow> (case pc of Whole_path p \<Rightarrow> True | _ \<Rightarrow> list_all absolute_path (passed pc))"

lemma ref_piece_settled:
  assumes "proper_piece pc" "settled pc"
  shows "fst (ref_piece L pc s) = map (moved_arg (policy_of L s)) (passed pc)"
    "snd (ref_piece L pc s) \<in> {s, with_policy L s}"
proof -
  have "fst (ref_piece L pc s) = map (moved_arg (policy_of L s)) (passed pc) \<and>
      snd (ref_piece L pc s) \<in> {s, with_policy L s}"
  proof (cases pc)
    case (Plain v)
    then show ?thesis using assms(1) by (cases v) (simp_all add: proper_piece_def)
  qed (use assms(2) path_ref_state [of L _ s] in
        \<open>simp_all add: settled_def at_ref_absolute cwd_ref_eq path_ref_moved del: path_ref_simps\<close>)
  then show "fst (ref_piece L pc s) = map (moved_arg (policy_of L s)) (passed pc)"
    "snd (ref_piece L pc s) \<in> {s, with_policy L s}" by simp_all
qed

lemma ref_list_settled:
  assumes "list_all proper_piece ps" "list_all settled ps"
  shows "fst (ref_list (ref_piece L) ps s) = map (\<lambda>pc. map (moved_arg (policy_of L s)) (passed pc)) ps \<and>
    snd (ref_list (ref_piece L) ps s) \<in> {s, with_policy L s}"
  using assms
proof (induction ps arbitrary: s)
  case (Cons pc ps)
  have a: "proper_piece pc" "settled pc" using Cons.prems by simp_all
  obtain vs t where t: "ref_piece L pc s = (vs, t)" by (cases "ref_piece L pc s")
  from ref_piece_settled [OF a, of L s] t
  have "vs = map (moved_arg (policy_of L s)) (passed pc)" "t = s \<or> t = with_policy L s" by simp_all
  moreover from this(2) have "policy_of L t = policy_of L s" "with_policy L t = with_policy L s"
    by (auto simp: with_idem)
  ultimately show ?case using Cons.IH [of t] Cons.prems t by (auto simp: case_prod_beta Let_def)
qed simp

lemma plan_proper: "list_all proper_piece (plan_of req)"
  by (cases req) (simp_all add: proper_piece_def)

lemma absolute_settled: "list_all absolute_path (args_of req) \<Longrightarrow> list_all settled (plan_of req)"
  unfolding passed_plan [of req, symmetric] by (auto simp: list_all_iff settled_def split: piece.split)

lemma rewritten_args_settled:
  assumes "list_all settled (plan_of req)"
  shows "fst (rewritten_args L req s) = map (moved_arg (policy_of L s)) (args_of req)"
    "snd (rewritten_args L req s) \<in> {s, with_policy L s}"
proof -
  let ?m = "moved_arg (policy_of L s)"
  have a: "list_all proper_piece (rev (plan_of req))" "list_all settled (rev (plan_of req))"
    using plan_proper [of req] assms by (auto simp: list_all_iff)
  note r = ref_list_settled [OF a, of L s] ref_list_settled [OF plan_proper assms, of L s]
  have "concat (map (\<lambda>pc. map ?m (passed pc)) ps) = map ?m (concat (map passed ps))" for ps
    by (induction ps) simp_all
  then show "fst (rewritten_args L req s) = map ?m (args_of req)"
    using r by (simp add: rewritten_args_def rev_map passed_plan)
  show "snd (rewritten_args L req s) \<in> {s, with_policy L s}"
    using r by (simp add: rewritten_args_def)
qed

lemma with_call_result:
  "with_call L sl vs s = (r, t) \<Longrightarrow> libc_call L sl vs (world s) = (r, world t) \<and> resolved t"
  by (auto simp: with_call_def with_symbols_def split: prod.splits)

lemma world_with_policy [simp]: "world (with_policy L s) = world s"
  by (simp add: with_policy_def)

lemma serve_settled:
  assumes "libc_ok L" "process_ok L s" "request_ok req" "list_all settled (plan_of req)"
  obtains r t where "serve L req s = Some (r, t)"
    "libc_call L (slot_of req) (map (moved_arg (policy_of L s)) (args_of req)) (world s) = (r, world t)"
proof -
  obtain r t where rt: "serve_ref L req s = (r, t)" by (cases "serve_ref L req s")
  have "world (snd (rewritten_args L req s)) = world s"
    using rewritten_args_settled(2) [OF assms(4), of L s] by auto
  then have "libc_call L (slot_of req) (map (moved_arg (policy_of L s)) (args_of req)) (world s) = (r, world t)"
    using with_call_result [of L "slot_of req" "fst (rewritten_args L req s)" "snd (rewritten_args L req s)" r t] rt
      rewritten_args_settled(1) [OF assms(4), of L s]
    by (simp add: serve_ref_def case_prod_beta)
  with serve_eq [OF assms(1-3)] rt show thesis by (intro that) simp_all
qed

text \<open>A request all of whose paths are relative and only rewritten where absolute, or that has none.\<close>

definition untouched :: "piece \<Rightarrow> bool" where
  "untouched pc = (case pc of Plain v \<Rightarrow> True
     | Whole_path p \<Rightarrow> (case p of None \<Rightarrow> True | Some q \<Rightarrow> \<not> starts_with_slash q) | _ \<Rightarrow> False)"

lemma eval_untouched: "untouched pc \<Longrightarrow> eval_piece L pc s = Some (passed pc, s)"
  by (auto simp: untouched_def path_arg_def rewrite_path_argument_def rewrite_absolute_path_def
      split: piece.splits option.splits)

lemma eval_list_untouched:
  "list_all untouched ps \<Longrightarrow> eval_list (eval_piece L) ps s = Some (map passed ps, s)"
  by (induction ps) (simp_all add: eval_untouched)

lemma serve_untouched:
  assumes "mode_given req" "list_all untouched (plan_of req)"
  shows "serve L req s = forward_call L req s"
proof -
  have "list_all untouched (rev (plan_of req))" using assms(2) by (simp add: list_all_iff)
  then have "serve L req s = REQUIRE_SYMBOL L (slot_of req) (failure_of (slot_of req))
      (call_real L (slot_of req) (args_of req)) s"
    using assms by (simp add: serve_plan follow_plan_def eval_list_untouched rev_map passed_plan)
  also have "\<dots> = forward_call L req s"
    by (cases req) (simp_all add: orig_defs failure_of_def)
  finally show ?thesis .
qed

section \<open>Properties\<close>

text \<open>C20: without an enabled policy the interposer is transparent: every call reaches the libc
  exactly as its own forwarder would make it, with the arguments the caller passed.\<close>
theorem serve_fails_open:
  assumes "libc_ok L" and "process_ok L s" and "request_ok req"
    and "policy_ready s" and "\<not> enabled (policy s)"
  shows "serve L req s = forward_call L req s"
  using serve_eq [OF assms(1-3)] rewritten_args_disabled [OF assms(4,5), of L req]
    forward_call_eq [OF assms(2), of req]
  by (simp add: serve_ref_def)

theorem serve_fails_open_witness:
  "serve (example_libc (\<lambda>_. 1)) (C_openat2 3 (Some ''/srv/data/x'') 8 24) (running no_policy)
     = forward_call (example_libc (\<lambda>_. 1)) (C_openat2 3 (Some ''/srv/data/x'') 8 24) (running no_policy)"
  by (rule serve_fails_open [OF example_libc_ok running_ok])
    (simp_all add: request_ok_def mode_given_def c_ok_def running_def no_policy_def policy_ok_def)

text \<open>C1: in every call whose paths are absolute, the libc receives each path redirected by place:
  a path to a place under the source prefix arrives as a path to that place under the target
  prefix, every other argument arrives as it was passed, and the result is the libc's.\<close>
theorem serve_redirects_absolute_paths:
  assumes "libc_ok L" and "process_ok L s" and "request_ok req"
    and "capturing (policy_of L s)" and "list_all absolute_path (args_of req)"
    and "list_all (roomy_path (policy_of L s)) (args_of req)"
  shows "\<exists>vs r t. list_all2 (moved_value (policy_of L s)) (args_of req) vs \<and>
     serve L req s = Some (r, t) \<and> libc_call L (slot_of req) vs (world s) = (r, world t)"
proof -
  let ?vs = "map (moved_arg (policy_of L s)) (args_of req)"
  have "list_all2 (moved_value (policy_of L s)) (args_of req) ?vs"
    using assms(3-6) by (auto simp: list_all2_map2 list_all2_same list_all_iff request_ok_def intro: moved_value_arg)
  with serve_settled [OF assms(1-3) absolute_settled [OF assms(5)]] show ?thesis by metis
qed

theorem serve_redirects_absolute_paths_witness:
  "\<exists>p q t. serve (example_libc (\<lambda>_. 1)) (C_rename (Some ''/srv/data/x'') (Some ''/tmp/y'')) (fresh_process [])
       = Some (I32 0, t) \<and>
     world t = [(1, [Path (Some p), Path (Some q)])] \<and> location p = [''mnt'', ''copy'', ''x''] \<and> q = ''/tmp/y''"
proof -
  let ?L = "example_libc (\<lambda>_. 1)" and ?r = "C_rename (Some ''/srv/data/x'') (Some ''/tmp/y'')"
  have ok: "request_ok ?r" by (simp add: request_ok_def mode_given_def c_ok_def)
  have abs: "list_all absolute_path (args_of ?r)" by (simp add: absolute_path_def)
  have room: "list_all (roomy_path (policy_of ?L (fresh_process []))) (args_of ?r)"
    unfolding example_policy_of by (simp add: roomy_path_def roomy_def example_policy_def PATH_MAX_def)
  have cap: "capturing (policy_of ?L (fresh_process []))" by (simp add: example_policy_of example_capturing)
  have m: "moved example_policy (location ''/srv/data/x'') = Some [''mnt'', ''copy'', ''x'']"
      "moved example_policy (location ''/tmp/y'') = None" by code_simp+
  obtain vs r t where "list_all2 (moved_value (policy_of ?L (fresh_process []))) (args_of ?r) vs"
      and st: "serve ?L ?r (fresh_process []) = Some (r, t)" "libc_call ?L (slot_of ?r) vs [] = (r, world t)"
    using serve_redirects_absolute_paths [OF example_libc_ok process_ok_fresh ok cap abs room]
    by (auto simp: fresh_process_def)
  then obtain p where "vs = [Path (Some p), Path (Some ''/tmp/y'')]" "location p = [''mnt'', ''copy'', ''x'']"
    unfolding example_policy_of
    by (auto simp: list_all2_Cons1 moved_value_moved [OF m(1)] moved_value_same [OF m(2)])
  moreover from this(1) st(2) have "r = I32 0" "world t = [(1, [Path (Some p), Path (Some ''/tmp/y'')])]"
    by (simp_all add: libc_call_def example_libc_def)
  ultimately show ?thesis using st(1) by blast
qed

text \<open>The calls on descriptors alone, and a relative path given to one of the functions that
  rewrite absolute paths only (\<open>open\<close>, \<open>stat\<close>, \<open>mkdir\<close>, \<open>unlink\<close> and others), are passed to the
  libc unchanged; the policy is not even consulted.\<close>
theorem serve_leaves_relative_paths:
  assumes "mode_given req" and "list_all untouched (plan_of req)"
  shows "serve L req s = forward_call L req s"
  by (rule serve_untouched [OF assms])

theorem serve_leaves_relative_paths_witness:
  "serve (example_libc (\<lambda>_. 1)) (C_mkdir (Some ''x'') 0) (fresh_process [])
     = forward_call (example_libc (\<lambda>_. 1)) (C_mkdir (Some ''x'') 0) (fresh_process [])"
  by (rule serve_leaves_relative_paths) (simp_all add: mode_given_def untouched_def)

text \<open>C29: the target of a relative symbolic link is stored as the program wrote it: \<open>symlink\<close> and
  \<open>symlinkat\<close> hand a relative target to the libc unchanged and rewrite only the link's own path.\<close>
theorem relative_link_target_kept:
  assumes "libc_ok L" and "process_ok L s" and "c_ok t" and "\<not> starts_with_slash t" and "cstr_ok linkpath"
  shows "(\<exists>lp s'. symlink L (Some t) linkpath s = Some (with_call L Real_symlink [Path (Some t), Path lp] s')) \<and>
    (\<exists>fd lp s'. symlinkat L (Some t) newdirfd linkpath s
           = Some (with_call L Real_symlinkat [Path (Some t), I32 fd, Path lp] s'))"
proof -
  have keep: "path_ref L (Some t) u = (Some t, u)" for u
    using assms(4) by (simp add: abs_ref_def abs_target_def prod_eq_iff)
  have "request_ok (C_symlink (Some t) linkpath)" "request_ok (C_symlinkat (Some t) newdirfd linkpath)"
    using assms(3,5) by (simp_all add: request_ok_def mode_given_def)
  note run = this [THEN serve_eq [OF assms(1,2)]]
  show ?thesis
    using run by (simp add: serve_ref_def rewritten_args_def right_to_left_def keep case_prod_beta del: path_ref_simps) blast
qed

theorem relative_link_target_kept_witness:
  "\<exists>lp s'. symlink (example_libc (\<lambda>_. 1)) (Some ''data/x'') (Some ''/srv/data/l'') (fresh_process [])
     = Some (with_call (example_libc (\<lambda>_. 1)) Real_symlink [Path (Some ''data/x''), Path lp] s')"
proof -
  have ok: "c_ok ''data/x''" "\<not> starts_with_slash ''data/x''" "cstr_ok (Some ''/srv/data/l'')"
    by (simp_all add: c_ok_def)
  show ?thesis using relative_link_target_kept [OF example_libc_ok process_ok_fresh ok] by blast
qed

text \<open>C38: \<open>open\<close> and \<open>openat\<close> with AT_FDCWD disagree on a relative path: with the working directory
  under the source prefix, \<open>openat\<close> reaches the moved place, \<open>open\<close> hands the libc the relative
  path as it is, although both are defined to mean the same file.\<close>
theorem open_and_openat_disagree:
  assumes "libc_ok L" and "process_ok L s" and "c_ok p" and "\<not> starts_with_slash p"
    and "capturing (policy_of L s)"
    and "dir_base L AT_FDCWD (with_symbols L (with_policy L s)) = (Some base, s')"
    and "starts_with_slash base" and "roomy (policy_of L s) (length base + length p + 1)"
    and "moved (policy_of L s) (walk (location base) (segments p)) = Some place"
    and "va_mode_arg flags va_mode = Some mode"
  shows "\<exists>r. location r = place \<and> starts_with_slash r \<and>
     openat L AT_FDCWD (Some p) flags va_mode s
       = Some (with_call L Real_openat [I32 AT_FDCWD, Path (Some r), I32 flags, I32 mode] s') \<and>
     open_call L (Some p) flags va_mode s
       = Some (with_call L Real_open [Path (Some p), I32 flags, I32 mode] s)"
proof -
  have ok: "process_ok L s'"
    using base_ok(1) [of L "with_symbols L (with_policy L s)" AT_FDCWD] assms(1,2,6) by simp
  obtain r where r: "at_arg L AT_FDCWD (Some p) s = Some (Some r, AT_FDCWD, s')" "location r = place"
      "starts_with_slash r"
    using relative_at_arg [OF assms(1-4) _ assms(6)] assms(5)
      rel_target_moved [OF assms(5) base_c_ok [OF assms(1,2,6)] assms(3,7,8)] assms(9)
    by (auto simp: capturing_def)
  have "openat L AT_FDCWD (Some p) flags va_mode s
      = Some (with_call L Real_openat [I32 AT_FDCWD, Path (Some r), I32 flags, I32 mode] s')"
    using assms(10) r(1)
    by (simp add: openat_def rewrite_at_inline_helper orig_openat_def forwarder_eq [OF ok] failure_of_def)
  moreover have "open_call L (Some p) flags va_mode s
      = Some (with_call L Real_open [Path (Some p), I32 flags, I32 mode] s)"
    using serve_untouched [of "C_open (Some p) flags va_mode" L s] forward_call_eq [OF assms(2), of "C_open (Some p) flags va_mode"] assms(4,10)
    by (simp add: mode_given_def untouched_def mode_passed_def)
  ultimately show ?thesis using r(2,3) by blast
qed

theorem open_and_openat_disagree_witness:
  "\<exists>r s'. location r = [''mnt'', ''copy'', ''x''] \<and>
     openat (example_libc (\<lambda>_. 1)) AT_FDCWD (Some ''x'') 0 None (fresh_process [])
       = Some (with_call (example_libc (\<lambda>_. 1)) Real_openat [I32 AT_FDCWD, Path (Some r), I32 0, I32 0] s') \<and>
     open_call (example_libc (\<lambda>_. 1)) (Some ''x'') 0 None (fresh_process [])
       = Some (with_call (example_libc (\<lambda>_. 1)) Real_open [Path (Some ''x''), I32 0, I32 0] (fresh_process []))"
proof -
  let ?L = "example_libc (\<lambda>_. 1)" and ?s = "fresh_process []"
  have ok: "c_ok ''x''" "\<not> starts_with_slash ''x''" "starts_with_slash ''/srv/data''"
      "roomy (policy_of ?L ?s) (length ''/srv/data'' + length ''x'' + 1)" "capturing (policy_of ?L ?s)"
      "va_mode_arg 0 None = Some 0"
    by (simp_all add: example_policy_of example_capturing va_mode_arg_def)
      (simp add: roomy_def PATH_MAX_def example_policy_def)
  obtain t where db: "dir_base ?L AT_FDCWD (with_symbols ?L (with_policy ?L ?s)) = (Some ''/srv/data'', t)"
    by (simp add: dir_base_def cwd_base_def example_libc_def PATH_MAX_def)
  have m: "moved (policy_of ?L ?s) (walk (location ''/srv/data'') (segments ''x'')) = Some [''mnt'', ''copy'', ''x'']"
    unfolding example_policy_of by code_simp
  from open_and_openat_disagree [OF example_libc_ok process_ok_fresh ok(1,2,5) db ok(3,4) m ok(6)]
  show ?thesis by blast
qed

text \<open>C36: an empty path is not left to the libc: relative to a descriptor whose file lies under the
  source prefix it becomes the path of the moved file itself, and the descriptor is dropped. A
  status call on the descriptor (AT_EMPTY_PATH) so reports on another file.\<close>
theorem empty_path_leaves_descriptor:
  assumes "libc_ok L" and "process_ok L s" and "capturing (policy_of L s)"
    and "dir_base L fd (with_symbols L (with_policy L s)) = (Some base, s')"
    and "starts_with_slash base" and "roomy (policy_of L s) (length base + 1)"
    and "moved (policy_of L s) (location base) = Some place"
  shows "\<exists>r. location r = place \<and>
     newfstatat L fd (Some []) statbuf flags s
       = Some (with_call L Real_newfstatat [I32 AT_FDCWD, Path (Some r), Ptr statbuf, I32 flags] s')"
proof -
  have ok: "process_ok L s'"
    using base_ok(1) [of L "with_symbols L (with_policy L s)" fd] assms(1,2,4) by simp
  have e: "c_ok []" "\<not> starts_with_slash []" by simp_all
  obtain r where r: "at_arg L fd (Some []) s = Some (Some r, AT_FDCWD, s')" "location r = place"
    using relative_at_arg [OF assms(1,2) e _ assms(4)] assms(3)
      rel_target_moved [OF assms(3) base_c_ok [OF assms(1,2,4)] e(1) assms(5)] assms(6,7)
    by (auto simp: capturing_def)
  then show ?thesis
    by (auto simp: newfstatat_def rewrite_at_inline_helper orig_newfstatat_def forwarder_eq [OF ok] failure_of_def)
qed

theorem empty_path_leaves_descriptor_witness:
  "\<exists>r s'. location r = [''mnt'', ''copy''] \<and>
     newfstatat (example_libc (\<lambda>_. 1)) 3 (Some []) 16 0x1000 (fresh_process [])
       = Some (with_call (example_libc (\<lambda>_. 1)) Real_newfstatat
                 [I32 AT_FDCWD, Path (Some r), Ptr 16, I32 0x1000] s')"
proof -
  let ?L = "example_libc (\<lambda>_. 1)" and ?s = "fresh_process []"
  have ok: "starts_with_slash ''/srv/data''" "roomy (policy_of ?L ?s) (length ''/srv/data'' + 1)"
      "capturing (policy_of ?L ?s)"
    by (simp_all add: example_policy_of example_capturing)
      (simp add: roomy_def PATH_MAX_def example_policy_def)
  obtain t where db: "dir_base ?L 3 (with_symbols ?L (with_policy ?L ?s)) = (Some ''/srv/data'', t)"
    using example_base by (metis prod.collapse)
  have m: "moved (policy_of ?L ?s) (location ''/srv/data'') = Some [''mnt'', ''copy'']"
    unfolding example_policy_of by code_simp
  from empty_path_leaves_descriptor [OF example_libc_ok process_ok_fresh ok(3) db ok(1,2) m]
  show ?thesis by blast
qed

end
