(* ===== verification/Signatures.thy ===== *)
theory Signatures
  imports Calls
begin

text \<open>
  The types of the interposed functions: the function pointer typedefs of rtld_linux.c, the
  typedef each static pointer is declared with, and the prototypes of rtld.h. The calls the
  interposer makes are shown to be well typed for both.
\<close>

section \<open>Types of arguments and functions\<close>

text \<open>
  The types as a call distinguishes them: \<open>int\<close>, \<open>mode_t\<close> and \<open>unsigned\<close> are 32 bits wide,
  \<open>size_t\<close>, \<open>ssize_t\<close> and \<open>off_t\<close> 64; a \<open>const char *\<close> is a path, any other pointer is passed on.
\<close>

datatype ctype = Int_t | Long_t | Path_t | Ptr_t

record signature =
  params :: "ctype list"
  variadic :: bool
  returns :: ctype

datatype (plugins only: code size) fn_typedef =
   Xstat_fn | Access_fn | Fxstat_fn | Fxstatat_fn | Newfstatat_fn | Close_fn | Creat_fn
    | Fstat_fn | Chdir_fn | Execve_fn | Link_fn | Linkat_fn | Lseek_fn | Mkdir_fn | Mkdirat_fn
    | Open_fn | Openat_fn | Openat2_fn | Faccessat_fn | Fchmodat_fn | Pread_fn | Pwrite_fn
    | Read_fn | Readlink_fn | Readlinkat_fn | Rename_fn | Renameat_fn | Renameat2_fn | Rmdir_fn
    | Getcwd_fn | Stat_fn | Statx_fn | Symlink_fn | Symlinkat_fn | Truncate_fn | Unlink_fn
    | Unlinkat_fn | Utimensat_fn | Statfs_fn | Write_fn | Euidaccess_fn

primrec typedef_sig :: "fn_typedef \<Rightarrow> signature" where
  "typedef_sig Xstat_fn = \<lparr>params = [Int_t, Path_t, Ptr_t], variadic = False, returns = Int_t\<rparr>"
| "typedef_sig Access_fn = \<lparr>params = [Path_t, Int_t], variadic = False, returns = Int_t\<rparr>"
| "typedef_sig Fxstat_fn = \<lparr>params = [Int_t, Int_t, Ptr_t], variadic = False, returns = Int_t\<rparr>"
| "typedef_sig Fxstatat_fn = \<lparr>params = [Int_t, Int_t, Path_t, Ptr_t, Int_t], variadic = False, returns = Int_t\<rparr>"
| "typedef_sig Newfstatat_fn = \<lparr>params = [Int_t, Path_t, Ptr_t, Int_t], variadic = False, returns = Int_t\<rparr>"
| "typedef_sig Close_fn = \<lparr>params = [Int_t], variadic = False, returns = Int_t\<rparr>"
| "typedef_sig Creat_fn = \<lparr>params = [Path_t, Int_t], variadic = False, returns = Int_t\<rparr>"
| "typedef_sig Fstat_fn = \<lparr>params = [Int_t, Ptr_t], variadic = False, returns = Int_t\<rparr>"
| "typedef_sig Chdir_fn = \<lparr>params = [Path_t], variadic = False, returns = Int_t\<rparr>"
| "typedef_sig Execve_fn = \<lparr>params = [Path_t, Ptr_t, Ptr_t], variadic = False, returns = Int_t\<rparr>"
| "typedef_sig Link_fn = \<lparr>params = [Path_t, Path_t], variadic = False, returns = Int_t\<rparr>"
| "typedef_sig Linkat_fn = \<lparr>params = [Int_t, Path_t, Int_t, Path_t, Int_t], variadic = False, returns = Int_t\<rparr>"
| "typedef_sig Lseek_fn = \<lparr>params = [Int_t, Long_t, Int_t], variadic = False, returns = Long_t\<rparr>"
| "typedef_sig Mkdir_fn = \<lparr>params = [Path_t, Int_t], variadic = False, returns = Int_t\<rparr>"
| "typedef_sig Mkdirat_fn = \<lparr>params = [Int_t, Path_t, Int_t], variadic = False, returns = Int_t\<rparr>"
| "typedef_sig Open_fn = \<lparr>params = [Path_t, Int_t], variadic = True, returns = Int_t\<rparr>"
| "typedef_sig Openat_fn = \<lparr>params = [Int_t, Path_t, Int_t], variadic = True, returns = Int_t\<rparr>"
| "typedef_sig Openat2_fn = \<lparr>params = [Int_t, Path_t, Ptr_t, Long_t], variadic = False, returns = Int_t\<rparr>"
| "typedef_sig Faccessat_fn = \<lparr>params = [Int_t, Path_t, Int_t, Int_t], variadic = False, returns = Int_t\<rparr>"
| "typedef_sig Fchmodat_fn = \<lparr>params = [Int_t, Path_t, Int_t, Int_t], variadic = False, returns = Int_t\<rparr>"
| "typedef_sig Pread_fn = \<lparr>params = [Int_t, Ptr_t, Long_t, Long_t], variadic = False, returns = Long_t\<rparr>"
| "typedef_sig Pwrite_fn = \<lparr>params = [Int_t, Ptr_t, Long_t, Long_t], variadic = False, returns = Long_t\<rparr>"
| "typedef_sig Read_fn = \<lparr>params = [Int_t, Ptr_t, Long_t], variadic = False, returns = Long_t\<rparr>"
| "typedef_sig Readlink_fn = \<lparr>params = [Path_t, Ptr_t, Long_t], variadic = False, returns = Long_t\<rparr>"
| "typedef_sig Readlinkat_fn = \<lparr>params = [Int_t, Path_t, Ptr_t, Long_t], variadic = False, returns = Long_t\<rparr>"
| "typedef_sig Rename_fn = \<lparr>params = [Path_t, Path_t], variadic = False, returns = Int_t\<rparr>"
| "typedef_sig Renameat_fn = \<lparr>params = [Int_t, Path_t, Int_t, Path_t], variadic = False, returns = Int_t\<rparr>"
| "typedef_sig Renameat2_fn = \<lparr>params = [Int_t, Path_t, Int_t, Path_t, Int_t], variadic = False, returns = Int_t\<rparr>"
| "typedef_sig Rmdir_fn = \<lparr>params = [Path_t], variadic = False, returns = Int_t\<rparr>"
| "typedef_sig Getcwd_fn = \<lparr>params = [Ptr_t, Long_t], variadic = False, returns = Ptr_t\<rparr>"
| "typedef_sig Stat_fn = \<lparr>params = [Path_t, Ptr_t], variadic = False, returns = Int_t\<rparr>"
| "typedef_sig Statx_fn = \<lparr>params = [Int_t, Path_t, Int_t, Int_t, Ptr_t], variadic = False, returns = Int_t\<rparr>"
| "typedef_sig Symlink_fn = \<lparr>params = [Path_t, Path_t], variadic = False, returns = Int_t\<rparr>"
| "typedef_sig Symlinkat_fn = \<lparr>params = [Path_t, Int_t, Path_t], variadic = False, returns = Int_t\<rparr>"
| "typedef_sig Truncate_fn = \<lparr>params = [Path_t, Long_t], variadic = False, returns = Int_t\<rparr>"
| "typedef_sig Unlink_fn = \<lparr>params = [Path_t], variadic = False, returns = Int_t\<rparr>"
| "typedef_sig Unlinkat_fn = \<lparr>params = [Int_t, Path_t, Int_t], variadic = False, returns = Int_t\<rparr>"
| "typedef_sig Utimensat_fn = \<lparr>params = [Int_t, Path_t, Ptr_t, Int_t], variadic = False, returns = Int_t\<rparr>"
| "typedef_sig Statfs_fn = \<lparr>params = [Path_t, Ptr_t], variadic = False, returns = Int_t\<rparr>"
| "typedef_sig Write_fn = \<lparr>params = [Int_t, Ptr_t, Long_t], variadic = False, returns = Long_t\<rparr>"
| "typedef_sig Euidaccess_fn = \<lparr>params = [Path_t, Int_t], variadic = False, returns = Int_t\<rparr>"

text \<open>The type each function pointer is declared with.\<close>

primrec pointer_type :: "slot \<Rightarrow> fn_typedef" where
  "pointer_type Real_fxstat = Fxstat_fn"
| "pointer_type Real_fxstatat = Fxstatat_fn"
| "pointer_type Real_newfstatat = Newfstatat_fn"
| "pointer_type Real_lxstat = Xstat_fn"
| "pointer_type Real_xstat = Xstat_fn"
| "pointer_type Real_access = Access_fn"
| "pointer_type Real_chdir = Chdir_fn"
| "pointer_type Real_execve = Execve_fn"
| "pointer_type Real_close = Close_fn"
| "pointer_type Real_creat = Creat_fn"
| "pointer_type Real_fstat = Fstat_fn"
| "pointer_type Real_faccessat = Faccessat_fn"
| "pointer_type Real_fchmodat = Fchmodat_fn"
| "pointer_type Real_link = Link_fn"
| "pointer_type Real_linkat = Linkat_fn"
| "pointer_type Real_lseek = Lseek_fn"
| "pointer_type Real_mkdir = Mkdir_fn"
| "pointer_type Real_mkdirat = Mkdirat_fn"
| "pointer_type Real_open = Open_fn"
| "pointer_type Real_openat = Openat_fn"
| "pointer_type Real_openat2 = Openat2_fn"
| "pointer_type Real_pread = Pread_fn"
| "pointer_type Real_pwrite = Pwrite_fn"
| "pointer_type Real_getcwd = Getcwd_fn"
| "pointer_type Real_read = Read_fn"
| "pointer_type Real_readlink = Readlink_fn"
| "pointer_type Real_readlinkat = Readlinkat_fn"
| "pointer_type Real_rename = Rename_fn"
| "pointer_type Real_renameat = Renameat_fn"
| "pointer_type Real_renameat2 = Renameat2_fn"
| "pointer_type Real_rmdir = Rmdir_fn"
| "pointer_type Real_lstat = Stat_fn"
| "pointer_type Real_stat = Stat_fn"
| "pointer_type Real_statx = Statx_fn"
| "pointer_type Real_statfs = Statfs_fn"
| "pointer_type Real_symlink = Symlink_fn"
| "pointer_type Real_symlinkat = Symlinkat_fn"
| "pointer_type Real_truncate = Truncate_fn"
| "pointer_type Real_unlink = Unlink_fn"
| "pointer_type Real_unlinkat = Unlinkat_fn"
| "pointer_type Real_utimensat = Utimensat_fn"
| "pointer_type Real_euidaccess = Euidaccess_fn"
| "pointer_type Real_write = Write_fn"

text \<open>The prototypes of rtld.h.\<close>

primrec prototype :: "slot \<Rightarrow> signature" where
  "prototype Real_fxstat = \<lparr>params = [Int_t, Int_t, Ptr_t], variadic = False, returns = Int_t\<rparr>"
| "prototype Real_fxstatat = \<lparr>params = [Int_t, Int_t, Path_t, Ptr_t, Int_t], variadic = False, returns = Int_t\<rparr>"
| "prototype Real_lxstat = \<lparr>params = [Int_t, Path_t, Ptr_t], variadic = False, returns = Int_t\<rparr>"
| "prototype Real_xstat = \<lparr>params = [Int_t, Path_t, Ptr_t], variadic = False, returns = Int_t\<rparr>"
| "prototype Real_access = \<lparr>params = [Path_t, Int_t], variadic = False, returns = Int_t\<rparr>"
| "prototype Real_chdir = \<lparr>params = [Path_t], variadic = False, returns = Int_t\<rparr>"
| "prototype Real_close = \<lparr>params = [Int_t], variadic = False, returns = Int_t\<rparr>"
| "prototype Real_execve = \<lparr>params = [Path_t, Ptr_t, Ptr_t], variadic = False, returns = Int_t\<rparr>"
| "prototype Real_creat = \<lparr>params = [Path_t, Int_t], variadic = False, returns = Int_t\<rparr>"
| "prototype Real_fstat = \<lparr>params = [Int_t, Ptr_t], variadic = False, returns = Int_t\<rparr>"
| "prototype Real_newfstatat = \<lparr>params = [Int_t, Path_t, Ptr_t, Int_t], variadic = False, returns = Int_t\<rparr>"
| "prototype Real_faccessat = \<lparr>params = [Int_t, Path_t, Int_t, Int_t], variadic = False, returns = Int_t\<rparr>"
| "prototype Real_fchmodat = \<lparr>params = [Int_t, Path_t, Int_t, Int_t], variadic = False, returns = Int_t\<rparr>"
| "prototype Real_link = \<lparr>params = [Path_t, Path_t], variadic = False, returns = Int_t\<rparr>"
| "prototype Real_linkat = \<lparr>params = [Int_t, Path_t, Int_t, Path_t, Int_t], variadic = False, returns = Int_t\<rparr>"
| "prototype Real_lseek = \<lparr>params = [Int_t, Long_t, Int_t], variadic = False, returns = Long_t\<rparr>"
| "prototype Real_mkdir = \<lparr>params = [Path_t, Int_t], variadic = False, returns = Int_t\<rparr>"
| "prototype Real_mkdirat = \<lparr>params = [Int_t, Path_t, Int_t], variadic = False, returns = Int_t\<rparr>"
| "prototype Real_open = \<lparr>params = [Path_t, Int_t, Int_t], variadic = False, returns = Int_t\<rparr>"
| "prototype Real_openat = \<lparr>params = [Int_t, Path_t, Int_t, Int_t], variadic = False, returns = Int_t\<rparr>"
| "prototype Real_openat2 = \<lparr>params = [Int_t, Path_t, Ptr_t, Long_t], variadic = False, returns = Int_t\<rparr>"
| "prototype Real_pread = \<lparr>params = [Int_t, Ptr_t, Long_t, Long_t], variadic = False, returns = Long_t\<rparr>"
| "prototype Real_pwrite = \<lparr>params = [Int_t, Ptr_t, Long_t, Long_t], variadic = False, returns = Long_t\<rparr>"
| "prototype Real_read = \<lparr>params = [Int_t, Ptr_t, Long_t], variadic = False, returns = Long_t\<rparr>"
| "prototype Real_readlink = \<lparr>params = [Path_t, Ptr_t, Long_t], variadic = False, returns = Long_t\<rparr>"
| "prototype Real_readlinkat = \<lparr>params = [Int_t, Path_t, Ptr_t, Long_t], variadic = False, returns = Long_t\<rparr>"
| "prototype Real_rename = \<lparr>params = [Path_t, Path_t], variadic = False, returns = Int_t\<rparr>"
| "prototype Real_renameat = \<lparr>params = [Int_t, Path_t, Int_t, Path_t], variadic = False, returns = Int_t\<rparr>"
| "prototype Real_renameat2 = \<lparr>params = [Int_t, Path_t, Int_t, Path_t, Int_t], variadic = False, returns = Int_t\<rparr>"
| "prototype Real_rmdir = \<lparr>params = [Path_t], variadic = False, returns = Int_t\<rparr>"
| "prototype Real_lstat = \<lparr>params = [Path_t, Ptr_t], variadic = False, returns = Int_t\<rparr>"
| "prototype Real_euidaccess = \<lparr>params = [Path_t, Int_t], variadic = False, returns = Int_t\<rparr>"
| "prototype Real_statx = \<lparr>params = [Int_t, Path_t, Int_t, Int_t, Ptr_t], variadic = False, returns = Int_t\<rparr>"
| "prototype Real_stat = \<lparr>params = [Path_t, Ptr_t], variadic = False, returns = Int_t\<rparr>"
| "prototype Real_statfs = \<lparr>params = [Path_t, Ptr_t], variadic = False, returns = Int_t\<rparr>"
| "prototype Real_symlink = \<lparr>params = [Path_t, Path_t], variadic = False, returns = Int_t\<rparr>"
| "prototype Real_symlinkat = \<lparr>params = [Path_t, Int_t, Path_t], variadic = False, returns = Int_t\<rparr>"
| "prototype Real_truncate = \<lparr>params = [Path_t, Long_t], variadic = False, returns = Int_t\<rparr>"
| "prototype Real_unlink = \<lparr>params = [Path_t], variadic = False, returns = Int_t\<rparr>"
| "prototype Real_unlinkat = \<lparr>params = [Int_t, Path_t, Int_t], variadic = False, returns = Int_t\<rparr>"
| "prototype Real_utimensat = \<lparr>params = [Int_t, Path_t, Ptr_t, Int_t], variadic = False, returns = Int_t\<rparr>"
| "prototype Real_getcwd = \<lparr>params = [Ptr_t, Long_t], variadic = False, returns = Ptr_t\<rparr>"
| "prototype Real_write = \<lparr>params = [Int_t, Ptr_t, Long_t], variadic = False, returns = Long_t\<rparr>"

primrec type_of :: "cval \<Rightarrow> ctype" where
  "type_of (I32 i) = Int_t"
| "type_of (I64 i) = Long_t"
| "type_of (Path p) = Path_t"
| "type_of (Ptr a) = Ptr_t"

text \<open>An argument list of a call: the named parameters, then any others where the function is variadic.\<close>

definition accepts :: "signature \<Rightarrow> cval list \<Rightarrow> bool" where
  "accepts f vs \<longleftrightarrow>
     (if variadic f then take (length (params f)) (map type_of vs) = params f
      else map type_of vs = params f)"

section \<open>Rewriting keeps types\<close>

lemma ref_piece_types: "map type_of (fst (ref_piece L pc s)) = map type_of (passed pc)"
  by (cases pc) (simp_all add: case_prod_beta)

lemma ref_list_types:
  "map (map type_of) (fst (ref_list (ref_piece L) ps s)) = map (map type_of) (map passed ps)"
  by (induction ps arbitrary: s) (simp_all add: case_prod_beta Let_def ref_piece_types)

lemma rewritten_args_types: "map type_of (fst (rewritten_args L req s)) = map type_of (args_of req)"
proof -
  have "map type_of (concat (rev (fst (ref_list (ref_piece L) (rev ps) s)))) = map type_of (concat (map passed ps))" for ps
    using ref_list_types [of L "rev ps" s] by (simp add: map_concat rev_map [symmetric])
  moreover have "map type_of (concat (fst (ref_list (ref_piece L) ps s))) = map type_of (concat (map passed ps))" for ps
    using ref_list_types [of L ps s] by (simp add: map_concat)
  ultimately show ?thesis by (simp add: rewritten_args_def passed_plan)
qed

lemma args_prototype: "map type_of (args_of req) = params (prototype (slot_of req))"
  by (cases req) simp_all

lemma prototype_pointer:
  "accepts (prototype sl) vs \<Longrightarrow> accepts (typedef_sig (pointer_type sl)) vs \<or> sl = Real_getcwd"
  by (cases sl) (auto simp: accepts_def)

lemma failure_prototype: "sl \<noteq> Real_getcwd \<Longrightarrow> type_of (failure_of sl) = returns (prototype sl)"
  by (cases sl) (simp_all add: failure_of_def)

section \<open>Properties\<close>

text \<open>C22: every call the interposer makes of the libc is well typed: the arguments have the types of
  the prototype in rtld.h and are accepted by the typedef of the function pointer called through
  (two of which are variadic), rewriting changes no type, and where the function is missing the
  answer has the return type of both.\<close>
theorem calls_well_typed:
  assumes "libc_ok L" and "process_ok L s" and "request_ok req"
  shows "\<exists>vs u. serve L req s = Some (with_call L (slot_of req) vs u) \<and>
     map type_of vs = map type_of (args_of req) \<and> accepts (prototype (slot_of req)) vs \<and>
     accepts (typedef_sig (pointer_type (slot_of req))) vs \<and>
     type_of (failure_of (slot_of req)) = returns (prototype (slot_of req)) \<and>
     returns (typedef_sig (pointer_type (slot_of req))) = returns (prototype (slot_of req))"
proof -
  let ?vs = "fst (rewritten_args L req s)" and ?f = "prototype (slot_of req)"
  have ng: "slot_of req \<noteq> Real_getcwd" by (cases req) simp_all
  have t: "map type_of ?vs = map type_of (args_of req)" by (rule rewritten_args_types)
  then have a: "accepts ?f ?vs" by (cases "slot_of req") (simp_all add: accepts_def args_prototype)
  have "returns (typedef_sig (pointer_type sl)) = returns (prototype sl)" for sl by (cases sl) simp_all
  then show ?thesis
    using serve_eq [OF assms] t a prototype_pointer [OF a] ng failure_prototype [OF ng]
    by (auto simp: serve_ref_def case_prod_beta)
qed

theorem calls_well_typed_witness:
  "\<exists>vs u. serve (example_libc (\<lambda>_. 1)) (C_open (Some ''/srv/data/x'') O_CREAT (Some 0x1A4)) (fresh_process [])
       = Some (with_call (example_libc (\<lambda>_. 1)) Real_open vs u) \<and>
     map type_of vs = [Path_t, Int_t, Int_t]"
proof -
  have "request_ok (C_open (Some ''/srv/data/x'') O_CREAT (Some 0x1A4))"
    by (simp add: request_ok_def mode_given_def va_mode_arg_def c_ok_def)
  from calls_well_typed [OF example_libc_ok process_ok_fresh this] show ?thesis by fastforce
qed

end
