(* ===== verification/Getcwd.thy ===== *)
theory Getcwd
  imports Calls
begin

text \<open>
  The exported \<open>getcwd\<close>: the libc's answer taken back from the target prefix to the source
  prefix, so that a program that entered the moved tree sees the directory it asked for. The
  caller's array is \<open>buf\<close> (\<open>None\<close> for NULL), \<open>sz\<close> the size it states.
\<close>

section \<open>The C code\<close>

definition getcwd ::
  "'w libc \<Rightarrow> buffer option \<Rightarrow> nat \<Rightarrow> 'w process \<Rightarrow> ((cstr \<times> buffer option) \<times> 'w process) option" where
  "getcwd L buf sz s = do {
     ((result, buf), s) \<leftarrow> orig_getcwd L buf sz s;
     if result = None then Some ((None, buf), s)
     else do {
       s \<leftarrow> get_rewrite_policy L s;
       if \<not> enabled (policy s) then Some ((result, buf), s)
       else do {
         b \<leftarrow> buf;
         c \<leftarrow> c_string b;
         (rc, rewritten) \<leftarrow> substitute_prefix_reverse (policy s) c (new_buffer PATH_MAX) sz;
         if rc \<noteq> 0 then Some ((result, Some b), s)
         else do {
           p \<leftarrow> c_string rewritten;
           if length p + 1 > sz then Some ((result, Some b), s)
           else do {
             b \<leftarrow> copy_in b 0 (p @ [NUL]);
             Some ((Some p, Some b), s) } } } } }"

section \<open>What it computes\<close>

text \<open>The libc's answer, and the process right after the call.\<close>

definition libc_getcwd :: "'w libc \<Rightarrow> nat \<Rightarrow> 'w process \<Rightarrow> cstr \<times> 'w process" where
  "libc_getcwd L sz s =
     (if dlsym L ''getcwd'' = 0 then (None, (with_symbols L s)\<lparr>world := set_errno L ENOSYS (world s)\<rparr>)
      else (let (r, w) = call_getcwd L (dlsym L ''getcwd'') sz (world s) in (r, (with_symbols L s)\<lparr>world := w\<rparr>)))"

text \<open>The directory reported for the libc's \<open>cwd\<close>.\<close>

definition reported :: "rewrite_policy \<Rightarrow> nat \<Rightarrow> string \<Rightarrow> string" where
  "reported pol sz cwd = (case backward_spec sz (pol, cwd) of None \<Rightarrow> cwd | Some q \<Rightarrow> q)"

lemma libc_getcwd_ok:
  assumes "libc_ok L" "process_ok L s"
  shows "process_ok L (snd (libc_getcwd L sz s))"
    "fst (libc_getcwd L sz s) = Some cwd \<Longrightarrow> c_ok cwd \<and> length cwd < sz"
  using assms libc_okD(2) [OF assms(1)] by (auto simp: libc_getcwd_def split: prod.splits if_splits)

lemma orig_getcwd_eq:
  assumes "libc_ok L" "process_ok L s" "sz \<le> cap b"
  shows "\<exists>b'. orig_getcwd L (Some b) sz s = Some ((fst (libc_getcwd L sz s), Some b'), snd (libc_getcwd L sz s)) \<and>
    cap b' = cap b \<and> (\<forall>cwd. fst (libc_getcwd L sz s) = Some cwd \<longrightarrow> c_string b' = Some cwd)"
proof -
  have ens: "ensure_symbols L s = Some (with_symbols L s)" by (rule ensure_symbols_eq [OF assms(2)])
  have fn: "real_fn (with_symbols L s) Real_getcwd = dlsym L ''getcwd''" "world (with_symbols L s) = world s"
    by (simp_all add: with_symbols_def)
  obtain r w where c: "call_getcwd L (dlsym L ''getcwd'') sz (world s) = (r, w)" by fastforce
  show ?thesis
  proof (cases "dlsym L ''getcwd'' = 0 \<or> r = None")
    case True
    then show ?thesis using c
      by (auto simp: orig_getcwd_def REQUIRE_SYMBOL_def ens fn libc_getcwd_def)
  next
    case False
    then obtain cwd where r: "r = Some cwd" by auto
    have ok: "c_ok cwd" "length cwd < sz" using libc_okD(2) [OF assms(1)] c r by auto
    obtain d where "copy_in b 0 (cwd @ [NUL]) = Some d" "cap d = cap b" "holds d (cwd @ [NUL])"
      using copy_in_holds [of b "[]" "cwd @ [NUL]"] ok(2) assms(3) by auto
    then show ?thesis using False c r c_string_holds [OF _ ok(1), of d]
      by (auto simp: orig_getcwd_def REQUIRE_SYMBOL_def ens fn libc_getcwd_def)
  qed
qed

lemma getcwd_eq:
  assumes L: "libc_ok L" "process_ok L s" and sz: "sz \<le> cap b" "sz \<le> PATH_MAX"
    and call: "libc_getcwd L sz s = (r, s')"
  shows "\<exists>b'. getcwd L (Some b) sz s =
      Some ((map_option (reported (policy_of L s') sz) r, Some b'), if r = None then s' else with_policy L s') \<and>
    cap b' = cap b \<and> (\<forall>cwd. r = Some cwd \<longrightarrow> c_string b' = Some (reported (policy_of L s') sz cwd))"
proof -
  obtain d where d: "orig_getcwd L (Some b) sz s = Some ((r, Some d), s')" "cap d = cap b"
      "\<forall>cwd. r = Some cwd \<longrightarrow> c_string d = Some cwd"
    using orig_getcwd_eq [OF L sz(1)] call by auto
  have ok: "process_ok L s'" using libc_getcwd_ok(1) [OF L, of sz] call by simp
  let ?pol = "policy_of L s'"
  have pol: "policy_ok ?pol" by (rule policy_of_ok [OF L(1) ok])
  show ?thesis
  proof (cases r)
    case None
    then show ?thesis using d by (simp add: getcwd_def)
  next
    case (Some cwd)
    have cwd: "c_ok cwd" "length cwd < sz" using libc_getcwd_ok(2) [OF L, of sz cwd] call Some by simp_all
    have good: "case (?pol, cwd) of (pol, path) \<Rightarrow> policy_ok pol \<and> c_ok path" using pol cwd by simp
    show ?thesis
    proof (cases rule: backward.write_cases [OF good, of sz "new_buffer PATH_MAX"])
      case 1
      then show ?case using sz(2) by simp
    next
      case (2 e)
      then show ?thesis using d Some get_rewrite_policy_eq [OF L(1) ok]
        by (simp add: getcwd_def reported_def backward_spec_def)
    next
      case (3 q e)
      obtain f where f: "copy_in d 0 (q @ [NUL]) = Some f" "cap f = cap d" "holds f (q @ [NUL])"
        using copy_in_holds [of d "[]" "q @ [NUL]"] 3 d(2) sz(1) by auto
      have "enabled ?pol" using 3(1) by (auto simp: backward_spec_def split: if_splits)
      then show ?thesis using d Some get_rewrite_policy_eq [OF L(1) ok] 3 f c_string_holds [OF f(3)]
        by (simp add: getcwd_def reported_def)
    qed
  qed
qed

text \<open>Writing a string past the end of an array.\<close>

lemma copy_in_overflows: "cs \<noteq> [] \<Longrightarrow> cap b < i + length cs \<Longrightarrow> copy_in b i cs = None"
proof (induction cs arbitrary: b i)
  case (Cons c cs)
  show ?case
  proof (cases "i < cap b")
    case True
    have "cap b < Suc i + length cs" "cs \<noteq> []" using Cons.prems True by auto
    then show ?thesis using Cons.IH [of "b\<lparr>cells := (cells b)(i \<mapsto> c)\<rparr>" "Suc i"] True
      by (simp add: store_def)
  qed (simp add: store_def)
qed simp

text \<open>Taking back a place under the target prefix.\<close>

lemma moved_back:
  assumes "moved pol place = Some q"
  shows "moved (swap_policy pol) q = Some place"
  using assms by (auto simp: moved_def redirect_def prefix_def split: if_splits)

lemma reported_moved:
  assumes "capturing pol" "proper_prefix (to_path pol)" "cleaned c" "moved pol place = Some (location c)"
    and "from_len pol + length c - to_len pol < sz"
  shows "location (reported pol sz c) = place"
proof -
  obtain tr where tr: "c = contents True (location c) tr" using assms(3) by (rule cleaned_contents)
  have "policy_ok (swap_policy pol)" "enabled (swap_policy pol)" "proper_prefix (from_path (swap_policy pol))"
    using assms(1,2) by (simp_all add: capturing_def)
  from forward_spec_redirect [OF this tr, of sz] moved_back [OF assms(4)] assms(5)
  show ?thesis by (auto simp: moved_def reported_def backward_spec_swap)
qed

section \<open>Properties\<close>

text \<open>C17: for an array whose stated size it has, of at most PATH_MAX bytes, \<open>getcwd\<close> stays in bounds:
  it fails exactly when the libc's fails, and otherwise the array holds the terminated string
  it returns: the libc's directory with the target prefix replaced by the source prefix where
  that is possible within the size, and as the libc gave it everywhere else.\<close>
theorem getcwd_reports:
  assumes "libc_ok L" and "process_ok L s" and "sz \<le> cap b" and "sz \<le> PATH_MAX"
    and "libc_getcwd L sz s = (r, s')"
  shows "\<exists>b' t. getcwd L (Some b) sz s = Some ((map_option (reported (policy_of L s') sz) r, Some b'), t) \<and>
     process_ok L t \<and> (r \<noteq> None \<longrightarrow> c_string b' = map_option (reported (policy_of L s') sz) r)"
proof -
  have "process_ok L s'" using libc_getcwd_ok(1) [OF assms(1,2), of sz] assms(5) by simp
  then show ?thesis using getcwd_eq [OF assms] assms(1) by (cases r) auto
qed

theorem getcwd_reports_witness:
  "\<exists>b t. getcwd (example_libc (\<lambda>_. 1)) (Some (new_buffer 64)) 64 (running (swap_policy example_policy))
     = Some ((Some ''/mnt/copy'', Some b), t) \<and> c_string b = Some ''/mnt/copy''"
proof -
  let ?L = "example_libc (\<lambda>_. 1)" and ?s = "running (swap_policy example_policy)"
  have ok: "process_ok ?L ?s" by (rule running_ok) (simp add: example_policy_ok)
  have sz: "64 \<le> cap (new_buffer 64)" "64 \<le> PATH_MAX" by (simp_all add: PATH_MAX_def)
  obtain t where c: "libc_getcwd ?L 64 ?s = (Some ''/srv/data'', t)" and t: "policy_of ?L t = swap_policy example_policy"
    by (simp add: libc_getcwd_def example_libc_def running_def policy_of_def with_symbols_def)
  have "reported (swap_policy example_policy) 64 ''/srv/data'' = ''/mnt/copy''" by code_simp
  with getcwd_reports [OF example_libc_ok ok sz c] t show ?thesis by auto
qed

text \<open>The program sees the directory it entered: when the libc reports a clean path to the moved
  image of a place, \<open>getcwd\<close> answers with a path to the place itself, for prefixes that end in
  no separator and a result that fits.\<close>
theorem getcwd_undoes_redirection:
  assumes "libc_ok L" and "process_ok L s" and "sz \<le> cap b" and "sz \<le> PATH_MAX"
    and "libc_getcwd L sz s = (Some c, s')" and "capturing (policy_of L s')"
    and "proper_prefix (to_path (policy_of L s'))" and "cleaned c"
    and "moved (policy_of L s') place = Some (location c)"
    and "from_len (policy_of L s') + length c - to_len (policy_of L s') < sz"
  shows "\<exists>q b' t. getcwd L (Some b) sz s = Some ((Some q, Some b'), t) \<and> location q = place"
  using getcwd_eq [OF assms(1-5)] reported_moved [OF assms(6-10)] by auto

theorem getcwd_undoes_redirection_witness:
  "\<exists>q b t. getcwd (example_libc (\<lambda>_. 1)) (Some (new_buffer 64)) 64 (running (swap_policy example_policy))
     = Some ((Some q, Some b), t) \<and> location q = [''mnt'', ''copy'']"
proof -
  let ?L = "example_libc (\<lambda>_. 1)" and ?s = "running (swap_policy example_policy)"
  have ok: "process_ok ?L ?s" by (rule running_ok) (simp add: example_policy_ok)
  have sz: "64 \<le> cap (new_buffer 64)" "64 \<le> PATH_MAX" by (simp_all add: PATH_MAX_def)
  obtain t where c: "libc_getcwd ?L 64 ?s = (Some ''/srv/data'', t)" and t: "policy_of ?L t = swap_policy example_policy"
    by (simp add: libc_getcwd_def example_libc_def running_def policy_of_def with_symbols_def)
  have cap: "capturing (policy_of ?L t)" "proper_prefix (to_path (policy_of ?L t))"
    unfolding t by (simp_all add: capturing_def example_policy_ok) (simp_all add: example_policy_def proper_prefix_def)
  have m: "moved (policy_of ?L t) [''mnt'', ''copy''] = Some (location ''/srv/data'')"
    unfolding t by code_simp
  have room: "from_len (policy_of ?L t) + length ''/srv/data'' - to_len (policy_of ?L t) < 64"
    unfolding t by (simp add: example_policy_def)
  from getcwd_undoes_redirection [OF example_libc_ok ok sz c cap example_cleaned(1) m room]
  show ?thesis .
qed

text \<open>C33: \<open>getcwd(NULL, size)\<close>, which the Linux libcs answer with an allocated string, dereferences
  NULL under an enabled policy: the reverse substitution reads the caller's array and not the
  string the libc returned.\<close>
theorem getcwd_null_dereferenced:
  assumes "process_ok L s" and "policy_ready s" and "enabled (policy s)" and "dlsym L ''getcwd'' \<noteq> 0"
    and "alloc_getcwd L (dlsym L ''getcwd'') sz (world s) = (Some cwd, w)"
  shows "getcwd L None sz s = None"
  using assms ensure_symbols_eq [OF assms(1)]
  by (simp add: getcwd_def orig_getcwd_def REQUIRE_SYMBOL_def get_rewrite_policy_def run_once_def with_symbols_def)

theorem getcwd_null_dereferenced_witness:
  "getcwd (example_libc (\<lambda>_. 1)) None 0 (running example_policy) = None"
proof (rule getcwd_null_dereferenced [OF running_ok [OF example_policy_ok]])
  show "alloc_getcwd (example_libc (\<lambda>_. 1)) (dlsym (example_libc (\<lambda>_. 1)) ''getcwd'') 0 (world (running example_policy))
      = (Some ''/srv/data'', [])"
    by (simp add: example_libc_def running_def fresh_process_def)
qed (simp_all add: running_def example_policy_def example_libc_def)

text \<open>C34: the local array of \<open>getcwd\<close> has PATH_MAX bytes, but the reverse substitution is told that it
  has as many as the caller's: with a larger caller's array, a directory under the target prefix
  whose source path takes more than PATH_MAX bytes is written past the end of the local one.\<close>
theorem getcwd_overflows_local_array:
  assumes "libc_ok L" and "process_ok L s" and "policy_ready s" and "enabled (policy s)"
    and "sz \<le> cap b" and "libc_getcwd L sz s = (Some (to_path (policy s) @ rest), s')"
    and "rest = [] \<or> starts_with_slash rest"
    and "PATH_MAX \<le> from_len (policy s) + length rest" and "from_len (policy s) + length rest < sz"
  shows "getcwd L (Some b) sz s = None"
proof -
  let ?pol = "policy s" and ?cwd = "to_path (policy s) @ rest"
  obtain d where d: "orig_getcwd L (Some b) sz s = Some ((Some ?cwd, Some d), s')" "c_string d = Some ?cwd"
    using orig_getcwd_eq [OF assms(1,2,5)] assms(6) by auto
  have s': "policy_ready s'" "policy s' = ?pol"
    using assms(3,6) by (auto simp: libc_getcwd_def with_symbols_def split: if_splits prod.splits)
  have cwd: "c_ok ?cwd" using libc_getcwd_ok(2) [OF assms(1,2), of sz ?cwd] assms(6) by simp
  have pol: "to_len ?pol = length (to_path ?pol)" "from_len ?pol = length (from_path ?pol)"
      "cleaned (from_path ?pol)"
    using assms(2-4) by (simp_all add: process_ok_def policy_ok_def)
  have m: "path_matches_prefix ?cwd (to_path ?pol) (length (to_path ?pol)) = Some True"
    using path_matches_prefix_under [OF cwd] assms(7) by (simp add: under_append)
  obtain e where e: "copy_in (new_buffer PATH_MAX) 0 (from_path ?pol) = Some e" "cap e = PATH_MAX"
    using copy_in_holds [of "new_buffer PATH_MAX" "[]" "from_path ?pol"] cleanedD(2) [OF pol(3)] by auto
  have "copy_in e (length (from_path ?pol)) (rest @ [NUL]) = None"
    by (rule copy_in_overflows) (use assms(8) pol(2) e(2) in simp_all)
  then have "substitute_prefix_reverse ?pol ?cwd (new_buffer PATH_MAX) sz = None"
    using assms(4,9) pol(1,2) m e(1) by (simp add: substitute_prefix_reverse_def bytes_of_def)
  then show ?thesis using d s' assms(4)
    by (simp add: getcwd_def get_rewrite_policy_def run_once_def)
qed

text \<open>A directory with one long name.\<close>

definition long_dir :: "nat \<Rightarrow> char \<Rightarrow> string" where
  "long_dir n c = SLASH # replicate n c"

lemma long_dir_simps:
  assumes "c \<noteq> NUL" "c \<noteq> SLASH" "c \<noteq> DOT" "0 < n"
  shows "length (long_dir n c) = Suc n" "c_ok (long_dir n c)" "starts_with_slash (long_dir n c)"
    "Suc n < PATH_MAX \<Longrightarrow> cleaned (long_dir n c)"
proof -
  show "length (long_dir n c) = Suc n" "c_ok (long_dir n c)" "starts_with_slash (long_dir n c)"
    using assms by (simp_all add: long_dir_def c_ok_def)
  have "seg_ok (replicate n c)" using assms by (simp add: seg_ok_def)
  moreover have "replicate n c \<noteq> [DOT]" "replicate n c \<noteq> [DOT, DOT]"
    using assms by (auto dest!: arg_cong [of "replicate n c" _ hd])
  ultimately have "location (long_dir n c) = [replicate n c]"
    by (simp add: location_def long_dir_def walk_step_def)
  then show "Suc n < PATH_MAX \<Longrightarrow> cleaned (long_dir n c)"
    using assms by (simp add: cleaned_def long_dir_def c_ok_def)
qed

definition overflow_policy :: rewrite_policy where
  "overflow_policy = \<lparr>enabled = True, from_len = 4001, to_len = 2, from_path = long_dir 4000 (CHR ''a''), to_path = ''/t''\<rparr>"

definition overflow_libc :: "call_log libc" where
  "overflow_libc = (example_libc (\<lambda>_. 1))
     \<lparr>call_getcwd := (\<lambda>a n w. (if 203 < n then Some (''/t'' @ long_dir 200 (CHR ''b'')) else None, w))\<rparr>"

lemma overflow_ok: "libc_ok overflow_libc" "policy_ok overflow_policy"
proof -
  have "location ''/t'' = [''t'']" by code_simp
  then have "cleaned ''/t''" by (simp add: cleaned_def c_ok_def PATH_MAX_def)
  moreover have "cleaned (long_dir 4000 (CHR ''a''))" "length (long_dir 4000 (CHR ''a'')) = 4001"
    using long_dir_simps(1,4) [of "CHR ''a''" 4000] by (simp_all add: PATH_MAX_def)
  ultimately show "policy_ok overflow_policy" by (simp add: policy_ok_def overflow_policy_def)
  have "length (long_dir 200 (CHR ''b'')) = 201" "c_ok (long_dir 200 (CHR ''b''))"
    using long_dir_simps(1,2) [of "CHR ''b''" 200] by simp_all
  then show "libc_ok overflow_libc"
    using example_libc_ok [of "\<lambda>_. 1"] by (simp add: overflow_libc_def libc_ok_def)
qed

theorem getcwd_overflows_local_array_witness:
  "getcwd overflow_libc (Some (new_buffer 8192)) 8192 (running overflow_policy) = None"
proof (rule getcwd_overflows_local_array [OF overflow_ok(1) running_ok [OF overflow_ok(2)]])
  have len: "length (long_dir 200 (CHR ''b'')) = 201" "starts_with_slash (long_dir 200 (CHR ''b''))"
    using long_dir_simps(1,3) [of "CHR ''b''" 200] by simp_all
  show "policy_ready (running overflow_policy)" "enabled (policy (running overflow_policy))"
    by (simp_all add: running_def overflow_policy_def)
  show "libc_getcwd overflow_libc 8192 (running overflow_policy)
      = (Some (to_path (policy (running overflow_policy)) @ long_dir 200 (CHR ''b'')),
         with_symbols overflow_libc (running overflow_policy))"
    by (simp add: libc_getcwd_def overflow_libc_def example_libc_def running_def overflow_policy_def with_symbols_def)
  show "PATH_MAX \<le> from_len (policy (running overflow_policy)) + length (long_dir 200 (CHR ''b''))"
    "from_len (policy (running overflow_policy)) + length (long_dir 200 (CHR ''b'')) < 8192"
    by (simp_all add: running_def overflow_policy_def len PATH_MAX_def)
  show "long_dir 200 (CHR ''b'') = [] \<or> starts_with_slash (long_dir 200 (CHR ''b''))"
    using len(2) by simp
qed simp

end
