(* ===== verification/Lifecycle.thy ===== *)
theory Lifecycle
  imports Getcwd
begin

text \<open>
  The life of a process under the interposer: a step relation whose events are the interposed
  calls and whatever else changes the world (calls that are not interposed, \<open>setenv\<close>, other
  processes), what every reachable process satisfies, and the simulation by the bare libc
  where no policy applies.
\<close>

section \<open>Steps and runs\<close>

datatype (plugins only: code size) event = Call request cval | Cwd nat cstr | Outside

inductive step :: "'w libc \<Rightarrow> 'w process \<Rightarrow> event \<Rightarrow> 'w process \<Rightarrow> bool" for L where
  call: "request_ok req \<Longrightarrow> serve L req s = Some (r, t) \<Longrightarrow> step L s (Call req r) t"
| cwd: "sz \<le> cap b \<Longrightarrow> sz \<le> PATH_MAX \<Longrightarrow> getcwd L (Some b) sz s = Some ((r, b'), t) \<Longrightarrow>
    step L s (Cwd sz r) t"
| outside: "step L s Outside (s\<lparr>world := w\<rparr>)"

inductive run :: "'w libc \<Rightarrow> 'w process \<Rightarrow> event list \<Rightarrow> 'w process \<Rightarrow> bool" for L where
  stop: "run L s [] s"
| more: "step L s e t \<Longrightarrow> run L t es u \<Longrightarrow> run L s (e # es) u"

inductive_cases call_stepE: "step L s (Call req r) t"
inductive_cases cwd_stepE: "step L s (Cwd sz r) t"
inductive_simps run_simps: "run L s [] t" "run L s (e # es) t"

text \<open>The libc alone, on the world.\<close>

inductive libc_step :: "'w libc \<Rightarrow> 'w \<Rightarrow> event \<Rightarrow> 'w \<Rightarrow> bool" for L where
  call: "libc_call L (slot_of req) (args_of req) w = (r, w') \<Longrightarrow> libc_step L w (Call req r) w'"
| cwd: "(if dlsym L ''getcwd'' = 0 then (None, set_errno L ENOSYS w)
         else call_getcwd L (dlsym L ''getcwd'') sz w) = (r, w') \<Longrightarrow> libc_step L w (Cwd sz r) w'"
| outside: "libc_step L w Outside w'"

inductive libc_run :: "'w libc \<Rightarrow> 'w \<Rightarrow> event list \<Rightarrow> 'w \<Rightarrow> bool" for L where
  stop: "libc_run L w [] w"
| more: "libc_step L w e w' \<Longrightarrow> libc_run L w' es w'' \<Longrightarrow> libc_run L w (e # es) w''"

section \<open>Invariants\<close>

lemma step_ok:
  assumes "step L s e t" "libc_ok L" "process_ok L s"
  shows "process_ok L t"
    "policy_ready s \<Longrightarrow> policy_ready t \<and> policy t = policy s"
proof -
  have "process_ok L t \<and> (policy_ready s \<longrightarrow> policy_ready t \<and> policy t = policy s)"
    using assms
  proof cases
    case (call req r)
    then show ?thesis
      using serve_eq [OF assms(2,3) call(2)] serve_ref_ok [OF assms(2,3) call(2)] by auto
  next
    case (cwd sz b r b')
    obtain a s' where a: "libc_getcwd L sz s = (a, s')" by fastforce
    from libc_getcwd_ok(1) [OF assms(2,3), of sz] a have ok: "process_ok L s'" by simp
    have fr: "policy_ready s' = policy_ready s" "policy s' = policy s"
      using a by (auto simp: libc_getcwd_def with_symbols_def split: if_splits prod.splits)
    from getcwd_eq [OF assms(2,3) cwd(2,3) a] cwd(4)
    have "t = (if a = None then s' else with_policy L s')" by auto
    moreover have "process_ok L (with_policy L s')" using assms(2) ok by simp
    moreover have "policy_ready s \<Longrightarrow> policy_ready (with_policy L s') \<and> policy (with_policy L s') = policy s"
      using fr by (simp add: with_policy_def policy_of_def)
    ultimately show ?thesis using ok fr by auto
  qed (simp add: assms(3))
  then show "process_ok L t" "policy_ready s \<Longrightarrow> policy_ready t \<and> policy t = policy s" by simp_all
qed

lemma run_ok:
  assumes "run L s es t" "libc_ok L" "process_ok L s"
  shows "process_ok L t \<and> (policy_ready s \<longrightarrow> policy_ready t \<and> policy t = policy s)"
  using assms(1,3)
proof induction
  case (more s e t es u)
  then show ?case using step_ok [OF more.hyps(1) assms(2) more.prems] by auto
qed simp

text \<open>What a call answers and leaves behind depends on the request and the process alone, not on what
  the caller's array held before.\<close>

lemma call_deterministic:
  "step L s (Call req r) t \<Longrightarrow> step L s (Call req r') t' \<Longrightarrow> r = r' \<and> t = t'"
  by (elim call_stepE) simp

lemma cwd_deterministic:
  assumes "libc_ok L" "process_ok L s" "step L s (Cwd sz r) t" "step L s (Cwd sz r') t'"
  shows "r = r' \<and> t = t'"
proof -
  obtain a s' where a: "libc_getcwd L sz s = (a, s')" by fastforce
  have "u = map_option (reported (policy_of L s') sz) a \<and> v = (if a = None then s' else with_policy L s')"
    if "step L s (Cwd sz u) v" for u v
    using that by (elim cwd_stepE) (use getcwd_eq [OF assms(1,2) _ _ a] in fastforce)
  from this [OF assms(3)] this [OF assms(4)] show ?thesis by simp
qed

section \<open>Runs without a policy\<close>

lemma rel_ref_off: "\<not> enabled (policy_of L s) \<Longrightarrow> rel_ref L n fd p s = (None, if starts_with_slash p then s else with_policy L s)"
  by (simp add: rel_ref_def)

lemma path_ref_off:
  assumes "\<not> enabled (policy_of L s)"
  shows "fst (path_ref L p s) = p" "snd (path_ref L p s) \<in> {s, with_policy L s}"
  using assms by (cases p; simp add: abs_ref_def abs_target_def)+

lemma at_ref_off:
  assumes "\<not> enabled (policy_of L s)"
  shows "fst (at_ref L (fd, p) s) = (p, fd) \<and> snd (at_ref L (fd, p) s) \<in> {s, with_policy L s}"
  by (cases rule: at_ref_cases [of p L fd s])
    (use path_ref_off [OF assms, of p] in \<open>simp_all add: rel_ref_off [OF assms] del: path_ref_simps\<close>)

lemma ref_piece_off:
  assumes "\<not> enabled (policy_of L s)"
  shows "fst (ref_piece L pc s) = passed pc" "snd (ref_piece L pc s) \<in> {s, with_policy L s}"
  using path_ref_off [OF assms] at_ref_off [OF assms]
  by (cases pc; simp add: cwd_ref_eq del: path_ref_simps)+

lemma ref_list_off:
  "\<not> enabled (policy_of L s) \<Longrightarrow>
   fst (ref_list (ref_piece L) ps s) = map passed ps \<and> snd (ref_list (ref_piece L) ps s) \<in> {s, with_policy L s}"
proof (induction ps arbitrary: s)
  case (Cons pc ps)
  obtain vs t where t: "ref_piece L pc s = (vs, t)" by fastforce
  from ref_piece_off [OF Cons.prems, of pc] t have "vs = passed pc" "t = s \<or> t = with_policy L s" by simp_all
  moreover from this(2) have "policy_of L t = policy_of L s" "with_policy L t = with_policy L s"
    by (auto simp: with_idem)
  ultimately show ?case using Cons.IH [of t] Cons.prems t by (auto simp: case_prod_beta Let_def)
qed simp

lemma rewritten_args_off:
  assumes "\<not> enabled (policy_of L s)"
  shows "fst (rewritten_args L req s) = args_of req" "snd (rewritten_args L req s) \<in> {s, with_policy L s}"
  using ref_list_off [OF assms] by (auto simp: rewritten_args_def rev_map [symmetric] passed_plan)

text \<open>The two variables never name a usable pair of prefixes.\<close>

definition unset :: "'w libc \<Rightarrow> bool" where
  "unset L \<longleftrightarrow> (\<forall>w. \<not> (usable (getenv L w ''LD_PRELOAD_REWRITE_FROM'') \<and> usable (getenv L w ''LD_PRELOAD_REWRITE_TO'')))"

definition idle :: "'w libc \<Rightarrow> 'w process \<Rightarrow> bool" where
  "idle L s \<longleftrightarrow> process_ok L s \<and> (policy_ready s \<longrightarrow> \<not> enabled (policy s))"

lemma idle_off:
  assumes "libc_ok L" "unset L" "idle L s"
  shows "\<not> enabled (policy_of L s)"
proof (cases "policy_ready s")
  case False
  let ?env = "getenv L (world s)"
  have "init_rewrite_policy ?env = Some no_policy"
    using assms(2) by (intro init_rewrite_policy_unusable [OF libc_okD(1) [OF assms(1)]]) (simp add: unset_def)
  then show ?thesis using False by (simp add: policy_of_def no_policy_def)
qed (use assms(3) in \<open>simp add: idle_def\<close>)

lemma with_fields:
  "policy_ready (with_policy L s)" "policy (with_policy L s) = policy_of L s"
  "policy_ready (with_symbols L s) = policy_ready s" "policy (with_symbols L s) = policy s"
  by (simp_all add: with_policy_def with_symbols_def)

lemma idle_with:
  assumes "libc_ok L" "unset L" "idle L s"
  shows "idle L (with_policy L s)" "idle L (with_symbols L s)" "idle L (s\<lparr>world := w\<rparr>)"
  using assms(1,3) idle_off [OF assms] by (simp_all add: idle_def with_fields)

lemma libc_getcwd_world:
  "libc_getcwd L sz s = (r, s') \<Longrightarrow> libc_step L (world s) (Cwd sz r) (world s') \<and> s' = (with_symbols L s)\<lparr>world := world s'\<rparr>"
  by (auto simp: libc_getcwd_def intro!: libc_step.cwd split: if_splits prod.splits)

lemma step_off:
  assumes "step L s e t" "libc_ok L" "unset L" "idle L s"
  shows "libc_step L (world s) e (world t) \<and> idle L t"
  using assms(1)
proof cases
  case (call req r)
  note off = idle_off [OF assms(2-4)]
  have ok: "process_ok L s" using assms(4) by (simp add: idle_def)
  let ?u = "snd (rewritten_args L req s)"
  have u: "idle L ?u" "world ?u = world s"
    using rewritten_args_off(2) [OF off, of req] assms(4) idle_with(1) [OF assms(2-4)] by auto
  have wc: "with_call L (slot_of req) (args_of req) ?u = (r, t)"
    using serve_eq [OF assms(2) ok call(2)] call(3) rewritten_args_off(1) [OF off, of req]
    by (simp add: serve_ref_def case_prod_beta)
  have "t = (with_symbols L ?u)\<lparr>world := world t\<rparr>" using wc by (auto simp: with_call_def split: prod.splits)
  then have "idle L t" using idle_with(3) [OF assms(2,3) idle_with(2) [OF assms(2,3) u(1)]] by metis
  then show ?thesis using with_call_result [OF wc] u(2) call(1) by (auto intro: libc_step.call)
next
  case (cwd sz b r b')
  have ok: "process_ok L s" using assms(4) by (simp add: idle_def)
  obtain a s' where a: "libc_getcwd L sz s = (a, s')" by fastforce
  note w = libc_getcwd_world [OF a]
  have s': "idle L s'" using w idle_with(3) [OF assms(2,3) idle_with(2) [OF assms(2-4)]] by metis
  have "reported (policy_of L s') sz cwd = cwd" for cwd
    using idle_off [OF assms(2,3) s'] by (simp add: reported_def backward_spec_def)
  then have "r = a" "t = s' \<or> t = with_policy L s'"
    using getcwd_eq [OF assms(2) ok cwd(2,3) a] cwd(4) by (auto simp: option.map_ident_strong split: if_splits)
  then show ?thesis using w s' idle_with(1) [OF assms(2,3) s'] cwd(1) by auto
next
  case (outside w)
  then show ?thesis using idle_with(3) [OF assms(2-4)] by (simp add: libc_step.outside)
qed

section \<open>Example runs\<close>

lemma example_access:
  "\<exists>t. step (example_libc (\<lambda>_. 1)) (fresh_process []) (Call (C_access (Some ''/srv/data/x'') 0) (I32 0)) t \<and>
     policy_ready t \<and> policy t = example_policy"
proof -
  let ?L = "example_libc (\<lambda>_. 1)" and ?q = "C_access (Some ''/srv/data/x'') 0"
  have ok: "request_ok ?q" by (simp add: request_ok_def mode_given_def c_ok_def)
  have p: "c_ok ''/srv/data/x''" "starts_with_slash ''/srv/data/x''" by (simp_all add: c_ok_def)
  have "serve ?L ?q (fresh_process []) =
      Some (with_call ?L Real_access [Path (Some ''/mnt/copy/x''), I32 0] (with_policy ?L (fresh_process [])))"
    using absolute_args(2) [OF example_libc_ok process_ok_fresh p, of "\<lambda>_. 1" "[]"]
    by (simp add: access_def orig_access_def example_policy_of example_rewrites forwarder_eq failure_of_def
        process_ok_fresh example_libc_ok)
  then obtain t where t: "serve ?L ?q (fresh_process []) = Some (I32 0, t)"
      "with_call ?L Real_access [Path (Some ''/mnt/copy/x''), I32 0] (with_policy ?L (fresh_process [])) = (I32 0, t)"
    by (simp add: with_call_def libc_call_def) (simp add: example_libc_def)
  have "policy_ready t" "policy t = example_policy"
    using t(2) example_policy_of [of "\<lambda>_. 1" "[]"] by (auto simp: with_call_def with_fields split: prod.splits)
  with step.call [OF ok t(1)] show ?thesis by blast
qed

definition bare_libc :: "call_log libc" where
  "bare_libc = (example_libc (\<lambda>_. 1))\<lparr>getenv := (\<lambda>_ _. None)\<rparr>"

lemma bare_libc_ok: "libc_ok bare_libc" "unset bare_libc"
  using example_libc_ok [of "\<lambda>_. 1"]
  by (simp_all add: bare_libc_def libc_ok_def env_ok_def unset_def usable_def)

section \<open>Properties\<close>

text \<open>C19: in every process that any run reaches, the static variables keep their invariant, and the
  policy is a snapshot: once a call has fixed it, neither later calls nor changes of the
  environment alter it.\<close>
theorem policy_is_a_snapshot:
  assumes "libc_ok L" and "run L (fresh_process w) es s" and "run L s es' t"
  shows "process_ok L s \<and> process_ok L t \<and>
     (policy_ready s \<longrightarrow> policy_ready t \<and> policy t = policy s)"
  using run_ok [OF assms(2,1) process_ok_fresh] run_ok [OF assms(3,1)] by blast

theorem policy_is_a_snapshot_witness:
  "\<exists>s. run (example_libc (\<lambda>_. 1)) (fresh_process []) [Call (C_access (Some ''/srv/data/x'') 0) (I32 0)] s \<and>
     policy (s\<lparr>world := [(2, [])]\<rparr>) = example_policy"
proof -
  let ?L = "example_libc (\<lambda>_. 1)"
  obtain t where t: "step ?L (fresh_process []) (Call (C_access (Some ''/srv/data/x'') 0) (I32 0)) t"
      "policy_ready t" "policy t = example_policy"
    using example_access by blast
  have r: "run ?L (fresh_process []) [Call (C_access (Some ''/srv/data/x'') 0) (I32 0)] t"
    by (simp add: run_simps t(1))
  have o: "run ?L t [Outside] (t\<lparr>world := [(2, [])]\<rparr>)"
    by (simp add: run_simps step.outside)
  from policy_is_a_snapshot [OF example_libc_ok r o] t(2,3) r show ?thesis by auto
qed

lemma serve_mode_missing: "\<not> mode_given req \<Longrightarrow> serve L req s = None"
  by (cases req) (auto simp: mode_given_def open_call_def openat_def split: option.splits)

text \<open>C2: where the exported functions stay within C. A call of one of the 42 forwarding functions with C
  strings for paths is undefined exactly when it is \<open>open\<close> or \<open>openat\<close> without a mode under flags for
  which the code reads one; every other call returns, as \<open>getcwd\<close> does on an array of at least the
  stated size when that is at most PATH_MAX: no array is left, no uninitialised byte read, NULL not
  dereferenced, whatever the policy, the state of the process and the answers of the libc. The
  calls keep the invariant of the process, leave the real functions resolved and never change a
  policy that is in place. (\<open>getcwd\<close> on NULL and on larger arrays: see Getcwd.)\<close>
theorem calls_within_bounds:
  assumes "libc_ok L" and "process_ok L s" and "list_all cval_ok (args_of req)" and "sz \<le> cap b" and "sz \<le> PATH_MAX"
  shows "(serve L req s = None \<longleftrightarrow> \<not> mode_given req) \<and>
     (\<forall>r t. serve L req s = Some (r, t) \<longrightarrow>
        process_ok L t \<and> resolved t \<and> (policy_ready s \<longrightarrow> policy_ready t \<and> policy t = policy s)) \<and>
     (\<exists>r b' t. getcwd L (Some b) sz s = Some ((r, Some b'), t) \<and> cap b' = cap b \<and>
        process_ok L t \<and> resolved t \<and> (policy_ready s \<longrightarrow> policy_ready t \<and> policy t = policy s))"
proof (intro conjI)
  have ok: "request_ok req" if "mode_given req" using that assms(3) by (simp add: request_ok_def)
  show undefined: "serve L req s = None \<longleftrightarrow> \<not> mode_given req"
    using serve_eq [OF assms(1,2) ok] serve_mode_missing [of req L s] by auto
  show "\<forall>r t. serve L req s = Some (r, t) \<longrightarrow>
      process_ok L t \<and> resolved t \<and> (policy_ready s \<longrightarrow> policy_ready t \<and> policy t = policy s)"
  proof (intro allI impI)
    fix r t assume r: "serve L req s = Some (r, t)"
    then have req: "request_ok req" using undefined ok by auto
    have "resolved (snd (serve_ref L req s))"
      by (simp add: serve_ref_def with_call_def with_symbols_def case_prod_beta)
    moreover have "serve_ref L req s = (r, t)" using serve_eq [OF assms(1,2) req] r by simp
    ultimately show "process_ok L t \<and> resolved t \<and> (policy_ready s \<longrightarrow> policy_ready t \<and> policy t = policy s)"
      using step_ok [OF step.call [OF req r] assms(1,2)] by auto
  qed
  obtain a s' where a: "libc_getcwd L sz s = (a, s')" by fastforce
  obtain b' where g: "getcwd L (Some b) sz s =
      Some ((map_option (reported (policy_of L s') sz) a, Some b'), if a = None then s' else with_policy L s')" "cap b' = cap b"
    using getcwd_eq [OF assms(1,2,4,5) a] by blast
  have "resolved s'" using a by (auto simp: libc_getcwd_def split: if_splits prod.splits)
  then show "\<exists>r b' t. getcwd L (Some b) sz s = Some ((r, Some b'), t) \<and> cap b' = cap b \<and>
      process_ok L t \<and> resolved t \<and> (policy_ready s \<longrightarrow> policy_ready t \<and> policy t = policy s)"
    using g step_ok [OF step.cwd [OF assms(4,5) g(1)] assms(1,2)] by auto
qed

theorem calls_within_bounds_witness:
  "(\<exists>r t. serve (example_libc (\<lambda>_. 1)) (C_linkat 3 (Some ''x'') AT_FDCWD (Some ''/srv/data/y'') 0) (fresh_process [])
      = Some (r, t) \<and> resolved t) \<and>
   serve (example_libc (\<lambda>_. 1)) (C_open (Some ''/srv/data'') O_DIRECTORY None) (fresh_process []) = None \<and>
   (\<exists>r b t. getcwd (example_libc (\<lambda>_. 1)) (Some (new_buffer 64)) 64 (fresh_process []) = Some ((r, Some b), t) \<and> cap b = 64)"
proof -
  let ?L = "example_libc (\<lambda>_. 1)" and ?r = "C_linkat 3 (Some ''x'') AT_FDCWD (Some ''/srv/data/y'') 0"
    and ?o = "C_open (Some ''/srv/data'') O_DIRECTORY None"
  have size: "64 \<le> cap (new_buffer 64)" "64 \<le> PATH_MAX" by (simp_all add: PATH_MAX_def)
  have args: "list_all cval_ok (args_of ?r)" "list_all cval_ok (args_of ?o)" by (simp_all add: c_ok_def)
  have mode: "mode_given ?r" "\<not> mode_given ?o"
    by (simp_all add: mode_given_def va_mode_arg_def O_CREAT_def O_DIRECTORY_def O_TMPFILE_def)
  note b = calls_within_bounds [OF example_libc_ok process_ok_fresh _ size]
  show ?thesis using b [OF args(1)] b [OF args(2)] mode by fastforce
qed

text \<open>C7: transparency as a simulation: where the two variables never name a usable pair of prefixes,
  every run of the interposed process is, event for event and result for result, a run of the
  libc alone from the same world to the same world.\<close>
theorem run_without_policy_is_libc_run:
  assumes "libc_ok L" and "unset L" and "run L (fresh_process w) es t"
  shows "libc_run L w es (world t)"
proof -
  have "libc_run L (world s) es (world t)" if "run L s es t" "idle L s" for s
    using that
  proof induction
    case (stop s)
    show ?case by (rule libc_run.stop)
  next
    case (more s e t es u)
    from step_off [OF more.hyps(1) assms(1,2) more.prems] more.IH show ?case
      by (blast intro: libc_run.more)
  qed
  from this [OF assms(3)] show ?thesis
    by (simp add: idle_def process_ok_fresh) (simp add: fresh_process_def)
qed

theorem run_without_policy_is_libc_run_witness:
  "\<exists>t. run bare_libc (fresh_process []) [Call (C_close 3) (I32 0)] t \<and>
     libc_run bare_libc [] [Call (C_close 3) (I32 0)] (world t)"
proof -
  let ?q = "C_close 3"
  have ok: "request_ok ?q" by (simp add: request_ok_def mode_given_def)
  obtain t where "serve bare_libc ?q (fresh_process []) = Some (I32 0, t)"
    by (simp add: close_def orig_close_def forwarder_eq failure_of_def process_ok_fresh with_call_def libc_call_def)
      (simp add: bare_libc_def example_libc_def)
  then have "step bare_libc (fresh_process []) (Call ?q (I32 0)) t" by (rule step.call [OF ok])
  then have r: "run bare_libc (fresh_process []) [Call ?q (I32 0)] t"
    by (simp add: run_simps)
  from run_without_policy_is_libc_run [OF bare_libc_ok r] r show ?thesis by blast
qed

end
