(* ===== verification/Client.thy ===== *)
theory Client
  imports Lifecycle
begin

text \<open>
  Programs that call the libc, and what runs them: the libc alone, or the libc behind the
  interposer. A program is the tree of its calls, each with the continuations for its possible
  answers; \<open>safe\<close> is the weakest precondition under which a program, whatever it is answered,
  neither runs into undefined behaviour nor makes an ill-formed call.
\<close>

section \<open>Programs\<close>

text \<open>What a call leaves in the structures whose address it was given.\<close>

record meta =
  st_size :: int
  st_mode :: i32
  st_nlink :: int
  st_mtime :: int
  stx_mask :: i32
  stx_size :: int
  f_bsize :: int
  wait_status :: i32

text \<open>
  The answer to a call: its result as a number (a pointer is zero for NULL), errno after it, the
  bytes it stored in the array it was given, the structures it filled.
\<close>

record answer =
  ret :: int
  err :: i32
  out_bytes :: string
  info :: meta

text \<open>
  A call of an interposed function, \<open>getcwd\<close> on an array of a given size, a call of a function
  of the libc that is not interposed, or an assignment to errno.
\<close>

datatype ask = Request request | Ask_cwd nat | Foreign string "cval list" | Set_errno i32

text \<open>
  A program returns, ends the process with a status and a message, meets undefined behaviour, or
  makes a call; the string is what the call reads of the caller's memory.
\<close>

datatype 'a prog = Ret 'a | Halt int string | Undef | Ask ask string "answer \<Rightarrow> 'a prog"

datatype 'a ending = Returned 'a | Exited int string

primrec run_prog ::
  "(ask \<Rightarrow> string \<Rightarrow> 's \<Rightarrow> (answer \<times> 's) option) \<Rightarrow> 'a prog \<Rightarrow> 's \<Rightarrow> ('a ending \<times> 's) option" where
  "run_prog handle (Ret a) s = Some (Returned a, s)"
| "run_prog handle (Halt c m) s = Some (Exited c m, s)"
| "run_prog handle Undef s = None"
| "run_prog handle (Ask q d k) s = do { (a, s) \<leftarrow> handle q d s; run_prog handle (k a) s }"

text \<open>The calls a run makes, each with the answer it got.\<close>

primrec run_log ::
  "(ask \<Rightarrow> string \<Rightarrow> 's \<Rightarrow> (answer \<times> 's) option) \<Rightarrow> 'a prog \<Rightarrow> 's \<Rightarrow> (ask \<times> answer) list" where
  "run_log handle (Ret a) s = []"
| "run_log handle (Halt c m) s = []"
| "run_log handle Undef s = []"
| "run_log handle (Ask q d k) s =
     (case handle q d s of None \<Rightarrow> [] | Some (a, s) \<Rightarrow> (q, a) # run_log handle (k a) s)"

text \<open>Shorthands for the steps of a program.\<close>

definition sys :: "request \<Rightarrow> (answer \<Rightarrow> 'a prog) \<Rightarrow> 'a prog" where
  "sys r = Ask (Request r) []"

definition sys_with :: "request \<Rightarrow> string \<Rightarrow> (answer \<Rightarrow> 'a prog) \<Rightarrow> 'a prog" where
  "sys_with r = Ask (Request r)"

definition foreign :: "string \<Rightarrow> cval list \<Rightarrow> string \<Rightarrow> (answer \<Rightarrow> 'a prog) \<Rightarrow> 'a prog" where
  "foreign name args = Ask (Foreign name args)"

definition clear_errno :: "'a prog \<Rightarrow> 'a prog" where
  "clear_errno p = Ask (Set_errno 0) [] (\<lambda>_. p)"

definition defined :: "'b option \<Rightarrow> ('b \<Rightarrow> 'a prog) \<Rightarrow> 'a prog" where
  "defined m k = (case m of None \<Rightarrow> Undef | Some x \<Rightarrow> k x)"

section \<open>Well-formed calls and documented answers\<close>

text \<open>
  The calls of \<open>open\<close> and \<open>openat\<close> that may leave the mode out. As the libc documents it: those
  without O_CREAT and O_TMPFILE. Where the call is answered by the interposer's C code, and a
  missing variadic argument must not be read (\<open>strict\<close>): those whose mode that code does not read.
\<close>

definition mode_unneeded :: "i32 \<Rightarrow> bool" where
  "mode_unneeded flags \<longleftrightarrow> flags AND O_CREAT = 0 \<and> flags AND O_TMPFILE \<noteq> O_TMPFILE"

definition modeless :: "bool \<Rightarrow> i32 \<Rightarrow> bool" where
  "modeless strict flags \<longleftrightarrow> (if strict then va_mode_arg flags None \<noteq> None else mode_unneeded flags)"

definition mode_fits :: "bool \<Rightarrow> request \<Rightarrow> bool" where
  "mode_fits strict r = (case r of
     C_open p flags va_mode \<Rightarrow> va_mode \<noteq> None \<or> modeless strict flags
   | C_openat fd p flags va_mode \<Rightarrow> va_mode \<noteq> None \<or> modeless strict flags
   | _ \<Rightarrow> True)"

primrec ask_ok :: "bool \<Rightarrow> ask \<Rightarrow> bool" where
  "ask_ok strict (Request r) = (list_all cval_ok (args_of r) \<and> mode_fits strict r)"
| "ask_ok strict (Ask_cwd n) = (n \<le> PATH_MAX)"
| "ask_ok strict (Foreign name args) = list_all cval_ok args"
| "ask_ok strict (Set_errno e) = True"

lemma modeless_unneeded: "modeless strict flags \<Longrightarrow> mode_unneeded flags"
  by (auto simp: modeless_def va_mode_arg_def mode_unneeded_def bit.conj_disj_distrib or_eq_0_iff O_TMPFILE_def
      split: if_splits)

lemma ask_ok_plain: "ask_ok strict q \<Longrightarrow> ask_ok False q"
  by (cases q) (auto simp: mode_fits_def modeless_def [of False] dest: modeless_unneeded split: request.splits)

text \<open>The size of the array that a reading call was given.\<close>

definition capacity :: "slot \<Rightarrow> cval list \<Rightarrow> nat option" where
  "capacity sl vs =
     (case (if sl = Real_readlinkat then drop 3 vs
            else if sl \<in> {Real_read, Real_pread, Real_readlink} then drop 2 vs else []) of
        I64 n # _ \<Rightarrow> Some (unat n) | _ \<Rightarrow> None)"

definition filled :: "nat option \<Rightarrow> answer \<Rightarrow> bool" where
  "filled n a = (case n of None \<Rightarrow> True
     | Some n \<Rightarrow> 0 \<le> ret a \<longrightarrow> ret a \<le> int n \<and> length (out_bytes a) = nat (ret a))"

text \<open>
  Documented answers: a reading call stores as many bytes as it returns, a link's text has no
  NUL byte; \<open>mkdtemp\<close> fills its template in; \<open>getxattr\<close> and its variants store what they return;
  \<open>getcwd\<close> stores a string that fits.
\<close>

definition foreign_capacity :: "string \<Rightarrow> cval list \<Rightarrow> nat option" where
  "foreign_capacity name args =
     (if name \<in> {''getxattr'', ''lgetxattr'', ''fgetxattr''}
      then (case args of [x, attr, buf, I64 n] \<Rightarrow> Some (unat n) | _ \<Rightarrow> None) else None)"

definition call_documented :: "slot \<Rightarrow> cval list \<Rightarrow> answer \<Rightarrow> bool" where
  "call_documented sl vs a \<longleftrightarrow> filled (capacity sl vs) a \<and>
     (sl \<in> {Real_readlink, Real_readlinkat} \<longrightarrow> 0 \<le> ret a \<longrightarrow> c_ok (out_bytes a))"

primrec answer_ok :: "ask \<Rightarrow> string \<Rightarrow> answer \<Rightarrow> bool" where
  "answer_ok (Request r) d a = call_documented (slot_of r) (args_of r) a"
| "answer_ok (Ask_cwd n) d a = (ret a \<noteq> 0 \<longrightarrow> c_ok (out_bytes a) \<and> length (out_bytes a) < n)"
| "answer_ok (Foreign name args) d a =
     (filled (foreign_capacity name args) a \<and>
      (name = ''mkdtemp'' \<and> ret a \<noteq> 0 \<longrightarrow> c_ok (out_bytes a) \<and> length (out_bytes a) = length d))"
| "answer_ok (Set_errno e) d a = True"

text \<open>The weakest precondition: \<open>E\<close> of the status where the process ends, \<open>Q\<close> of the value returned.\<close>

primrec safe :: "bool \<Rightarrow> (int \<Rightarrow> bool) \<Rightarrow> ('a \<Rightarrow> bool) \<Rightarrow> 'a prog \<Rightarrow> bool" where
  "safe strict E Q (Ret a) = Q a"
| "safe strict E Q (Halt c m) = E c"
| "safe strict E Q Undef = False"
| "safe strict E Q (Ask q d k) = (ask_ok strict q \<and> (\<forall>a. answer_ok q d a \<longrightarrow> safe strict E Q (k a)))"

lemma safe_plain: "safe strict E Q p \<Longrightarrow> safe False E Q p"
  by (induction p) (auto intro: ask_ok_plain)

text \<open>What answers the calls of a program: its contract, and what follows for whole programs.\<close>

locale client_system =
  fixes strict :: bool
    and handle :: "ask \<Rightarrow> string \<Rightarrow> 's \<Rightarrow> (answer \<times> 's) option"
    and inv :: "'s \<Rightarrow> bool"
  assumes answers: "inv s \<Longrightarrow> ask_ok strict q \<Longrightarrow> \<exists>a t. handle q d s = Some (a, t) \<and> answer_ok q d a \<and> inv t"
begin

lemma safe_runs:
  assumes "safe strict E Q p" "inv s"
  shows "\<exists>e t. run_prog handle p s = Some (e, t) \<and> inv t \<and>
    (case e of Returned a \<Rightarrow> Q a | Exited c m \<Rightarrow> E c)"
  using assms
proof (induction p arbitrary: s)
  case (Ask q d k)
  obtain a t where "handle q d s = Some (a, t)" "answer_ok q d a" "inv t"
    using answers [OF Ask.prems(2), of q d] Ask.prems(1) by auto
  then show ?case using Ask.IH [OF rangeI, of a t] Ask.prems(1) by simp
qed simp_all

end

section \<open>The libc alone, and the libc behind the interposer\<close>

text \<open>
  How the caller's memory shows in the world: what the caller stored before a call, errno, the
  bytes and structures a call stored.
\<close>

record 'w memory =
  stage :: "string \<Rightarrow> 'w \<Rightarrow> 'w"
  errno_in :: "'w \<Rightarrow> i32"
  bytes_in :: "'w \<Rightarrow> string"
  info_in :: "'w \<Rightarrow> meta"

primrec cval_int :: "cval \<Rightarrow> int" where
  "cval_int (I32 i) = sint i"
| "cval_int (I64 k) = sint k"
| "cval_int (Path p) = (if p = None then 0 else 1)"
| "cval_int (Ptr a) = uint a"

definition answer_of :: "'w memory \<Rightarrow> int \<Rightarrow> 'w \<Rightarrow> answer" where
  "answer_of M r w = \<lparr>ret = r, err = errno_in M w, out_bytes = bytes_in M w, info = info_in M w\<rparr>"

definition cwd_answer :: "'w memory \<Rightarrow> cstr \<Rightarrow> 'w \<Rightarrow> answer" where
  "cwd_answer M r w = (answer_of M (if r = None then 0 else 1) w)\<lparr>out_bytes := (case r of None \<Rightarrow> [] | Some c \<Rightarrow> c)\<rparr>"

primrec bare :: "'w libc \<Rightarrow> 'w memory \<Rightarrow> ask \<Rightarrow> string \<Rightarrow> 'w \<Rightarrow> (answer \<times> 'w) option" where
  "bare L M (Request r) d w =
     (let (v, w) = libc_call L (slot_of r) (args_of r) (stage M d w) in Some (answer_of M (cval_int v) w, w))"
| "bare L M (Ask_cwd n) d w =
     (let (r, w) = (if dlsym L ''getcwd'' = 0 then (None, set_errno L ENOSYS w)
                    else call_getcwd L (dlsym L ''getcwd'') n w)
      in Some (cwd_answer M r w, w))"
| "bare L M (Foreign name args) d w =
     (let (v, w) = invoke L (dlsym L name) args (stage M d w) in Some (answer_of M (cval_int v) w, w))"
| "bare L M (Set_errno e) d w = (let w = set_errno L e w in Some (answer_of M 0 w, w))"

text \<open>
  Behind the interposer. A call of \<open>open\<close> without a mode, under flags that make the interposer read
  one, is undefined behaviour in C: that is \<open>g = None\<close>, where every call reaches the interposer as the
  program made it. On the platforms the library runs on the code then reads what the argument
  register happens to hold; \<open>g = Some m\<close> is a machine on which that is \<open>m\<close>.
\<close>

definition with_mode :: "i32 option \<Rightarrow> request \<Rightarrow> request" where
  "with_mode g r = (case r of
     C_open p flags None \<Rightarrow> C_open p flags g
   | C_openat fd p flags None \<Rightarrow> C_openat fd p flags g
   | _ \<Rightarrow> r)"

primrec preloaded :: "'w libc \<Rightarrow> 'w memory \<Rightarrow> i32 option \<Rightarrow> ask \<Rightarrow> string \<Rightarrow> 'w process \<Rightarrow> (answer \<times> 'w process) option" where
  "preloaded L M g (Request r) d s = do {
     (v, s) \<leftarrow> serve L (with_mode g r) (s\<lparr>world := stage M d (world s)\<rparr>);
     Some (answer_of M (cval_int v) (world s), s) }"
| "preloaded L M g (Ask_cwd n) d s = do {
     ((r, b), s) \<leftarrow> getcwd L (Some (new_buffer n)) n s;
     Some (cwd_answer M r (world s), s) }"
| "preloaded L M g (Foreign name args) d s =
     (let (v, w) = invoke L (dlsym L name) args (stage M d (world s))
      in Some (answer_of M (cval_int v) w, s\<lparr>world := w\<rparr>))"
| "preloaded L M g (Set_errno e) d s =
     (let w = set_errno L e (world s) in Some (answer_of M 0 w, s\<lparr>world := w\<rparr>))"

text \<open>What the libc documents of the answers to its callers.\<close>

definition documented :: "'w libc \<Rightarrow> 'w memory \<Rightarrow> bool" where
  "documented L M \<longleftrightarrow>
     (\<forall>sl vs w v w'. libc_call L sl vs w = (v, w') \<longrightarrow> call_documented sl vs (answer_of M (cval_int v) w')) \<and>
     (\<forall>name args d w v w'. invoke L (dlsym L name) args (stage M d w) = (v, w') \<longrightarrow>
        answer_ok (Foreign name args) d (answer_of M (cval_int v) w'))"

lemma with_mode_simps:
  "slot_of (with_mode g r) = slot_of r"
  "list_all cval_ok (args_of (with_mode g r)) = list_all cval_ok (args_of r)"
  "list_all cval_ok (args_of r) \<Longrightarrow> mode_fits (g = None) r \<Longrightarrow> request_ok (with_mode g r)"
  by (cases r; auto simp: with_mode_def request_ok_def mode_given_def mode_fits_def modeless_def va_mode_arg_def
      split: option.splits if_splits)+

lemma with_mode_none: "with_mode None r = r"
  by (cases r) (simp_all add: with_mode_def split: option.split)

lemma documentedD:
  assumes "documented L M"
  shows "libc_call L sl vs w = (v, w') \<Longrightarrow> call_documented sl vs (answer_of M (cval_int v) w')"
    "invoke L (dlsym L name) args (stage M d w) = (v, w') \<Longrightarrow>
       answer_ok (Foreign name args) d (answer_of M (cval_int v) w')"
  using assms unfolding documented_def by blast+

lemma cwd_answer_ok:
  "(\<And>c. r = Some c \<Longrightarrow> c_ok c \<and> length c < n) \<Longrightarrow> answer_ok (Ask_cwd n) d (cwd_answer M r w)"
  by (cases r) (auto simp: cwd_answer_def answer_of_def)

text \<open>Rewriting leaves the size of a caller's array where it was.\<close>

lemma capacity_rewritten:
  "capacity (slot_of r) (fst (rewritten_args L r s)) = capacity (slot_of r) (args_of r)"
  by (cases r) (simp_all add: capacity_def rewritten_args_def right_to_left_def case_prod_beta Let_def)

lemma bare_answers:
  assumes "libc_ok L" "documented L M"
  shows "\<exists>a t. bare L M q d w = Some (a, t) \<and> answer_ok q d a"
proof (cases q)
  case (Request r)
  obtain v t where "libc_call L (slot_of r) (args_of r) (stage M d w) = (v, t)" by fastforce
  with documentedD(1) [OF assms(2) this] Request show ?thesis by simp
next
  case (Ask_cwd n)
  obtain r t where rt: "(if dlsym L ''getcwd'' = 0 then (None, set_errno L ENOSYS w)
      else call_getcwd L (dlsym L ''getcwd'') n w) = (r, t)" by fastforce
  then have "c_ok c \<and> length c < n" if "r = Some c" for c
    using that libc_okD(2) [OF assms(1), of "dlsym L ''getcwd''" n w c t] by (auto split: if_splits)
  then have "answer_ok (Ask_cwd n) d (cwd_answer M r t)" by (rule cwd_answer_ok)
  with rt Ask_cwd show ?thesis by (simp del: answer_ok.simps)
next
  case (Foreign name args)
  obtain v t where "invoke L (dlsym L name) args (stage M d w) = (v, t)" by fastforce
  with documentedD(2) [OF assms(2) this] Foreign show ?thesis by (simp del: answer_ok.simps)
qed (simp add: Let_def)

lemma preloaded_answers:
  assumes "libc_ok L" "documented L M" "process_ok L s" "ask_ok (g = None) q"
  shows "\<exists>a t. preloaded L M g q d s = Some (a, t) \<and> answer_ok q d a \<and> process_ok L t"
proof (cases q)
  case (Request r)
  let ?s = "s\<lparr>world := stage M d (world s)\<rparr>" and ?r = "with_mode g r"
  have ok: "process_ok L ?s" "request_ok ?r"
    using assms(3,4) Request with_mode_simps(3) [of r g] by simp_all
  obtain v t where vt: "serve_ref L ?r ?s = (v, t)" by fastforce
  let ?vs = "fst (rewritten_args L ?r ?s)" and ?u = "snd (rewritten_args L ?r ?s)"
  have "libc_call L (slot_of r) ?vs (world ?u) = (v, world t)"
    using vt with_call_result [of L "slot_of ?r" ?vs ?u v t]
    by (simp add: serve_ref_def case_prod_beta with_mode_simps)
  then have "call_documented (slot_of r) ?vs (answer_of M (cval_int v) (world t))"
    by (rule documentedD(1) [OF assms(2)])
  moreover have "capacity (slot_of r) ?vs = capacity (slot_of r) (args_of r)"
    using capacity_rewritten [of ?r L ?s] by (cases r) (simp_all add: with_mode_def capacity_def split: option.split)
  ultimately have "answer_ok q d (answer_of M (cval_int v) (world t))"
    by (simp add: Request call_documented_def)
  then show ?thesis
    using serve_eq [OF assms(1) ok] serve_ref_ok(1) [OF assms(1) ok] vt Request by simp
next
  case (Ask_cwd n)
  obtain r s' where c: "libc_getcwd L n s = (r, s')" by fastforce
  have n: "n \<le> cap (new_buffer n)" "n \<le> PATH_MAX" using assms(4) Ask_cwd by simp_all
  obtain b where b: "getcwd L (Some (new_buffer n)) n s =
      Some ((map_option (reported (policy_of L s') n) r, Some b), if r = None then s' else with_policy L s')"
    using getcwd_eq [OF assms(1,3) n c] by blast
  have s': "process_ok L s'" using libc_getcwd_ok(1) [OF assms(1,3), of n] c by simp
  let ?r = "map_option (reported (policy_of L s') n) r" and ?t = "if r = None then s' else with_policy L s'"
  have "c_ok q \<and> length q < n" if "?r = Some q" for q
    using that libc_getcwd_ok(2) [OF assms(1,3), of n] c
      backward_spec_ok [OF policy_of_ok [OF assms(1) s'], of _ n]
    by (auto simp: reported_def split: option.splits)
  then have "answer_ok (Ask_cwd n) d (cwd_answer M ?r (world ?t))" by (rule cwd_answer_ok)
  moreover have "process_ok L ?t" using s' assms(1) by simp
  moreover have "preloaded L M g q d s = Some (cwd_answer M ?r (world ?t), ?t)"
    unfolding Ask_cwd preloaded.simps b by simp
  ultimately show ?thesis unfolding Ask_cwd by blast
next
  case (Foreign name args)
  obtain v t where "invoke L (dlsym L name) args (stage M d (world s)) = (v, t)" by fastforce
  with documentedD(2) [OF assms(2) this] Foreign assms(3) show ?thesis by (simp del: answer_ok.simps)
qed (simp add: assms(3) Let_def)

interpretation bare_libc: client_system False "bare L M" "\<lambda>w. libc_ok L \<and> documented L M" for L M
  by unfold_locales (metis bare_answers)

interpretation behind: client_system "g = None" "preloaded L M g"
  "\<lambda>s. libc_ok L \<and> documented L M \<and> process_ok L s" for L M g
  by unfold_locales (metis preloaded_answers)

end
