(* ===== verification/Transparency.thy ===== *)
theory Transparency
  imports Client
begin

text \<open>
  A client program cannot tell whether the interposer is loaded when no usable mapping is
  configured: the two systems of \<open>Client\<close> run every well-behaved program alike. This is what the
  pairs of plain and preloaded runs of the smoke test compare.
\<close>

text \<open>Documented of \<open>open\<close> and \<open>openat\<close>: the mode is ignored where no file can be created.\<close>

definition ignores_mode :: "'w libc \<Rightarrow> bool" where
  "ignores_mode L \<longleftrightarrow> (\<forall>p fd flags m m' w. mode_unneeded flags \<longrightarrow>
     libc_call L Real_open [Path p, I32 flags, I32 m] w = libc_call L Real_open [Path p, I32 flags, I32 m'] w \<and>
     libc_call L Real_openat [I32 fd, Path p, I32 flags, I32 m] w
       = libc_call L Real_openat [I32 fd, Path p, I32 flags, I32 m'] w)"

inductive_cases libc_callE: "libc_step L w (Call req r) w'"
inductive_cases libc_cwdE: "libc_step L w (Cwd sz r) w'"

lemma with_mode_call:
  assumes "ignores_mode L" "mode_fits False r"
  shows "libc_call L (slot_of r) (args_of (with_mode g r)) w = libc_call L (slot_of r) (args_of r) w"
proof (cases "with_mode g r = r")
  case False
  then consider p f where "r = C_open p f None" | fd p f where "r = C_openat fd p f None"
    by (cases r) (auto simp: with_mode_def split: option.splits)
  then show ?thesis
  proof cases
    case 1
    then have "mode_unneeded f" using assms(2) by (simp add: mode_fits_def modeless_def)
    then show ?thesis using assms(1) 1 by (simp add: ignores_mode_def with_mode_def)
  next
    case 2
    then have "mode_unneeded f" using assms(2) by (simp add: mode_fits_def modeless_def)
    then show ?thesis using assms(1) 2 by (simp add: ignores_mode_def with_mode_def)
  qed
qed simp

text \<open>One call, answered by either system.\<close>

lemma ask_transparent:
  assumes "libc_ok L" "unset L" "ignores_mode L" "idle L s" "ask_ok (g = None) q"
  shows "\<exists>a t. preloaded L M g q d s = Some (a, t) \<and> bare L M q d (world s) = Some (a, world t) \<and> idle L t"
proof (cases q)
  case (Request r)
  let ?s = "s\<lparr>world := stage M d (world s)\<rparr>" and ?r = "with_mode g r"
  have idle: "idle L ?s" by (rule idle_with(3) [OF assms(1,2,4)])
  then have ok: "process_ok L ?s" by (simp add: idle_def)
  have rok: "request_ok ?r" using with_mode_simps(3) [of r g] assms(5) Request by simp
  obtain v t where vt: "serve L ?r ?s = Some (v, t)"
    using serve_eq [OF assms(1) ok rok] by (cases "serve_ref L ?r ?s") simp
  from step_off [OF step.call [OF rok vt] assms(1,2) idle]
  have st: "libc_step L (world ?s) (Call ?r v) (world t)" "idle L t" by simp_all
  then have "libc_call L (slot_of r) (args_of ?r) (stage M d (world s)) = (v, world t)"
    by (auto simp: with_mode_simps elim: libc_callE)
  then have "libc_call L (slot_of r) (args_of r) (stage M d (world s)) = (v, world t)"
    using with_mode_call [OF assms(3)] ask_ok_plain [OF assms(5)] Request by simp
  then show ?thesis using vt st(2) Request by simp
next
  case (Ask_cwd n)
  have n: "n \<le> cap (new_buffer n)" "n \<le> PATH_MAX" using assms(5) Ask_cwd by simp_all
  have ok: "process_ok L s" using assms(4) by (simp add: idle_def)
  obtain a s' where c: "libc_getcwd L n s = (a, s')" by fastforce
  obtain r b t where g: "getcwd L (Some (new_buffer n)) n s = Some ((r, b), t)"
    using getcwd_eq [OF assms(1) ok n c] by blast
  from step_off [OF step.cwd [OF n g] assms(1,2,4)]
  have st: "libc_step L (world s) (Cwd n r) (world t)" "idle L t" by simp_all
  from st(1) show ?thesis using g st(2) Ask_cwd by (auto elim: libc_cwdE)
next
  case (Foreign name args)
  then show ?thesis using idle_with(3) [OF assms(1,2,4)] by (auto split: prod.split)
next
  case (Set_errno e)
  then show ?thesis using idle_with(3) [OF assms(1,2,4)] by (simp add: Let_def)
qed

text \<open>Whole programs, by induction on the tree.\<close>

lemma programs_transparent:
  assumes "libc_ok L" "unset L" "ignores_mode L" "documented L M"
  shows "safe (g = None) E Q p \<Longrightarrow> idle L s \<Longrightarrow>
    \<exists>e t. run_prog (preloaded L M g) p s = Some (e, t) \<and>
      run_prog (bare L M) p (world s) = Some (e, world t) \<and> idle L t"
proof (induction p arbitrary: s)
  case (Ask q d k)
  obtain a t where a: "preloaded L M g q d s = Some (a, t)" "bare L M q d (world s) = Some (a, world t)" "idle L t"
    using ask_transparent [OF assms(1-3) Ask.prems(2), of g q M d] Ask.prems(1) by auto
  have "answer_ok q d a" using bare_answers [OF assms(1,4), of q d "world s"] a(2) by auto
  then have "safe (g = None) E Q (k a)" using Ask.prems(1) by simp
  from Ask.IH [OF rangeI this a(3)] a(1,2) show ?case by simp
qed simp_all

end
