(* ===== verification/Redirection.thy ===== *)
theory Redirection
  imports Transparency
begin

text \<open>
  What the interposer is for, of whole programs: a program whose paths are absolute, or relative only
  in calls that leave relative paths alone, runs behind the interposer as the same program with
  every path moved runs on the libc alone.
\<close>

section \<open>The program with its paths moved\<close>

primrec map_paths :: "(cstr \<Rightarrow> cstr) \<Rightarrow> request \<Rightarrow> request" where
  "map_paths f (C_fxstat ver fd cstat) = C_fxstat ver fd cstat"
| "map_paths f (C_fxstatat ver dirfd pathname cstat flags) = C_fxstatat ver dirfd (f pathname) cstat flags"
| "map_paths f (C_newfstatat dirfd pathname statbuf flags) = C_newfstatat dirfd (f pathname) statbuf flags"
| "map_paths f (C_lxstat ver pathname cstat) = C_lxstat ver (f pathname) cstat"
| "map_paths f (C_xstat ver pathname cstat) = C_xstat ver (f pathname) cstat"
| "map_paths f (C_access pathname mode) = C_access (f pathname) mode"
| "map_paths f (C_chdir path) = C_chdir (f path)"
| "map_paths f (C_close fd) = C_close fd"
| "map_paths f (C_creat pathname mode) = C_creat (f pathname) mode"
| "map_paths f (C_execve pathname argv envp) = C_execve (f pathname) argv envp"
| "map_paths f (C_euidaccess pathname mode) = C_euidaccess (f pathname) mode"
| "map_paths f (C_fstat fd cstat) = C_fstat fd cstat"
| "map_paths f (C_faccessat dirfd pathname mode flags) = C_faccessat dirfd (f pathname) mode flags"
| "map_paths f (C_fchmodat dirfd pathname mode flags) = C_fchmodat dirfd (f pathname) mode flags"
| "map_paths f (C_link oldpath newpath) = C_link (f oldpath) (f newpath)"
| "map_paths f (C_linkat olddirfd oldpath newdirfd newpath flags) = C_linkat olddirfd (f oldpath) newdirfd (f newpath) flags"
| "map_paths f (C_lseek fd off whence) = C_lseek fd off whence"
| "map_paths f (C_mkdir pathname mode) = C_mkdir (f pathname) mode"
| "map_paths f (C_mkdirat dirfd pathname mode) = C_mkdirat dirfd (f pathname) mode"
| "map_paths f (C_open pathname flags va_mode) = C_open (f pathname) flags va_mode"
| "map_paths f (C_openat dirfd pathname flags va_mode) = C_openat dirfd (f pathname) flags va_mode"
| "map_paths f (C_openat2 dirfd pathname how sz) = C_openat2 dirfd (f pathname) how sz"
| "map_paths f (C_pread fd buf cnt off) = C_pread fd buf cnt off"
| "map_paths f (C_pwrite fd buf cnt off) = C_pwrite fd buf cnt off"
| "map_paths f (C_read fd buf cnt) = C_read fd buf cnt"
| "map_paths f (C_readlink pathname buf bufsiz) = C_readlink (f pathname) buf bufsiz"
| "map_paths f (C_readlinkat dirfd pathname buf bufsiz) = C_readlinkat dirfd (f pathname) buf bufsiz"
| "map_paths f (C_rename oldpath newpath) = C_rename (f oldpath) (f newpath)"
| "map_paths f (C_renameat olddirfd oldpath newdirfd newpath) = C_renameat olddirfd (f oldpath) newdirfd (f newpath)"
| "map_paths f (C_renameat2 olddirfd oldpath newdirfd newpath flags) = C_renameat2 olddirfd (f oldpath) newdirfd (f newpath) flags"
| "map_paths f (C_lstat pathname cstat) = C_lstat (f pathname) cstat"
| "map_paths f (C_rmdir pathname) = C_rmdir (f pathname)"
| "map_paths f (C_stat pathname cstat) = C_stat (f pathname) cstat"
| "map_paths f (C_statx dirfd pathname flags msk statxbuf) = C_statx dirfd (f pathname) flags msk statxbuf"
| "map_paths f (C_statfs path buf) = C_statfs (f path) buf"
| "map_paths f (C_symlink target linkpath) = C_symlink (f target) (f linkpath)"
| "map_paths f (C_symlinkat target newdirfd linkpath) = C_symlinkat (f target) newdirfd (f linkpath)"
| "map_paths f (C_truncate pathname len) = C_truncate (f pathname) len"
| "map_paths f (C_unlink pathname) = C_unlink (f pathname)"
| "map_paths f (C_unlinkat dirfd pathname flags) = C_unlinkat dirfd (f pathname) flags"
| "map_paths f (C_utimensat dirfd pathname tms flags) = C_utimensat dirfd (f pathname) tms flags"
| "map_paths f (C_write fd buf cnt) = C_write fd buf cnt"

definition moved_path :: "rewrite_policy \<Rightarrow> cstr \<Rightarrow> cstr" where
  "moved_path pol p = map_option (\<lambda>p. case abs_target pol PATH_MAX p of None \<Rightarrow> p | Some r \<Rightarrow> r) p"

primrec moved_ask :: "rewrite_policy \<Rightarrow> ask \<Rightarrow> ask" where
  "moved_ask pol (Request r) = Request (map_paths (moved_path pol) r)"
| "moved_ask pol (Ask_cwd n) = Ask_cwd n"
| "moved_ask pol (Foreign name args) = Foreign name args"
| "moved_ask pol (Set_errno e) = Set_errno e"

primrec moved_prog :: "rewrite_policy \<Rightarrow> 'a prog \<Rightarrow> 'a prog" where
  "moved_prog pol (Ret r) = Ret r"
| "moved_prog pol (Halt c m) = Halt c m"
| "moved_prog pol Undef = Undef"
| "moved_prog pol (Ask q d k) = Ask (moved_ask pol q) d (\<lambda>a. moved_prog pol (k a))"

text \<open>The programs it is about: every path settled, the working directory not asked for.\<close>

primrec settled_ask :: "ask \<Rightarrow> bool" where
  "settled_ask (Request r) = list_all settled (plan_of r)"
| "settled_ask (Ask_cwd n) = False"
| "settled_ask (Foreign name args) = True"
| "settled_ask (Set_errno e) = True"

primrec settled_prog :: "'a prog \<Rightarrow> bool" where
  "settled_prog (Ret r) = True"
| "settled_prog (Halt c m) = True"
| "settled_prog Undef = True"
| "settled_prog (Ask q d k) = (settled_ask q \<and> (\<forall>a. settled_prog (k a)))"

lemma map_paths_args:
  "slot_of (map_paths f r) = slot_of r"
  "args_of (map_paths (moved_path pol) r) = map (moved_arg pol) (args_of r)"
  by (cases r; simp add: moved_arg_def moved_path_def split: option.split)+

lemma with_mode_paths: "map_paths f (with_mode g r) = with_mode g (map_paths f r)"
  by (cases r) (simp_all add: with_mode_def split: option.split)

lemma with_mode_settled: "list_all settled (plan_of (with_mode g r)) = list_all settled (plan_of r)"
  by (cases r) (simp_all add: with_mode_def settled_def absolute_path_def split: option.split)

lemma mode_fits_paths: "mode_fits strict (map_paths f r) = mode_fits strict r"
  by (cases r) (simp_all add: mode_fits_def)

section \<open>Runs\<close>

lemma ask_redirected:
  assumes "libc_ok L" "ignores_mode L" "process_ok L s" "policy_ready s" "ask_ok (g = None) q" "settled_ask q"
  shows "\<exists>a t. preloaded L M g q d s = Some (a, t) \<and> bare L M (moved_ask (policy s) q) d (world s) = Some (a, world t) \<and>
    process_ok L t \<and> policy_ready t \<and> policy t = policy s"
proof (cases q)
  case (Request r)
  let ?s = "s\<lparr>world := stage M d (world s)\<rparr>" and ?r = "with_mode g r" and ?f = "moved_path (policy s)"
  have ok: "process_ok L ?s" "request_ok ?r" "list_all settled (plan_of ?r)"
    using assms(3,5,6) Request with_mode_simps(3) [of r g] with_mode_settled [of g r] by simp_all
  have pol: "policy_of L ?s = policy s" "policy_ready ?s" using assms(4) by simp_all
  obtain v t where vt: "serve L ?r ?s = Some (v, t)"
      "libc_call L (slot_of ?r) (map (moved_arg (policy s)) (args_of ?r)) (world ?s) = (v, world t)"
    using serve_settled [OF assms(1) ok] pol(1) by metis
  have "libc_call L (slot_of r) (args_of (with_mode g (map_paths ?f r))) (stage M d (world s)) = (v, world t)"
    using vt(2) by (simp add: with_mode_simps flip: map_paths_args(2) with_mode_paths)
  then have "libc_call L (slot_of r) (args_of (map_paths ?f r)) (stage M d (world s)) = (v, world t)"
    using with_mode_call [OF assms(2), of "map_paths ?f r" g] ask_ok_plain [OF assms(5)] Request
    by (simp add: mode_fits_paths map_paths_args(1))
  then show ?thesis
    using vt(1) step_ok [OF step.call [OF ok(2) vt(1)] assms(1) ok(1)] pol(2) Request by (simp add: map_paths_args(1))
qed (use assms(3-6) in \<open>auto split: prod.split simp: Let_def\<close>)

lemma programs_redirected:
  assumes "libc_ok L" "ignores_mode L" "documented L M"
  shows "safe (g = None) E Q p \<Longrightarrow> settled_prog p \<Longrightarrow> process_ok L s \<Longrightarrow> policy_ready s \<Longrightarrow>
    \<exists>e t. run_prog (preloaded L M g) p s = Some (e, t) \<and>
      run_prog (bare L M) (moved_prog (policy s) p) (world s) = Some (e, world t)"
proof (induction p arbitrary: s)
  case (Ask q d k)
  obtain a t where a: "preloaded L M g q d s = Some (a, t)" "bare L M (moved_ask (policy s) q) d (world s) = Some (a, world t)"
      "process_ok L t" "policy_ready t" "policy t = policy s"
    using ask_redirected [OF assms(1,2) Ask.prems(3,4), of g q M d] Ask.prems(1,2) by auto
  have "answer_ok q d a" using preloaded_answers [OF assms(1,3) Ask.prems(3), of g q d] a(1) Ask.prems(1) by auto
  then have "safe (g = None) E Q (k a)" "settled_prog (k a)" using Ask.prems(1,2) by simp_all
  from Ask.IH [OF rangeI this a(3,4)] a(1,2,5) show ?case by simp
qed simp_all

end
