(* ===== verification/Fixture_Helpers.thy ===== *)
theory Fixture_Helpers
  imports Client
begin

text \<open>
  The helpers of smoke/fixture.c, the program that exercises the interposer, as steps of the
  programs of \<open>Client\<close>. A C statement is a function of the rest of the program; a variable that
  a later statement reads is an argument of the rest. \<open>adr\<close> gives the addresses of the local
  arrays and structures whose address is passed on. A message is given without the text of
  errno that \<open>die\<close> appends and without the final newline.
\<close>

named_theorems safe_steps \<open>weakest preconditions of the steps of the fixture\<close>

section \<open>Constants of the platform\<close>

definition ENOENT :: i32 where "ENOENT = 2"
definition EBADF :: i32 where "EBADF = 9"
definition EEXIST :: i32 where "EEXIST = 17"
definition EPERM :: i32 where "EPERM = 1"
definition ENOTSUP :: i32 where "ENOTSUP = 95"
definition EOPNOTSUPP :: i32 where "EOPNOTSUPP = 95"
definition O_RDONLY :: i32 where "O_RDONLY = 0"
definition O_RDWR :: i32 where "O_RDWR = 2"
definition O_CLOEXEC :: i32 where "O_CLOEXEC = 0x80000"
definition F_OK :: i32 where "F_OK = 0"
definition R_OK :: i32 where "R_OK = 4"
definition W_OK :: i32 where "W_OK = 2"
definition SEEK_SET :: i32 where "SEEK_SET = 0"
definition STATX_SIZE :: i32 where "STATX_SIZE = 0x200"
definition STATX_MTIME :: i32 where "STATX_MTIME = 0x40"

text \<open>The macros of sys/wait.h and sys/stat.h.\<close>

definition WIFEXITED :: "i32 \<Rightarrow> bool" where "WIFEXITED st \<longleftrightarrow> st AND 0x7F = 0"
definition WEXITSTATUS :: "i32 \<Rightarrow> i32" where "WEXITSTATUS st = drop_bit 8 (st AND 0xFF00)"
definition WTERMSIG :: "i32 \<Rightarrow> i32" where "WTERMSIG st = st AND 0x7F"
definition WIFSTOPPED :: "i32 \<Rightarrow> bool" where "WIFSTOPPED st \<longleftrightarrow> st AND 0xFF = 0x7F"
definition WSTOPSIG :: "i32 \<Rightarrow> i32" where "WSTOPSIG = WEXITSTATUS"
definition S_ISLNK :: "i32 \<Rightarrow> bool" where "S_ISLNK m \<longleftrightarrow> m AND 0xF000 = 0xA000"
definition S_ISDIR :: "i32 \<Rightarrow> bool" where "S_ISDIR m \<longleftrightarrow> m AND 0xF000 = 0x4000"

definition WIFSIGNALED :: "i32 \<Rightarrow> bool" where
  "WIFSIGNALED st \<longleftrightarrow> 0 < sint (signed_drop_bit 1 (ucast ((st AND 0x7F) + 1) :: 8 word))"

section \<open>Strings, arrays and descriptors\<close>

definition payload :: string where "payload = ''ld_preload smoke payload''"
definition payload_fd :: string where "payload_fd = ''fd semantics payload''"

definition fd_of :: "answer \<Rightarrow> i32" where
  "fd_of a = word_of_int (ret a)"

text \<open>\<open>memset(buf, 0, sizeof(buf))\<close> on an array of \<open>n\<close> bytes; what a call stored, put into an
  array; the first \<open>n\<close> bytes of an array.\<close>

definition zeroed :: "nat \<Rightarrow> buffer" where
  "zeroed n = \<lparr>cap = n, cells = (\<lambda>_. Some NUL)\<rparr>"

definition received :: "buffer \<Rightarrow> answer \<Rightarrow> buffer option" where
  "received b a = copy_in b 0 (out_bytes a)"

definition first_bytes :: "buffer \<Rightarrow> nat \<Rightarrow> string option" where
  "first_bytes b n = those (map (load b) [0..<n])"

text \<open>\<open>buf[n] = 0\<close> for the text of a link just read, and the string then in the array.\<close>

definition link_text :: "buffer \<Rightarrow> answer \<Rightarrow> string option" where
  "link_text b n = do { b \<leftarrow> received b n; b \<leftarrow> store b (nat (ret n)) NUL; c_string b }"

section \<open>Failing\<close>

definition die :: "string \<Rightarrow> 'a prog" where
  "die message = Halt 1 message"

definition fail_message :: "string \<Rightarrow> 'a prog" where
  "fail_message message = Halt 1 message"

definition make_path :: "nat \<Rightarrow> string \<Rightarrow> string \<Rightarrow> (string \<Rightarrow> 'a prog) \<Rightarrow> 'a prog" where
  "make_path dst_len dir name k =
     defined (snprintf (new_buffer dst_len) dst_len (dir @ ''/'' @ name)) (\<lambda>(r, dst).
       if r \<ge> int dst_len then fail_message ''path too long'' else defined (c_string dst) k)"

definition expect_errno_int :: "string \<Rightarrow> i32 \<Rightarrow> i32 \<Rightarrow> 'a prog \<Rightarrow> 'a prog" where
  "expect_errno_int label actual expected k =
     (if actual \<noteq> expected
      then Halt 1 (label @ '': expected errno '' @ int_digits (sint expected) @ '', got '' @ int_digits (sint actual))
      else k)"

definition expect_size :: "string \<Rightarrow> int \<Rightarrow> int \<Rightarrow> 'a prog \<Rightarrow> 'a prog" where
  "expect_size label actual expected k =
     (if actual \<noteq> expected
      then Halt 1 (label @ '': expected size '' @ int_digits expected @ '', got '' @ int_digits actual)
      else k)"

definition expect_bytes :: "string \<Rightarrow> buffer \<Rightarrow> string \<Rightarrow> nat \<Rightarrow> 'a prog \<Rightarrow> 'a prog" where
  "expect_bytes label actual expected len k =
     defined (first_bytes actual len) (\<lambda>bytes.
       if bytes \<noteq> take len expected then Halt 1 (label @ '': payload mismatch'') else k)"

definition expect_child_status_zero :: "string \<Rightarrow> i32 \<Rightarrow> 'a prog \<Rightarrow> 'a prog" where
  "expect_child_status_zero label status k =
     (if WIFEXITED status then
        (if WEXITSTATUS status = 0 then k
         else Halt 1 (label @ '': child exit status '' @ int_digits (sint (WEXITSTATUS status))))
      else if WIFSIGNALED status then
        Halt 1 (label @ '': child terminated by signal '' @ int_digits (sint (WTERMSIG status)))
      else if WIFSTOPPED status then
        Halt 1 (label @ '': child stopped by signal '' @ int_digits (sint (WSTOPSIG status)))
      else Halt 1 (label @ '': child status '' @ int_digits (sint status)))"

definition is_optional_xattr_errno :: "i32 \<Rightarrow> bool" where
  "is_optional_xattr_errno e \<longleftrightarrow> e = ENOTSUP \<or> e = EOPNOTSUPP \<or> e = EPERM"

section \<open>Calls with the check of their result\<close>

text \<open>
  The three shapes in which the fixture calls: \<open>if (call != 0) die(message)\<close>;
  \<open>x = call; if (x < 0) die(message)\<close>; and the probe \<open>errno = 0; if (call != -1)
  fail_message(message); expect_errno_int(label, errno, expected)\<close>.
\<close>

definition zero_or_die :: "request \<Rightarrow> string \<Rightarrow> (answer \<Rightarrow> 'a prog) \<Rightarrow> 'a prog" where
  "zero_or_die r message k = sys r (\<lambda>a. if ret a \<noteq> 0 then die message else k a)"

definition nonneg_or_die :: "request \<Rightarrow> string \<Rightarrow> (answer \<Rightarrow> 'a prog) \<Rightarrow> 'a prog" where
  "nonneg_or_die r message k = sys r (\<lambda>a. if ret a < 0 then die message else k a)"

definition probe :: "ask \<Rightarrow> string \<Rightarrow> string \<Rightarrow> i32 \<Rightarrow> 'a prog \<Rightarrow> 'a prog" where
  "probe q message label expected k =
     clear_errno (Ask q [] (\<lambda>a. if ret a \<noteq> -1 then fail_message message
                                else expect_errno_int label (err a) expected k))"

text \<open>\<open>if (write(fd, data, strlen(data)) != strlen(data)) die(message)\<close>\<close>

definition write_or_die :: "i32 \<Rightarrow> addr \<Rightarrow> string \<Rightarrow> string \<Rightarrow> 'a prog \<Rightarrow> 'a prog" where
  "write_or_die fd p data message k =
     sys_with (C_write fd p (word_of_nat (length data))) data
       (\<lambda>n. if ret n \<noteq> int (length data) then die message else k)"

text \<open>\<open>if (mkdir(path, 0755) != 0 && errno != EEXIST) die(message)\<close>\<close>

definition mkdir_or_die :: "string \<Rightarrow> string \<Rightarrow> 'a prog \<Rightarrow> 'a prog" where
  "mkdir_or_die path message k =
     sys (C_mkdir (Some path) 0x1ED) (\<lambda>a. if ret a \<noteq> 0 \<and> err a \<noteq> EEXIST then die message else k)"

section \<open>Scratch files\<close>

definition create_scratch_dir :: "(string \<Rightarrow> addr) \<Rightarrow> nat \<Rightarrow> (string \<Rightarrow> 'a prog) \<Rightarrow> 'a prog" where
  "create_scratch_dir adr dir_buf_len k =
     foreign ''mkdtemp'' [Ptr (adr ''template'')] ''/tmp/ld_preload_smoke.XXXXXX'' (\<lambda>dir.
       if ret dir = 0 then die ''mkdtemp''
       else defined (snprintf (new_buffer dir_buf_len) dir_buf_len (out_bytes dir)) (\<lambda>(r, dir_buf).
         if r \<ge> int dir_buf_len then fail_message ''scratch dir too long'' else defined (c_string dir_buf) k))"

definition cleanup_path :: "string \<Rightarrow> 'a prog \<Rightarrow> 'a prog" where
  "cleanup_path path k =
     sys (C_unlink (Some path)) (\<lambda>a. if ret a \<noteq> 0 \<and> err a \<noteq> ENOENT then die ''unlink cleanup'' else k)"

definition cleanup_dir :: "string \<Rightarrow> 'a prog \<Rightarrow> 'a prog" where
  "cleanup_dir path k =
     sys (C_rmdir (Some path)) (\<lambda>a. if ret a \<noteq> 0 \<and> err a \<noteq> ENOENT then die ''rmdir cleanup'' else k)"

definition write_file_exact :: "(string \<Rightarrow> addr) \<Rightarrow> string \<Rightarrow> string \<Rightarrow> 'a prog \<Rightarrow> 'a prog" where
  "write_file_exact adr path content k =
     sys (C_creat (Some path) 0x1A4) (\<lambda>fd.
     if ret fd < 0 then die ''creat helper'' else
     write_or_die (fd_of fd) (adr ''content'') content ''write helper'' (
     zero_or_die (C_close (fd_of fd)) ''close helper'' (\<lambda>_. k)))"

end
