(* ===== verification/Fixture_Scenarios.thy ===== *)
theory Fixture_Scenarios
  imports Fixture_Helpers
begin

text \<open>
  The scenarios of smoke/fixture.c that run without a mapping, or with one that must not take
  effect: \<open>basic\<close>, \<open>metadata\<close>, \<open>missing\<close>, \<open>xattr\<close>, \<open>passthrough\<close> and \<open>failopen\<close>. Each is the
  C function call by call; the last argument is what its caller does next.
\<close>

section \<open>basic\<close>

definition run_basic_at :: "(string \<Rightarrow> addr) \<Rightarrow> string \<Rightarrow> string \<Rightarrow> i32 \<Rightarrow> 'a prog \<Rightarrow> 'a prog" where
  "run_basic_at adr dir file_path fd k =
     nonneg_or_die (C_open (Some dir) (O_RDONLY OR O_DIRECTORY) None) ''open dir'' (\<lambda>dirfd.
     zero_or_die (C_faccessat (fd_of dirfd) (Some ''basic.txt'') R_OK 0) ''faccessat'' (\<lambda>_.
     nonneg_or_die (C_openat (fd_of dirfd) (Some ''basic.txt'') O_RDONLY None) ''openat'' (\<lambda>fd_at.
     zero_or_die (C_close (fd_of fd_at)) ''close openat'' (\<lambda>_.
     zero_or_die (C_stat (Some file_path) (adr ''st'')) ''stat'' (\<lambda>st.
     expect_size ''stat size'' (st_size (info st)) (int (length payload)) (
     zero_or_die (C_close fd) ''close'' (\<lambda>_.
     zero_or_die (C_truncate (Some file_path) 7) ''truncate'' (\<lambda>_.
     zero_or_die (C_stat (Some file_path) (adr ''st'')) ''stat after truncate'' (\<lambda>st.
     expect_size ''truncate size'' (st_size (info st)) 7 (
     zero_or_die (C_close (fd_of dirfd)) ''close dir'' (\<lambda>_.
     cleanup_path file_path (cleanup_dir dir k))))))))))))"

definition run_basic_io :: "(string \<Rightarrow> addr) \<Rightarrow> i32 \<Rightarrow> 'a prog \<Rightarrow> 'a prog" where
  "run_basic_io adr fd k =
     zero_or_die (C_lseek fd 0 SEEK_SET) ''lseek rewind'' (\<lambda>_.
     sys (C_read fd (adr ''buf'') 128) (\<lambda>n.
     if ret n \<noteq> int (length payload) then die ''read after lseek'' else
     defined (received (zeroed 128) n) (\<lambda>buf.
     expect_bytes ''read after lseek'' buf payload (length payload) (
     sys_with (C_pwrite fd (adr ''PRE'') 3 0) ''PRE'' (\<lambda>n.
     if ret n \<noteq> 3 then die ''pwrite'' else
     sys (C_pread fd (adr ''buf'') (word_of_nat (length payload)) 0) (\<lambda>n.
     if ret n \<noteq> int (length payload) then die ''pread'' else
     defined (received (zeroed 128) n) (\<lambda>buf.
     expect_bytes ''pread prefix'' buf ''PRE'' 3 (
     zero_or_die (C_fstat fd (adr ''st'')) ''fstat'' (\<lambda>st.
     expect_size ''fstat size'' (st_size (info st)) (int (length payload)) k)))))))))"

definition run_basic :: "(string \<Rightarrow> addr) \<Rightarrow> 'a prog \<Rightarrow> 'a prog" where
  "run_basic adr k =
     create_scratch_dir adr PATH_MAX (\<lambda>dir.
     make_path PATH_MAX dir ''basic.txt'' (\<lambda>file_path.
     nonneg_or_die (C_creat (Some file_path) 0x1A4) ''creat'' (\<lambda>fd.
     write_or_die (fd_of fd) (adr ''payload'') payload ''write'' (
     zero_or_die (C_close (fd_of fd)) ''close after creat'' (\<lambda>_.
     zero_or_die (C_access (Some file_path) (R_OK OR W_OK)) ''access'' (\<lambda>_.
     zero_or_die (C_euidaccess (Some file_path) R_OK) ''euidaccess'' (\<lambda>_.
     nonneg_or_die (C_open (Some file_path) O_RDWR None) ''open'' (\<lambda>fd.
     run_basic_io adr (fd_of fd) (run_basic_at adr dir file_path (fd_of fd) k)))))))))"

section \<open>metadata\<close>

definition run_metadata_links :: "(string \<Rightarrow> addr) \<Rightarrow> string \<Rightarrow> string \<Rightarrow> string \<Rightarrow> 'a prog \<Rightarrow> 'a prog" where
  "run_metadata_links adr renamed_path symlink_path hardlink_path k =
     zero_or_die (C_symlink (Some renamed_path) (Some symlink_path)) ''symlink'' (\<lambda>_.
     zero_or_die (C_lstat (Some symlink_path) (adr ''st'')) ''lstat symlink'' (\<lambda>st.
     if \<not> S_ISLNK (st_mode (info st)) then fail_message ''lstat did not report symlink'' else
     nonneg_or_die (C_readlink (Some symlink_path) (adr ''link_target'') (word_of_nat (PATH_MAX - 1))) ''readlink'' (\<lambda>n.
     defined (link_text (zeroed PATH_MAX) n) (\<lambda>link_target.
     if link_target \<noteq> renamed_path then fail_message ''readlink target mismatch'' else
     zero_or_die (C_link (Some renamed_path) (Some hardlink_path)) ''link'' (\<lambda>_.
     zero_or_die (C_stat (Some hardlink_path) (adr ''st'')) ''stat hardlink'' (\<lambda>st.
     if st_nlink (info st) < 2 then fail_message ''hardlink count mismatch'' else k))))))"

definition run_metadata :: "(string \<Rightarrow> addr) \<Rightarrow> 'a prog \<Rightarrow> 'a prog" where
  "run_metadata adr k =
     create_scratch_dir adr PATH_MAX (\<lambda>dir.
     make_path PATH_MAX dir ''nested'' (\<lambda>nested_dir.
     make_path PATH_MAX nested_dir ''source.txt'' (\<lambda>file_path.
     make_path PATH_MAX nested_dir ''renamed.txt'' (\<lambda>renamed_path.
     make_path PATH_MAX dir ''source.lnk'' (\<lambda>symlink_path.
     make_path PATH_MAX dir ''source.hard'' (\<lambda>hardlink_path.
     zero_or_die (C_mkdir (Some nested_dir) 0x1ED) ''mkdir'' (\<lambda>_.
     nonneg_or_die (C_creat (Some file_path) 0x1A4) ''creat metadata'' (\<lambda>fd.
     write_or_die (fd_of fd) (adr ''payload'') payload ''write metadata'' (
     zero_or_die (C_close (fd_of fd)) ''close metadata'' (\<lambda>_.
     zero_or_die (C_rename (Some file_path) (Some renamed_path)) ''rename'' (\<lambda>_.
     foreign ''chmod'' [Path (Some renamed_path), I32 0x180] [] (\<lambda>a.
     if ret a \<noteq> 0 then die ''chmod'' else
     zero_or_die (C_stat (Some renamed_path) (adr ''st'')) ''stat renamed'' (\<lambda>st.
     if st_mode (info st) AND 0x1FF \<noteq> 0x180 then fail_message ''chmod mode mismatch'' else
     run_metadata_links adr renamed_path symlink_path hardlink_path (
     cleanup_path hardlink_path (
     cleanup_path symlink_path (
     cleanup_path renamed_path (
     cleanup_dir nested_dir (
     cleanup_dir dir k))))))))))))))))))"

section \<open>missing\<close>

definition run_missing_at :: "string \<Rightarrow> 'a prog \<Rightarrow> 'a prog" where
  "run_missing_at dir k =
     nonneg_or_die (C_open (Some dir) (O_RDONLY OR O_DIRECTORY) None) ''open dir missing'' (\<lambda>dirfd.
     probe (Request (C_openat (fd_of dirfd) (Some ''missing.txt'') O_RDONLY None))
       ''openat missing unexpectedly succeeded'' ''openat missing'' ENOENT (
     probe (Request (C_faccessat (fd_of dirfd) (Some ''missing.txt'') R_OK 0))
       ''faccessat missing unexpectedly succeeded'' ''faccessat missing'' ENOENT (
     zero_or_die (C_close (fd_of dirfd)) ''close dir missing'' (\<lambda>_.
     cleanup_dir dir k))))"

definition run_missing :: "(string \<Rightarrow> addr) \<Rightarrow> 'a prog \<Rightarrow> 'a prog" where
  "run_missing adr k =
     create_scratch_dir adr PATH_MAX (\<lambda>dir.
     make_path PATH_MAX dir ''missing.txt'' (\<lambda>missing_path.
     probe (Request (C_access (Some missing_path) F_OK))
       ''access missing unexpectedly succeeded'' ''access missing'' ENOENT (
     probe (Request (C_open (Some missing_path) O_RDONLY None))
       ''open missing unexpectedly succeeded'' ''open missing'' ENOENT (
     probe (Request (C_stat (Some missing_path) (adr ''st'')))
       ''stat missing unexpectedly succeeded'' ''stat missing'' ENOENT (
     probe (Request (C_lstat (Some missing_path) (adr ''st'')))
       ''lstat missing unexpectedly succeeded'' ''lstat missing'' ENOENT (
     probe (Request (C_readlink (Some missing_path) (adr ''buf'') 16))
       ''readlink missing unexpectedly succeeded'' ''readlink missing'' ENOENT (
     probe (Foreign ''getxattr'' [Path (Some missing_path), Path (Some ''user.ld_preload''), Ptr (adr ''buf''), I64 16])
       ''getxattr missing unexpectedly succeeded'' ''getxattr missing'' ENOENT (
     run_missing_at dir k))))))))"

section \<open>xattr\<close>

text \<open>The name of an attribute is passed as a string; \<open>printf\<close> is given the number whose text it prints.\<close>

definition run_xattr_get :: "(string \<Rightarrow> addr) \<Rightarrow> string \<Rightarrow> string \<Rightarrow> i32 \<Rightarrow> string \<Rightarrow> string \<Rightarrow> 'a prog \<Rightarrow> 'a prog" where
  "run_xattr_get adr dir file_path fd attr_name attr_value k =
     foreign ''getxattr'' [Path (Some file_path), Path (Some attr_name), Ptr (adr ''buf''), I64 64] [] (\<lambda>n.
     if ret n \<noteq> int (length attr_value) then die ''getxattr'' else
     defined (received (zeroed 64) n) (\<lambda>buf.
     expect_bytes ''getxattr'' buf attr_value (length attr_value) (
     foreign ''fgetxattr'' [I32 fd, Path (Some attr_name), Ptr (adr ''buf''), I64 64] [] (\<lambda>n.
     if ret n \<noteq> int (length attr_value) then die ''fgetxattr'' else
     defined (received (zeroed 64) n) (\<lambda>buf.
     expect_bytes ''fgetxattr'' buf attr_value (length attr_value) (
     clear_errno (
     foreign ''lgetxattr'' [Path (Some file_path), Path (Some attr_name), Ptr (adr ''buf''), I64 64] [] (\<lambda>n.
     if ret n \<noteq> int (length attr_value) then die ''lgetxattr regular file'' else
     zero_or_die (C_close fd) ''close xattr'' (\<lambda>_.
     cleanup_path file_path (cleanup_dir dir k))))))))))"

definition run_xattr :: "(string \<Rightarrow> addr) \<Rightarrow> 'a prog \<Rightarrow> 'a prog" where
  "run_xattr adr k =
     (let attr_name = ''user.ld_preload''; attr_value = ''xattr-value'' in
     create_scratch_dir adr PATH_MAX (\<lambda>dir.
     make_path PATH_MAX dir ''xattr.txt'' (\<lambda>file_path.
     nonneg_or_die (C_creat (Some file_path) 0x1A4) ''creat xattr'' (\<lambda>fd.
     write_or_die (fd_of fd) (adr ''payload'') payload ''write xattr'' (
     foreign ''setxattr'' [Path (Some file_path), Path (Some attr_name), Ptr (adr ''attr_value''),
         I64 (word_of_nat (length attr_value)), I32 0] attr_value (\<lambda>a.
     if ret a \<noteq> 0 then
       (if is_optional_xattr_errno (err a) then
          foreign ''printf'' [Path (Some ''SKIP xattr setup unsupported: %s''), I32 (err a)] [] (\<lambda>_.
          sys (C_close (fd_of fd)) (\<lambda>_.
          cleanup_path file_path (cleanup_dir dir k)))
        else die ''setxattr'')
     else run_xattr_get adr dir file_path (fd_of fd) attr_name attr_value k))))))"

section \<open>passthrough\<close>

definition read_and_expect :: "(string \<Rightarrow> addr) \<Rightarrow> i32 \<Rightarrow> string \<Rightarrow> string \<Rightarrow> string \<Rightarrow> string \<Rightarrow> 'a prog \<Rightarrow> 'a prog" where
  "read_and_expect adr fd expected message label close_message k =
     sys (C_read fd (adr ''buf'') 128) (\<lambda>n.
     if ret n \<noteq> int (length expected) then die message else
     defined (received (zeroed 128) n) (\<lambda>buf.
     expect_bytes label buf expected (length expected) (
     zero_or_die (C_close fd) close_message (\<lambda>_. k))))"

definition run_passthrough :: "(string \<Rightarrow> addr) \<Rightarrow> string \<Rightarrow> string \<Rightarrow> 'a prog \<Rightarrow> 'a prog" where
  "run_passthrough adr source_root target_root k =
     (let source_payload = ''source payload''; target_payload = ''target payload'' in
     make_path PATH_MAX source_root ''tree'' (\<lambda>source_dir.
     make_path PATH_MAX source_dir ''data.txt'' (\<lambda>source_file.
     make_path PATH_MAX target_root ''tree'' (\<lambda>target_dir.
     make_path PATH_MAX target_dir ''data.txt'' (\<lambda>target_file.
     mkdir_or_die source_dir ''mkdir passthrough source'' (
     mkdir_or_die target_dir ''mkdir passthrough target'' (
     write_file_exact adr source_file source_payload (
     write_file_exact adr target_file target_payload (
     nonneg_or_die (C_open (Some source_file) O_RDONLY None) ''open passthrough source'' (\<lambda>fd.
     read_and_expect adr (fd_of fd) source_payload ''read passthrough source'' ''passthrough open payload''
       ''close passthrough source'' (
     nonneg_or_die (C_open (Some source_dir) (O_RDONLY OR O_DIRECTORY) None) ''open passthrough dir'' (\<lambda>dirfd.
     nonneg_or_die (C_openat (fd_of dirfd) (Some ''data.txt'') O_RDONLY None) ''openat passthrough source'' (\<lambda>fd.
     read_and_expect adr (fd_of fd) source_payload ''read passthrough openat'' ''passthrough openat payload''
       ''close passthrough openat'' (
     zero_or_die (C_stat (Some source_file) (adr ''st'')) ''stat passthrough source'' (\<lambda>st.
     expect_size ''passthrough stat size'' (st_size (info st)) (int (length source_payload)) (
     zero_or_die (C_stat (Some target_file) (adr ''st'')) ''stat passthrough target'' (\<lambda>st.
     expect_size ''passthrough target size'' (st_size (info st)) (int (length target_payload)) (
     zero_or_die (C_close (fd_of dirfd)) ''close passthrough dir'' (\<lambda>_. k)))))))))))))))))))"

section \<open>failopen\<close>

definition run_failopen_cwd :: "(string \<Rightarrow> addr) \<Rightarrow> string \<Rightarrow> 'a prog \<Rightarrow> 'a prog" where
  "run_failopen_cwd adr tmp_dir k =
     nonneg_or_die (C_open (Some ''.'') (O_RDONLY OR O_DIRECTORY) None) ''open saved cwd'' (\<lambda>saved_cwd_fd.
     nonneg_or_die (C_open (Some tmp_dir) (O_RDONLY OR O_DIRECTORY) None) ''open failopen dir'' (\<lambda>dirfd.
     zero_or_die (C_close (fd_of dirfd)) ''close failopen dir'' (\<lambda>_.
     probe (Request (C_openat (fd_of dirfd) (Some ''missing.txt'') O_RDONLY None))
       ''openat closed dirfd unexpectedly succeeded'' ''openat closed dirfd'' EBADF (
     zero_or_die (C_chdir (Some tmp_dir)) ''chdir failopen dir'' (\<lambda>_.
     zero_or_die (C_rmdir (Some tmp_dir)) ''rmdir failopen dir'' (\<lambda>_.
     probe (Request (C_open (Some ''missing.txt'') O_RDONLY None))
       ''open missing in deleted cwd unexpectedly succeeded'' ''open missing in deleted cwd'' ENOENT (
     probe (Request (C_stat (Some ''missing.txt'') (adr ''st'')))
       ''stat missing in deleted cwd unexpectedly succeeded'' ''stat missing in deleted cwd'' ENOENT (
     foreign ''fchdir'' [I32 (fd_of saved_cwd_fd)] [] (\<lambda>a.
     if ret a \<noteq> 0 then die ''restore cwd'' else
     zero_or_die (C_close (fd_of saved_cwd_fd)) ''close saved cwd'' (\<lambda>_. k))))))))))"

definition run_failopen :: "(string \<Rightarrow> addr) \<Rightarrow> 'a prog \<Rightarrow> 'a prog" where
  "run_failopen adr k =
     probe (Request (C_openat (- 1) (Some ''missing.txt'') O_RDONLY None))
       ''openat invalid dirfd unexpectedly succeeded'' ''openat invalid dirfd'' EBADF (
     probe (Request (C_faccessat (- 1) (Some ''missing.txt'') R_OK 0))
       ''faccessat invalid dirfd unexpectedly succeeded'' ''faccessat invalid dirfd'' EBADF (
     probe (Request (C_readlinkat (- 1) (Some ''missing.txt'') (adr ''missing_buf'') 32))
       ''readlinkat invalid dirfd unexpectedly succeeded'' ''readlinkat invalid dirfd'' EBADF (
     probe (Request (C_statx (- 1) (Some ''missing.txt'') 0 STATX_SIZE (adr ''stx'')))
       ''statx invalid dirfd unexpectedly succeeded'' ''statx invalid dirfd'' EBADF (
     foreign ''mkdtemp'' [Ptr (adr ''cwd_template'')] ''/tmp/ld_preload_failopen.XXXXXX'' (\<lambda>tmp_dir.
     if ret tmp_dir = 0 then die ''mkdtemp failopen'' else
     run_failopen_cwd adr (out_bytes tmp_dir) k)))))"

end
