(* ===== verification/Fixture_Descriptors.thy ===== *)
theory Fixture_Descriptors
  imports Fixture_Scenarios
begin

text \<open>
  The scenario \<open>fd-semantics\<close> of smoke/fixture.c and the check it executes in a child: descriptors
  opened through the interposer are inherited, shared and closed on exec as usual. A program
  follows one process: after \<open>fork\<close> the answer says whether it is the parent's or the child's.
\<close>

section \<open>fd-semantics\<close>

definition wait_for :: "(string \<Rightarrow> addr) \<Rightarrow> answer \<Rightarrow> string \<Rightarrow> (i32 \<Rightarrow> 'a prog) \<Rightarrow> 'a prog" where
  "wait_for adr child_pid message k =
     foreign ''waitpid'' [I32 (fd_of child_pid), Ptr (adr ''status''), I32 0] [] (\<lambda>a.
     if ret a \<noteq> ret child_pid then die message else k (wait_status (info a)))"

definition fd_inherited :: "(string \<Rightarrow> addr) \<Rightarrow> string \<Rightarrow> string \<Rightarrow> 'a prog \<Rightarrow> 'a prog" where
  "fd_inherited adr source_file payload_buf k =
     nonneg_or_die (C_open (Some source_file) O_RDONLY None) ''open fd shared'' (\<lambda>shared_fd.
     foreign ''fork'' [] [] (\<lambda>child_pid.
     if ret child_pid < 0 then die ''fork inherit''
     else if ret child_pid = 0 then
       sys (C_read (fd_of shared_fd) (adr ''read_buf'') 64) (\<lambda>n.
       if ret n \<noteq> int (length payload_buf) then Halt 1 [] else
       defined (received (new_buffer 64) n) (\<lambda>read_buf.
       expect_bytes ''fork-inherited read'' read_buf payload_buf (length payload_buf) (Halt 0 [])))
     else
       zero_or_die (C_close (fd_of shared_fd)) ''close shared fd'' (\<lambda>_.
       wait_for adr child_pid ''wait fork inherit'' (\<lambda>status.
       expect_child_status_zero ''fork-inherited child'' status k))))"

definition fd_closed_by_child :: "(string \<Rightarrow> addr) \<Rightarrow> string \<Rightarrow> string \<Rightarrow> (answer \<Rightarrow> 'a prog) \<Rightarrow> 'a prog" where
  "fd_closed_by_child adr source_file payload_buf k =
     nonneg_or_die (C_open (Some source_file) O_RDONLY None) ''open fd fork-close'' (\<lambda>shared_fd.
     foreign ''fork'' [] [] (\<lambda>child_pid.
     if ret child_pid < 0 then die ''fork child close''
     else if ret child_pid = 0 then
       sys (C_close (fd_of shared_fd)) (\<lambda>child_closed_fd. Halt (if ret child_closed_fd = 0 then 0 else 1) [])
     else
       wait_for adr child_pid ''wait fork child close'' (\<lambda>status.
       expect_child_status_zero ''fork child close'' status (
       sys (C_pread (fd_of shared_fd) (adr ''read_buf'') 64 0) (\<lambda>n.
       if ret n \<noteq> int (length payload_buf) then die ''fork child close pread'' else
       defined (received (zeroed 64) n) (\<lambda>read_buf.
       expect_bytes ''fork child close pread'' read_buf payload_buf (length payload_buf) (k shared_fd)))))))"

text \<open>The argument array of the child, as \<open>execv\<close> reads it: the strings, each with its terminator.\<close>

definition exec_data :: "string list \<Rightarrow> string" where
  "exec_data argv = concat (map (\<lambda>a. a @ [NUL]) argv)"

definition exec_check_child :: "(string \<Rightarrow> addr) \<Rightarrow> string \<Rightarrow> answer \<Rightarrow> answer \<Rightarrow> 'a prog" where
  "exec_check_child adr fixture_argv0 keep_fd cloexec_fd =
     defined (snprintf (new_buffer 32) 32 (int_digits (sint (fd_of keep_fd)))) (\<lambda>(_, keep_buf).
     defined (snprintf (new_buffer 32) 32 (int_digits (sint (fd_of cloexec_fd)))) (\<lambda>(_, cloexec_buf).
     defined (c_string keep_buf) (\<lambda>keep_arg.
     defined (c_string cloexec_buf) (\<lambda>cloexec_arg.
     foreign ''execv'' [Path (Some fixture_argv0), Ptr (adr ''argv_exec'')]
       (exec_data [fixture_argv0, ''fd-exec-check'', keep_arg, cloexec_arg]) (\<lambda>_. Halt 1 [])))))"

definition fd_across_exec :: "(string \<Rightarrow> addr) \<Rightarrow> string \<Rightarrow> string \<Rightarrow> answer \<Rightarrow> 'a prog \<Rightarrow> 'a prog" where
  "fd_across_exec adr fixture_argv0 source_file shared_fd k =
     nonneg_or_die (C_open (Some source_file) O_RDONLY None) ''open fd exec keep'' (\<lambda>keep_fd.
     nonneg_or_die (C_open (Some source_file) (O_RDONLY OR O_CLOEXEC) None) ''open fd exec cloexec'' (\<lambda>cloexec_fd.
     foreign ''fork'' [] [] (\<lambda>child_pid.
     if ret child_pid < 0 then die ''fork exec check''
     else if ret child_pid = 0 then exec_check_child adr fixture_argv0 keep_fd cloexec_fd
     else
       wait_for adr child_pid ''wait exec check'' (\<lambda>status.
       expect_child_status_zero ''exec check child failed'' status (
       zero_or_die (C_close (fd_of shared_fd)) ''close shared fd'' (\<lambda>_.
       zero_or_die (C_close (fd_of keep_fd)) ''close parent keep fd'' (\<lambda>_.
       zero_or_die (C_close (fd_of cloexec_fd)) ''close parent cloexec fd'' (\<lambda>_. k))))))))"

definition run_fd_semantics :: "(string \<Rightarrow> addr) \<Rightarrow> string \<Rightarrow> string \<Rightarrow> string \<Rightarrow> 'a prog \<Rightarrow> 'a prog" where
  "run_fd_semantics adr fixture_argv0 source_root target_root k =
     (let payload_buf = ''fd semantics payload'' in
     make_path PATH_MAX target_root ''tree'' (\<lambda>target_dir.
     make_path PATH_MAX target_dir ''shared.txt'' (\<lambda>target_file.
     make_path PATH_MAX source_root ''tree/shared.txt'' (\<lambda>source_file.
     mkdir_or_die target_dir ''mkdir fd target tree'' (
     write_file_exact adr target_file payload_buf (
     fd_inherited adr source_file payload_buf (
     fd_closed_by_child adr source_file payload_buf (\<lambda>shared_fd.
     fd_across_exec adr fixture_argv0 source_file shared_fd k))))))))"

section \<open>fd-exec-check\<close>

definition run_fd_exec_check :: "(string \<Rightarrow> addr) \<Rightarrow> i32 \<Rightarrow> i32 \<Rightarrow> 'a prog \<Rightarrow> 'a prog" where
  "run_fd_exec_check adr keep_fd cloexec_fd k =
     zero_or_die (C_fstat keep_fd (adr ''st'')) ''fdexec keep fstat'' (\<lambda>_.
     sys (C_read keep_fd (adr ''read_buf'') 64) (\<lambda>n.
     if ret n \<noteq> int (length payload_fd) then die ''fdexec keep read'' else
     defined (received (new_buffer 64) n) (\<lambda>read_buf.
     expect_bytes ''fdexec keep payload'' read_buf payload_fd (length payload_fd) (
     zero_or_die (C_lseek keep_fd 0 SEEK_SET) ''fdexec keep rewind'' (\<lambda>_.
     clear_errno (
     sys (C_fstat cloexec_fd (adr ''st'')) (\<lambda>a.
     if ret a = 0 then fail_message ''fdexec cloexec is still open''
     else if err a \<noteq> EBADF then die ''fdexec cloexec check'' else k)))))))"

end
