(* ===== verification/Fixture_Rewrite.thy ===== *)
theory Fixture_Rewrite
  imports Fixture_Descriptors
begin

text \<open>
  The scenario \<open>rewrite\<close> of smoke/fixture.c, run with the mapping in force: what is done to
  a path under the source root is looked for under the target root, and the sibling of the
  source root is left alone. The C function is one block of calls; it is cut here into the parts
  that exercise one group of functions each, in the order of the code.
\<close>

text \<open>The paths the scenario builds before its first call.\<close>

record fixture_paths =
  source_dir :: string
  source_file :: string
  source_renamed :: string
  source_link :: string
  source_abs_symlink :: string
  source_rel_symlink :: string
  source_abs_symlink_at :: string
  source_rel_symlink_at :: string
  source_exec :: string
  source_missing :: string
  source_guard :: string
  source_created_dir_at :: string
  source_remove_at :: string
  target_dir :: string
  target_file :: string
  target_renamed :: string
  target_renamed2 :: string
  target_link :: string
  target_link_at :: string
  target_exec :: string
  target_created_dir_at :: string
  target_remove_at :: string
  sibling_dir :: string
  sibling_file :: string
  sibling_guard :: string

text \<open>The arrays before they are filled.\<close>

definition no_paths :: fixture_paths where
  "no_paths = \<lparr>source_dir = [], source_file = [], source_renamed = [], source_link = [], source_abs_symlink = [],
    source_rel_symlink = [], source_abs_symlink_at = [], source_rel_symlink_at = [], source_exec = [],
    source_missing = [], source_guard = [], source_created_dir_at = [], source_remove_at = [], target_dir = [],
    target_file = [], target_renamed = [], target_renamed2 = [], target_link = [], target_link_at = [],
    target_exec = [], target_created_dir_at = [], target_remove_at = [], sibling_dir = [], sibling_file = [],
    sibling_guard = []\<rparr>"

definition rewrite_source_paths :: "string \<Rightarrow> fixture_paths \<Rightarrow> (fixture_paths \<Rightarrow> 'a prog) \<Rightarrow> 'a prog" where
  "rewrite_source_paths source_root p k =
     make_path PATH_MAX source_root ''tree'' (\<lambda>source_dir.
     make_path PATH_MAX source_dir ''data.txt'' (\<lambda>source_file.
     make_path PATH_MAX source_dir ''renamed.txt'' (\<lambda>source_renamed.
     make_path PATH_MAX source_dir ''hard.txt'' (\<lambda>source_link.
     make_path PATH_MAX source_dir ''abs.lnk'' (\<lambda>source_abs_symlink.
     make_path PATH_MAX source_dir ''rel.lnk'' (\<lambda>source_rel_symlink.
     make_path PATH_MAX source_dir ''abs-at.lnk'' (\<lambda>source_abs_symlink_at.
     make_path PATH_MAX source_dir ''rel-at.lnk'' (\<lambda>source_rel_symlink_at.
     make_path PATH_MAX source_dir ''exec-target'' (\<lambda>source_exec.
     make_path PATH_MAX source_dir ''missing.txt'' (\<lambda>source_missing.
     make_path PATH_MAX source_root ''guard.txt'' (\<lambda>source_guard.
     make_path PATH_MAX source_dir ''made-at'' (\<lambda>source_created_dir_at.
     make_path PATH_MAX source_dir ''remove-at.txt'' (\<lambda>source_remove_at.
     k (p\<lparr>source_dir := source_dir, source_file := source_file, source_renamed := source_renamed,
         source_link := source_link, source_abs_symlink := source_abs_symlink,
         source_rel_symlink := source_rel_symlink, source_abs_symlink_at := source_abs_symlink_at,
         source_rel_symlink_at := source_rel_symlink_at, source_exec := source_exec,
         source_missing := source_missing, source_guard := source_guard,
         source_created_dir_at := source_created_dir_at, source_remove_at := source_remove_at\<rparr>))))))))))))))"

definition rewrite_target_paths :: "string \<Rightarrow> fixture_paths \<Rightarrow> (fixture_paths \<Rightarrow> 'a prog) \<Rightarrow> 'a prog" where
  "rewrite_target_paths target_root p k =
     make_path PATH_MAX target_root ''tree'' (\<lambda>target_dir.
     make_path PATH_MAX target_dir ''data.txt'' (\<lambda>target_file.
     make_path PATH_MAX target_dir ''renamed.txt'' (\<lambda>target_renamed.
     make_path PATH_MAX target_dir ''renamed2.txt'' (\<lambda>target_renamed2.
     make_path PATH_MAX target_dir ''hard.txt'' (\<lambda>target_link.
     make_path PATH_MAX target_dir ''hard-at.txt'' (\<lambda>target_link_at.
     make_path PATH_MAX target_dir ''exec-target'' (\<lambda>target_exec.
     make_path PATH_MAX target_dir ''made-at'' (\<lambda>target_created_dir_at.
     make_path PATH_MAX target_dir ''remove-at.txt'' (\<lambda>target_remove_at.
     k (p\<lparr>target_dir := target_dir, target_file := target_file, target_renamed := target_renamed,
         target_renamed2 := target_renamed2, target_link := target_link, target_link_at := target_link_at,
         target_exec := target_exec, target_created_dir_at := target_created_dir_at,
         target_remove_at := target_remove_at\<rparr>))))))))))"

definition rewrite_paths :: "string \<Rightarrow> string \<Rightarrow> string \<Rightarrow> (fixture_paths \<Rightarrow> 'a prog) \<Rightarrow> 'a prog" where
  "rewrite_paths source_root target_root sibling_root k =
     rewrite_source_paths source_root no_paths (\<lambda>p.
     rewrite_target_paths target_root p (\<lambda>p.
     make_path PATH_MAX sibling_root ''tree'' (\<lambda>sibling_dir.
     make_path PATH_MAX sibling_dir ''data.txt'' (\<lambda>sibling_file.
     make_path PATH_MAX sibling_root ''guard.txt'' (\<lambda>sibling_guard.
     k (p\<lparr>sibling_dir := sibling_dir, sibling_file := sibling_file, sibling_guard := sibling_guard\<rparr>))))))"

section \<open>Setting up\<close>

definition exec_payload :: string where
  "exec_payload = ''#!/bin/sh'' @ [CHR 0x0A] @ ''exit 0'' @ [CHR 0x0A]"

definition rewrite_setup :: "(string \<Rightarrow> addr) \<Rightarrow> fixture_paths \<Rightarrow> 'a prog \<Rightarrow> 'a prog" where
  "rewrite_setup adr p k =
     mkdir_or_die (target_dir p) ''mkdir target tree'' (
     mkdir_or_die (sibling_dir p) ''mkdir sibling tree'' (
     write_file_exact adr (target_file p) payload (
     write_file_exact adr (sibling_file p) ''sibling payload'' (
     write_file_exact adr (sibling_guard p) ''sibling guard'' (
     write_file_exact adr (target_remove_at p) ''remove me'' (
     nonneg_or_die (C_creat (Some (source_exec p)) 0x1ED) ''create exec payload'' (\<lambda>exec_fd.
     write_or_die (fd_of exec_fd) (adr ''exec_payload'') exec_payload ''write exec payload'' (
     zero_or_die (C_close (fd_of exec_fd)) ''close exec payload'' (\<lambda>_. k)))))))))"

section \<open>Opening, renaming and linking\<close>

definition rewrite_open :: "(string \<Rightarrow> addr) \<Rightarrow> fixture_paths \<Rightarrow> (i32 \<Rightarrow> i32 \<Rightarrow> 'a prog) \<Rightarrow> 'a prog" where
  "rewrite_open adr p k =
     nonneg_or_die (C_open (Some (source_file p)) O_RDONLY None) ''open rewritten file'' (\<lambda>fd.
     sys (C_read (fd_of fd) (adr ''read_buf'') 128) (\<lambda>n.
     if ret n \<noteq> int (length payload) then die ''read rewritten file'' else
     defined (received (zeroed 128) n) (\<lambda>read_buf.
     expect_bytes ''open rewritten file'' read_buf payload (length payload) (
     zero_or_die (C_close (fd_of fd)) ''close rewritten file'' (\<lambda>_.
     nonneg_or_die (C_creat (Some (source_file p)) 0x1A4) ''creat rewritten file'' (\<lambda>fd.
     write_or_die (fd_of fd) (adr ''payload'') payload ''write rewritten file'' (
     zero_or_die (C_close (fd_of fd)) ''close creat rewritten file'' (\<lambda>_.
     nonneg_or_die (C_open (Some (source_dir p)) (O_RDONLY OR O_DIRECTORY) None) ''open rewritten dir'' (\<lambda>dirfd.
     nonneg_or_die (C_open (Some (target_dir p)) (O_RDONLY OR O_DIRECTORY) None) ''open target dir'' (\<lambda>target_dirfd.
     nonneg_or_die (C_openat (fd_of dirfd) (Some ''data.txt'') O_RDONLY None) ''openat rewritten file'' (\<lambda>fd.
     zero_or_die (C_close (fd_of fd)) ''close openat rewritten file'' (\<lambda>_.
     k (fd_of dirfd) (fd_of target_dirfd)))))))))))))"

definition rewrite_rename :: "(string \<Rightarrow> addr) \<Rightarrow> fixture_paths \<Rightarrow> i32 \<Rightarrow> 'a prog \<Rightarrow> 'a prog" where
  "rewrite_rename adr p dirfd k =
     zero_or_die (C_stat (Some (source_file p)) (adr ''st'')) ''stat rewritten file'' (\<lambda>st.
     expect_size ''stat rewritten size'' (st_size (info st)) (int (length payload)) (
     zero_or_die (C_lstat (Some (source_file p)) (adr ''st'')) ''lstat rewritten file'' (\<lambda>st.
     expect_size ''lstat rewritten size'' (st_size (info st)) (int (length payload)) (
     zero_or_die (C_rename (Some (source_file p)) (Some (source_renamed p))) ''rename rewritten file'' (\<lambda>_.
     zero_or_die (C_stat (Some (target_renamed p)) (adr ''st'')) ''stat target renamed'' (\<lambda>_.
     zero_or_die (C_renameat dirfd (Some ''renamed.txt'') dirfd (Some ''renamed2.txt'')) ''renameat rewritten file'' (\<lambda>_.
     zero_or_die (C_stat (Some (target_renamed2 p)) (adr ''st'')) ''stat target renamed2'' (\<lambda>_.
     zero_or_die (C_renameat2 dirfd (Some ''renamed2.txt'') dirfd (Some ''renamed.txt'') 0) ''renameat2 rewritten file'' (\<lambda>_.
     zero_or_die (C_stat (Some (target_renamed p)) (adr ''st'')) ''stat target renameat2'' (\<lambda>_. k))))))))))"

definition rewrite_link :: "(string \<Rightarrow> addr) \<Rightarrow> fixture_paths \<Rightarrow> i32 \<Rightarrow> 'a prog \<Rightarrow> 'a prog" where
  "rewrite_link adr p dirfd k =
     zero_or_die (C_link (Some (source_renamed p)) (Some (source_link p))) ''link rewritten file'' (\<lambda>_.
     zero_or_die (C_stat (Some (target_link p)) (adr ''st'')) ''stat target hardlink'' (\<lambda>st.
     if st_nlink (info st) < 2 then fail_message ''rewrite hardlink count mismatch'' else
     zero_or_die (C_linkat dirfd (Some ''renamed.txt'') dirfd (Some ''hard-at.txt'') 0) ''linkat rewritten file'' (\<lambda>_.
     zero_or_die (C_stat (Some (target_link_at p)) (adr ''st'')) ''stat target hardlink at'' (\<lambda>st.
     if st_nlink (info st) < 3 then fail_message ''rewrite linkat count mismatch'' else
     zero_or_die (C_mkdirat dirfd (Some ''made-at'') 0x1E8) ''mkdirat rewritten dir'' (\<lambda>_.
     zero_or_die (C_stat (Some (target_created_dir_at p)) (adr ''st'')) ''stat target mkdirat'' (\<lambda>st.
     if \<not> S_ISDIR (st_mode (info st)) then fail_message ''mkdirat target was not a directory'' else
     zero_or_die (C_unlinkat dirfd (Some ''remove-at.txt'') 0) ''unlinkat rewritten file'' (\<lambda>_.
     clear_errno (
     sys (C_stat (Some (target_remove_at p)) (adr ''st'')) (\<lambda>a.
     if ret a \<noteq> -1 \<or> err a \<noteq> ENOENT then fail_message ''unlinkat did not remove rewritten target''
     else k)))))))))"

section \<open>Symbolic links\<close>

definition read_link_and_expect :: "request \<Rightarrow> string \<Rightarrow> string \<Rightarrow> string \<Rightarrow> 'a prog \<Rightarrow> 'a prog" where
  "read_link_and_expect r message expected mismatch k =
     nonneg_or_die r message (\<lambda>n.
     defined (link_text (zeroed PATH_MAX) n) (\<lambda>buf.
     if buf \<noteq> expected then fail_message mismatch else k))"

definition rewrite_symlink :: "(string \<Rightarrow> addr) \<Rightarrow> fixture_paths \<Rightarrow> i32 \<Rightarrow> 'a prog \<Rightarrow> 'a prog" where
  "rewrite_symlink adr p dirfd k =
     (let size = word_of_nat (PATH_MAX - 1) in
     zero_or_die (C_symlink (Some (source_renamed p)) (Some (source_abs_symlink p))) ''symlink absolute rewritten'' (\<lambda>_.
     read_link_and_expect (C_readlink (Some (source_abs_symlink p)) (adr ''buf'') size) ''readlink absolute rewritten''
       (target_renamed p) ''absolute symlink payload was not rewritten'' (
     zero_or_die (C_symlink (Some ''../data.txt'') (Some (source_rel_symlink p))) ''symlink relative payload'' (\<lambda>_.
     read_link_and_expect (C_readlink (Some (source_rel_symlink p)) (adr ''buf'') size) ''readlink relative payload''
       ''../data.txt'' ''relative symlink payload should be preserved'' (
     zero_or_die (C_symlinkat (Some (source_renamed p)) dirfd (Some ''abs-at.lnk'')) ''symlinkat absolute rewritten'' (\<lambda>_.
     read_link_and_expect (C_readlink (Some (source_abs_symlink_at p)) (adr ''buf'') size) ''readlink absolute symlinkat''
       (target_renamed p) ''absolute symlinkat payload was not rewritten'' (
     read_link_and_expect (C_readlinkat dirfd (Some ''abs-at.lnk'') (adr ''buf'') size) ''readlinkat absolute symlink''
       (target_renamed p) ''readlinkat payload was not rewritten'' (
     zero_or_die (C_symlinkat (Some ''../data.txt'') dirfd (Some ''rel-at.lnk'')) ''symlinkat relative payload'' (\<lambda>_.
     read_link_and_expect (C_readlink (Some (source_rel_symlink_at p)) (adr ''buf'') size) ''readlink relative symlinkat''
       ''../data.txt'' ''relative symlinkat payload should be preserved'' k)))))))))"

section \<open>Times, status, the sibling\<close>

text \<open>A 64-bit number as the machine stores it, and two times of one \<open>struct timespec\<close> each.\<close>

definition stored_word :: "nat \<Rightarrow> string" where
  "stored_word n = map (\<lambda>i. char_of (n div 256 ^ i mod 256)) [0..<8]"

definition stored_times :: string where
  "stored_times = concat (map stored_word [1700000000, 123456789, 1700000001, 222333444])"

definition rewrite_times :: "(string \<Rightarrow> addr) \<Rightarrow> fixture_paths \<Rightarrow> i32 \<Rightarrow> 'a prog \<Rightarrow> 'a prog" where
  "rewrite_times adr p dirfd k =
     sys_with (C_utimensat dirfd (Some ''renamed.txt'') (adr ''times'') 0) stored_times (\<lambda>a.
     if ret a \<noteq> 0 then die ''utimensat rewritten file'' else
     zero_or_die (C_stat (Some (target_renamed p)) (adr ''st'')) ''stat target utimensat'' (\<lambda>st.
     if st_mtime (info st) \<noteq> 1700000001 then fail_message ''utimensat mtime mismatch'' else
     zero_or_die (C_statx dirfd (Some ''renamed.txt'') 0 (STATX_SIZE OR STATX_MTIME) (adr ''stx'')) ''statx rewritten file'' (\<lambda>stx.
     if stx_mask (info stx) AND STATX_SIZE = 0 \<or> stx_size (info stx) \<noteq> int (length payload)
     then fail_message ''statx size mismatch''
     else k)))"

definition rewrite_sibling :: "(string \<Rightarrow> addr) \<Rightarrow> fixture_paths \<Rightarrow> 'a prog \<Rightarrow> 'a prog" where
  "rewrite_sibling adr p k =
     nonneg_or_die (C_open (Some (sibling_file p)) O_RDONLY None) ''open sibling file'' (\<lambda>fd.
     sys (C_read (fd_of fd) (adr ''read_buf'') 128) (\<lambda>n.
     if ret n \<noteq> int (length ''sibling payload'') then die ''read sibling file'' else
     defined (received (zeroed 128) n) (\<lambda>read_buf.
     expect_bytes ''sibling file payload'' read_buf ''sibling payload'' (length ''sibling payload'') (
     zero_or_die (C_close (fd_of fd)) ''close sibling file'' (\<lambda>_. k)))))"

section \<open>What must be missing\<close>

definition rewrite_missing :: "(string \<Rightarrow> addr) \<Rightarrow> fixture_paths \<Rightarrow> i32 \<Rightarrow> 'a prog \<Rightarrow> 'a prog" where
  "rewrite_missing adr p dirfd k =
     probe (Request (C_open (Some (source_guard p)) O_RDONLY None))
       ''rewritten missing open unexpectedly succeeded'' ''rewritten missing open'' ENOENT (
     probe (Request (C_stat (Some (source_guard p)) (adr ''st'')))
       ''rewritten missing stat unexpectedly succeeded'' ''rewritten missing stat'' ENOENT (
     probe (Request (C_lstat (Some (source_guard p)) (adr ''st'')))
       ''rewritten missing lstat unexpectedly succeeded'' ''rewritten missing lstat'' ENOENT (
     probe (Request (C_readlink (Some (source_missing p)) (adr ''buf'') (word_of_nat PATH_MAX)))
       ''rewritten missing readlink unexpectedly succeeded'' ''rewritten missing readlink'' ENOENT (
     probe (Request (C_readlinkat dirfd (Some ''missing.txt'') (adr ''buf'') (word_of_nat PATH_MAX)))
       ''rewritten missing readlinkat unexpectedly succeeded'' ''rewritten missing readlinkat'' ENOENT (
     probe (Request (C_statx dirfd (Some ''missing.txt'') 0 STATX_SIZE (adr ''stx'')))
       ''rewritten missing statx unexpectedly succeeded'' ''rewritten missing statx'' ENOENT k)))))"

section \<open>Access, modes, openat2, statfs\<close>

text \<open>\<open>struct open_how\<close> with three 64-bit fields of zero; the number of the system call on x86-64.\<close>

definition open_how :: string where
  "open_how = concat (map stored_word [0, 0, 0])"

definition SYS_openat2 :: u64 where "SYS_openat2 = 437"

definition rewrite_access :: "(string \<Rightarrow> addr) \<Rightarrow> fixture_paths \<Rightarrow> i32 \<Rightarrow> 'a prog \<Rightarrow> 'a prog" where
  "rewrite_access adr p dirfd k =
     zero_or_die (C_access (Some (source_renamed p)) R_OK) ''rewritten access'' (\<lambda>_.
     zero_or_die (C_faccessat dirfd (Some ''renamed.txt'') R_OK 0) ''rewritten faccessat'' (\<lambda>_.
     zero_or_die (C_fchmodat dirfd (Some ''renamed.txt'') 0x180 0) ''rewritten fchmodat'' (\<lambda>_.
     zero_or_die (C_stat (Some (target_renamed p)) (adr ''st'')) ''stat target rewritten fchmodat'' (\<lambda>st.
     if st_mode (info st) AND 0x1FF \<noteq> 0x180 then fail_message ''fchmodat rewrite mode mismatch'' else
     foreign ''syscall'' [I64 SYS_openat2, I32 dirfd, Path (Some ''renamed.txt''), Ptr (adr ''how''), I64 24] open_how (\<lambda>fd.
     if sint (fd_of fd) < 0 then die ''rewritten openat2'' else
     nonneg_or_die (C_pread (fd_of fd) (adr ''read_buf'') 128 0) ''read rewritten openat2'' (\<lambda>_.
     zero_or_die (C_close (fd_of fd)) ''close rewritten openat2'' (\<lambda>_.
     zero_or_die (C_statfs (Some (source_dir p)) (adr ''stfs'')) ''rewritten statfs'' (\<lambda>stfs.
     if f_bsize (info stfs) = 0 then fail_message ''statfs rewrite returned zero block size'' else k))))))))"

section \<open>The working directory and exec\<close>

text \<open>The string in an array of zero bytes that \<open>getcwd\<close> stored its answer in.\<close>

definition cwd_text :: "answer \<Rightarrow> string option" where
  "cwd_text a = do { b \<leftarrow> copy_in (zeroed PATH_MAX) 0 (out_bytes a @ [NUL]); c_string b }"

definition rewrite_cwd :: "fixture_paths \<Rightarrow> 'a prog \<Rightarrow> 'a prog" where
  "rewrite_cwd p k =
     Ask (Ask_cwd PATH_MAX) [] (\<lambda>cwd.
     if ret cwd = 0 then die ''getcwd before rewrite chdir'' else
     zero_or_die (C_chdir (Some (source_dir p))) ''rewritten chdir'' (\<lambda>_.
     Ask (Ask_cwd PATH_MAX) [] (\<lambda>cwd.
     if ret cwd = 0 then die ''getcwd after rewrite chdir'' else
     defined (cwd_text cwd) (\<lambda>text.
     if text \<noteq> source_dir p then fail_message ''getcwd rewrite mismatch after chdir'' else
     zero_or_die (C_chdir (Some ''/'')) ''restore cwd after chdir'' (\<lambda>_. k)))))"

definition rewrite_exec :: "(string \<Rightarrow> addr) \<Rightarrow> fixture_paths \<Rightarrow> 'a prog \<Rightarrow> 'a prog" where
  "rewrite_exec adr p k =
     foreign ''fork'' [] [] (\<lambda>child_pid_exec.
     if ret child_pid_exec < 0 then die ''fork exec test''
     else if ret child_pid_exec = 0 then
       sys_with (C_execve (Some (source_exec p)) (adr ''exec_argv'') (adr ''exec_envp''))
         (exec_data [''true'']) (\<lambda>_. Halt 1 [])
     else
       wait_for adr child_pid_exec ''wait exec test'' (\<lambda>status.
       if \<not> WIFEXITED status \<or> WEXITSTATUS status \<noteq> 0
       then die ''execve rewritten path did not execute'' else k))"

section \<open>The scenario\<close>

definition run_rewrite :: "(string \<Rightarrow> addr) \<Rightarrow> string \<Rightarrow> string \<Rightarrow> string \<Rightarrow> 'a prog \<Rightarrow> 'a prog" where
  "run_rewrite adr source_root target_root sibling_root k =
     rewrite_paths source_root target_root sibling_root (\<lambda>p.
     rewrite_setup adr p (
     rewrite_open adr p (\<lambda>dirfd target_dirfd.
     rewrite_rename adr p dirfd (
     rewrite_link adr p dirfd (
     rewrite_symlink adr p dirfd (
     rewrite_times adr p dirfd (
     rewrite_sibling adr p (
     rewrite_missing adr p dirfd (
     rewrite_access adr p dirfd (
     rewrite_cwd p (
     rewrite_exec adr p (
     zero_or_die (C_close target_dirfd) ''close target dir'' (\<lambda>_.
     zero_or_die (C_close dirfd) ''close rewritten dir'' (\<lambda>_. k))))))))))))))"

end
