(* ===== verification/Fixture_Main.thy ===== *)
theory Fixture_Main
  imports Fixture_Rewrite
begin

text \<open>
  The entry point of smoke/fixture.c, and the standard functions that take its arguments apart.
\<close>

section \<open>atoi\<close>

definition is_space :: "char \<Rightarrow> bool" where
  "is_space c \<longleftrightarrow> c \<in> {CHR 0x20, CHR 0x09, CHR 0x0A, CHR 0x0B, CHR 0x0C, CHR 0x0D}"

definition is_digit :: "char \<Rightarrow> bool" where
  "is_digit c \<longleftrightarrow> of_char c \<ge> (48 :: nat) \<and> of_char c \<le> (57 :: nat)"

definition digit_value :: "char \<Rightarrow> nat" where
  "digit_value c = of_char c - 48"

definition numeral_value :: "string \<Rightarrow> nat" where
  "numeral_value s = foldl (\<lambda>n c. 10 * n + digit_value c) 0 (takeWhile is_digit s)"

text \<open>The behaviour is undefined where the number is no \<open>int\<close>.\<close>

definition atoi :: "string \<Rightarrow> i32 option" where
  "atoi s =
     (let s = dropWhile is_space s;
          z = (case s of [] \<Rightarrow> 0
               | c # cs \<Rightarrow> if c = CHR ''-'' then - int (numeral_value cs)
                          else if c = CHR ''+'' then int (numeral_value cs) else int (numeral_value s))
      in if - INT_MAX - 1 \<le> z \<and> z \<le> INT_MAX then Some (word_of_int z) else None)"

section \<open>main\<close>

definition usage :: "string \<Rightarrow> string \<Rightarrow> int prog" where
  "usage argv0 text = foreign ''fprintf'' [] (''usage: '' @ argv0 @ text) (\<lambda>_. Ret 2)"

definition scenarios :: string where
  "scenarios =
     '' <basic|metadata|missing|passthrough|failopen|rewrite|xattr|fd-semantics|fd-exec-check> [args]''"

text \<open>
  \<open>argv\<close> without its final null pointer. With no argument at all the usage text is printed with
  \<open>argv[0]\<close> null, which is undefined.
\<close>

definition fixture_main :: "(string \<Rightarrow> addr) \<Rightarrow> string list \<Rightarrow> int prog" where
  "fixture_main adr argv =
     (let argc = length argv; arg = (\<lambda>i. argv ! i) in
      if argc = 0 then Undef
      else if argc < 2 then usage (arg 0) scenarios
      else if arg 1 = ''basic'' then run_basic adr (Ret 0)
      else if arg 1 = ''metadata'' then run_metadata adr (Ret 0)
      else if arg 1 = ''missing'' then run_missing adr (Ret 0)
      else if arg 1 = ''xattr'' then run_xattr adr (Ret 0)
      else if arg 1 = ''passthrough'' then
        (if argc \<noteq> 4 then usage (arg 0) '' passthrough <source-root> <target-root>''
         else run_passthrough adr (arg 2) (arg 3) (Ret 0))
      else if arg 1 = ''failopen'' then run_failopen adr (Ret 0)
      else if arg 1 = ''rewrite'' then
        (if argc \<noteq> 5 then usage (arg 0) '' rewrite <source-root> <target-root> <sibling-root>''
         else run_rewrite adr (arg 2) (arg 3) (arg 4) (Ret 0))
      else if arg 1 = ''fd-semantics'' then
        (if argc \<noteq> 4 then usage (arg 0) '' fd-semantics <source-root> <target-root>''
         else run_fd_semantics adr (arg 0) (arg 2) (arg 3) (Ret 0))
      else if arg 1 = ''fd-exec-check'' then
        (if argc \<noteq> 4 then usage (arg 0) '' fd-exec-check <keep-fd> <cloexec-fd>''
         else defined (atoi (arg 2)) (\<lambda>keep_fd. defined (atoi (arg 3)) (\<lambda>cloexec_fd.
           run_fd_exec_check adr keep_fd cloexec_fd (Ret 0))))
      else foreign ''fprintf'' [] (''unknown scenario: '' @ arg 1) (\<lambda>_. Ret 2))"

end
