(* ===== verification/Fixture_Safe.thy ===== *)
theory Fixture_Safe
  imports Fixture_Main
begin

text \<open>
  The fixture never runs into undefined behaviour and only makes well-formed calls, whatever it is
  answered: one rule per step for the weakest precondition \<open>safe\<close>, then one lemma per function.
\<close>

section \<open>Arrays\<close>

text \<open>The first \<open>n\<close> bytes of an array can be read.\<close>

definition ready :: "buffer \<Rightarrow> nat \<Rightarrow> bool" where
  "ready b n \<longleftrightarrow> n \<le> cap b \<and> (\<forall>i < n. cells b i \<noteq> None)"

lemma ready_mono: "ready b n \<Longrightarrow> m \<le> n \<Longrightarrow> ready b m"
  by (auto simp: ready_def)

lemma ready_zeroed [simp]: "cap (zeroed n) = n" "ready (zeroed n) m \<longleftrightarrow> m \<le> n"
  by (auto simp: zeroed_def ready_def)

lemma ready_bytes: "ready b n \<Longrightarrow> \<exists>s. first_bytes b n = Some s"
proof (induction n)
  case (Suc n)
  then obtain s c where "first_bytes b n = Some s" "load b n = Some c"
    by (auto simp: ready_def load_def)
  moreover have "those (xs @ [Some c]) = map_option (\<lambda>s. s @ [c]) (those xs)" for xs
    by (induction xs) (auto simp: option.map_comp o_def split: option.split)
  ultimately show ?case by (simp add: first_bytes_def)
qed (simp add: first_bytes_def)

lemma ready_received:
  assumes "ready b n" "length (out_bytes a) \<le> cap b"
  shows "\<exists>b'. received b a = Some b' \<and> cap b' = cap b \<and> ready b' (max n (length (out_bytes a)))"
  using assms by (auto simp: received_def ready_def c_simps)

lemma ready_c_string_from:
  "ready b n \<Longrightarrow> i \<le> j \<Longrightarrow> j < n \<Longrightarrow> cells b j = Some NUL \<Longrightarrow> \<exists>s. c_string_from b i = Some s"
proof (induction "j - i" arbitrary: i)
  case (Suc x)
  then have "x = j - Suc i" "Suc i \<le> j" by simp_all
  from Suc(1) [OF this(1) Suc.prems(1) this(2) Suc.prems(3,4)] obtain s where "c_string_from b (Suc i) = Some s" ..
  moreover have "i < cap b" "cells b i \<noteq> None" using Suc by (auto simp: ready_def)
  ultimately show ?case by (subst c_string_from.simps) (auto split: option.splits)
qed (subst c_string_from.simps, auto simp: ready_def)

lemma link_text_defined:
  assumes "ready b n" "0 \<le> ret a" "nat (ret a) < n" "length (out_bytes a) = nat (ret a)"
  shows "\<exists>s. link_text b a = Some s"
proof -
  obtain b' where b': "received b a = Some b'" "cap b' = cap b" "ready b' n"
    using ready_received [OF assms(1), of a] assms by (auto simp: ready_def max_def)
  let ?b = "b'\<lparr>cells := (cells b')(nat (ret a) \<mapsto> NUL)\<rparr>"
  have "store b' (nat (ret a)) NUL = Some ?b" "ready ?b n"
    using b' assms(1,3) by (auto simp: store_def ready_def)
  then show ?thesis using ready_c_string_from [of ?b n 0 "nat (ret a)"] assms(3) b'(1)
    by (simp add: link_text_def c_string_def)
qed

section \<open>Steps\<close>

lemma safe_die [safe_steps]: "E 1 \<Longrightarrow> safe strict E Q (die m)" "E 1 \<Longrightarrow> safe strict E Q (fail_message m)"
  by (simp_all add: die_def fail_message_def)

lemma safe_stops [safe_steps]: "E c \<Longrightarrow> safe strict E Q (Halt c m)" "Q r \<Longrightarrow> safe strict E Q (Ret r)"
  by simp_all

lemma safe_if [safe_steps]:
  "(c \<Longrightarrow> safe strict E Q p) \<Longrightarrow> (\<not> c \<Longrightarrow> safe strict E Q q) \<Longrightarrow> safe strict E Q (if c then p else q)"
  by simp

lemma safe_sys [safe_steps]:
  "ask_ok strict (Request r) \<Longrightarrow> (\<And>a. answer_ok (Request r) d a \<Longrightarrow> safe strict E Q (k a)) \<Longrightarrow> safe strict E Q (sys_with r d k)"
  "ask_ok strict (Request r) \<Longrightarrow> (\<And>a. answer_ok (Request r) [] a \<Longrightarrow> safe strict E Q (k a)) \<Longrightarrow> safe strict E Q (sys r k)"
  by (simp_all add: sys_with_def sys_def)

lemma safe_foreign [safe_steps]:
  "ask_ok strict (Foreign f args) \<Longrightarrow> (\<And>a. answer_ok (Foreign f args) d a \<Longrightarrow> safe strict E Q (k a)) \<Longrightarrow>
   safe strict E Q (foreign f args d k)"
  by (simp add: foreign_def)

lemma safe_cwd [safe_steps]:
  "n \<le> PATH_MAX \<Longrightarrow> (\<And>a. answer_ok (Ask_cwd n) [] a \<Longrightarrow> safe strict E Q (k a)) \<Longrightarrow> safe strict E Q (Ask (Ask_cwd n) [] k)"
  by simp

lemma safe_calls [safe_steps]:
  "E 1 \<Longrightarrow> ask_ok strict (Request r) \<Longrightarrow> (\<And>a. safe strict E Q (k a)) \<Longrightarrow> safe strict E Q (zero_or_die r m k)"
  "E 1 \<Longrightarrow> ask_ok strict (Request r) \<Longrightarrow> (\<And>a. 0 \<le> ret a \<Longrightarrow> answer_ok (Request r) [] a \<Longrightarrow> safe strict E Q (k a)) \<Longrightarrow>
   safe strict E Q (nonneg_or_die r m k)"
  "E 1 \<Longrightarrow> ask_ok strict q \<Longrightarrow> safe strict E Q k' \<Longrightarrow> safe strict E Q (probe q m l e k')"
  "safe strict E Q k' \<Longrightarrow> safe strict E Q (clear_errno k')"
  "E 1 \<Longrightarrow> safe strict E Q k' \<Longrightarrow> safe strict E Q (expect_size l z z' k')"
  by (simp_all add: zero_or_die_def nonneg_or_die_def probe_def clear_errno_def sys_def die_def fail_message_def
      expect_errno_int_def expect_size_def)

lemma safe_writes [safe_steps]:
  "E 1 \<Longrightarrow> safe strict E Q k \<Longrightarrow> safe strict E Q (write_or_die fd p data m k)"
  "E 1 \<Longrightarrow> c_ok path \<Longrightarrow> safe strict E Q k \<Longrightarrow> safe strict E Q (mkdir_or_die path m k)"
  "E 1 \<Longrightarrow> c_ok path \<Longrightarrow> safe strict E Q k \<Longrightarrow> safe strict E Q (cleanup_path path k)"
  "E 1 \<Longrightarrow> c_ok path \<Longrightarrow> safe strict E Q k \<Longrightarrow> safe strict E Q (cleanup_dir path k)"
  by (simp_all add: write_or_die_def mkdir_or_die_def cleanup_path_def cleanup_dir_def sys_def sys_with_def die_def
      mode_fits_def)

lemma safe_write_file [safe_steps]:
  "E 1 \<Longrightarrow> c_ok path \<Longrightarrow> safe strict E Q k \<Longrightarrow> safe strict E Q (write_file_exact adr path content k)"
  unfolding write_file_exact_def by (rule safe_steps | simp add: mode_fits_def)+

lemma safe_expect_bytes [safe_steps]:
  "E 1 \<Longrightarrow> ready b len \<Longrightarrow> safe strict E Q k \<Longrightarrow> safe strict E Q (expect_bytes l b s len k)"
  using ready_bytes by (fastforce simp: expect_bytes_def defined_def)

lemma safe_status [safe_steps]:
  "E 1 \<Longrightarrow> safe strict E Q k \<Longrightarrow> safe strict E Q (expect_child_status_zero l st k)"
  by (simp add: expect_child_status_zero_def)

text \<open>A reading call answered: the bytes asked for can be read from the array.\<close>

lemma safe_received_cleared [safe_steps]:
  assumes "length (out_bytes a) \<le> n" "\<And>b. ready b n \<Longrightarrow> safe strict E Q (k b)"
  shows "safe strict E Q (defined (received (zeroed n) a) k)"
  using ready_received [of "zeroed n" n a] assms by (auto simp: defined_def max_def)

lemma safe_received_new [safe_steps]:
  assumes "length (out_bytes a) \<le> n" "\<And>b. ready b (length (out_bytes a)) \<Longrightarrow> safe strict E Q (k b)"
  shows "safe strict E Q (defined (received (new_buffer n) a) k)"
  using ready_received [of "new_buffer n" 0 a] assms by (auto simp: defined_def ready_def)

lemma filled_received:
  "filled (Some n) a \<Longrightarrow> 0 \<le> ret a \<Longrightarrow> length (out_bytes a) = nat (ret a) \<and> nat (ret a) \<le> n"
  by (simp add: filled_def nat_le_iff)

lemma safe_link_text [safe_steps]:
  assumes "filled (Some (PATH_MAX - 1)) a" "0 \<le> ret a" "\<And>s. safe strict E Q (k s)"
  shows "safe strict E Q (defined (link_text (zeroed PATH_MAX) a) k)"
proof -
  have "nat (ret a) < PATH_MAX" using filled_received [OF assms(1,2)] by (simp add: PATH_MAX_def)
  then show ?thesis using link_text_defined [of "zeroed PATH_MAX" PATH_MAX a] filled_received [OF assms(1,2)] assms(2,3)
    by (auto simp: defined_def)
qed

text \<open>What \<open>snprintf\<close> leaves is a string, cut off where it does not fit.\<close>

lemma snprintf_string:
  assumes "c_ok s" "0 < n"
  shows "\<exists>r b. snprintf (new_buffer n) n s = Some (r, b) \<and> c_string b = Some (take (n - 1) s) \<and>
    r = (if int (length s) \<le> INT_MAX then int (length s) else -1)"
  using snprintf_total [of n "new_buffer n" s] assms c_string_holds [OF _ c_ok_take] by fastforce

lemma safe_snprintf:
  assumes "c_ok s" "0 < n" "E 1" "\<And>t. c_ok t \<Longrightarrow> safe strict E Q (k t)"
  shows "safe strict E Q (defined (snprintf (new_buffer n) n s) (\<lambda>(r, b).
    if r \<ge> int n then fail_message m else defined (c_string b) k))"
  using snprintf_string [OF assms(1,2)] assms(3,4) c_ok_take [OF assms(1)]
  by (auto simp: defined_def fail_message_def)

lemma safe_make_path [safe_steps]:
  assumes "E 1" "c_ok dir" "c_ok name" "\<And>p. c_ok p \<Longrightarrow> safe strict E Q (k p)"
  shows "safe strict E Q (make_path PATH_MAX dir name k)"
  unfolding make_path_def using assms by (intro safe_snprintf) simp_all

lemma safe_scratch_dir [safe_steps]:
  assumes "E 1" "\<And>d. c_ok d \<Longrightarrow> safe strict E Q (k d)"
  shows "safe strict E Q (create_scratch_dir adr PATH_MAX k)"
  unfolding create_scratch_dir_def
  by (rule safe_steps safe_snprintf | simp add: assms)+

section \<open>Scenarios\<close>

lemma flags_ok [simp]:
  "modeless strict O_RDONLY" "modeless strict O_RDWR" "modeless strict (O_RDONLY OR O_CLOEXEC)"
  "modeless strict (O_RDONLY OR O_DIRECTORY) \<longleftrightarrow> \<not> strict"
  by (simp_all add: modeless_def mode_unneeded_def va_mode_arg_def O_RDONLY_def O_RDWR_def O_DIRECTORY_def
      O_CLOEXEC_def O_CREAT_def O_TMPFILE_def)

lemma payload_length [simp]: "length payload = 24" "length payload_fd = 20"
  by (simp_all add: payload_def payload_fd_def)

lemmas ask_simps = mode_fits_def call_documented_def capacity_def foreign_capacity_def filled_def

lemma path_max_words [simp]:
  "unat (word_of_nat PATH_MAX :: u64) = PATH_MAX" "unat (word_of_nat (PATH_MAX - 1) :: u64) = PATH_MAX - 1"
  by (simp_all add: PATH_MAX_def unat_of_nat)

lemma readlink_filled:
  "answer_ok (Request (C_readlink p b (word_of_nat (PATH_MAX - 1)))) [] a \<Longrightarrow> filled (Some (PATH_MAX - 1)) a"
  "answer_ok (Request (C_readlinkat fd p b (word_of_nat (PATH_MAX - 1)))) [] a \<Longrightarrow> filled (Some (PATH_MAX - 1)) a"
  by (simp_all add: call_documented_def capacity_def del: One_nat_def)

lemma safe_basic [safe_steps]:
  assumes "E 1" "safe strict E Q k"
  shows "safe strict E Q (run_basic_io adr fd k)"
    "\<not> strict \<Longrightarrow> c_ok dir \<Longrightarrow> c_ok file_path \<Longrightarrow> safe strict E Q (run_basic_at adr dir file_path fd k)"
  unfolding run_basic_io_def run_basic_at_def
  by (rule safe_steps assms | (auto simp: ask_simps intro: ready_mono; fail))+

lemma safe_run_basic [safe_steps]: "\<not> strict \<Longrightarrow> E 1 \<Longrightarrow> safe strict E Q k \<Longrightarrow> safe strict E Q (run_basic adr k)"
  unfolding run_basic_def
  by (rule safe_steps | (auto simp: ask_simps intro: ready_mono; fail))+

lemma safe_metadata_links [safe_steps]:
  "E 1 \<Longrightarrow> safe strict E Q k \<Longrightarrow> c_ok renamed_path \<Longrightarrow> c_ok symlink_path \<Longrightarrow> c_ok hardlink_path \<Longrightarrow>
   safe strict E Q (run_metadata_links adr renamed_path symlink_path hardlink_path k)"
  unfolding run_metadata_links_def
  by (rule safe_steps | (erule readlink_filled; fail) | (auto simp: ask_simps intro: ready_mono; fail))+

lemma safe_run_metadata [safe_steps]: "E 1 \<Longrightarrow> safe strict E Q k \<Longrightarrow> safe strict E Q (run_metadata adr k)"
  unfolding run_metadata_def
  by (rule safe_steps | (auto simp: ask_simps intro: ready_mono; fail))+

lemma safe_missing [safe_steps]:
  "\<not> strict \<Longrightarrow> E 1 \<Longrightarrow> safe strict E Q k \<Longrightarrow> safe strict E Q (run_missing adr k)"
  "\<not> strict \<Longrightarrow> E 1 \<Longrightarrow> safe strict E Q k \<Longrightarrow> safe strict E Q (run_failopen adr k)"
  unfolding run_missing_def run_missing_at_def run_failopen_def run_failopen_cwd_def
  by (rule safe_steps | (auto simp: ask_simps intro: ready_mono; fail))+

lemma safe_xattr [safe_steps]: "E 1 \<Longrightarrow> safe strict E Q k \<Longrightarrow> safe strict E Q (run_xattr adr k)"
  unfolding run_xattr_def run_xattr_get_def Let_def
  by (rule safe_steps | (auto simp: ask_simps intro: ready_mono; fail))+

lemma safe_read_and_expect [safe_steps]:
  "E 1 \<Longrightarrow> safe strict E Q k \<Longrightarrow> length s \<le> 128 \<Longrightarrow> safe strict E Q (read_and_expect adr fd s m l m' k)"
  unfolding read_and_expect_def
  by (rule safe_steps | (auto simp: ask_simps intro: ready_mono; fail))+

lemma safe_passthrough [safe_steps]:
  "\<not> strict \<Longrightarrow> E 1 \<Longrightarrow> safe strict E Q k \<Longrightarrow> c_ok source_root \<Longrightarrow> c_ok target_root \<Longrightarrow>
   safe strict E Q (run_passthrough adr source_root target_root k)"
  unfolding run_passthrough_def Let_def
  by (rule safe_steps | (auto simp: ask_simps intro: ready_mono; fail))+

section \<open>Scenarios with descriptors\<close>

lemma safe_wait_for [safe_steps]:
  "E 1 \<Longrightarrow> (\<And>st. safe strict E Q (k st)) \<Longrightarrow> safe strict E Q (wait_for adr pid m k)"
  unfolding wait_for_def
  by (rule safe_steps | (auto simp: ask_simps intro: ready_mono; fail))+

text \<open>The decimal text of an \<open>int\<close> fits into 32 bytes.\<close>

lemma digits_string:
  "\<exists>r b. snprintf (new_buffer 32) 32 (int_digits (sint (w :: i32))) = Some (r, b) \<and> c_string b = Some (int_digits (sint w))"
  using snprintf_string [OF int_digits_ok(1), of 32 w] int_digits_ok(2) [of w] by auto

lemma exec_check_child_eq:
  "exec_check_child adr argv0 keep cloexec =
     foreign ''execv'' [Path (Some argv0), Ptr (adr ''argv_exec'')]
       (exec_data [argv0, ''fd-exec-check'', int_digits (sint (fd_of keep)), int_digits (sint (fd_of cloexec))])
       (\<lambda>_. Halt 1 [])"
  using digits_string [of "fd_of keep"] digits_string [of "fd_of cloexec"]
  by (auto simp: exec_check_child_def defined_def)

lemma safe_fd_steps [safe_steps]:
  "E 0 \<Longrightarrow> E 1 \<Longrightarrow> c_ok src \<Longrightarrow> safe strict E Q k \<Longrightarrow> length s \<le> 64 \<Longrightarrow>
   safe strict E Q (fd_inherited adr src s k)"
  "E 0 \<Longrightarrow> E 1 \<Longrightarrow> c_ok src \<Longrightarrow> (\<And>fd. safe strict E Q (k' fd)) \<Longrightarrow> length s \<le> 64 \<Longrightarrow>
   safe strict E Q (fd_closed_by_child adr src s k')"
  "E 1 \<Longrightarrow> c_ok argv0 \<Longrightarrow> c_ok src \<Longrightarrow> safe strict E Q k \<Longrightarrow>
   safe strict E Q (fd_across_exec adr argv0 src fd k)"
  unfolding fd_inherited_def fd_closed_by_child_def fd_across_exec_def exec_check_child_eq
  by (rule safe_steps | (auto simp: ask_simps intro: ready_mono; fail))+

lemma safe_fd_scenarios [safe_steps]:
  "E 0 \<Longrightarrow> E 1 \<Longrightarrow> c_ok argv0 \<Longrightarrow> c_ok source_root \<Longrightarrow> c_ok target_root \<Longrightarrow> safe strict E Q k \<Longrightarrow>
   safe strict E Q (run_fd_semantics adr argv0 source_root target_root k)"
  "E 1 \<Longrightarrow> safe strict E Q k \<Longrightarrow> safe strict E Q (run_fd_exec_check adr keep cloexec k)"
  unfolding run_fd_semantics_def run_fd_exec_check_def Let_def
  by (rule safe_steps | (auto simp: ask_simps intro: ready_mono; fail))+

section \<open>The scenario with a mapping\<close>

definition paths_ok :: "fixture_paths \<Rightarrow> bool" where
  "paths_ok p \<longleftrightarrow> list_all c_ok [
     source_dir p, source_file p, source_renamed p, source_link p, source_abs_symlink p,
     source_rel_symlink p, source_abs_symlink_at p, source_rel_symlink_at p, source_exec p,
     source_missing p, source_guard p, source_created_dir_at p, source_remove_at p, target_dir p,
     target_file p, target_renamed p, target_renamed2 p, target_link p, target_link_at p,
     target_exec p, target_created_dir_at p, target_remove_at p, sibling_dir p, sibling_file p,
     sibling_guard p]"

lemma safe_rewrite_paths [safe_steps]:
  assumes "E 1" "c_ok source_root" "c_ok target_root" "c_ok sibling_root" "\<And>p. paths_ok p \<Longrightarrow> safe strict E Q (k p)"
  shows "safe strict E Q (rewrite_paths source_root target_root sibling_root k)"
  unfolding rewrite_paths_def rewrite_source_paths_def rewrite_target_paths_def
  by (rule safe_steps assms | (simp add: paths_ok_def assms; fail))+

lemma safe_read_link [safe_steps]:
  assumes "E 1" "ask_ok strict (Request r)" "safe strict E Q k"
    and "\<And>a. answer_ok (Request r) [] a \<Longrightarrow> filled (Some (PATH_MAX - 1)) a"
  shows "safe strict E Q (read_link_and_expect r m s m' k)"
  unfolding read_link_and_expect_def by (rule safe_steps assms | assumption)+

lemma safe_cwd_text [safe_steps]:
  assumes "answer_ok (Ask_cwd PATH_MAX) d a" "ret a \<noteq> 0" "\<And>s. s = out_bytes a \<Longrightarrow> safe strict E Q (k s)"
  shows "safe strict E Q (defined (cwd_text a) k)"
proof -
  have a: "c_ok (out_bytes a)" "length (out_bytes a) < PATH_MAX" using assms(1,2) by simp_all
  obtain b where "copy_in (zeroed PATH_MAX) 0 (out_bytes a @ [NUL]) = Some b" "holds b (out_bytes a @ [NUL])"
    using copy_in_holds [of "zeroed PATH_MAX" "[]" "out_bytes a @ [NUL]"] a(2) by auto
  then show ?thesis using c_string_holds [OF _ a(1)] assms(3) by (simp add: cwd_text_def defined_def)
qed

lemma safe_rewrite_calls [safe_steps]:
  assumes "E 1" "safe strict E Q k"
  shows "paths_ok p \<Longrightarrow> safe strict E Q (rewrite_setup adr p k)"
    "paths_ok p \<Longrightarrow> safe strict E Q (rewrite_rename adr p fd k)"
    "paths_ok p \<Longrightarrow> safe strict E Q (rewrite_link adr p fd k)"
    "paths_ok p \<Longrightarrow> safe strict E Q (rewrite_times adr p fd k)"
    "paths_ok p \<Longrightarrow> safe strict E Q (rewrite_sibling adr p k)"
    "paths_ok p \<Longrightarrow> safe strict E Q (rewrite_missing adr p fd k)"
    "paths_ok p \<Longrightarrow> safe strict E Q (rewrite_access adr p fd k)"
    "paths_ok p \<Longrightarrow> safe strict E Q (rewrite_cwd p k)"
  unfolding rewrite_setup_def rewrite_rename_def rewrite_link_def rewrite_times_def rewrite_sibling_def
    rewrite_missing_def rewrite_access_def rewrite_cwd_def
  by (rule safe_steps assms | assumption | (auto simp: ask_simps paths_ok_def intro: ready_mono; fail))+

lemma safe_rewrite_symlink [safe_steps]:
  "E 1 \<Longrightarrow> safe strict E Q k \<Longrightarrow> paths_ok p \<Longrightarrow> safe strict E Q (rewrite_symlink adr p fd k)"
  unfolding rewrite_symlink_def Let_def
  by (rule safe_steps | (erule readlink_filled; fail) | (simp add: ask_simps paths_ok_def; fail))+

lemma safe_rewrite_open [safe_steps]:
  "\<not> strict \<Longrightarrow> E 1 \<Longrightarrow> paths_ok p \<Longrightarrow> (\<And>fd fd'. safe strict E Q (k fd fd')) \<Longrightarrow> safe strict E Q (rewrite_open adr p k)"
  "E 0 \<Longrightarrow> E 1 \<Longrightarrow> paths_ok p \<Longrightarrow> safe strict E Q k' \<Longrightarrow> safe strict E Q (rewrite_exec adr p k')"
  unfolding rewrite_open_def rewrite_exec_def
  by (rule safe_steps | (auto simp: ask_simps paths_ok_def intro: ready_mono; fail))+

lemma safe_run_rewrite [safe_steps]:
  "\<not> strict \<Longrightarrow> E 0 \<Longrightarrow> E 1 \<Longrightarrow> c_ok source_root \<Longrightarrow> c_ok target_root \<Longrightarrow> c_ok sibling_root \<Longrightarrow> safe strict E Q k \<Longrightarrow>
   safe strict E Q (run_rewrite adr source_root target_root sibling_root k)"
  unfolding run_rewrite_def
  by (rule safe_steps | (simp add: ask_simps; fail))+

section \<open>main\<close>

text \<open>Arguments the program can be given: at least its name, C strings, descriptor numbers in range.\<close>

definition arguments_ok :: "string list \<Rightarrow> bool" where
  "arguments_ok argv \<longleftrightarrow> argv \<noteq> [] \<and> list_all c_ok argv \<and>
     (1 < length argv \<and> argv ! 1 = ''fd-exec-check'' \<longrightarrow> list_all (\<lambda>s. atoi s \<noteq> None) (drop 2 argv))"

text \<open>The scenarios that open a directory.\<close>

definition opens_directory :: "string list \<Rightarrow> bool" where
  "opens_directory argv \<longleftrightarrow>
     2 \<le> length argv \<and> argv ! 1 \<in> {''basic'', ''missing'', ''passthrough'', ''failopen'', ''rewrite''}"

lemma fixture_safe:
  assumes "arguments_ok argv" "strict \<Longrightarrow> \<not> opens_directory argv"
  shows "safe strict (\<lambda>c. c \<in> {0, 1}) (\<lambda>r. r \<in> {0, 2}) (fixture_main adr argv)"
proof -
  have ok: "i < length argv \<Longrightarrow> c_ok (argv ! i)" for i
    using assms by (simp add: arguments_ok_def list_all_length)
  have numbers: "\<exists>n. atoi (argv ! i) = Some n"
    if "argv ! 1 = ''fd-exec-check''" "length argv = 4" "i \<in> {2, 3}" for i
    using assms that by (auto simp: arguments_ok_def list_all_length eval_nat_numeral dest!: spec [of _ "i - 2"])
  have usage: "safe strict (\<lambda>c. c \<in> {0, 1}) (\<lambda>r. r \<in> {0, 2 :: int}) (usage a s)" for a s
    by (simp add: usage_def foreign_def)
  have exec: "safe strict (\<lambda>c. c \<in> {0, 1}) (\<lambda>r. r \<in> {0, 2 :: int}) (defined (atoi (argv ! 2)) (\<lambda>keep_fd.
      defined (atoi (argv ! 3)) (\<lambda>cloexec_fd. run_fd_exec_check adr keep_fd cloexec_fd (Ret 0))))"
    if "argv ! 1 = ''fd-exec-check''" "length argv = 4"
    using numbers [OF that, of 2] numbers [OF that, of 3] by (auto simp: defined_def intro!: safe_fd_scenarios(2))
  have dir: "\<not> strict" if "argv ! 1 \<in> {''basic'', ''missing'', ''passthrough'', ''failopen'', ''rewrite''}" "\<not> length argv < 2"
    using assms(2) that by (auto simp: opens_directory_def)
  have "argv \<noteq> []" using assms by (simp add: arguments_ok_def)
  then show ?thesis
    unfolding fixture_main_def Let_def
    by (simp only: length_0_conv if_False)
      (rule safe_if usage exec safe_run_basic safe_run_metadata safe_missing safe_xattr safe_passthrough safe_run_rewrite
        safe_fd_scenarios safe_foreign | assumption | (rule dir, simp, simp; fail) | (simp add: ok; fail))+
qed

end
