(* ===== verification/Fixture_Correct.thy ===== *)
theory Fixture_Correct
  imports Fixture_Safe
begin

text \<open>
  What the fixture's functions compute, and what a successful run of the fixture tells about the
  system it ran on: \<open>must\<close> is the set of programs that cannot return without an event of a kind,
  \<open>returns_with\<close> says what is on the record of a run's own calls when it returns.
\<close>

section \<open>Numbers\<close>

lemma digit_char: "n < 10 \<Longrightarrow> is_digit (char_of (48 + n)) \<and> digit_value (char_of (48 + n)) = n"
  by (simp add: is_digit_def digit_value_def)

lemma digits_are_digits: "set (nat_digits n) \<subseteq> Collect is_digit"
  by (induction n rule: nat_digits.induct) (subst nat_digits.simps, simp add: digit_char)

lemma digits_nonempty: "nat_digits n \<noteq> []"
  by (subst nat_digits.simps) simp

lemma numeral_value_digits: "numeral_value (nat_digits n) = n"
proof -
  have "foldl (\<lambda>n c. 10 * n + digit_value c) 0 (nat_digits n) = n"
    by (induction n rule: nat_digits.induct) (subst nat_digits.simps, simp add: digit_char)
  moreover have "takeWhile is_digit (nat_digits n) = nat_digits n"
    using digits_are_digits by (auto simp: takeWhile_eq_all_conv)
  ultimately show ?thesis unfolding numeral_value_def by (simp only:)
qed

lemma atoi_digits: "atoi (int_digits (sint (w :: i32))) = Some w"
proof -
  have b: "- INT_MAX - 1 \<le> sint w" "sint w \<le> INT_MAX"
    using sint_ge [of w] sint_lt [of w] by (simp_all add: INT_MAX_def)
  have first: "\<not> is_space c \<and> c \<noteq> CHR ''-'' \<and> c \<noteq> CHR ''+''" if "is_digit c" for c
    using that by (auto simp: is_digit_def is_space_def)
  show ?thesis
  proof (cases "sint w < 0")
    case True
    then show ?thesis using b
      by (simp add: int_digits_def atoi_def is_space_def numeral_value_digits)
  next
    case False
    let ?s = "nat_digits (nat (sint w))"
    obtain c cs where s: "?s = c # cs" using digits_nonempty by (cases ?s) auto
    then have "is_digit c" using digits_are_digits [of "nat (sint w)"] by simp
    then show ?thesis using False b first [of c] s numeral_value_digits [of "nat (sint w)"]
      by (simp add: int_digits_def atoi_def)
  qed
qed

section \<open>Wait statuses\<close>

lemma exited_zero: "WIFEXITED st \<and> WEXITSTATUS st = 0 \<longleftrightarrow> st AND 0xFF7F = 0"
proof -
  let ?c = "st AND 0xFF00"
  have "take_bit 8 ?c = 0" by (simp add: take_bit_eq_mask and.assoc mask_eq_exp_minus_1)
  then have "push_bit 8 (drop_bit 8 ?c) = ?c" using bits_ident [of 8 ?c] by simp
  then have c: "drop_bit 8 ?c = 0 \<longleftrightarrow> ?c = 0" by (metis drop_bit_of_0 push_bit_of_0)
  have "st AND 0xFF7F = (st AND 0x7F) OR ?c"
    by (simp flip: bit.conj_disj_distrib)
  then show ?thesis by (simp only: WIFEXITED_def WEXITSTATUS_def c or_eq_0_iff)
qed

text \<open>A child passes exactly when no bit of its exit code and of its signal is set.\<close>

lemma child_status_checked:
  "\<exists>m. expect_child_status_zero l st k = (if st AND 0xFF7F = 0 then k else Halt 1 m)"
  unfolding expect_child_status_zero_def exited_zero [symmetric] by auto

section \<open>Paths\<close>

lemma make_path_eq:
  assumes "c_ok dir" "c_ok name" "0 < n" "int n \<le> INT_MAX"
  shows "make_path n dir name k =
    (let path = dir @ ''/'' @ name in
     if length path < n then k path
     else if int (length path) \<le> INT_MAX then fail_message ''path too long''
     else k (take (n - 1) path))"
proof -
  let ?path = "dir @ ''/'' @ name"
  have "c_ok ?path" using assms(1,2) by simp
  from snprintf_string [OF this assms(3)] obtain b where
    b: "snprintf (new_buffer n) n ?path = Some (if int (length ?path) \<le> INT_MAX then int (length ?path) else -1, b)"
      "c_string b = Some (take (n - 1) ?path)" by blast
  consider "length ?path < n" | "n \<le> length ?path" "int (length ?path) \<le> INT_MAX"
    | "n \<le> length ?path" "INT_MAX < int (length ?path)" by linarith
  then show ?thesis
  proof cases
    case 1
    then have "int (length ?path) \<le> INT_MAX" using assms(4) by linarith
    then show ?thesis using b 1 by (simp add: make_path_def defined_def Let_def)
  qed (use b in \<open>simp_all add: make_path_def defined_def Let_def\<close>)
qed

section \<open>What a program cannot return without\<close>

primrec must :: "(ask \<Rightarrow> answer \<Rightarrow> bool) \<Rightarrow> 'a prog \<Rightarrow> bool" where
  "must P (Ret r) = False"
| "must P (Halt c m) = True"
| "must P Undef = True"
| "must P (Ask q d k) = (\<forall>a. P q a \<or> must P (k a))"

lemma must_happened:
  "must P p \<Longrightarrow> run_prog handle p s = Some (Returned r, t) \<Longrightarrow>
   \<exists>q d a u v. handle q d u = Some (a, v) \<and> P q a"
proof (induction p arbitrary: s)
  case (Ask q d k)
  then obtain a u where a: "handle q d s = Some (a, u)" "run_prog handle (k a) u = Some (Returned r, t)"
    by (auto simp: bind_eq_Some_conv)
  show ?case
  proof (cases "P q a")
    case True
    then show ?thesis using a(1) by blast
  next
    case False
    then have "must P (k a)" using Ask.prems(1) by auto
    then show ?thesis by (rule Ask.IH [OF rangeI _ a(2)])
  qed
qed simp_all

named_theorems must_steps \<open>events that a step passes on\<close>

lemma must_if [must_steps]:
  "(c \<Longrightarrow> must P p) \<Longrightarrow> (\<not> c \<Longrightarrow> must P q) \<Longrightarrow> must P (if c then p else q)"
  by simp

lemma must_stops [must_steps]: "must P (Halt c m)" "must P (die m)" "must P (fail_message m)"
  by (simp_all add: die_def fail_message_def)

lemma must_asks [must_steps]:
  "(\<And>a. must P (k a)) \<Longrightarrow> must P (sys r k)" "(\<And>a. must P (k a)) \<Longrightarrow> must P (sys_with r d k)"
  "(\<And>a. must P (k a)) \<Longrightarrow> must P (foreign f args d k)" "(\<And>a. must P (k a)) \<Longrightarrow> must P (Ask q d k)"
  "must P k' \<Longrightarrow> must P (clear_errno k')" "(\<And>x. must P (k2 x)) \<Longrightarrow> must P (defined m k2)"
  by (simp_all add: sys_def sys_with_def foreign_def clear_errno_def defined_def split: option.split)

text \<open>A probe returns only after the answer it expects.\<close>

lemma must_probe: "(\<And>a. ret a = -1 \<Longrightarrow> err a = e \<Longrightarrow> P q a) \<Longrightarrow> must P (probe q m l e k)"
  by (simp add: probe_def clear_errno_def fail_message_def expect_errno_int_def)

lemma must_helpers [must_steps]:
  "must P k' \<Longrightarrow> must P (probe q m l e k')"
  "(\<And>a. must P (k a)) \<Longrightarrow> must P (zero_or_die r m k)" "(\<And>a. must P (k a)) \<Longrightarrow> must P (nonneg_or_die r m k)"
  "must P k' \<Longrightarrow> must P (expect_size l z z' k')" "must P k' \<Longrightarrow> must P (expect_bytes l b s len k')"
  "must P k' \<Longrightarrow> must P (expect_child_status_zero l st k')"
  "must P k' \<Longrightarrow> must P (write_or_die fd p data m k')" "must P k' \<Longrightarrow> must P (mkdir_or_die path m k')"
  "must P k' \<Longrightarrow> must P (cleanup_path path k')" "must P k' \<Longrightarrow> must P (cleanup_dir path k')"
  "must P k' \<Longrightarrow> must P (write_file_exact adr path content k')"
  by (simp_all add: probe_def zero_or_die_def nonneg_or_die_def expect_size_def expect_bytes_def
      expect_child_status_zero_def write_or_die_def mkdir_or_die_def cleanup_path_def cleanup_dir_def
      write_file_exact_def expect_errno_int_def must_steps)

lemma must_paths [must_steps]:
  "(\<And>p. must P (k p)) \<Longrightarrow> must P (make_path n dir name k)"
  "(\<And>p. must P (k p)) \<Longrightarrow> must P (create_scratch_dir adr n k)"
  by (auto simp: make_path_def create_scratch_dir_def intro!: must_steps)

section \<open>What is on record when a program returns\<close>

text \<open>
  The weakest precondition over the calls made so far: wherever the program returns, \<open>P\<close> holds of
  the set of calls on record.
\<close>

primrec returns_with :: "((ask \<times> answer) set \<Rightarrow> bool) \<Rightarrow> 'a prog \<Rightarrow> (ask \<times> answer) set \<Rightarrow> bool" where
  "returns_with P (Ret r) S = P S"
| "returns_with P (Halt c m) S = True"
| "returns_with P Undef S = True"
| "returns_with P (Ask q d k) S = (\<forall>a. returns_with P (k a) (insert (q, a) S))"

lemma returned_with:
  "returns_with P p S \<Longrightarrow> run_prog handle p s = Some (Returned r, t) \<Longrightarrow> P (S \<union> set (run_log handle p s))"
proof (induction p arbitrary: s S)
  case (Ask q d k)
  then obtain a u where a: "handle q d s = Some (a, u)" "run_prog handle (k a) u = Some (Returned r, t)"
    by (auto simp: bind_eq_Some_conv)
  have "returns_with P (k a) (insert (q, a) S)" using Ask.prems(1) by simp
  from Ask.IH [OF rangeI this a(2)] a(1) show ?case by simp
qed simp_all

text \<open>
  The steps: each rule puts on record what the rest of the program may rely on. In a rule for a call
  that is checked the answer is one that passed the check.
\<close>

lemma returns_with_steps:
  "(\<And>a. returns_with P (k a) (insert (Foreign f args, a) S)) \<Longrightarrow> returns_with P (foreign f args d k) S"
  "(\<And>a. ret a = 0 \<Longrightarrow> returns_with P (k a) (insert (Request r, a) S)) \<Longrightarrow> returns_with P (zero_or_die r m k) S"
  "(\<And>a. 0 \<le> ret a \<Longrightarrow> returns_with P (k a) (insert (Request r, a) S)) \<Longrightarrow> returns_with P (nonneg_or_die r m k) S"
  "(\<And>a c. ret a = -1 \<Longrightarrow> err a = e \<Longrightarrow> returns_with P k' (insert (q, a) (insert (Set_errno 0, c) S))) \<Longrightarrow>
   returns_with P (probe q m l e k') S"
  "(\<And>a. returns_with P k' (insert (Request (C_rmdir (Some path)), a) S)) \<Longrightarrow> returns_with P (cleanup_dir path k') S"
  by (simp_all add: foreign_def zero_or_die_def nonneg_or_die_def probe_def cleanup_dir_def clear_errno_def sys_def
      die_def fail_message_def expect_errno_int_def)

section \<open>The scenario missing\<close>

lemma c_string_from_ok: "c_string_from b i = Some s \<Longrightarrow> c_ok s \<and> i + length s < cap b"
proof (induction b i arbitrary: s rule: c_string_from.induct)
  case (1 b i)
  from 1(2) show ?case
    by (subst (asm) c_string_from.simps) (auto split: if_splits option.splits dest!: 1(1))
qed

lemma returns_with_scratch_dir:
  assumes "\<And>a dir. c_ok dir \<Longrightarrow> length dir < PATH_MAX \<Longrightarrow> (c_ok (out_bytes a) \<and> length (out_bytes a) < PATH_MAX \<longrightarrow> dir = out_bytes a) \<Longrightarrow>
    returns_with P (k dir) (insert (Foreign ''mkdtemp'' [Ptr (adr ''template'')], a) S)"
  shows "returns_with P (create_scratch_dir adr PATH_MAX k) S"
proof -
  have "returns_with P (if r \<ge> int PATH_MAX then fail_message m else defined (c_string b) k)
      (insert (Foreign ''mkdtemp'' [Ptr (adr ''template'')], a) S)"
    if b: "snprintf (new_buffer PATH_MAX) PATH_MAX (out_bytes a) = Some (r, b)" for a r b m
  proof (cases "r \<ge> int PATH_MAX \<or> c_string b = None")
    case False
    then obtain dir where dir: "c_string b = Some dir" by auto
    have cap: "cap b = PATH_MAX"
      using snprintf_total [of PATH_MAX "new_buffer PATH_MAX" "out_bytes a"] b by auto
    have "c_ok (out_bytes a) \<and> length (out_bytes a) < PATH_MAX \<longrightarrow> dir = out_bytes a"
      using snprintf_string [of "out_bytes a" PATH_MAX] b dir by auto
    moreover have "c_ok dir" "length dir < PATH_MAX" using c_string_from_ok [of b 0 dir] dir cap by (simp_all add: c_string_def)
    ultimately show ?thesis using assms False dir by (simp add: defined_def)
  qed (auto simp: fail_message_def defined_def)
  then show ?thesis
    by (auto simp: create_scratch_dir_def foreign_def die_def defined_def split: option.split)
qed

lemma returns_with_make_path:
  assumes "c_ok dir" "length dir < PATH_MAX" "c_ok name" "length name < PATH_MAX"
    and "returns_with P (k (dir @ ''/'' @ name)) S"
  shows "returns_with P (make_path PATH_MAX dir name k) S"
  by (subst make_path_eq) (use assms in \<open>simp_all add: PATH_MAX_def INT_MAX_def Let_def fail_message_def\<close>)

text \<open>The eight probes of the scenario, on a path and relative to a descriptor.\<close>

definition missing_probes :: "(string \<Rightarrow> addr) \<Rightarrow> string \<Rightarrow> i32 \<Rightarrow> ask set" where
  "missing_probes adr path dirfd =
     {Request (C_access (Some path) F_OK), Request (C_open (Some path) O_RDONLY None),
      Request (C_stat (Some path) (adr ''st'')), Request (C_lstat (Some path) (adr ''st'')),
      Request (C_readlink (Some path) (adr ''buf'') 16),
      Foreign ''getxattr'' [Path (Some path), Path (Some ''user.ld_preload''), Ptr (adr ''buf''), I64 16],
      Request (C_openat dirfd (Some ''missing.txt'') O_RDONLY None),
      Request (C_faccessat dirfd (Some ''missing.txt'') R_OK 0)}"

text \<open>
  A record in which a scratch directory was made and opened, and every probe of a file in it,
  by path and relative to its descriptor, was answered by -1 and ENOENT.
\<close>

definition probed_missing :: "(string \<Rightarrow> addr) \<Rightarrow> (ask \<times> answer) set \<Rightarrow> bool" where
  "probed_missing adr S \<longleftrightarrow>
     (\<exists>made opened dir.
        (Foreign ''mkdtemp'' [Ptr (adr ''template'')], made) \<in> S \<and>
        (c_ok (out_bytes made) \<and> length (out_bytes made) < PATH_MAX \<longrightarrow> dir = out_bytes made) \<and>
        (Request (C_open (Some dir) (O_RDONLY OR O_DIRECTORY) None), opened) \<in> S \<and> 0 \<le> ret opened \<and>
        (\<forall>q \<in> missing_probes adr (dir @ ''/'' @ ''missing.txt'') (fd_of opened). \<exists>a. (q, a) \<in> S \<and> ret a = -1 \<and> err a = ENOENT))"

lemma probed_missingI:
  assumes "(Foreign ''mkdtemp'' [Ptr (adr ''template'')], made) \<in> S"
    and "c_ok (out_bytes made) \<and> length (out_bytes made) < PATH_MAX \<longrightarrow> dir = out_bytes made"
    and "(Request (C_open (Some dir) (O_RDONLY OR O_DIRECTORY) None), opened) \<in> S" "0 \<le> ret opened"
    and "\<And>q. q \<in> missing_probes adr (dir @ ''/'' @ ''missing.txt'') (fd_of opened) \<Longrightarrow> \<exists>a. (q, a) \<in> S \<and> ret a = -1 \<and> err a = ENOENT"
  shows "probed_missing adr S"
  using assms unfolding probed_missing_def by blast

text \<open>The steps are followed, and each probe is looked up in what they have put on record.\<close>

lemma recorded: "(q, a) \<in> S \<Longrightarrow> ret a = -1 \<Longrightarrow> err a = e \<Longrightarrow> \<exists>a. (q, a) \<in> S \<and> ret a = -1 \<and> err a = e"
  by blast

lemma missing_on_record: "returns_with (probed_missing adr) (run_missing adr (Ret r)) S"
  unfolding run_missing_def run_missing_at_def
  apply (rule returns_with_scratch_dir returns_with_make_path returns_with_steps
      | (simp add: c_ok_def PATH_MAX_def; fail))+
  apply (subst returns_with.simps)
  apply (rule probed_missingI)
      apply (rule insertI1 | rule insertI2)+
     apply assumption
    apply (rule insertI1 | rule insertI2)+
   apply assumption
  apply (unfold missing_probes_def)
  apply (elim insertE emptyE; hypsubst)
         apply (rule recorded, (rule insertI1 | rule insertI2)+, assumption, assumption)+
  done

section \<open>The scenario rewrite\<close>

text \<open>\<open>open\<close> of the guard file of the source root, answered by no such file.\<close>

definition guard_missing :: "string \<Rightarrow> ask \<Rightarrow> answer \<Rightarrow> bool" where
  "guard_missing source_root q a \<longleftrightarrow>
     q = Request (C_open (Some (source_root @ ''/guard.txt'')) O_RDONLY None) \<and> ret a = -1 \<and> err a = ENOENT"

lemma must_rewrite_calls [must_steps]:
  "must P k \<Longrightarrow> must P (rewrite_setup adr p k)" "must P k \<Longrightarrow> must P (rewrite_rename adr p fd k)"
  "must P k \<Longrightarrow> must P (rewrite_link adr p fd k)" "must P k \<Longrightarrow> must P (rewrite_symlink adr p fd k)"
  "must P k \<Longrightarrow> must P (rewrite_times adr p fd k)" "must P k \<Longrightarrow> must P (rewrite_sibling adr p k)"
  "(\<And>fd fd'. must P (k' fd fd')) \<Longrightarrow> must P (rewrite_open adr p k')"
  unfolding rewrite_setup_def rewrite_rename_def rewrite_link_def rewrite_symlink_def rewrite_times_def rewrite_sibling_def
    rewrite_open_def read_link_and_expect_def Let_def
  by (rule must_steps | assumption)+

lemma must_rewrite:
  assumes "c_ok source_root" "length source_root + 10 < PATH_MAX"
  shows "must (guard_missing source_root) (run_rewrite adr source_root target_root sibling_root k)"
proof -
  have eq: "make_path PATH_MAX source_root ''guard.txt'' k = k (source_root @ ''/guard.txt'')" for k :: "string \<Rightarrow> 'b prog"
    using assms by (subst make_path_eq) (simp_all add: c_ok_def PATH_MAX_def INT_MAX_def Let_def)
  show ?thesis
    unfolding run_rewrite_def rewrite_paths_def rewrite_source_paths_def rewrite_target_paths_def rewrite_missing_def eq
    by ((rule must_probe, simp add: guard_missing_def; fail) | rule must_steps)+
qed

section \<open>The scenarios that open a directory\<close>

text \<open>\<open>open\<close> of a directory, with no mode passed.\<close>

definition opened_bare :: "ask \<Rightarrow> answer \<Rightarrow> bool" where
  "opened_bare q a \<longleftrightarrow> (\<exists>p. q = Request (C_open p (O_RDONLY OR O_DIRECTORY) None))"

lemma must_open: "must opened_bare (nonneg_or_die (C_open p (O_RDONLY OR O_DIRECTORY) None) m k)"
  by (simp add: nonneg_or_die_def sys_def opened_bare_def)

lemma must_read_and_expect [must_steps]: "must P k \<Longrightarrow> must P (read_and_expect adr fd s m l m' k)"
  unfolding read_and_expect_def by (rule must_steps | assumption)+

lemma must_rewrite_paths [must_steps]: "(\<And>p. must P (k p)) \<Longrightarrow> must P (rewrite_paths source_root target_root sibling_root k)"
  unfolding rewrite_paths_def rewrite_source_paths_def rewrite_target_paths_def
  by (rule must_steps | assumption)+

lemma must_open_directory:
  "must opened_bare (run_basic adr k)" "must opened_bare (run_missing adr k)"
  "must opened_bare (run_passthrough adr source_root target_root k)" "must opened_bare (run_failopen adr k)"
  "must opened_bare (run_rewrite adr source_root target_root sibling_root k)"
  unfolding run_basic_def run_basic_io_def run_basic_at_def run_missing_def run_missing_at_def run_passthrough_def
    run_failopen_def run_failopen_cwd_def run_rewrite_def rewrite_open_def Let_def
  by (rule must_open must_steps)+

text \<open>Unless it prints its usage text, such a scenario does not return without having opened one.\<close>

lemma directory_opened:
  assumes "opens_directory argv" "run_prog handle (fixture_main adr argv) s = Some (Returned 0, t)"
  obtains q d a u v where "handle q d u = Some (a, v)" "opened_bare q a"
proof -
  have usage: "run_prog handle (usage a x) s \<noteq> Some (Returned 0, t)" for a x
    by (auto simp: usage_def foreign_def bind_eq_Some_conv)
  have "must opened_bare (fixture_main adr argv)"
    using assms usage by (auto simp: opens_directory_def fixture_main_def Let_def must_open_directory split: if_splits)
  then show thesis using must_happened [OF _ assms(2)] that by blast
qed

end
