(* ===== verification/Working_Directory.thy ===== *)
theory Working_Directory
  imports Lifecycle
begin

text \<open>
  Entering a directory through the interposer and asking for it: what the libc and the kernel
  promise of \<open>chdir\<close>, and the string that \<open>getcwd\<close> then answers.
\<close>

text \<open>
  What the libc and the kernel promise of \<open>chdir\<close> where no directory on the way is a symbolic
  link: after a successful call the working directory is the named place, in clean form.
\<close>

definition chdir_sets_cwd :: "'w libc \<Rightarrow> bool" where
  "chdir_sets_cwd L \<longleftrightarrow> (\<forall>q w w'. c_ok q \<and> starts_with_slash q \<and> length q < PATH_MAX \<and>
     libc_call L Real_chdir [Path (Some q)] w = (I32 0, w') \<longrightarrow>
     dlsym L ''getcwd'' \<noteq> 0 \<and>
     fst (call_getcwd L (dlsym L ''getcwd'') PATH_MAX w') = Some (SLASH # join_path (location q)))"

lemma abs_target_length:
  assumes "policy_ok pol" "c_ok p" "abs_target pol n p = Some r"
  shows "length r < n"
proof -
  obtain c where c: "clean_spec PATH_MAX p = Some c" "forward_spec n (pol, c) = Some r"
    using assms(3) by (auto simp: abs_target_def bind_eq_Some_conv split: if_splits)
  show ?thesis using forward_spec_ok [OF assms(1) clean_spec_c_ok [OF c(1) assms(2)] c(2)] by simp
qed

lemma chdir_eq:
  assumes "libc_ok L" "process_ok L s" "c_ok p" "starts_with_slash p"
  shows "chdir L (Some p) s = Some (with_call L Real_chdir
      [Path (Some (case abs_target (policy_of L s) PATH_MAX p of None \<Rightarrow> p | Some r \<Rightarrow> r))] (with_policy L s))"
  using absolute_args(2) [OF assms] assms(1,2)
  by (simp add: chdir_def orig_chdir_def forwarder_eq failure_of_def)

lemma chdir_getcwd:
  assumes "libc_ok L" "process_ok L s" "chdir_sets_cwd L" "c_ok p" "starts_with_slash p"
    and "roomy (policy_of L s) (length p)" "capturing (policy_of L s)"
    and "moved (policy_of L s) (location p) = Some place"
    and "chdir L (Some p) s = Some (I32 0, t)" "PATH_MAX \<le> cap b"
  obtains b' u where "getcwd L (Some b) PATH_MAX t =
      Some ((Some (reported (policy_of L s) PATH_MAX (SLASH # join_path place)), Some b'), u)"
    "cleaned (SLASH # join_path place)" "location (SLASH # join_path place) = place"
proof -
  let ?pol = "policy_of L s" and ?c = "SLASH # join_path place"
  obtain r where r: "abs_target ?pol PATH_MAX p = Some r" "location r = place"
    using abs_target_moved [OF assms(7,4,5,6)] assms(8) by auto
  note rr = abs_target_someD [OF assms(7,4) r(1)]
  have "length r < PATH_MAX"
    using abs_target_length [OF _ assms(4) r(1)] assms(7) by (simp add: capturing_def)
  moreover have wc: "with_call L Real_chdir [Path (Some r)] (with_policy L s) = (I32 0, t)"
    using chdir_eq [OF assms(1,2,4,5)] assms(9) r(1) by simp
  ultimately have g: "dlsym L ''getcwd'' \<noteq> 0"
      "fst (call_getcwd L (dlsym L ''getcwd'') PATH_MAX (world t)) = Some ?c"
    using assms(3) rr(2,3) with_call_result [OF wc] r(2) by (auto simp: chdir_sets_cwd_def)
  have t: "process_ok L t" "policy_ready t" "policy t = ?pol"
    using wc assms(1,2) by (auto simp: with_call_def with_fields split: prod.splits)
  obtain t' where t': "libc_getcwd L PATH_MAX t = (Some ?c, t')"
    using g by (cases "call_getcwd L (dlsym L ''getcwd'') PATH_MAX (world t)") (simp add: libc_getcwd_def)
  have pol: "policy_of L t' = ?pol"
    using t(2,3) t' by (auto simp: libc_getcwd_def policy_of_def with_fields split: if_splits prod.splits)
  have "\<forall>x \<in> set place. plain_name x" using location_plain [of r] r(2) by simp
  then have loc: "location ?c = place" using location_contents [of place True False] by (simp add: contents_def)
  have "cleaned ?c" using libc_getcwd_ok(2) [OF assms(1) t(1), of PATH_MAX ?c] t' loc by (simp add: cleaned_def)
  moreover obtain b' where "getcwd L (Some b) PATH_MAX t = Some ((Some (reported ?pol PATH_MAX ?c), Some b'), with_policy L t')"
    using getcwd_eq [OF assms(1) t(1) assms(10) _ t'] by (auto simp: pol)
  ultimately show thesis using loc by (intro that)
qed

text \<open>A directory just below the source prefix is reported by the very string it was entered with.\<close>

lemma below_prefix:
  assumes "cleaned f" "proper_prefix f" "plain_name x"
  shows "location (f @ SLASH # x) = location f @ [x]" "f @ SLASH # x = SLASH # join_path (location f @ [x])"
proof -
  have x: "segments x = [x]" using assms(3) by (intro segments_seg) (simp add: plain_name_def)
  have f: "segments f = location f" "f = SLASH # join_path (location f)" "location f \<noteq> []"
    using cleanedD [OF assms(1)] proper_prefix_form [OF assms(1,2)] by simp_all
  have "\<forall>y \<in> set (location f @ [x]). plain_name y" using location_plain [of f] assms(3) by simp
  then show "location (f @ SLASH # x) = location f @ [x]"
    using walk_plain [of "location f @ [x]" "[]"] by (simp add: location_def [of "f @ SLASH # x"] segments_append_slash f(1) x)
  show "f @ SLASH # x = SLASH # join_path (location f @ [x])"
    using f(2,3) by (metis join_path_append append_Cons join_path.simps(2) not_Cons_self2)
qed

text \<open>It is rewritten to the directory of that name just below the target prefix.\<close>

lemma abs_target_below:
  assumes "capturing pol" "plain_name x" "c_ok x" "length (from_path pol @ SLASH # x) < PATH_MAX"
    and "length (to_path pol @ SLASH # x) < PATH_MAX"
  shows "abs_target pol PATH_MAX (from_path pol @ SLASH # x) = Some (to_path pol @ SLASH # x)"
proof -
  let ?p = "from_path pol @ SLASH # x"
  have f: "cleaned (from_path pol)" "proper_prefix (from_path pol)" "enabled pol"
    using assms(1) by (simp_all add: capturing_def policy_ok_def)
  note b = below_prefix [OF f(1,2) assms(2)]
  have p: "c_ok ?p" "starts_with_slash ?p" using cleanedD [OF f(1)] assms(3) by (auto simp: starts_with_slash_iff)
  obtain c where c: "clean_spec PATH_MAX ?p = Some c" "length c \<le> length ?p"
    by (rule clean_spec_shrinks [OF assms(4)]) simp
  have "c = ?p" using clean_spec_canonical [OF c(1) p(2)] c(2) unfolding b(1) by (subst b(2)) (auto simp: b(2))
  then show ?thesis using c(1) p(2) f(3) assms(5) by (simp add: abs_target_def forward_spec_def subst_spec_def under_append)
qed

text \<open>Entered through the interposer, \<open>getcwd\<close> reports that string.\<close>

lemma chdir_getcwd_below:
  assumes "libc_ok L" "process_ok L s" "chdir_sets_cwd L" "capturing (policy_of L s)"
    and "proper_prefix (to_path (policy_of L s))" "plain_name x" "c_ok x"
    and "p = from_path (policy_of L s) @ SLASH # x" "length p < PATH_MAX"
    and "length (to_path (policy_of L s) @ SLASH # x) < PATH_MAX"
    and "chdir L (Some p) s = Some (I32 0, t)" "PATH_MAX \<le> cap b"
  obtains b' u where "getcwd L (Some b) PATH_MAX t = Some ((Some p, Some b'), u)"
proof -
  let ?pol = "policy_of L s" and ?place = "location (to_path (policy_of L s)) @ [x]"
  have pol: "cleaned (from_path ?pol)" "cleaned (to_path ?pol)" "proper_prefix (from_path ?pol)" "enabled ?pol"
      "from_len ?pol = length (from_path ?pol)" "to_len ?pol = length (to_path ?pol)"
    using assms(4) by (simp_all add: capturing_def policy_ok_def)
  note f = below_prefix [OF pol(1,3) assms(6)] and t = below_prefix [OF pol(2) assms(5,6)]
  have p: "c_ok p" "starts_with_slash p" "roomy ?pol (length p)"
    using cleanedD [OF pol(1)] assms(7-10) pol(5,6) by (auto simp: starts_with_slash_iff roomy_def)
  have "moved ?pol (location p) = Some ?place" using f(1) assms(8) by (simp add: moved_def redirect_def)
  then obtain b' u where "getcwd L (Some b) PATH_MAX t =
      Some ((Some (reported ?pol PATH_MAX (SLASH # join_path ?place)), Some b'), u)"
    using chdir_getcwd [OF assms(1-3) p assms(4) _ assms(11,12)] by blast
  moreover have "reported ?pol PATH_MAX (SLASH # join_path ?place) = p"
    using assms(8,9) pol(4) unfolding t(2) [symmetric]
    by (simp add: reported_def backward_spec_def subst_spec_def under_append)
  ultimately show thesis by (intro that) simp
qed

end
