(* ===== verification/Smoke.thy ===== *)
theory Smoke
  imports Redirection Fixture_Correct Working_Directory
begin

text \<open>
  The smoke test: the fixture run on the libc alone and behind the interposer.
\<close>

section \<open>Example libcs\<close>

text \<open>A libc that answers every call with zero and records which function was called.\<close>

definition quiet_libc :: "(string \<Rightarrow> cstr) \<Rightarrow> call_log libc" where
  "quiet_libc env = (example_libc (\<lambda>_. 1))\<lparr>invoke := (\<lambda>a args w. (I32 0, w @ [(a, [])])), getenv := (\<lambda>_. env)\<rparr>"

definition blank_meta :: meta where
  "blank_meta = \<lparr>st_size = 0, st_mode = 0, st_nlink = 0, st_mtime = 0, stx_mask = 0, stx_size = 0, f_bsize = 0,
     wait_status = 0\<rparr>"

definition blank_memory :: "call_log memory" where
  "blank_memory = \<lparr>stage = (\<lambda>d w. w), errno_in = (\<lambda>_. 0), bytes_in = (\<lambda>_. []), info_in = (\<lambda>_. blank_meta)\<rparr>"

lemma quiet_libc_ok: "env_ok env \<Longrightarrow> libc_ok (quiet_libc env)"
  using example_libc_ok [of "\<lambda>_. 1"] by (simp add: quiet_libc_def libc_ok_def)

lemma quiet_libc_laws: "documented (quiet_libc env) blank_memory" "ignores_mode (quiet_libc env)"
  by (auto simp: documented_def ignores_mode_def libc_call_def quiet_libc_def example_libc_def blank_memory_def
      answer_of_def call_documented_def filled_def split: option.splits)

text \<open>A libc whose working directory is where the last recorded \<open>chdir\<close> went.\<close>

definition last_dir :: "call_log \<Rightarrow> string" where
  "last_dir w = (if w = [] then ''/'' else
     (case last w of (a, [Path (Some q)]) \<Rightarrow> SLASH # join_path (location q) | _ \<Rightarrow> ''/''))"

definition moving_libc :: "call_log libc" where
  "moving_libc = (example_libc (\<lambda>_. 1))
     \<lparr>call_getcwd := (\<lambda>a n w. (if c_ok (last_dir w) \<and> length (last_dir w) < n then Some (last_dir w) else None, w))\<rparr>"

lemma moving_libc_ok: "libc_ok moving_libc"
  using example_libc_ok [of "\<lambda>_. 1"] by (simp add: moving_libc_def libc_ok_def)

lemma canonical_short:
  assumes "c_ok q" "starts_with_slash q" "length q < PATH_MAX"
  shows "c_ok (SLASH # join_path (location q)) \<and> length (SLASH # join_path (location q)) < PATH_MAX"
proof -
  have "q \<noteq> []" using assms(2) by auto
  then obtain r where r: "clean_spec PATH_MAX q = Some r" using clean_spec_shrinks [OF assms(3)] by metis
  from clean_spec_canonical [OF r assms(2)] clean_spec_c_ok [OF r assms(1)] clean_spec_length [OF r]
  show ?thesis by auto
qed

lemma moving_libc_chdir: "chdir_sets_cwd moving_libc"
  unfolding chdir_sets_cwd_def
proof (intro allI impI)
  fix q w w'
  assume a: "c_ok q \<and> starts_with_slash q \<and> length q < PATH_MAX \<and>
    libc_call moving_libc Real_chdir [Path (Some q)] w = (I32 0, w')"
  then have "w' = w @ [(1, [Path (Some q)])]"
    by (simp add: libc_call_def moving_libc_def example_libc_def)
  then have "last_dir w' = SLASH # join_path (location q)" by (simp add: last_dir_def)
  then show "dlsym moving_libc ''getcwd'' \<noteq> 0 \<and>
      fst (call_getcwd moving_libc (dlsym moving_libc ''getcwd'') PATH_MAX w') = Some (SLASH # join_path (location q))"
    using canonical_short a by (simp add: moving_libc_def example_libc_def)
qed

section \<open>Single calls behind the interposer\<close>

lemma cwd_text_string:
  assumes "c_ok s" "length s < PATH_MAX" "out_bytes a = s"
  shows "cwd_text a = Some s"
proof -
  obtain b where "copy_in (zeroed PATH_MAX) 0 (s @ [NUL]) = Some b" "holds b (s @ [NUL])"
    using copy_in_holds [of "zeroed PATH_MAX" "[]" "s @ [NUL]"] assms(2) by auto
  then show ?thesis using c_string_holds [OF _ assms(1)] assms(3) by (simp add: cwd_text_def)
qed

text \<open>\<open>chdir\<close> was answered as the libc answered it on the path \<open>q\<close>, and that was a failure.\<close>

definition chdir_refused :: "'w libc \<Rightarrow> string \<Rightarrow> answer \<Rightarrow> bool" where
  "chdir_refused L q a \<longleftrightarrow> ret a \<noteq> 0 \<and> (\<exists>w. cval_int (fst (libc_call L Real_chdir [Path (Some q)] w)) = ret a)"

lemma chdir_behind:
  assumes "libc_ok L" "process_ok L s" "policy_ready s" "c_ok p" "starts_with_slash p"
    and q: "(case abs_target (policy s) PATH_MAX p of None \<Rightarrow> p | Some r \<Rightarrow> r) = q"
    and int: "\<And>q w. \<exists>i. fst (libc_call L Real_chdir [Path (Some q)] w) = I32 i"
  obtains a t where "preloaded L M g (Request (C_chdir (Some p))) d s = Some (a, t)"
    "ret a = 0 \<Longrightarrow> chdir L (Some p) (s\<lparr>world := stage M d (world s)\<rparr>) = Some (I32 0, t)"
    "ret a \<noteq> 0 \<Longrightarrow> chdir_refused L q a"
    "process_ok L t" "policy_ready t" "policy t = policy s"
proof -
  let ?s = "s\<lparr>world := stage M d (world s)\<rparr>"
  have s: "process_ok L ?s" "policy_ready ?s" "policy_of L ?s = policy s" using assms(2,3) by (simp_all add: policy_of_def)
  obtain v t where vt: "chdir L (Some p) ?s = Some (v, t)"
    using chdir_eq [OF assms(1) s(1) assms(4,5)] by (metis surj_pair)
  then obtain u where "with_call L Real_chdir [Path (Some q)] u = (v, t)"
    using chdir_eq [OF assms(1) s(1) assms(4,5)] q s(3) by auto
  then have v: "libc_call L Real_chdir [Path (Some q)] (world u) = (v, world t)" using with_call_result by blast
  then obtain i where i: "v = I32 i" using int [of q "world u"] by auto
  have "serve L (C_chdir (Some p)) ?s = Some (v, t)" "request_ok (C_chdir (Some p))"
    using vt assms(4) by (simp_all add: request_ok_def mode_given_def)
  note step_ok [OF step.call [OF this(2,1)] assms(1) s(1)]
  moreover have "v = I32 0" if "cval_int v = 0" using that i by (simp add: signed_eq_0_iff)
  moreover have "chdir_refused L q (answer_of M (cval_int v) (world t))" if "cval_int v \<noteq> 0"
    using that v by (auto simp: chdir_refused_def answer_of_def intro!: exI [of _ "world u"])
  ultimately show thesis using vt s(2) i
    by (intro that [of "answer_of M (cval_int v) (world t)" t]) (simp_all add: with_mode_def answer_of_def)
qed

lemma cwd_behind:
  assumes "libc_ok L" "process_ok L s" "policy_ready s"
  obtains a t where "preloaded L M g (Ask_cwd PATH_MAX) [] s = Some (a, t)"
    "ret a = 0 \<longleftrightarrow> fst (libc_getcwd L PATH_MAX s) = None"
    "process_ok L t" "policy_ready t" "policy t = policy s"
proof -
  obtain c s' where c: "libc_getcwd L PATH_MAX s = (c, s')" by fastforce
  then have s': "process_ok L s'" "policy_ready s'" "policy s' = policy s"
    using libc_getcwd_ok(1) [OF assms(1,2), of PATH_MAX] assms(3)
    by (auto simp: libc_getcwd_def with_fields split: if_splits prod.splits)
  let ?r = "map_option (reported (policy_of L s') PATH_MAX) c" and ?t = "if c = None then s' else with_policy L s'"
  obtain b where "getcwd L (Some (new_buffer PATH_MAX)) PATH_MAX s = Some ((?r, Some b), ?t)"
    using getcwd_eq [OF assms(1,2) _ _ c, of "new_buffer PATH_MAX"] by auto
  then show thesis using s' assms(1) c
    by (intro that [of "cwd_answer M ?r (world ?t)" ?t]) (simp_all add: cwd_answer_def answer_of_def)
qed

lemma fixture_main_rewrite:
  "fixture_main adr [argv0, ''rewrite'', source_root, target_root, sibling_root]
     = run_rewrite adr source_root target_root sibling_root (Ret 0)"
  by (simp add: fixture_main_def)

section \<open>Properties\<close>

text \<open>C8: a client cannot tell that the interposer is loaded when no usable mapping is configured:
  every program whose calls are well formed ends the same way, with the same result and the same
  world, whether the libc serves it or the interposer in front of the libc. By C's rules (\<open>g = None\<close>)
  that is for programs that pass a mode wherever the interposer's \<open>open\<close> reads one; on a machine
  where a missing argument reads as some value (\<open>g = Some m\<close>), for all. The smoke test's pairs of
  plain and preloaded runs agree.\<close>
theorem preloaded_run_is_plain_run:
  assumes "libc_ok L" and "unset L" and "ignores_mode L" and "documented L M" and "safe (g = None) E Q p"
  shows "\<exists>e t. run_prog (bare L M) p w = Some (e, world t) \<and>
     run_prog (preloaded L M g) p (fresh_process w) = Some (e, t)"
proof -
  have "idle L (fresh_process w)" by (simp add: idle_def process_ok_fresh) (simp add: fresh_process_def)
  from programs_transparent [OF assms(1-5) this] show ?thesis
    by (auto simp: fresh_process_def)
qed

theorem preloaded_run_is_plain_run_witness:
  "\<exists>e t. run_prog (bare (quiet_libc Map.empty) blank_memory) (fixture_main (\<lambda>_. 0) [''fixture'', ''basic'']) []
       = Some (e, world t) \<and>
     run_prog (preloaded (quiet_libc Map.empty) blank_memory (Some 0)) (fixture_main (\<lambda>_. 0) [''fixture'', ''basic''])
       (fresh_process []) = Some (e, t)"
proof (rule preloaded_run_is_plain_run [OF _ _ quiet_libc_laws(2) quiet_libc_laws(1)])
  show "libc_ok (quiet_libc Map.empty)" by (rule quiet_libc_ok) (simp add: env_ok_def)
  show "unset (quiet_libc Map.empty)" by (simp add: unset_def usable_def quiet_libc_def)
  show "safe (Some 0 = None) (\<lambda>c. c \<in> {0, 1}) (\<lambda>r. r \<in> {0, 2}) (fixture_main (\<lambda>_. 0) [''fixture'', ''basic''])"
    by (rule fixture_safe) (simp_all add: arguments_ok_def c_ok_def)
qed

text \<open>C3: behind the interposer with a mapping in force, a program whose paths are absolute (or relative
  only in calls that leave relative paths alone) runs exactly as the program with every path
  moved below the target prefix runs on the libc alone: same end, same result, same world.\<close>
theorem programs_see_moved_tree:
  assumes "libc_ok L" and "ignores_mode L" and "documented L M" and "process_ok L s" and "policy_ready s"
    and "safe (g = None) E Q p" and "settled_prog p"
  shows "\<exists>e t. run_prog (bare L M) (moved_prog (policy s) p) (world s) = Some (e, world t) \<and>
     run_prog (preloaded L M g) p s = Some (e, t)"
  using programs_redirected [OF assms(1-3) assms(6,7,4,5)] by blast

theorem programs_see_moved_tree_witness:
  "\<exists>e t. run_prog (bare (quiet_libc example_env) blank_memory)
       (moved_prog example_policy (write_file_exact (\<lambda>_. 0) ''/srv/data/x'' ''text'' (Ret True))) [] = Some (e, world t) \<and>
     run_prog (preloaded (quiet_libc example_env) blank_memory None)
       (write_file_exact (\<lambda>_. 0) ''/srv/data/x'' ''text'' (Ret True)) (running example_policy) = Some (e, t)"
proof -
  let ?p = "write_file_exact (\<lambda>_. 0) ''/srv/data/x'' ''text'' (Ret True)"
  have "safe (None = (None :: i32 option)) (\<lambda>c. c = 1) (\<lambda>r. r) ?p" by (rule safe_steps | simp add: c_ok_def)+
  moreover have "settled_prog ?p"
    by (simp add: write_file_exact_def write_or_die_def zero_or_die_def sys_def sys_with_def die_def settled_def absolute_path_def)
  moreover have "policy_ready (running example_policy)" "policy (running example_policy) = example_policy"
      "world (running example_policy) = []" by (simp_all add: running_def fresh_process_def)
  ultimately show ?thesis
    using programs_see_moved_tree [OF quiet_libc_ok [OF example_env_ok] quiet_libc_laws(2,1) running_ok [OF example_policy_ok],
        of None "\<lambda>c. c = 1" "\<lambda>r. r" ?p] by metis
qed

text \<open>The status a process of the fixture ends with.\<close>

primrec exit_status :: "int ending \<Rightarrow> int" where
  "exit_status (Returned r) = r"
| "exit_status (Exited c m) = c"

text \<open>C9: where the fixture stays within C. On the libc alone every scenario with any C strings for roots,
  whatever each of its calls is answered, ends with status 0, 1 or 2: no array is left, nothing
  uninitialised is read. Behind the interposer, under any policy, the same holds by C's rules
  (\<open>g = None\<close>) for the scenarios that open no directory; the others open one without passing a mode,
  which the interposer reads all the same, and for them it holds only on a machine where reading
  the missing argument gives some value (\<open>g = Some m\<close>).\<close>
theorem fixture_runs:
  assumes "libc_ok L" and "documented L M" and "process_ok L s" and "arguments_ok argv"
  shows "(\<exists>e w. run_prog (bare L M) (fixture_main adr argv) (world s) = Some (e, w) \<and> exit_status e \<in> {0, 1, 2}) \<and>
     ((g = None \<longrightarrow> \<not> opens_directory argv) \<longrightarrow>
      (\<exists>e t. run_prog (preloaded L M g) (fixture_main adr argv) s = Some (e, t) \<and> process_ok L t \<and>
        exit_status e \<in> {0, 1, 2}))"
proof (intro conjI impI)
  have "safe False (\<lambda>c. c \<in> {0, 1}) (\<lambda>r. r \<in> {0, 2}) (fixture_main adr argv)"
    using fixture_safe [OF assms(4)] by simp
  from bare_libc.safe_runs [OF this, of L M "world s"] assms(1,2) obtain e w where
      "run_prog (bare L M) (fixture_main adr argv) (world s) = Some (e, w)"
      "case e of Returned r \<Rightarrow> r \<in> {0, 2} | Exited c m \<Rightarrow> c \<in> {0, 1}" by blast
  then show "\<exists>e w. run_prog (bare L M) (fixture_main adr argv) (world s) = Some (e, w) \<and> exit_status e \<in> {0, 1, 2}"
    by (auto split: ending.splits)
  assume "g = None \<longrightarrow> \<not> opens_directory argv"
  then have "safe (g = None) (\<lambda>c. c \<in> {0, 1}) (\<lambda>r. r \<in> {0, 2}) (fixture_main adr argv)"
    using fixture_safe [OF assms(4)] by simp
  from behind.safe_runs [OF this, of L M s] assms(1-3) obtain e t where
      "run_prog (preloaded L M g) (fixture_main adr argv) s = Some (e, t)" "process_ok L t"
      "case e of Returned r \<Rightarrow> r \<in> {0, 2} | Exited c m \<Rightarrow> c \<in> {0, 1}" by blast
  then show "\<exists>e t. run_prog (preloaded L M g) (fixture_main adr argv) s = Some (e, t) \<and> process_ok L t \<and>
      exit_status e \<in> {0, 1, 2}"
    by (auto split: ending.splits)
qed

theorem fixture_runs_witness:
  "(\<exists>e t. run_prog (preloaded (quiet_libc example_env) blank_memory None)
       (fixture_main (\<lambda>_. 0) [''fixture'', ''metadata'']) (running example_policy) = Some (e, t) \<and> exit_status e \<in> {0, 1, 2}) \<and>
   (\<exists>e t. run_prog (preloaded (quiet_libc example_env) blank_memory (Some 0))
       (fixture_main (\<lambda>_. 0) [''fixture'', ''rewrite'', ''/srv/data'', ''/mnt/copy'', ''/srv/data-sibling''])
       (running example_policy) = Some (e, t) \<and> exit_status e \<in> {0, 1, 2})"
proof (intro conjI)
  have a: "arguments_ok [''fixture'', ''metadata'']"
      "arguments_ok [''fixture'', ''rewrite'', ''/srv/data'', ''/mnt/copy'', ''/srv/data-sibling'']"
    by (simp_all add: arguments_ok_def c_ok_def)
  note runs = fixture_runs [OF quiet_libc_ok [OF example_env_ok] quiet_libc_laws(1) running_ok [OF example_policy_ok]]
  have "(None :: i32 option) = None \<longrightarrow> \<not> opens_directory [''fixture'', ''metadata'']" by (simp add: opens_directory_def)
  from mp [OF conjunct2 [OF runs [OF a(1)]] this, of "\<lambda>_. 0"]
  show "\<exists>e t. run_prog (preloaded (quiet_libc example_env) blank_memory None)
       (fixture_main (\<lambda>_. 0) [''fixture'', ''metadata'']) (running example_policy) = Some (e, t) \<and> exit_status e \<in> {0, 1, 2}"
    by - (elim exE conjE, intro exI conjI)
  have "Some (0 :: i32) = None \<longrightarrow> \<not> opens_directory [''fixture'', ''rewrite'', ''/srv/data'', ''/mnt/copy'', ''/srv/data-sibling'']"
    by simp
  from mp [OF conjunct2 [OF runs [OF a(2)]] this, of "\<lambda>_. 0"]
  show "\<exists>e t. run_prog (preloaded (quiet_libc example_env) blank_memory (Some 0))
       (fixture_main (\<lambda>_. 0) [''fixture'', ''rewrite'', ''/srv/data'', ''/mnt/copy'', ''/srv/data-sibling''])
       (running example_policy) = Some (e, t) \<and> exit_status e \<in> {0, 1, 2}"
    by - (elim exE conjE, intro exI conjI)
qed

text \<open>C10: behind the interposer no run of a scenario that opens a directory succeeds without undefined
  behaviour: by C's rules each of the scenarios \<open>basic\<close>, \<open>missing\<close>, \<open>passthrough\<close>, \<open>failopen\<close> and
  \<open>rewrite\<close> prints its usage text, ends early with an error, or makes the interposer read a mode
  that the fixture did not pass.\<close>
theorem directory_scenarios_undefined:
  assumes "opens_directory argv"
  shows "run_prog (preloaded L M None) (fixture_main adr argv) s \<noteq> Some (Returned 0, t)"
proof
  assume run: "run_prog (preloaded L M None) (fixture_main adr argv) s = Some (Returned 0, t)"
  obtain q d a u v where q: "preloaded L M None q d u = Some (a, v)" "opened_bare q a"
    by (rule directory_opened [OF assms run])
  have "va_mode_arg (O_RDONLY OR O_DIRECTORY) None = None"
    by (simp add: va_mode_arg_def O_RDONLY_def O_DIRECTORY_def O_CREAT_def O_TMPFILE_def)
  moreover obtain p where p: "q = Request (C_open p (O_RDONLY OR O_DIRECTORY) None)" using q(2) by (auto simp: opened_bare_def)
  ultimately have "serve L (with_mode None (C_open p (O_RDONLY OR O_DIRECTORY) None)) v' = None" for v'
    by (simp add: with_mode_none open_call_def)
  then show False using q(1) by (simp only: p preloaded.simps bind_eq_None_conv) simp
qed

theorem directory_scenarios_undefined_witness:
  "run_prog (preloaded (quiet_libc example_env) blank_memory None) (fixture_main (\<lambda>_. 0) [''fixture'', ''failopen''])
     (running example_policy) \<noteq> Some (Returned 0, running example_policy)"
  by (rule directory_scenarios_undefined) (simp add: opens_directory_def)

text \<open>C37: of the calls of \<open>open\<close> and \<open>openat\<close> for which the libc documents that the mode may be left out, the
  interposer runs into undefined behaviour on those whose flags share a bit with O_TMPFILE, and on
  no others: it tests that any of the two bits is set, not that both are, and one of them is
  O_DIRECTORY. So every \<open>open\<close> of a directory with O_DIRECTORY and no mode is undefined.\<close>
theorem open_without_mode:
  assumes "libc_ok L" and "process_ok L s" and "cval_ok (Path p)" and "mode_unneeded flags"
  shows "(open_call L p flags None s = None \<longleftrightarrow> flags AND O_TMPFILE \<noteq> 0) \<and>
     (openat L fd p flags None s = None \<longleftrightarrow> flags AND O_TMPFILE \<noteq> 0) \<and>
     (flags AND O_DIRECTORY \<noteq> 0 \<longrightarrow> open_call L p flags None s = None \<and> openat L fd p flags None s = None)"
proof -
  have mode: "va_mode_arg flags None = None \<longleftrightarrow> flags AND O_TMPFILE \<noteq> 0"
    using assms(4) by (simp add: va_mode_arg_def mode_unneeded_def bit.conj_disj_distrib)
  have "serve L (C_open p flags None) s = None \<longleftrightarrow> flags AND O_TMPFILE \<noteq> 0"
    using serve_mode_missing [of "C_open p flags None" L s] serve_eq [OF assms(1,2), of "C_open p flags None"] assms(3) mode
    by (auto simp: request_ok_def mode_given_def)
  moreover have "serve L (C_openat fd p flags None) s = None \<longleftrightarrow> flags AND O_TMPFILE \<noteq> 0"
    using serve_mode_missing [of "C_openat fd p flags None" L s] serve_eq [OF assms(1,2), of "C_openat fd p flags None"] assms(3) mode
    by (auto simp: request_ok_def mode_given_def)
  moreover have "flags AND O_TMPFILE \<noteq> 0" if "flags AND O_DIRECTORY \<noteq> 0"
  proof
    assume "flags AND O_TMPFILE = 0"
    then have "flags AND (O_TMPFILE AND O_DIRECTORY) = 0" by (simp flip: and.assoc)
    moreover have "O_TMPFILE AND O_DIRECTORY = O_DIRECTORY" by (simp add: O_TMPFILE_def O_DIRECTORY_def)
    ultimately show False using that by simp
  qed
  ultimately show ?thesis by auto
qed

theorem open_without_mode_witness:
  "open_call (quiet_libc example_env) (Some ''/srv/data'') (O_RDONLY OR O_DIRECTORY OR O_CLOEXEC) None (running example_policy)
     = None \<and>
   open_call (quiet_libc example_env) (Some ''/srv/data'') O_RDONLY None (running example_policy) \<noteq> None"
proof -
  have "mode_unneeded (O_RDONLY OR O_DIRECTORY OR O_CLOEXEC)" "mode_unneeded O_RDONLY"
      "(O_RDONLY OR O_DIRECTORY OR O_CLOEXEC) AND O_DIRECTORY \<noteq> 0" "O_RDONLY AND O_TMPFILE = 0"
    by (simp_all add: mode_unneeded_def O_RDONLY_def O_DIRECTORY_def O_CLOEXEC_def O_CREAT_def O_TMPFILE_def)
  then show ?thesis
    using open_without_mode [OF quiet_libc_ok [OF example_env_ok] running_ok [OF example_policy_ok], of "Some ''/srv/data''"]
    by (simp add: c_ok_def)
qed

text \<open>C11: the interposer passes the fixture's check of the working directory in the scenario \<open>rewrite\<close>.
  With the fixture's roots as the two prefixes, neither ending in a separator, room for both trees,
  no symbolic link on the way, and a \<open>chdir\<close> that answers an \<open>int\<close> and, when it is zero, has
  entered the directory, the check has four outcomes: it goes on; or the libc failed its first
  \<open>getcwd\<close>; or the last call on record is the \<open>chdir\<close> to the source tree, refused by the libc on the
  target tree; or it is the \<open>chdir\<close> back, refused on the root. The failures that would be the
  interposer's, a \<open>getcwd\<close> that fails after the change or reports another string than the one
  entered, do not occur.\<close>
theorem rewrite_cwd_passes:
  assumes "libc_ok L" and "process_ok L s" and "policy_ready s" and "chdir_sets_cwd L" and "capturing (policy s)"
    and "proper_prefix (to_path (policy s))" and "source_dir p = from_path (policy s) @ ''/tree''"
    and "length (source_dir p) < PATH_MAX" and "length (to_path (policy s) @ ''/tree'') < PATH_MAX"
    and int: "\<And>q w. \<exists>i. fst (libc_call L Real_chdir [Path (Some q)] w) = I32 i"
  shows "\<exists>t. process_ok L t \<and> policy_ready t \<and> policy t = policy s \<and>
    (let result = run_prog (preloaded L M g) (rewrite_cwd p k) s;
         calls = run_log (preloaded L M g) (rewrite_cwd p k) s
     in result = run_prog (preloaded L M g) k t \<or>
        fst (libc_getcwd L PATH_MAX s) = None \<and> result = Some (Exited 1 ''getcwd before rewrite chdir'', t) \<or>
        (\<exists>a. last calls = (Request (C_chdir (Some (source_dir p))), a) \<and>
           chdir_refused L (to_path (policy s) @ ''/tree'') a \<and> result = Some (Exited 1 ''rewritten chdir'', t)) \<or>
        (\<exists>a. last calls = (Request (C_chdir (Some ''/'')), a) \<and>
           chdir_refused L ''/'' a \<and> result = Some (Exited 1 ''restore cwd after chdir'', t)))"
proof -
  let ?H = "preloaded L M g" and ?dir = "source_dir p" and ?to = "to_path (policy s) @ ''/tree''"
  have tree: "plain_name ''tree''" "c_ok ''tree''" by (simp_all add: plain_name_def seg_ok_def c_ok_def)
  have from_ok: "cleaned (from_path (policy s))" "proper_prefix (from_path (policy s))"
    using assms(5) by (simp_all add: capturing_def policy_ok_def)
  then have dir: "c_ok ?dir" "starts_with_slash ?dir"
    using assms(7) cleanedD [OF from_ok(1)] by (auto simp: starts_with_slash_iff)
  have to: "abs_target (policy s) PATH_MAX ?dir = Some ?to"
    using abs_target_below [OF assms(5) tree] assms(7-9) by simp
  have root: "abs_target (policy s) PATH_MAX ''/'' = None"
  proof (rule ccontr)
    assume "\<not> ?thesis"
    then obtain r where "moved (policy s) (location ''/'') = Some r"
      using abs_target_someD(1) [OF assms(5), of "''/''"] by (auto simp: c_ok_def)
    moreover have "location ''/'' = []" by code_simp
    ultimately show False using moved_prefix proper_prefix_form(2) [OF from_ok] by fastforce
  qed
  obtain a1 s1 where 1: "?H (Ask_cwd PATH_MAX) [] s = Some (a1, s1)" "ret a1 = 0 \<longleftrightarrow> fst (libc_getcwd L PATH_MAX s) = None"
      "process_ok L s1" "policy_ready s1" "policy s1 = policy s"
    by (rule cwd_behind [OF assms(1-3)])
  obtain a2 s2 where 2: "?H (Request (C_chdir (Some ?dir))) [] s1 = Some (a2, s2)"
      "ret a2 = 0 \<Longrightarrow> chdir L (Some ?dir) (s1\<lparr>world := stage M [] (world s1)\<rparr>) = Some (I32 0, s2)"
      "ret a2 \<noteq> 0 \<Longrightarrow> chdir_refused L ?to a2"
      "process_ok L s2" "policy_ready s2" "policy s2 = policy s"
    by (rule chdir_behind [OF assms(1) 1(3,4) dir _ int, of ?to M g "[]"]) (simp_all add: 1(5) to del: preloaded.simps)
  note run = rewrite_cwd_def zero_or_die_def sys_def die_def defined_def fail_message_def
  consider (before) "ret a1 = 0" | (enter) "ret a1 \<noteq> 0" "ret a2 \<noteq> 0" | (entered) "ret a1 \<noteq> 0" "ret a2 = 0" by blast
  then show ?thesis
  proof cases
    case before
    then show ?thesis using 1 by (intro exI [of _ s1]) (simp add: run del: preloaded.simps)
  next
    case enter
    then show ?thesis using 1 2 by (intro exI [of _ s2]) (auto simp: run simp del: preloaded.simps)
  next
    case entered
    obtain b s3 where g: "getcwd L (Some (new_buffer PATH_MAX)) PATH_MAX s2 = Some ((Some ?dir, Some b), s3)"
      by (rule chdir_getcwd_below [OF assms(1) _ assms(4) _ _ tree _ _ _ 2(2) [OF entered(2)], of "new_buffer PATH_MAX"])
        (use 1(3-5) assms(5-9) in \<open>simp_all add: policy_of_def\<close>)
    let ?a3 = "cwd_answer M (Some ?dir) (world s3)"
    have 3: "?H (Ask_cwd PATH_MAX) [] s2 = Some (?a3, s3)" "ret ?a3 \<noteq> 0" "cwd_text ?a3 = Some ?dir"
      using g cwd_text_string [OF dir(1) assms(8)] by (simp_all add: cwd_answer_def answer_of_def)
    have s3: "process_ok L s3" "policy_ready s3" "policy s3 = policy s"
      using step_ok [OF step.cwd [OF _ _ g] assms(1) 2(4)] 2(5,6) by simp_all
    obtain a4 s4 where 4: "?H (Request (C_chdir (Some ''/''))) [] s3 = Some (a4, s4)" "ret a4 \<noteq> 0 \<Longrightarrow> chdir_refused L ''/'' a4"
        "process_ok L s4" "policy_ready s4" "policy s4 = policy s"
      by (rule chdir_behind [OF assms(1) s3(1,2) _ _ _ int, of "''/''" "''/''" M g "[]"])
        (simp_all add: c_ok_def root s3(3) del: preloaded.simps)
    then show ?thesis using entered 1(1) 2(1) 3
      by (intro exI [of _ s4]) (cases "ret a4 = 0"; auto simp: run simp del: preloaded.simps)
  qed
qed

theorem rewrite_cwd_passes_witness:
  "\<exists>p t. source_dir p = ''/srv/data/tree'' \<and>
     run_prog (preloaded moving_libc blank_memory None) (rewrite_cwd p (Ret True)) (running example_policy)
       = Some (Returned True, t)"
proof -
  obtain p :: fixture_paths where p: "source_dir p = ''/srv/data/tree''"
    by (rule that [of "no_paths\<lparr>source_dir := ''/srv/data/tree''\<rparr>"]) simp
  have s: "policy (running example_policy) = example_policy" "policy_ready (running example_policy)"
    by (simp_all add: running_def)
  have zero: "fst (libc_call moving_libc Real_chdir [Path (Some q)] w) = I32 0" for q w
    by (simp add: moving_libc_def example_libc_def libc_call_def)
  then have accepted: "\<not> chdir_refused moving_libc q a" for q a
    by (simp add: chdir_refused_def)
  have there: "fst (libc_getcwd moving_libc PATH_MAX (running example_policy)) \<noteq> None"
    by (simp add: libc_getcwd_def moving_libc_def example_libc_def running_def fresh_process_def last_dir_def
        c_ok_def PATH_MAX_def)
  have "capturing (policy (running example_policy))" "proper_prefix (to_path (policy (running example_policy)))"
      "source_dir p = from_path (policy (running example_policy)) @ ''/tree''"
      "length (source_dir p) < PATH_MAX" "length (to_path (policy (running example_policy)) @ ''/tree'') < PATH_MAX"
    by (simp_all add: s example_capturing p PATH_MAX_def) (simp_all add: example_policy_def proper_prefix_def)
  from rewrite_cwd_passes [OF moving_libc_ok running_ok [OF example_policy_ok] s(2) moving_libc_chdir this,
      of blank_memory None "Ret True"] zero accepted there p
  show ?thesis by (auto simp: Let_def)
qed

text \<open>C35: \<open>make_path\<close> joins a directory and a name: where the path and its terminator fit, the rest runs
  with the whole path, where they do not the program ends with a message; only a path longer
  than INT_MAX, for which \<open>snprintf\<close> answers a negative number, slips through cut off.\<close>
theorem make_path_joins_or_fails:
  assumes "c_ok dir" and "c_ok name" and "0 < n" and "int n \<le> INT_MAX"
  shows "make_path n dir name k =
    (let path = dir @ ''/'' @ name in
     if length path < n then k path
     else if int (length path) \<le> INT_MAX then fail_message ''path too long''
     else k (take (n - 1) path))"
  by (rule make_path_eq [OF assms])

theorem make_path_joins_or_fails_witness:
  "make_path PATH_MAX ''/srv/data'' ''tree'' Ret = Ret ''/srv/data/tree'' \<and>
   make_path 8 ''/srv/data'' ''tree'' Ret = fail_message ''path too long''"
  using make_path_joins_or_fails [of "''/srv/data''" "''tree''" PATH_MAX Ret]
    make_path_joins_or_fails [of "''/srv/data''" "''tree''" 8 Ret]
  by (simp add: c_ok_def PATH_MAX_def INT_MAX_def)

text \<open>C31: the descriptor numbers survive the fixture's detour through the command line: the strings the
  child executes itself with make \<open>main\<close> run the check on exactly the two descriptors that the
  parent opened, whatever their numbers.\<close>
theorem exec_check_gets_its_descriptors:
  "\<exists>argv. exec_check_child adr argv0 keep cloexec =
       foreign ''execv'' [Path (Some argv0), Ptr (adr ''argv_exec'')] (exec_data argv) (\<lambda>_. Halt 1 []) \<and>
     fixture_main adr argv = run_fd_exec_check adr (fd_of keep) (fd_of cloexec) (Ret 0)"
  by (rule exI, rule conjI, rule exec_check_child_eq) (simp add: fixture_main_def atoi_digits defined_def Let_def)

text \<open>C30: a run of the scenario \<open>missing\<close> that succeeds did see a missing file: on the record of its own calls
  are the \<open>mkdtemp\<close> that made a directory, an \<open>open\<close> of that directory that was answered with a
  descriptor, and the probes of the file missing.txt, six by its path in that directory and two
  relative to that descriptor, each answered -1 with ENOENT. (\<open>dir\<close> is the string \<open>mkdtemp\<close>
  left, where that is one that fits its array.)\<close>
theorem missing_run_was_refused:
  assumes "run_prog handle (fixture_main adr [argv0, ''missing'']) s = Some (Returned r, t)"
  shows "\<exists>made opened dir.
     (let calls = set (run_log handle (fixture_main adr [argv0, ''missing'']) s)
      in (Foreign ''mkdtemp'' [Ptr (adr ''template'')], made) \<in> calls \<and>
         (c_ok (out_bytes made) \<and> length (out_bytes made) < PATH_MAX \<longrightarrow> dir = out_bytes made) \<and>
         (Request (C_open (Some dir) (O_RDONLY OR O_DIRECTORY) None), opened) \<in> calls \<and> 0 \<le> ret opened \<and>
         (\<forall>q \<in> missing_probes adr (dir @ ''/'' @ ''missing.txt'') (fd_of opened).
            \<exists>a. (q, a) \<in> calls \<and> ret a = -1 \<and> err a = ENOENT))"
proof -
  have main: "fixture_main adr [argv0, ''missing''] = run_missing adr (Ret 0)" by (simp add: fixture_main_def)
  have "probed_missing adr ({} \<union> set (run_log handle (run_missing adr (Ret (0 :: int))) s))"
    by (rule returned_with [OF missing_on_record]) (use assms in \<open>simp add: main\<close>)
  then show ?thesis by (simp add: main probed_missing_def Let_def)
qed

text \<open>A system in which the scratch directory can be opened and nothing in it exists.\<close>

definition no_such_file :: answer where
  "no_such_file = \<lparr>ret = -1, err = ENOENT, out_bytes = [], info = blank_meta\<rparr>"

definition fine :: answer where
  "fine = \<lparr>ret = 1, err = 0, out_bytes = ''/tmp/ld_preload_smoke.000000'', info = blank_meta\<rparr>"

primrec empty_system :: "ask \<Rightarrow> string \<Rightarrow> unit \<Rightarrow> (answer \<times> unit) option" where
  "empty_system (Request r) d u = Some (case r of C_close fd \<Rightarrow> fine\<lparr>ret := 0\<rparr> | C_rmdir p \<Rightarrow> fine\<lparr>ret := 0\<rparr>
     | C_open p flags m \<Rightarrow> if flags = O_RDONLY then no_such_file else fine | _ \<Rightarrow> no_such_file, u)"
| "empty_system (Ask_cwd n) d u = Some (no_such_file, u)"
| "empty_system (Foreign name args) d u = Some (if name = ''mkdtemp'' then fine else no_such_file, u)"
| "empty_system (Set_errno e) d u = Some (fine, u)"

lemma empty_system_scratch:
  "run_prog empty_system (create_scratch_dir adr PATH_MAX k) u = run_prog empty_system (k (out_bytes fine)) u"
proof -
  have c: "c_ok (out_bytes fine)" "length (out_bytes fine) = 28" by (simp_all add: fine_def c_ok_def)
  obtain b where "snprintf (new_buffer PATH_MAX) PATH_MAX (out_bytes fine) = Some (28, b)" "c_string b = Some (out_bytes fine)"
    using snprintf_string [OF c(1), of PATH_MAX] c(2) by (auto simp: PATH_MAX_def INT_MAX_def)
  moreover have "ret fine = 1" by (simp add: fine_def)
  ultimately show ?thesis by (simp add: create_scratch_dir_def foreign_def defined_def PATH_MAX_def)
qed

lemma empty_system_path:
  "make_path PATH_MAX (out_bytes fine) ''missing.txt'' k = k ''/tmp/ld_preload_smoke.000000/missing.txt''"
  by (subst make_path_eq) (simp_all add: fine_def c_ok_def PATH_MAX_def INT_MAX_def)

lemma empty_system_run:
  "run_prog empty_system (fixture_main (\<lambda>_. 0) [''fixture'', ''missing'']) () = Some (Returned 0, ())"
proof -
  have probe: "run_prog empty_system (probe q m l ENOENT k) () = run_prog empty_system k ()"
    if "empty_system q [] () = Some (no_such_file, ())" for q m l and k :: "int prog"
    using that by (simp add: probe_def clear_errno_def expect_errno_int_def no_such_file_def)
  have "O_RDONLY OR O_DIRECTORY \<noteq> O_RDONLY" "ret fine = 1"
    by (simp_all add: O_RDONLY_def O_DIRECTORY_def fine_def)
  then have "run_prog empty_system (run_missing_at dir (Ret (0 :: int))) () = Some (Returned 0, ())" for dir
    by (simp add: run_missing_at_def nonneg_or_die_def zero_or_die_def cleanup_dir_def sys_def probe)
  moreover have "fixture_main (\<lambda>_. 0) [''fixture'', ''missing''] = run_missing (\<lambda>_. 0) (Ret 0)"
    by (simp add: fixture_main_def)
  ultimately show ?thesis
    by (simp add: run_missing_def empty_system_scratch empty_system_path probe)
qed

theorem missing_run_was_refused_witness:
  "run_prog empty_system (fixture_main (\<lambda>_. 0) [''fixture'', ''missing'']) () = Some (Returned 0, ()) \<and>
   (\<exists>q a. (q, a) \<in> set (run_log empty_system (fixture_main (\<lambda>_. 0) [''fixture'', ''missing'']) ()) \<and>
      ret a = -1 \<and> err a = ENOENT)"
  using missing_run_was_refused [OF empty_system_run] empty_system_run
  by (fastforce simp: missing_probes_def Let_def)

text \<open>C15: the smoke test notices when the interposer is missing: where the guard file exists under the
  source root, so that opening it does not fail, no run of the scenario \<open>rewrite\<close> on the libc
  alone succeeds.\<close>
theorem rewrite_run_needs_interposer:
  assumes "c_ok source_root" and "length source_root + 10 < PATH_MAX"
    and "\<And>w. cval_int (fst (libc_call L Real_open [Path (Some (source_root @ ''/guard.txt'')), I32 O_RDONLY, I32 0] w)) \<noteq> -1"
  shows "run_prog (bare L M) (fixture_main adr [argv0, ''rewrite'', source_root, target_root, sibling_root]) w
    \<noteq> Some (Returned r, t)"
proof
  assume run: "run_prog (bare L M) (fixture_main adr [argv0, ''rewrite'', source_root, target_root, sibling_root]) w
    = Some (Returned r, t)"
  have "must (guard_missing source_root) (fixture_main adr [argv0, ''rewrite'', source_root, target_root, sibling_root])"
    using must_rewrite [OF assms(1,2)] by (simp add: fixture_main_rewrite)
  from must_happened [OF this run] obtain q d a u v where
    q: "bare L M q d u = Some (a, v)" "guard_missing source_root q a" by blast
  let ?c = "libc_call L Real_open [Path (Some (source_root @ ''/guard.txt'')), I32 O_RDONLY, I32 0] (stage M d u)"
  have "mode_passed O_RDONLY None = 0" by (simp add: mode_passed_def va_mode_arg_def O_RDONLY_def)
  then have "ret a = cval_int (fst ?c)" using q by (auto simp: guard_missing_def case_prod_beta answer_of_def)
  then show False using q(2) assms(3) by (simp add: guard_missing_def)
qed

theorem rewrite_run_needs_interposer_witness:
  "run_prog (bare (quiet_libc Map.empty) blank_memory)
     (fixture_main (\<lambda>_. 0) [''fixture'', ''rewrite'', ''/srv/data'', ''/mnt/copy'', ''/srv/sib'']) [] \<noteq> Some (Returned 0, [])"
  by (rule rewrite_run_needs_interposer)
    (simp_all add: c_ok_def PATH_MAX_def libc_call_def quiet_libc_def example_libc_def)

end
