(* ===== verification/Spec2Isabelle.thy ===== *)
theory Spec2Isabelle
  imports Signatures Smoke Working_Directory
begin

text \<open>
  A verification development of ld_preload, an LD_PRELOAD library that moves a file tree: calls of
  the libc's file functions are interposed, and paths under the prefix named by the environment
  variable LD_PRELOAD_REWRITE_FROM are rewritten to the prefix named by LD_PRELOAD_REWRITE_TO before
  the real function is called. All of the interposer is in rtld_linux.c; every function of that
  file is modelled, and so is smoke/fixture.c, the program that the repository's smoke test runs
  with and without it.

  Parts of the program and their theories, bottom up.

  Ld_Prelude: the C notions used throughout. The result of running code is an option, with
  \<open>None\<close> for undefined behaviour (an access outside an array, an uninitialised byte, a null
  dereference, a variadic argument that was not passed), so a theorem that a function gives
  \<open>Some\<close> is a memory-safety theorem. Arrays are \<open>buffer\<close>, a capacity and the bytes initialised
  so far. The locale \<open>string_writer\<close> is the contract of a function that writes a C string into an
  array; the cleaner, the join and the two substitutions are interpretations of it.

  Clean_Path, Clean_Correct: \<open>clean_path_into\<close>, the lexical path cleaner, statement by statement
  on its arrays \<open>dst\<close> and \<open>seg_starts\<close> of PATH_MAX entries (4096). It is shown to compute a stack algorithm
  on path segments (\<open>clean_spec\<close>), and that to name the directory which POSIX resolution reaches
  when no segment is a symbolic link (\<open>walk\<close>, \<open>location\<close>).

  Rewrite_Policy, Policy_Correct: \<open>struct rewrite_policy\<close>, its initialisation from the environment,
  \<open>path_matches_prefix\<close>, \<open>substitute_prefix\<close>, \<open>substitute_prefix_reverse\<close> and
  \<open>join_and_clean_path\<close>. The abstract view is \<open>redirect\<close>: a place under the source place is moved
  below the target place. The locale \<open>inverse_writers\<close> is interpreted in both directions.

  Libc_Process: the static variables (43 function pointers, two once flags, the policy) as the
  record \<open>process\<close>, the initialisers under \<open>pthread_once\<close> (locale \<open>once_control\<close>), and the libc as
  a parameter: what \<open>dlsym\<close> answers, what a call through a pointer does to the world, and the
  calls whose output bytes the interposer reads (\<open>getcwd\<close>, \<open>readlink\<close>, \<open>getenv\<close>). \<open>libc_ok\<close>
  states the documented behaviour that is relied on; \<open>process_ok\<close> is the invariant of the statics.

  Rewriting, Rewriting_Correct, Arguments, Places: the rewriters of one argument. The first theory
  is the C code, the second shows that it computes \<open>abs_ref\<close> and \<open>rel_ref\<close> without leaving its
  arrays, the third gives the wrappers their contract, the locale \<open>argument_rewriter\<close> (total,
  invariant-preserving, frozen policy, transparent when disabled, closed under lists of
  arguments), and the fourth says what a rewritten argument means as a place.

  Forwarders: the macros REQUIRE_SYMBOL and the 43 functions \<open>orig_*\<close>; requests as a datatype.
  Interposers, Calls: the 42 exported functions that forward their result, one definition each,
  \<open>serve\<close> that dispatches a request to them, the table \<open>plan_of\<close> of what each does with its
  arguments, and the properties of a call. Getcwd: the exported \<open>getcwd\<close>, which maps the answer
  back.

  Signatures: the function pointer typedefs, the type each pointer is declared with and the
  prototypes of rtld.h; the calls the interposer makes are well typed for all three.

  Lifecycle: runs of a process whose steps are interposed calls and changes of the world behind
  its back; invariants of reachable processes, the exact set of calls that stay within C
  (\<open>calls_within_bounds\<close>), and the simulation by the bare libc where no policy applies.
  Working_Directory: what \<open>chdir\<close> through the interposer leaves for \<open>getcwd\<close>.

  Client: programs that use the libc, as trees of calls with a continuation for each answer, and the
  two systems that answer them: \<open>bare\<close>, the libc, and \<open>preloaded\<close>, the interposer in front of it.
  The locale \<open>client_system\<close> is their contract: every well-formed call is answered as documented;
  the weakest precondition \<open>safe\<close> then carries over to runs. The interposer's \<open>open\<close> and \<open>openat\<close> read
  the mode under more flags than the libc documents. \<open>preloaded L M None\<close> is C: reading a mode
  that was not passed is undefined, and calls are well formed (\<open>strict\<close>) where that does not happen;
  \<open>preloaded L M (Some m)\<close> is a machine on which the missing argument reads as \<open>m\<close>. Transparency: without a usable
  mapping the two systems run every program alike. Redirection: with one, a program on absolute
  paths runs behind the interposer as \<open>moved_prog\<close>, the program with its paths moved, runs on the libc.

  Fixture_Helpers, Fixture_Scenarios, Fixture_Descriptors, Fixture_Rewrite, Fixture_Main: the C code
  of smoke/fixture.c as such programs, function by function; the long scenarios are cut into parts
  (\<open>run_rewrite\<close> into twelve). Fixture_Safe proves one weakest precondition rule per step
  (\<open>safe_steps\<close>) and \<open>safe\<close> of \<open>main\<close>; Fixture_Correct what the helpers compute, \<open>must\<close>, the
  programs that cannot return without a given event, and \<open>returns_with\<close>, what is on the record of a
  run's own calls (\<open>run_log\<close>) when it returns. Smoke: what the smoke test shows, and that by C's rules
  its scenarios that open a directory are undefined behind the interposer. This theory, the root,
  closes the loop between \<open>chdir\<close> and \<open>getcwd\<close>.

  How the model corresponds to the code. \<open>const char *\<close> is \<open>string option\<close>, \<open>None\<close> for NULL; an
  \<open>int\<close> that is passed on is a 32-bit word, \<open>size_t\<close> and \<open>off_t\<close> are 64-bit words; pointers that
  are passed on unread are addresses. Sizes of local arrays and string lengths are natural
  numbers: all are below PATH_MAX plus the length of an argument in memory, so \<open>size_t\<close>
  arithmetic does not wrap. The result of \<open>snprintf\<close> is an \<open>int\<close>, negative where the text is longer
  than INT_MAX. There is no fuel: the loops are functions with a decreasing measure.

  Choices where C or the platform leaves a choice: the arguments of \<open>link\<close> and \<open>rename\<close> are
  evaluated from left to right; the flag values are those of x86-64 Linux; one thread runs; the
  array given to a failing \<open>getcwd\<close> keeps its bytes (nothing rests on it); a successful \<open>execve\<close>,
  which does not return, is a call like any other. Symbolic links are outside the lexical view of
  places, as they are outside the program's.

  In the fixture, \<open>adr\<close> gives the addresses of local arrays and structures; what a call reads from
  an array goes with the call, what it stores comes with the answer, a field of a structure that
  is checked is a field of \<open>meta\<close>. A program follows one process through \<open>fork\<close>; a call of the
  \<open>exec\<close> family goes on as when it fails. \<open>printf\<close>, \<open>fork\<close>, \<open>waitpid\<close>, \<open>mkdtemp\<close>, \<open>chmod\<close>, \<open>fchdir\<close>,
  \<open>syscall\<close> and the extended attribute calls are not interposed and go to the libc by name.

  Not modelled: the Go launcher, which starts a shell with the library preloaded, the shell
  scripts around the fixture, and the build files. Of the messages the fixture prints, the text of
  errno and the final newline are left out. \<open>main\<close> of the fixture on other systems than Linux only
  prints a line.
\<close>

section \<open>Entering a directory and asking for it\<close>

text \<open>C6: a program that changes to a directory under the source prefix and asks where it is gets
  the directory it asked for: \<open>chdir\<close> enters the moved directory, and \<open>getcwd\<close> reports the place
  the program named.\<close>
theorem chdir_then_getcwd:
  assumes "libc_ok L" and "process_ok L s" and "chdir_sets_cwd L"
    and "c_ok p" and "starts_with_slash p" and "roomy (policy_of L s) (length p)"
    and "capturing (policy_of L s)" and "proper_prefix (to_path (policy_of L s))"
    and "moved (policy_of L s) (location p) = Some place"
    and "from_len (policy_of L s) + length (SLASH # join_path place) - to_len (policy_of L s) < PATH_MAX"
    and "chdir L (Some p) s = Some (I32 0, t)" and "PATH_MAX \<le> cap b"
  shows "\<exists>q b' u. getcwd L (Some b) PATH_MAX t = Some ((Some q, Some b'), u) \<and> location q = location p"
proof -
  let ?pol = "policy_of L s" and ?c = "SLASH # join_path place"
  obtain b' u where g: "getcwd L (Some b) PATH_MAX t = Some ((Some (reported ?pol PATH_MAX ?c), Some b'), u)"
      "cleaned ?c" "location ?c = place"
    using chdir_getcwd [OF assms(1-6,7,9,11,12)] by blast
  from reported_moved [OF assms(7,8) g(2), of "location p" PATH_MAX] assms(9,10)
  have "location (reported ?pol PATH_MAX ?c) = location p" by (simp add: g(3))
  then show ?thesis using g(1) by blast
qed

theorem chdir_then_getcwd_witness:
  "\<exists>t q b u. chdir moving_libc (Some ''/srv/data/x'') (running example_policy) = Some (I32 0, t) \<and>
     getcwd moving_libc (Some (new_buffer 4096)) PATH_MAX t = Some ((Some q, Some b), u) \<and>
     location q = [''srv'', ''data'', ''x'']"
proof -
  let ?s = "running example_policy" and ?p = "''/srv/data/x''"
  have s: "process_ok moving_libc ?s" by (rule running_ok [OF example_policy_ok])
  have p: "c_ok ?p" "starts_with_slash ?p" "roomy (policy_of moving_libc ?s) (length ?p)"
      "capturing (policy_of moving_libc ?s)" "proper_prefix (to_path (policy_of moving_libc ?s))"
    by (simp_all add: example_capturing)
      (simp_all add: c_ok_def roomy_def example_policy_def PATH_MAX_def proper_prefix_def)
  have m: "moved (policy_of moving_libc ?s) (location ?p) = Some [''mnt'', ''copy'', ''x'']"
    unfolding running_policy by code_simp
  have room: "from_len (policy_of moving_libc ?s) + length (SLASH # join_path [''mnt'', ''copy'', ''x''])
      - to_len (policy_of moving_libc ?s) < PATH_MAX"
    by (simp add: example_policy_def PATH_MAX_def)
  obtain t where t: "chdir moving_libc (Some ?p) ?s = Some (I32 0, t)"
    using chdir_eq [OF moving_libc_ok s p(1,2)]
    by (simp add: with_call_def libc_call_def) (simp add: moving_libc_def example_libc_def)
  have b: "PATH_MAX \<le> cap (new_buffer 4096)" by (simp add: PATH_MAX_def)
  have "location ?p = [''srv'', ''data'', ''x'']" by code_simp
  then show ?thesis
    using chdir_then_getcwd [OF moving_libc_ok s moving_libc_chdir p m room t b] t by auto
qed

end
